(* ===== verification/Prelude.thy ===== *)
theory Prelude
  imports Main "HOL-Library.AList" "HOL-Library.Sublist" "HOL-Library.Word"
begin

text \<open>
  Shared ground of the development: results (\<open>Inl\<close> an error, \<open>Inr\<close> a value), finite
  concurrent maps and sets (the \<open>DashMap\<close>/\<open>DashSet\<close> of the source) as association lists
  with distinct keys, the laws both promise as a locale, and facts on lists the components
  share. The collection \<open>result_simps\<close> inverts successful runs, \<open>store_simps\<close> reads maps.
\<close>

named_theorems result_simps
named_theorems store_simps
named_theorems fails_rules
named_theorems keeps_rules

section \<open>Results\<close>

type_synonym ('e, 'a) result = "'e + 'a"

definition rbind :: "('e, 'a) result \<Rightarrow> ('a \<Rightarrow> ('e, 'b) result) \<Rightarrow> ('e, 'b) result" where
  "rbind m f = (case m of Inl e \<Rightarrow> Inl e | Inr x \<Rightarrow> f x)"

definition ensure :: "bool \<Rightarrow> 'e \<Rightarrow> ('e, unit) result" where
  "ensure b e = (if b then Inr () else Inl e)"

definition ok_or :: "'a option \<Rightarrow> 'e \<Rightarrow> ('e, 'a) result" where
  "ok_or x e = (case x of None \<Rightarrow> Inl e | Some a \<Rightarrow> Inr a)"

fun is_ok :: "('e, 'a) result \<Rightarrow> bool" where
  "is_ok (Inl _) = False"
| "is_ok (Inr _) = True"

fun result_ok :: "('e, 'a) result \<Rightarrow> 'a option" where
  "result_ok (Inl _) = None"
| "result_ok (Inr x) = Some x"

lemma rbind_simps [simp]: "rbind (Inl e) f = Inl e" "rbind (Inr x) f = f x"
  by (simp_all add: rbind_def)

lemma rbind_Inr_iff [result_simps]:
  "rbind m f = Inr y \<longleftrightarrow> (\<exists>x. m = Inr x \<and> f x = Inr y)"
  by (cases m) simp_all

lemma rbind_Inl_iff:
  "rbind m f = Inl e \<longleftrightarrow> m = Inl e \<or> (\<exists>x. m = Inr x \<and> f x = Inl e)"
  by (cases m) simp_all

lemma ensure_Inr_iff [result_simps]: "ensure b e = Inr u \<longleftrightarrow> b"
  by (cases u) (simp add: ensure_def)

lemma ensure_simps [simp]: "ensure True e = Inr ()" "ensure False e = Inl e"
  by (simp_all add: ensure_def)

lemma ok_or_Inr_iff [result_simps]: "ok_or x e = Inr a \<longleftrightarrow> x = Some a"
  by (cases x) (simp_all add: ok_or_def)

lemma ok_or_simps [simp]: "ok_or None e = Inl e" "ok_or (Some a) e = Inr a"
  by (simp_all add: ok_or_def)

lemma is_ok_iff [result_simps]: "is_ok m \<longleftrightarrow> (\<exists>x. m = Inr x)"
  by (cases m) simp_all

text \<open>Iterating a fallible function over a list and collecting, as
  \<open>iter().map(..).collect::<Result<Vec<_>, _>>()\<close> does: the first error wins.\<close>

fun traverse :: "('a \<Rightarrow> ('e, 'b) result) \<Rightarrow> 'a list \<Rightarrow> ('e, 'b list) result" where
  "traverse f [] = Inr []"
| "traverse f (x # xs) = rbind (f x) (\<lambda>y. rbind (traverse f xs) (\<lambda>ys. Inr (y # ys)))"

lemma traverse_Inr_iff [result_simps]:
  "traverse f xs = Inr ys \<longleftrightarrow> list_all2 (\<lambda>x y. f x = Inr y) xs ys"
proof (induction xs arbitrary: ys)
  case Nil
  show ?case by auto
next
  case (Cons x xs)
  show ?case by (cases ys) (auto simp: rbind_Inr_iff Cons.IH)
qed

lemma traverse_total: "(\<And>x. x \<in> set xs \<Longrightarrow> f x = Inr (g x)) \<Longrightarrow> traverse f xs = Inr (map g xs)"
  by (induction xs) simp_all

text \<open>Every error a computation can end with meets a predicate; the rules follow its shape.\<close>

definition fails_with :: "('e \<Rightarrow> bool) \<Rightarrow> ('e, 'a) result \<Rightarrow> bool" where
  "fails_with p m \<longleftrightarrow> (\<forall>e. m = Inl e \<longrightarrow> p e)"

lemma fails_with_rbind [fails_rules]:
  "fails_with p m \<Longrightarrow> (\<And>x. fails_with p (f x)) \<Longrightarrow> fails_with p (rbind m f)"
  by (cases m) (simp_all add: fails_with_def)

lemma fails_with_ensure [fails_rules]: "p e \<Longrightarrow> fails_with p (ensure b e)"
  by (simp add: fails_with_def ensure_def)

lemma fails_with_ok_or [fails_rules]: "p e \<Longrightarrow> fails_with p (ok_or x e)"
  by (cases x) (simp_all add: fails_with_def)

lemma fails_with_Inr [fails_rules]: "fails_with p (Inr x)"
  by (simp add: fails_with_def)

lemma fails_with_Inl [fails_rules]: "p e \<Longrightarrow> fails_with p (Inl e)"
  by (simp add: fails_with_def)

lemma fails_with_if [fails_rules]:
  "fails_with p a \<Longrightarrow> fails_with p b \<Longrightarrow> fails_with p (if c then a else b)"
  by simp

lemma fails_with_option [fails_rules]:
  "fails_with p a \<Longrightarrow> (\<And>x. fails_with p (f x)) \<Longrightarrow>
     fails_with p (case y of None \<Rightarrow> a | Some x \<Rightarrow> f x)"
  by (cases y) simp_all

lemma fails_with_prod [fails_rules]:
  "(\<And>a b. fails_with p (f a b)) \<Longrightarrow> fails_with p (case y of (a, b) \<Rightarrow> f a b)"
  by (cases y) simp

lemma fails_with_bool [fails_rules]:
  "fails_with p a \<Longrightarrow> fails_with p b \<Longrightarrow> fails_with p (case y of True \<Rightarrow> a | False \<Rightarrow> b)"
  by (cases y) simp_all

lemma fails_with_let [fails_rules]: "(\<And>x. fails_with p (f x)) \<Longrightarrow> fails_with p (Let y f)"
  by (simp add: Let_def)

lemma fails_with_traverse [fails_rules]:
  "(\<And>x. fails_with p (f x)) \<Longrightarrow> fails_with p (traverse f xs)"
  by (induction xs) (auto intro!: fails_rules)

section \<open>Results with a state\<close>

text \<open>A handler threads the state of the program and may end with an error; what it changed
  before the error stays changed, as in the source, which has no rollback outside of a
  database transaction.\<close>

type_synonym ('s, 'e, 'a) handler = "'s \<Rightarrow> ('e, 'a) result \<times> 's"

definition sreturn :: "'a \<Rightarrow> ('s, 'e, 'a) handler" where
  "sreturn x s = (Inr x, s)"

definition sfail :: "'e \<Rightarrow> ('s, 'e, 'a) handler" where
  "sfail e s = (Inl e, s)"

definition sbind :: "('s, 'e, 'a) handler \<Rightarrow> ('a \<Rightarrow> ('s, 'e, 'b) handler) \<Rightarrow> ('s, 'e, 'b) handler" where
  "sbind m f s = (case m s of (Inl e, s') \<Rightarrow> (Inl e, s') | (Inr x, s') \<Rightarrow> f x s')"

definition slift :: "('e, 'a) result \<Rightarrow> ('s, 'e, 'a) handler" where
  "slift r s = (r, s)"

definition sgets :: "('s \<Rightarrow> 'a) \<Rightarrow> ('s, 'e, 'a) handler" where
  "sgets g s = (Inr (g s), s)"

definition smodify :: "('s \<Rightarrow> 's) \<Rightarrow> ('s, 'e, unit) handler" where
  "smodify g s = (Inr (), g s)"

lemma handler_simps [simp]:
  "sreturn x s = (Inr x, s)" "sfail e s = (Inl e, s)" "slift r s = (r, s)"
  "sgets h s = (Inr (h s), s)" "smodify g s = (Inr (), g s)"
  by (simp_all add: sreturn_def sfail_def slift_def sgets_def smodify_def)

lemma sbind_slift [simp]:
  "sbind (slift (Inr x)) f = f x" "sbind (slift (Inl e)) f s = (Inl e, s)"
  by (simp_all add: sbind_def fun_eq_iff)

lemma sbind_steps [simp]:
  "sbind (sgets g) f1 s = f1 (g s) s" "sbind (smodify k) f2 s = f2 () (k s)"
  "sbind (sreturn x) f3 s = f3 x s" "sbind (sfail e) f4 s = (Inl e, s)"
  by (simp_all add: sbind_def)

lemma sbind_Inr_iff [result_simps]:
  "sbind m f s = (Inr y, s') \<longleftrightarrow> (\<exists>x t. m s = (Inr x, t) \<and> f x t = (Inr y, s'))"
  by (auto simp: sbind_def split: sum.splits prod.splits)

lemma sbind_run: "m s = (Inr x, s') \<Longrightarrow> sbind m f s = f x s'"
  by (simp add: sbind_def)

lemma sbind_fail: "m s = (Inl e, s') \<Longrightarrow> sbind m f s = (Inl e, s')"
  by (simp add: sbind_def)

lemma sbind_assoc: "sbind (sbind m f) g = sbind m (\<lambda>x. sbind (f x) g)"
  by (auto simp: sbind_def fun_eq_iff split: sum.splits prod.splits)

lemma sbind_Inl_iff:
  "sbind m f s = (Inl e, s') \<longleftrightarrow>
     m s = (Inl e, s') \<or> (\<exists>x t. m s = (Inr x, t) \<and> f x t = (Inl e, s'))"
  by (auto simp: sbind_def split: sum.splits prod.splits)

text \<open>Scopes: \<open>scoped\<close> runs a destructor when a computation ends early, \<open>ensuring\<close> in any case;
  \<open>handling\<close> goes on after an error.\<close>

definition scoped :: "('s \<Rightarrow> 's) \<Rightarrow> ('s, 'e, 'a) handler \<Rightarrow> ('s, 'e, 'a) handler" where
  "scoped f m s = (case m s of (Inl e, s') \<Rightarrow> (Inl e, f s') | (Inr x, s') \<Rightarrow> (Inr x, s'))"

definition ensuring :: "('s \<Rightarrow> 's) \<Rightarrow> ('s, 'e, 'a) handler \<Rightarrow> ('s, 'e, 'a) handler" where
  "ensuring f m s = (case m s of (r, s') \<Rightarrow> (r, f s'))"

definition handling ::
  "('s, 'e, 'a) handler \<Rightarrow> ('a \<Rightarrow> ('s, 'e, 'b) handler) \<Rightarrow> ('e \<Rightarrow> ('s, 'e, 'b) handler) \<Rightarrow>
     ('s, 'e, 'b) handler" where
  "handling m f g s = (case m s of (Inl e, s') \<Rightarrow> g e s' | (Inr x, s') \<Rightarrow> f x s')"

text \<open>A property of states every step keeps is kept by the composition.\<close>

definition keeps :: "('s \<Rightarrow> bool) \<Rightarrow> ('s, 'e, 'a) handler \<Rightarrow> bool" where
  "keeps P m \<longleftrightarrow> (\<forall>s. P s \<longrightarrow> P (snd (m s)))"

lemma keeps_sbind [keeps_rules]:
  "keeps P m \<Longrightarrow> (\<And>x. keeps P (f x)) \<Longrightarrow> keeps P (sbind m f)"
  by (fastforce simp: keeps_def sbind_def split: sum.splits prod.splits)

lemma keeps_sreturn [keeps_rules]: "keeps P (sreturn x)" by (simp add: keeps_def)
lemma keeps_sfail [keeps_rules]: "keeps P (sfail e)" by (simp add: keeps_def)
lemma keeps_slift [keeps_rules]: "keeps P (slift r)" by (simp add: keeps_def)
lemma keeps_sgets [keeps_rules]: "keeps P (sgets g)" by (simp add: keeps_def)

lemma keeps_smodify [keeps_rules]: "(\<And>s. P s \<Longrightarrow> P (g s)) \<Longrightarrow> keeps P (smodify g)"
  by (simp add: keeps_def)

lemma keeps_if [keeps_rules]: "keeps P a \<Longrightarrow> keeps P b \<Longrightarrow> keeps P (if c then a else b)"
  by simp

lemma keeps_option [keeps_rules]:
  "keeps P a \<Longrightarrow> (\<And>x. keeps P (f x)) \<Longrightarrow> keeps P (case y of None \<Rightarrow> a | Some x \<Rightarrow> f x)"
  by (cases y) simp_all

lemma keeps_prod [keeps_rules]: "(\<And>a b. keeps P (f a b)) \<Longrightarrow> keeps P (case y of (a, b) \<Rightarrow> f a b)"
  by (cases y) simp

lemma keeps_let [keeps_rules]: "(\<And>x. keeps P (f x)) \<Longrightarrow> keeps P (Let y f)"
  by (simp add: Let_def)

lemma keeps_scoped [keeps_rules]: "keeps P m \<Longrightarrow> (\<And>s. P s \<Longrightarrow> P (f s)) \<Longrightarrow> keeps P (scoped f m)"
  by (fastforce simp: keeps_def scoped_def split: sum.splits prod.splits)

lemma keeps_handling [keeps_rules]:
  "keeps P m \<Longrightarrow> (\<And>x. keeps P (f x)) \<Longrightarrow> (\<And>e. keeps P (g e)) \<Longrightarrow> keeps P (handling m f g)"
  by (fastforce simp: keeps_def handling_def split: sum.splits prod.splits)

section \<open>Options\<close>

definition opt_or :: "'a option \<Rightarrow> 'a option \<Rightarrow> 'a option" where
  "opt_or a b = (case a of None \<Rightarrow> b | Some x \<Rightarrow> Some x)"

definition opt_filter :: "('a \<Rightarrow> bool) \<Rightarrow> 'a option \<Rightarrow> 'a option" where
  "opt_filter p x = (case x of None \<Rightarrow> None | Some a \<Rightarrow> if p a then Some a else None)"

definition unwrap_or :: "'a option \<Rightarrow> 'a \<Rightarrow> 'a" where
  "unwrap_or x d = (case x of None \<Rightarrow> d | Some a \<Rightarrow> a)"

lemma opt_or_simps [simp]: "opt_or None b = b" "opt_or (Some x) b = Some x"
  by (simp_all add: opt_or_def)

lemma opt_filter_simps [simp]:
  "opt_filter p None = None" "opt_filter p (Some a) = (if p a then Some a else None)"
  by (simp_all add: opt_filter_def)

lemma opt_filter_Some_iff [simp]: "opt_filter p x = Some a \<longleftrightarrow> x = Some a \<and> p a"
  by (auto simp: opt_filter_def split: option.splits)

lemma unwrap_or_simps [simp]: "unwrap_or None d = d" "unwrap_or (Some a) d = a"
  by (simp_all add: unwrap_or_def)

text \<open>The first hit of a list of candidates, as \<open>Iterator::find_map\<close>.\<close>

fun find_map :: "('a \<Rightarrow> 'b option) \<Rightarrow> 'a list \<Rightarrow> 'b option" where
  "find_map f [] = None"
| "find_map f (x # xs) = (case f x of None \<Rightarrow> find_map f xs | Some y \<Rightarrow> Some y)"

lemma find_map_SomeD: "find_map f xs = Some y \<Longrightarrow> \<exists>x \<in> set xs. f x = Some y"
  by (induction xs) (auto split: option.splits)

lemma find_map_None_iff: "find_map f xs = None \<longleftrightarrow> (\<forall>x \<in> set xs. f x = None)"
  by (induction xs) (auto split: option.splits)

lemma find_map_find:
  "find_map f xs = (case find (\<lambda>x. f x \<noteq> None) xs of None \<Rightarrow> None | Some x \<Rightarrow> f x)"
  by (induction xs) (auto split: option.splits)

lemma find_SomeD: "find p xs = Some x \<Longrightarrow> x \<in> set xs \<and> p x"
  by (auto simp: find_Some_iff)

section \<open>Concurrent maps\<close>

text \<open>
  A \<open>DashMap\<close> is an association list with distinct keys; each method of the source is one
  atomic update of it. Iteration order is the list's order, which no result depends on.
\<close>

type_synonym ('k, 'v) dashmap = "('k \<times> 'v) list"

definition dm_ok :: "('k, 'v) dashmap \<Rightarrow> bool" where
  "dm_ok m \<longleftrightarrow> distinct (map fst m)"

definition dm_get :: "('k, 'v) dashmap \<Rightarrow> 'k \<Rightarrow> 'v option" where
  "dm_get m k = map_of m k"

definition dm_insert :: "'k \<Rightarrow> 'v \<Rightarrow> ('k, 'v) dashmap \<Rightarrow> ('k, 'v) dashmap" where
  "dm_insert k v m = AList.update k v m"

definition dm_remove :: "'k \<Rightarrow> ('k, 'v) dashmap \<Rightarrow> ('k, 'v) dashmap" where
  "dm_remove k m = AList.delete k m"

definition dm_retain :: "('k \<Rightarrow> 'v \<Rightarrow> bool) \<Rightarrow> ('k, 'v) dashmap \<Rightarrow> ('k, 'v) dashmap" where
  "dm_retain p m = filter (\<lambda>(k, v). p k v) m"

definition dm_contains :: "('k, 'v) dashmap \<Rightarrow> 'k \<Rightarrow> bool" where
  "dm_contains m k \<longleftrightarrow> dm_get m k \<noteq> None"

text \<open>\<open>remove_if\<close>: remove the entry when the predicate holds of it, and return it.\<close>

definition dm_remove_if ::
  "'k \<Rightarrow> ('v \<Rightarrow> bool) \<Rightarrow> ('k, 'v) dashmap \<Rightarrow> 'v option \<times> ('k, 'v) dashmap" where
  "dm_remove_if k p m =
     (case dm_get m k of
        None \<Rightarrow> (None, m)
      | Some v \<Rightarrow> if p v then (Some v, dm_remove k m) else (None, m))"

locale concurrent_map =
  fixes get :: "'m \<Rightarrow> 'k \<Rightarrow> 'v option"
    and insert :: "'k \<Rightarrow> 'v \<Rightarrow> 'm \<Rightarrow> 'm"
    and remove :: "'k \<Rightarrow> 'm \<Rightarrow> 'm"
    and retain :: "('k \<Rightarrow> 'v \<Rightarrow> bool) \<Rightarrow> 'm \<Rightarrow> 'm"
    and ok :: "'m \<Rightarrow> bool"
  assumes get_insert: "get (insert k v m) k' = (if k' = k then Some v else get m k')"
    and get_remove: "get (remove k m) k' = (if k' = k then None else get m k')"
    and get_retain: "ok m \<Longrightarrow> get (retain p m) k = opt_filter (p k) (get m k)"
    and ok_insert: "ok m \<Longrightarrow> ok (insert k v m)"
    and ok_remove: "ok m \<Longrightarrow> ok (remove k m)"
    and ok_retain: "ok m \<Longrightarrow> ok (retain p m)"
begin

lemma get_fold_remove: "get (fold remove ks m) k = (if k \<in> set ks then None else get m k)"
  by (induction ks arbitrary: m) (auto simp: get_remove)

lemma ok_fold_remove: "ok m \<Longrightarrow> ok (fold remove ks m)"
  by (induction ks arbitrary: m) (auto simp: ok_remove)

lemma insert_overwrites: "get (insert k v (insert k w m)) = get (insert k v m)"
  by (rule ext) (simp add: get_insert)

text \<open>Compare-and-remove: an entry goes only while it still is the value that was read, so a
  concurrent write to the same key survives.\<close>

lemma get_remove_if_current:
  "get (if get m k = Some v then remove k m else m) k' =
     (if k' = k \<and> get m k = Some v then None else get m k')"
  by (simp add: get_remove)

lemma get_fold_remove_if_current:
  "get (fold (\<lambda>(k, v) m. if get m k = Some v then remove k m else m) kvs m) k =
     (if \<exists>v. (k, v) \<in> set kvs \<and> get m k = Some v then None else get m k)"
proof (induction kvs arbitrary: m)
  case Nil
  show ?case by simp
next
  case (Cons kv kvs)
  obtain a b where kv: "kv = (a, b)" by (cases kv)
  show ?case by (auto simp: kv Cons.IH get_remove)
qed

lemma ok_fold_remove_if_current:
  "ok m \<Longrightarrow> ok (fold (\<lambda>(k, v) m. if get m k = Some v then remove k m else m) kvs m)"
  by (induction kvs arbitrary: m) (auto simp: ok_remove split: prod.splits)

end

lemma map_of_filter_distinct:
  "distinct (map fst m) \<Longrightarrow>
     map_of (filter (\<lambda>(k, v). p k v) m) k = opt_filter (p k) (map_of m k)"
proof (induction m)
  case Nil
  show ?case by simp
next
  case (Cons kv m)
  obtain a b where kv: "kv = (a, b)" by (cases kv)
  have "map_of (filter (\<lambda>(k, v). p k v) m) a = None" if "a \<notin> fst ` set m"
    using that by (force simp: map_of_eq_None_iff)
  with Cons show ?case by (auto simp: kv map_of_eq_None_iff)
qed

lemma dm_get_insert: "dm_get (dm_insert k v m) k' = (if k' = k then Some v else dm_get m k')"
  unfolding dm_get_def dm_insert_def AList.update_conv' by simp

lemma dm_get_remove: "dm_get (dm_remove k m) k' = (if k' = k then None else dm_get m k')"
  unfolding dm_get_def dm_remove_def AList.delete_conv' by simp

lemma dm_get_retain: "dm_ok m \<Longrightarrow> dm_get (dm_retain p m) k = opt_filter (p k) (dm_get m k)"
  by (simp add: dm_get_def dm_ok_def dm_retain_def map_of_filter_distinct)

interpretation dm: concurrent_map dm_get dm_insert dm_remove dm_retain dm_ok
proof unfold_locales
  show "dm_ok (dm_insert k v m)" if "dm_ok m" for k v and m :: "('k, 'v) dashmap"
    using that by (simp add: dm_ok_def dm_insert_def AList.distinct_update)
  show "dm_ok (dm_remove k m)" if "dm_ok m" for k and m :: "('k, 'v) dashmap"
    using that by (simp add: dm_ok_def dm_remove_def AList.distinct_delete)
  show "dm_ok (dm_retain p m)" if "dm_ok m" for p and m :: "('k, 'v) dashmap"
    using that by (simp add: dm_ok_def dm_retain_def distinct_map_filter)
qed (fact dm_get_insert dm_get_remove dm_get_retain)+

lemmas dm_reads [store_simps] = dm.get_insert dm.get_remove dm.get_retain
lemmas dm_oks [store_simps, intro] = dm.ok_insert dm.ok_remove dm.ok_retain

lemma dm_get_Nil [store_simps, simp]: "dm_get [] k = None"
  by (simp add: dm_get_def)

lemma dm_ok_Nil [simp]: "dm_ok []"
  by (simp add: dm_ok_def)

lemma dm_get_in_set: "dm_get m k = Some v \<Longrightarrow> (k, v) \<in> set m"
  unfolding dm_get_def by (rule map_of_SomeD)

lemma dm_in_set_get: "dm_ok m \<Longrightarrow> (k, v) \<in> set m \<longleftrightarrow> dm_get m k = Some v"
  by (simp add: dm_ok_def dm_get_def map_of_eq_Some_iff)

section \<open>Lists\<close>

text \<open>\<open>Iterator::min_by_key\<close>: the first element whose key is minimal.\<close>

fun min_by_key :: "('a \<Rightarrow> 'b::linorder) \<Rightarrow> 'a list \<Rightarrow> 'a option" where
  "min_by_key f [] = None"
| "min_by_key f (x # xs) =
     (case min_by_key f xs of
        None \<Rightarrow> Some x
      | Some y \<Rightarrow> if f y < f x then Some y else Some x)"

lemma min_by_key_None_iff [simp]: "min_by_key f xs = None \<longleftrightarrow> xs = []"
  by (cases xs) (auto split: option.splits)

lemma min_by_key_SomeD:
  "min_by_key f xs = Some y \<Longrightarrow> y \<in> set xs \<and> (\<forall>x \<in> set xs. f y \<le> f x)"
proof (induction xs arbitrary: y)
  case Nil
  then show ?case by simp
next
  case (Cons a xs)
  show ?case
  proof (cases "min_by_key f xs")
    case None
    with Cons.prems show ?thesis by simp
  next
    case (Some z)
    note Cons.IH [OF Some]
    with Cons.prems Some show ?thesis by (auto split: if_splits)
  qed
qed

lemma min_by_key_ex: "xs \<noteq> [] \<Longrightarrow> \<exists>y. min_by_key f xs = Some y"
  by (cases "min_by_key f xs") auto

lemma min_by_key_first:
  "min_by_key f (x # xs) = Some x" if "\<forall>y \<in> set xs. f x \<le> f y"
proof (cases "min_by_key f xs")
  case None
  then show ?thesis by simp
next
  case (Some z)
  from min_by_key_SomeD [OF this] that have "\<not> f z < f x" by auto
  with Some show ?thesis by simp
qed

text \<open>Updating every element that meets a condition: the shape of an SQL \<open>UPDATE ... WHERE\<close>.\<close>

definition update_where :: "('a \<Rightarrow> bool) \<Rightarrow> ('a \<Rightarrow> 'a) \<Rightarrow> 'a list \<Rightarrow> 'a list" where
  "update_where p f rows = map (\<lambda>r. if p r then f r else r) rows"

definition rows_affected :: "('a \<Rightarrow> bool) \<Rightarrow> 'a list \<Rightarrow> nat" where
  "rows_affected p rows = length (filter p rows)"

lemma rows_affected_0_iff [simp]: "rows_affected p rows = 0 \<longleftrightarrow> (\<forall>r \<in> set rows. \<not> p r)"
  by (auto simp: rows_affected_def filter_empty_conv)

lemma in_update_where:
  "r \<in> set (update_where p f rows) \<longleftrightarrow>
     (\<exists>s \<in> set rows. r = (if p s then f s else s))"
  by (auto simp: update_where_def)

lemma map_update_where:
  "(\<And>r. p r \<Longrightarrow> g (f r) = g r) \<Longrightarrow> map g (update_where p f rows) = map g rows"
  by (auto simp: update_where_def)

end
