(* ===== verification/Rust_Std.thy ===== *)
theory Rust_Std
  imports Prelude
begin

text \<open>
  The parts of Rust's standard library the source uses: byte strings in UTF-8 (\<open>str\<close>: a
  \<open>string\<close> of this model holds the bytes, so \<open>length\<close> is \<open>str::len\<close>), 64-bit signed
  arithmetic with its saturating and checked forms, and \<open>clamp\<close>, which panics on an empty
  range. None of these map to lines of the repository; the components build on them.
\<close>

section \<open>Strings\<close>

definition byte_of :: "char \<Rightarrow> nat" where
  "byte_of c = of_char c"

definition ascii_lower :: "char \<Rightarrow> char" where
  "ascii_lower c = (if 65 \<le> byte_of c \<and> byte_of c \<le> 90 then char_of (byte_of c + 32) else c)"

definition to_ascii_lowercase :: "string \<Rightarrow> string" where
  "to_ascii_lowercase s = map ascii_lower s"

definition starts_with :: "string \<Rightarrow> string \<Rightarrow> bool" where
  "starts_with s p \<longleftrightarrow> prefix p s"

definition ends_with :: "string \<Rightarrow> string \<Rightarrow> bool" where
  "ends_with s p \<longleftrightarrow> suffix p s"

definition contains_str :: "string \<Rightarrow> string \<Rightarrow> bool" where
  "contains_str s p \<longleftrightarrow> sublist p s"

definition strip_prefix :: "string \<Rightarrow> string \<Rightarrow> string option" where
  "strip_prefix p s = (if prefix p s then Some (drop (length p) s) else None)"

lemma strip_prefix_Some_iff: "strip_prefix p s = Some t \<longleftrightarrow> s = p @ t"
  by (auto simp: strip_prefix_def prefix_def)

lemma strip_prefix_append [simp]: "strip_prefix p (p @ t) = Some t"
  by (simp add: strip_prefix_def)

text \<open>\<open>split_once\<close>: the text before and after the first occurrence of the separator.\<close>

fun split_once :: "string \<Rightarrow> string \<Rightarrow> (string \<times> string) option" where
  "split_once sep [] = (if sep = [] then Some ([], []) else None)"
| "split_once sep (c # s) =
     (case strip_prefix sep (c # s) of
        Some rest \<Rightarrow> Some ([], rest)
      | None \<Rightarrow> map_option (\<lambda>(a, b). (c # a, b)) (split_once sep s))"

lemma split_once_SomeD: "split_once sep s = Some (a, b) \<Longrightarrow> s = a @ sep @ b"
proof (induction sep s arbitrary: a rule: split_once.induct)
  case (1 sep)
  then show ?case by (simp split: if_splits)
next
  case (2 sep c s)
  show ?case
  proof (cases "strip_prefix sep (c # s)")
    case None
    with "2.prems" obtain a' where "split_once sep s = Some (a', b)" "a = c # a'" by auto
    with "2.IH" [OF None] show ?thesis by simp
  next
    case (Some rest)
    with "2.prems" have "rest = b" "a = []" by simp_all
    with Some show ?thesis by (simp add: strip_prefix_Some_iff)
  qed
qed

text \<open>\<open>split(c)\<close>: the pieces between the occurrences of one byte.\<close>

fun split_on :: "char \<Rightarrow> string \<Rightarrow> string list" where
  "split_on c [] = [[]]"
| "split_on c (x # s) =
     (if x = c then [] # split_on c s
      else (case split_on c s of [] \<Rightarrow> [[x]] | p # ps \<Rightarrow> (x # p) # ps))"

definition nth_opt :: "'a list \<Rightarrow> nat \<Rightarrow> 'a option" where
  "nth_opt xs n = (if n < length xs then Some (xs ! n) else None)"

text \<open>\<open>lines()\<close>: split at line feeds, an ending carriage return dropped, no empty last line.\<close>

definition strip_cr :: "string \<Rightarrow> string" where
  "strip_cr l = (if l \<noteq> [] \<and> last l = CHR 0x0D then butlast l else l)"

fun take_line :: "string \<Rightarrow> string \<times> string option" where
  "take_line [] = ([], None)"
| "take_line (c # s) =
     (if c = CHR 0x0A then ([], Some s)
      else (let (l, r) = take_line s in (c # l, r)))"

lemma take_line_shorter: "take_line s = (l, Some r) \<Longrightarrow> length r < length s"
  by (induction s arbitrary: l) (auto split: if_splits prod.splits)

function str_lines :: "string \<Rightarrow> string list" where
  "str_lines s =
     (if s = [] then []
      else (case take_line s of
              (l, None) \<Rightarrow> [l]
            | (l, Some r) \<Rightarrow> strip_cr l # str_lines r))"
  by pat_completeness auto
termination
  by (relation "measure length") (auto intro: take_line_shorter [OF sym])

declare str_lines.simps [simp del]

text \<open>
  \<open>trim()\<close> drops Unicode white space. The UTF-8 encodings of the \<open>White_Space\<close> characters:
  U+0009..U+000D, U+0020, U+0085, U+00A0, U+1680, U+2000..U+200A, U+2028, U+2029, U+202F,
  U+205F and U+3000. UTF-8 is self-synchronising, so on well-formed text a white-space
  sequence at either end is a whole character.
\<close>

definition white_space :: "string list" where
  "white_space =
     [[CHR 0x09], [CHR 0x0A], [CHR 0x0B], [CHR 0x0C], [CHR 0x0D], [CHR 0x20],
      [CHR 0xC2, CHR 0x85], [CHR 0xC2, CHR 0xA0], [CHR 0xE1, CHR 0x9A, CHR 0x80],
      [CHR 0xE2, CHR 0x80, CHR 0x80], [CHR 0xE2, CHR 0x80, CHR 0x81],
      [CHR 0xE2, CHR 0x80, CHR 0x82], [CHR 0xE2, CHR 0x80, CHR 0x83],
      [CHR 0xE2, CHR 0x80, CHR 0x84], [CHR 0xE2, CHR 0x80, CHR 0x85],
      [CHR 0xE2, CHR 0x80, CHR 0x86], [CHR 0xE2, CHR 0x80, CHR 0x87],
      [CHR 0xE2, CHR 0x80, CHR 0x88], [CHR 0xE2, CHR 0x80, CHR 0x89],
      [CHR 0xE2, CHR 0x80, CHR 0x8A], [CHR 0xE2, CHR 0x80, CHR 0xA8],
      [CHR 0xE2, CHR 0x80, CHR 0xA9], [CHR 0xE2, CHR 0x80, CHR 0xAF],
      [CHR 0xE2, CHR 0x81, CHR 0x9F], [CHR 0xE3, CHR 0x80, CHR 0x80]]"

text \<open>Removing prefixes of a list as long as one fits. The fuel is the length of the string:
  every white-space sequence is non-empty, so it never runs out before the trim is done.\<close>

fun strip_any :: "nat \<Rightarrow> string list \<Rightarrow> string \<Rightarrow> string" where
  "strip_any 0 ps s = s"
| "strip_any (Suc n) ps s =
     (case find_map (\<lambda>p. strip_prefix p s) ps of
        None \<Rightarrow> s
      | Some t \<Rightarrow> strip_any n ps t)"

definition trim_start :: "string \<Rightarrow> string" where
  "trim_start s = strip_any (length s) white_space s"

definition trim_end :: "string \<Rightarrow> string" where
  "trim_end s = rev (strip_any (length s) (map rev white_space) (rev s))"

definition trim :: "string \<Rightarrow> string" where
  "trim s = trim_end (trim_start s)"

text \<open>\<open>trim_end_matches\<close>: a pattern removed from the end as often as it occurs.\<close>

definition trim_end_matches :: "string \<Rightarrow> string \<Rightarrow> string" where
  "trim_end_matches p s = rev (strip_any (length s) [rev p] (rev s))"

lemma strip_any_suffix: "suffix (strip_any n ps s) s"
proof (induction n arbitrary: s)
  case 0
  show ?case by simp
next
  case (Suc n)
  show ?case
  proof (cases "find_map (\<lambda>p. strip_prefix p s) ps")
    case None
    then show ?thesis by simp
  next
    case (Some t)
    then obtain p where "s = p @ t"
      by (auto dest!: find_map_SomeD simp: strip_prefix_Some_iff)
    then have "suffix t s" by (simp add: suffix_def)
    moreover have "suffix (strip_any n ps t) t" by (rule Suc.IH)
    ultimately show ?thesis using Some by (auto intro: suffix_order.trans)
  qed
qed

lemma strip_any_enough:
  "[] \<notin> set ps \<Longrightarrow> length s \<le> n \<Longrightarrow> find_map (\<lambda>p. strip_prefix p (strip_any n ps s)) ps = None"
proof (induction n arbitrary: s)
  case 0
  then show ?case
    by (auto simp: find_map_None_iff strip_prefix_def)
next
  case (Suc n)
  show ?case
  proof (cases "find_map (\<lambda>p. strip_prefix p s) ps")
    case None
    then show ?thesis by simp
  next
    case (Some t)
    then obtain p where p: "p \<in> set ps" "s = p @ t"
      by (auto dest!: find_map_SomeD simp: strip_prefix_Some_iff)
    with Suc.prems have "p \<noteq> []" by auto
    then have "0 < length p" by simp
    moreover from p Suc.prems have "length p + length t \<le> Suc n" by simp
    ultimately have "length t \<le> n" by linarith
    with Suc.IH Suc.prems Some show ?thesis by simp
  qed
qed

lemma white_space_nonempty [simp]: "[] \<notin> set white_space"
  by (simp add: white_space_def)

lemma trim_start_clean: "find_map (\<lambda>p. strip_prefix p (trim_start s)) white_space = None"
  by (simp add: trim_start_def strip_any_enough)

lemma length_trim_end_matches: "length (trim_end_matches p s) \<le> length s"
  using strip_any_suffix [of "length s" "[rev p]" "rev s"]
  by (auto simp: trim_end_matches_def dest: suffix_length_le)

lemma trim_end_matches_clean: "p \<noteq> [] \<Longrightarrow> \<not> suffix p (trim_end_matches p s)"
  using strip_any_enough [of "[rev p]" "rev s" "length s"]
  by (auto simp: trim_end_matches_def strip_prefix_def suffix_to_prefix split: if_splits)

lemma strip_any_clean: "find_map (\<lambda>p. strip_prefix p s) ps = None \<Longrightarrow> strip_any n ps s = s"
  by (cases n) simp_all

lemma trim_end_matches_idem [simp]: "p \<noteq> [] \<Longrightarrow> trim_end_matches p (trim_end_matches p s) = trim_end_matches p s"
  using trim_end_matches_clean [of p s]
  by (simp add: trim_end_matches_def [of p "trim_end_matches p s"] strip_any_clean strip_prefix_def
      suffix_to_prefix)

lemma trim_end_prefix: "prefix (trim_end s) s"
  using strip_any_suffix [of "length s" "map rev white_space" "rev s"]
  by (simp add: trim_end_def suffix_to_prefix)

lemma trim_end_idem: "trim_end (trim_end s) = trim_end s"
proof -
  have "find_map (\<lambda>p. strip_prefix p (strip_any (length s) (map rev white_space) (rev s)))
          (map rev white_space) = None"
    by (rule strip_any_enough) (use white_space_nonempty in \<open>auto simp del: white_space_nonempty\<close>)
  then show ?thesis by (simp add: trim_end_def strip_any_clean)
qed

text \<open>Trimming twice is trimming once: what the end loses cannot expose white space at the
  start.\<close>

lemma trim_idem [simp]: "trim (trim s) = trim s"
proof -
  have "find_map (\<lambda>p. strip_prefix p (trim_end (trim_start s))) white_space = None"
    using trim_start_clean [of s] trim_end_prefix [of "trim_start s"]
    unfolding find_map_None_iff strip_prefix_def by (metis option.distinct(1) prefix_order.trans)
  then have "trim_start (trim s) = trim s"
    by (simp add: trim_start_def trim_def strip_any_clean)
  then show ?thesis by (simp add: trim_def trim_end_idem)
qed

lemma length_trim: "length (trim s) \<le> length s"
proof -
  have "length (trim_start s) \<le> length s"
    unfolding trim_start_def by (rule suffix_length_le [OF strip_any_suffix])
  moreover have "length (trim_end t) \<le> length t" for t
    unfolding trim_end_def
    using suffix_length_le [OF strip_any_suffix [of "length t" "map rev white_space" "rev t"]]
    by simp
  ultimately show ?thesis
    unfolding trim_def by (meson order_trans)
qed

text \<open>\<open>parse::<u64>()\<close>: an optional plus sign, at least one digit, no overflow.\<close>

definition digit_of :: "char \<Rightarrow> nat option" where
  "digit_of c = (if 48 \<le> byte_of c \<and> byte_of c \<le> 57 then Some (byte_of c - 48) else None)"

fun parse_digits :: "nat \<Rightarrow> string \<Rightarrow> nat option" where
  "parse_digits acc [] = Some acc"
| "parse_digits acc (c # s) =
     (case digit_of c of
        None \<Rightarrow> None
      | Some d \<Rightarrow>
          (let acc' = 10 * acc + d
           in if acc' < 2 ^ 64 then parse_digits acc' s else None))"

definition parse_u64 :: "string \<Rightarrow> nat option" where
  "parse_u64 s =
     (case s of
        [] \<Rightarrow> None
      | c # t \<Rightarrow> if c = CHR ''+'' then (if t = [] then None else parse_digits 0 t)
                 else parse_digits 0 s)"

lemma parse_digits_bound: "acc < 2 ^ 64 \<Longrightarrow> parse_digits acc s = Some n \<Longrightarrow> n < 2 ^ 64"
  by (induction acc s rule: parse_digits.induct)
    (auto simp: Let_def split: option.splits if_splits)

lemma parse_u64_bound: "parse_u64 s = Some n \<Longrightarrow> n < 2 ^ 64"
  by (auto simp: parse_u64_def simp del: parse_digits.simps split: list.splits if_splits
      dest!: parse_digits_bound [rotated])

section \<open>64-bit signed integers\<close>

type_synonym i64 = int

abbreviation i64_min :: int where "i64_min \<equiv> - (2 ^ 63)"
abbreviation i64_max :: int where "i64_max \<equiv> 2 ^ 63 - 1"

definition in_i64 :: "int \<Rightarrow> bool" where
  "in_i64 x \<longleftrightarrow> i64_min \<le> x \<and> x \<le> i64_max"

definition saturate :: "int \<Rightarrow> i64" where
  "saturate x = (if x < i64_min then i64_min else if i64_max < x then i64_max else x)"

definition sat_add :: "i64 \<Rightarrow> i64 \<Rightarrow> i64" where "sat_add a b = saturate (a + b)"
definition sat_sub :: "i64 \<Rightarrow> i64 \<Rightarrow> i64" where "sat_sub a b = saturate (a - b)"
definition sat_mul :: "i64 \<Rightarrow> i64 \<Rightarrow> i64" where "sat_mul a b = saturate (a * b)"

definition checked_add :: "i64 \<Rightarrow> i64 \<Rightarrow> i64 option" where
  "checked_add a b = (if in_i64 (a + b) then Some (a + b) else None)"

lemma in_i64_saturate [simp]: "in_i64 (saturate x)"
  by (simp add: in_i64_def saturate_def)

lemma saturate_id: "in_i64 x \<Longrightarrow> saturate x = x"
  by (simp add: in_i64_def saturate_def)

lemma saturate_mono: "x \<le> y \<Longrightarrow> saturate x \<le> saturate y"
  by (simp add: saturate_def)

lemma saturate_nonneg: "0 \<le> x \<Longrightarrow> 0 \<le> saturate x"
  by (simp add: saturate_def)

lemma saturate_le: "0 \<le> x \<Longrightarrow> saturate x \<le> x"
  by (simp add: saturate_def)

text \<open>\<open>Ord::clamp\<close> asserts that its range is not empty; \<open>None\<close> is the panic.\<close>

definition clamp :: "'a::linorder \<Rightarrow> 'a \<Rightarrow> 'a \<Rightarrow> 'a option" where
  "clamp lo hi x =
     (if lo \<le> hi then Some (if x < lo then lo else if hi < x then hi else x) else None)"

lemma clamp_Some_range: "clamp lo hi x = Some y \<Longrightarrow> lo \<le> y \<and> y \<le> hi"
  by (auto simp: clamp_def split: if_splits)

lemma clamp_ok: "lo \<le> hi \<Longrightarrow> clamp lo hi x = Some (max lo (min hi x))"
  by (auto simp: clamp_def max_def min_def)

section \<open>Decimal numbers\<close>

text \<open>\<open>to_string\<close> of an integer, and \<open>parse\<close> for the signed and the Boolean types.\<close>

definition digit_char :: "nat \<Rightarrow> char" where
  "digit_char d = char_of (48 + d)"

function show_nat :: "nat \<Rightarrow> string" where
  "show_nat n =
     (if n < 10 then [digit_char n] else show_nat (n div 10) @ [digit_char (n mod 10)])"
  by pat_completeness auto
termination
  by (relation "measure (\<lambda>n. n)") auto

declare show_nat.simps [simp del]

definition show_i64 :: "i64 \<Rightarrow> string" where
  "show_i64 x = (if x < 0 then CHR ''-'' # show_nat (nat (- x)) else show_nat (nat x))"

fun digits_value :: "int \<Rightarrow> string \<Rightarrow> int option" where
  "digits_value acc [] = Some acc"
| "digits_value acc (c # s) =
     (case digit_of c of None \<Rightarrow> None | Some d \<Rightarrow> digits_value (10 * acc + int d) s)"

definition parse_i64 :: "string \<Rightarrow> i64 option" where
  "parse_i64 s =
     opt_filter in_i64
       (case s of
          [] \<Rightarrow> None
        | c # t \<Rightarrow>
            if c = CHR ''+'' \<or> c = CHR ''-''
            then (if t = [] then None
                  else map_option (\<lambda>v. if c = CHR ''-'' then - v else v) (digits_value 0 t))
            else digits_value 0 s)"

definition parse_bool :: "string \<Rightarrow> bool option" where
  "parse_bool s =
     (if s = ''true'' then Some True else if s = ''false'' then Some False else None)"

definition show_bool :: "bool \<Rightarrow> string" where
  "show_bool b = (if b then ''true'' else ''false'')"

lemma parse_show_bool [simp]: "parse_bool (show_bool b) = Some b"
  by (simp add: parse_bool_def show_bool_def)

lemma digit_of_digit: "d < 10 \<Longrightarrow> digit_of (digit_char d) = Some d"
  by (simp add: digit_of_def byte_of_def digit_char_def)

lemma digits_value_append:
  "digits_value acc (s @ t) = Option.bind (digits_value acc s) (\<lambda>a. digits_value a t)"
  by (induction s arbitrary: acc) (simp_all split: option.splits)

lemma digits_value_show: "digits_value 0 (show_nat n) = Some (int n)"
proof (induction n rule: show_nat.induct)
  case (1 n)
  show ?case
  proof (cases "n < 10")
    case True
    then show ?thesis by (subst show_nat.simps) (simp add: digit_of_digit)
  next
    case False
    with 1 have "digits_value 0 (show_nat (n div 10)) = Some (int (n div 10))" by simp
    with False show ?thesis
      by (subst show_nat.simps) (simp add: digits_value_append digit_of_digit zmod_int zdiv_int)
  qed
qed

lemma parse_digits_value:
  "acc < 2 ^ 64 \<Longrightarrow> digits_value (int acc) s = Some v \<Longrightarrow> v < 2 ^ 64 \<Longrightarrow> parse_digits acc s = Some (nat v)"
proof (induction acc s rule: parse_digits.induct)
  case (1 acc)
  then show ?case by simp
next
  case (2 acc c s)
  from "2.prems" obtain d where d: "digit_of c = Some d"
    and v: "digits_value (10 * int acc + int d) s = Some v" by (simp split: option.splits)
  have mono: "digits_value a t = Some w \<Longrightarrow> 0 \<le> a \<Longrightarrow> a \<le> w" for a t w
    by (induction t arbitrary: a) (force split: option.splits)+
  have "10 * int acc + int d \<le> v" by (rule mono [OF v]) simp
  with "2.prems" have "int (10 * acc + d) < int (2 ^ 64)" by simp
  then have l: "10 * acc + d < 2 ^ 64" by (simp only: of_nat_less_iff)
  with 2 d v show ?case by (simp add: Let_def)
qed

lemma show_nat_nonempty [simp]: "show_nat n \<noteq> []"
  by (subst show_nat.simps) simp

lemma show_nat_head: "\<exists>d s. show_nat n = digit_char d # s \<and> d < 10"
proof (induction n rule: show_nat.induct)
  case (1 n)
  show ?case
  proof (cases "n < 10")
    case True
    then show ?thesis by (subst show_nat.simps) auto
  next
    case False
    with 1 obtain d s where "show_nat (n div 10) = digit_char d # s" "d < 10" by auto
    with False show ?thesis by (subst show_nat.simps) auto
  qed
qed

lemma digit_not_sign:
  assumes "d < 10"
  shows "digit_char d \<noteq> CHR ''+''" and "digit_char d \<noteq> CHR ''-''"
proof -
  have "digit_of (CHR ''+'') = None" "digit_of (CHR ''-'') = None"
    by (simp_all add: digit_of_def byte_of_def)
  with digit_of_digit [OF assms] show "digit_char d \<noteq> CHR ''+''" "digit_char d \<noteq> CHR ''-''"
    by auto
qed

lemma parse_show_u64 [simp]: "n < 2 ^ 64 \<Longrightarrow> parse_u64 (show_nat n) = Some n"
proof -
  assume n: "n < 2 ^ 64"
  obtain d s where h: "show_nat n = digit_char d # s" "d < 10" using show_nat_head by blast
  have "parse_digits 0 (show_nat n) = Some (nat (int n))"
    using digits_value_show [of n] n by (intro parse_digits_value) simp_all
  with h digit_not_sign [OF h(2)] show ?thesis by (simp add: parse_u64_def del: parse_digits.simps)
qed

lemma parse_show_i64 [simp]: "in_i64 x \<Longrightarrow> parse_i64 (show_i64 x) = Some x"
proof -
  assume x: "in_i64 x"
  obtain d s where h: "show_nat (nat x) = digit_char d # s" "d < 10" using show_nat_head by blast
  show ?thesis
  proof (cases "x < 0")
    case True
    with x digits_value_show [of "nat (- x)"] show ?thesis
      by (simp add: parse_i64_def show_i64_def)
  next
    case False
    with x h digit_not_sign [OF h(2)] digits_value_show [of "nat x"] show ?thesis
      by (simp add: parse_i64_def show_i64_def del: digits_value.simps)
  qed
qed

text \<open>A computation that may panic: \<open>None\<close> is the panic.\<close>

type_synonym 'a may_panic = "'a option"

section \<open>Positions and UTF-8\<close>

text \<open>\<open>Iterator::position\<close>.\<close>

fun position :: "('a \<Rightarrow> bool) \<Rightarrow> 'a list \<Rightarrow> nat option" where
  "position p [] = None"
| "position p (x # xs) = (if p x then Some 0 else map_option Suc (position p xs))"

lemma position_None_iff: "position p xs = None \<longleftrightarrow> (\<forall>x \<in> set xs. \<not> p x)"
  by (induction xs) auto

lemma position_SomeD: "position p xs = Some i \<Longrightarrow> i < length xs \<and> p (xs ! i)"
  by (induction xs arbitrary: i) (auto split: if_splits)

lemma position_append:
  "position p (xs @ ys) =
     (case position p xs of
        Some i \<Rightarrow> Some i
      | None \<Rightarrow> map_option (\<lambda>i. length xs + i) (position p ys))"
  by (cases "position p ys"; induction xs) (auto split: option.splits)

text \<open>\<open>str::from_utf8\<close> accepts the well-formed sequences of the Unicode standard: no overlong
  form, no surrogate, nothing above U+10FFFF.\<close>

definition continuation :: "char \<Rightarrow> bool" where
  "continuation c \<longleftrightarrow> 128 \<le> byte_of c \<and> byte_of c < 192"

fun valid_utf8 :: "string \<Rightarrow> bool" where
  "valid_utf8 [] = True"
| "valid_utf8 (a # s) =
     (let x = byte_of a
      in if x < 128 then valid_utf8 s
         else if 194 \<le> x \<and> x < 224 then
           (case s of b # s' \<Rightarrow> continuation b \<and> valid_utf8 s' | _ \<Rightarrow> False)
         else if 224 \<le> x \<and> x < 240 then
           (case s of
              b # c # s' \<Rightarrow>
                continuation b \<and> continuation c \<and> (x = 224 \<longrightarrow> 160 \<le> byte_of b) \<and>
                (x = 237 \<longrightarrow> byte_of b < 160) \<and> valid_utf8 s'
            | _ \<Rightarrow> False)
         else if 240 \<le> x \<and> x < 245 then
           (case s of
              b # c # d # s' \<Rightarrow>
                continuation b \<and> continuation c \<and> continuation d \<and>
                (x = 240 \<longrightarrow> 144 \<le> byte_of b) \<and> (x = 244 \<longrightarrow> byte_of b < 144) \<and> valid_utf8 s'
            | _ \<Rightarrow> False)
         else False)"

declare valid_utf8.simps(2) [simp del]

text \<open>\<open>String::from_utf8_lossy\<close>: each maximal ill-formed piece, one to three bytes, becomes
  U+FFFD. \<open>lossy_extra\<close> gives how many bytes follow the first one in its piece, and whether
  the piece is a character.\<close>

definition replacement_char :: string where
  "replacement_char = [CHR 0xEF, CHR 0xBF, CHR 0xBD]"

definition second_ok :: "nat \<Rightarrow> nat \<Rightarrow> bool" where
  "second_ok x y \<longleftrightarrow> 128 \<le> y \<and> y < 192 \<and>
     (x = 224 \<longrightarrow> 160 \<le> y) \<and> (x = 237 \<longrightarrow> y < 160) \<and> (x = 240 \<longrightarrow> 144 \<le> y) \<and> (x = 244 \<longrightarrow> y < 144)"

definition byte_at :: "string \<Rightarrow> nat \<Rightarrow> nat" where
  "byte_at s i = (if i < length s then byte_of (s ! i) else 0)"

definition cont_at :: "string \<Rightarrow> nat \<Rightarrow> bool" where
  "cont_at s i \<longleftrightarrow> 128 \<le> byte_at s i \<and> byte_at s i < 192"

definition lossy_extra :: "char \<Rightarrow> string \<Rightarrow> nat \<times> bool" where
  "lossy_extra a s =
     (let x = byte_of a
      in if x < 128 then (0, True)
         else if 194 \<le> x \<and> x < 224 then (if cont_at s 0 then (1, True) else (0, False))
         else if 224 \<le> x \<and> x < 240 then
           (if \<not> second_ok x (byte_at s 0) then (0, False)
            else if cont_at s 1 then (2, True) else (1, False))
         else if 240 \<le> x \<and> x < 245 then
           (if \<not> second_ok x (byte_at s 0) then (0, False)
            else if \<not> cont_at s 1 then (1, False)
            else if cont_at s 2 then (3, True) else (2, False))
         else (0, False))"

function utf8_lossy :: "string \<Rightarrow> string" where
  "utf8_lossy [] = []"
| "utf8_lossy (a # s) =
     (let (n, ok) = lossy_extra a s
      in (if ok then a # take n s else replacement_char) @ utf8_lossy (drop n s))"
  by pat_completeness auto
termination by (relation "measure length") auto

declare utf8_lossy.simps(2) [simp del]

lemma utf8_lossy_valid: "valid_utf8 s \<Longrightarrow> utf8_lossy s = s"
proof (induction s rule: valid_utf8.induct)
  case 1
  show ?case by simp
next
  case (2 a s)
  let ?x = "byte_of a"
  consider "?x < 128" | "194 \<le> ?x" "?x < 224" | "224 \<le> ?x" "?x < 240" | "240 \<le> ?x" "?x < 245"
    using "2.prems" by (auto simp: valid_utf8.simps(2) Let_def split: if_splits)
  then show ?case
  proof cases
    case 1
    with 2 show ?thesis by (simp add: valid_utf8.simps(2) utf8_lossy.simps(2) lossy_extra_def)
  next
    case 2
    with "2.prems" obtain b t where "s = b # t" "continuation b" "valid_utf8 t"
      by (auto simp: valid_utf8.simps(2) Let_def split: list.splits)
    with 2 "2.IH" show ?thesis
      by (simp add: utf8_lossy.simps(2) lossy_extra_def cont_at_def byte_at_def continuation_def)
  next
    case 3
    with "2.prems" obtain b c t where "s = b # c # t" "continuation b" "continuation c"
        "?x = 224 \<longrightarrow> 160 \<le> byte_of b" "?x = 237 \<longrightarrow> byte_of b < 160" "valid_utf8 t"
      by (auto simp: valid_utf8.simps(2) Let_def split: list.splits)
    with 3 "2.IH" show ?thesis
      by (simp add: utf8_lossy.simps(2) lossy_extra_def cont_at_def byte_at_def continuation_def
          second_ok_def)
  next
    case 4
    with "2.prems" obtain b c d t where "s = b # c # d # t" "continuation b" "continuation c"
        "continuation d" "?x = 240 \<longrightarrow> 144 \<le> byte_of b" "?x = 244 \<longrightarrow> byte_of b < 144" "valid_utf8 t"
      by (auto simp: valid_utf8.simps(2) Let_def split: list.splits)
    with 4 "2.IH" show ?thesis
      by (simp add: utf8_lossy.simps(2) lossy_extra_def cont_at_def byte_at_def continuation_def
          second_ok_def numeral_2_eq_2 numeral_3_eq_3)
  qed
qed

end
