(* ===== verification/Json.thy ===== *)
theory Json
  imports Rust_Std
begin

text \<open>
  The JSON values the source inspects (\<open>serde_json::Value\<close>) and the accessors it calls on
  them. Integers keep their value; other numbers (\<open>JFloat\<close>) are only ever passed through.
  Reading text into a value and writing a value as text are the library's work: they are
  parameters of the definitions that need them.
\<close>

datatype json =
    JNull
  | JBool bool
  | JInt int
  | JFloat string
  | JStr string
  | JArr "json list"
  | JObj "(string \<times> json) list"

type_synonym json_map = "(string \<times> json) list"

fun as_str :: "json \<Rightarrow> string option" where
  "as_str (JStr s) = Some s"
| "as_str _ = None"

fun as_bool :: "json \<Rightarrow> bool option" where
  "as_bool (JBool b) = Some b"
| "as_bool _ = None"

fun as_i64 :: "json \<Rightarrow> i64 option" where
  "as_i64 (JInt n) = (if in_i64 n then Some n else None)"
| "as_i64 _ = None"

fun as_u64 :: "json \<Rightarrow> int option" where
  "as_u64 (JInt n) = (if 0 \<le> n \<and> n < 2 ^ 64 then Some n else None)"
| "as_u64 _ = None"

fun as_array :: "json \<Rightarrow> json list option" where
  "as_array (JArr xs) = Some xs"
| "as_array _ = None"

fun as_object :: "json \<Rightarrow> json_map option" where
  "as_object (JObj m) = Some m"
| "as_object _ = None"

text \<open>\<open>Value::get\<close> with a string key: \<open>None\<close> unless the value is an object holding it.\<close>

fun jget :: "json \<Rightarrow> string \<Rightarrow> json option" where
  "jget (JObj m) k = map_of m k"
| "jget _ k = None"

text \<open>\<open>Value::pointer\<close>, its path given as unescaped tokens. The tokens of the source are
  never numerals, and an array has no element at a token that is not one.\<close>

fun jpointer :: "json \<Rightarrow> string list \<Rightarrow> json option" where
  "jpointer v [] = Some v"
| "jpointer v (k # ks) = (case jget v k of None \<Rightarrow> None | Some w \<Rightarrow> jpointer w ks)"

text \<open>\<open>Map::insert\<close>, \<open>Map::remove\<close> and \<open>entry(..).or_insert(..)\<close>.\<close>

definition jmap_insert :: "string \<Rightarrow> json \<Rightarrow> json_map \<Rightarrow> json_map" where
  "jmap_insert k v m = AList.update k v m"

definition jmap_remove :: "string \<Rightarrow> json_map \<Rightarrow> json_map" where
  "jmap_remove k m = AList.delete k m"

definition jmap_or_insert :: "string \<Rightarrow> json \<Rightarrow> json_map \<Rightarrow> json_map" where
  "jmap_or_insert k v m = (case map_of m k of None \<Rightarrow> jmap_insert k v m | Some _ \<Rightarrow> m)"

lemma jmap_insert_get [simp]: "map_of (jmap_insert k v m) = (map_of m)(k \<mapsto> v)"
  unfolding jmap_insert_def AList.update_conv' ..

lemma jmap_remove_get [simp]: "map_of (jmap_remove k m) = (map_of m)(k := None)"
  unfolding jmap_remove_def AList.delete_conv' ..

lemma jmap_or_insert_get:
  "map_of (jmap_or_insert k v m) =
     (if map_of m k = None then (map_of m)(k \<mapsto> v) else map_of m)"
  by (auto simp: jmap_or_insert_def split: option.splits)

text \<open>A string member of an object, the chain \<open>get(..).and_then(Value::as_str)\<close>.\<close>

definition str_field :: "json_map \<Rightarrow> string \<Rightarrow> string option" where
  "str_field m k = Option.bind (map_of m k) as_str"

lemma as_str_Some_iff: "as_str v = Some s \<longleftrightarrow> v = JStr s"
  by (cases v) auto

lemma bind_as_str: "Option.bind x as_str = Some s \<Longrightarrow> x = Some (JStr s)"
  by (cases x) (simp_all add: as_str_Some_iff)

end
