(* ===== verification/Http.thy ===== *)
theory Http
  imports Json
begin

text \<open>
  HTTP data and the error type of the program (\<open>src/lib.rs\<close>). A status code is a natural
  number, a header map the list of its entries in order with lower-case names (a name may
  occur more than once, \<open>get\<close> reads the first), a header value its bytes. Every failing
  operation of the model returns an \<open>app_error\<close>, the value the router turns into a response.
\<close>

section \<open>Errors\<close>

record app_error =
  ae_status :: nat
  ae_message :: string

definition bad_request :: "string \<Rightarrow> app_error" where
  "bad_request msg = \<lparr>ae_status = 400, ae_message = msg\<rparr>"

definition unauthorized :: "string \<Rightarrow> app_error" where
  "unauthorized msg = \<lparr>ae_status = 401, ae_message = msg\<rparr>"

definition forbidden :: "string \<Rightarrow> app_error" where
  "forbidden msg = \<lparr>ae_status = 403, ae_message = msg\<rparr>"

definition not_found :: "string \<Rightarrow> app_error" where
  "not_found msg = \<lparr>ae_status = 404, ae_message = msg\<rparr>"

definition unavailable :: "string \<Rightarrow> app_error" where
  "unavailable msg = \<lparr>ae_status = 503, ae_message = msg\<rparr>"

definition internal :: "string \<Rightarrow> app_error" where
  "internal msg = \<lparr>ae_status = 500, ae_message = msg\<rparr>"

text \<open>A status outside 100..999 is no status code; it becomes 502.\<close>

definition upstream :: "nat \<Rightarrow> string \<Rightarrow> app_error" where
  "upstream status msg =
     \<lparr>ae_status = (if 100 \<le> status \<and> status \<le> 999 then status else 502), ae_message = msg\<rparr>"

text \<open>\<open>From<sqlx::Error>\<close> and its kin: the details are logged, the caller sees a plain 500.\<close>

definition internal_error :: app_error where
  "internal_error = internal ''internal server error''"

definition error_json :: "app_error \<Rightarrow> json" where
  "error_json e =
     JObj [(''error'', JObj [(''message'', JStr (ae_message e)), (''type'', JStr ''proxy_error''),
                             (''code'', JInt (int (ae_status e)))])]"

lemmas error_defs = bad_request_def unauthorized_def forbidden_def not_found_def
  unavailable_def internal_def upstream_def internal_error_def

section \<open>Status codes\<close>

definition is_success :: "nat \<Rightarrow> bool" where
  "is_success s \<longleftrightarrow> 200 \<le> s \<and> s < 300"

definition is_server_error :: "nat \<Rightarrow> bool" where
  "is_server_error s \<longleftrightarrow> 500 \<le> s \<and> s < 600"

section \<open>Headers\<close>

type_synonym header_map = "(string \<times> string) list"

definition hdr_get :: "header_map \<Rightarrow> string \<Rightarrow> string option" where
  "hdr_get h name = map_of h name"

text \<open>\<open>HeaderValue::to_str\<close>: the value as text if every byte is visible ASCII or a tab.\<close>

definition to_str :: "string \<Rightarrow> string option" where
  "to_str v =
     (if list_all (\<lambda>c. (32 \<le> byte_of c \<and> byte_of c < 127) \<or> byte_of c = 9) v
      then Some v else None)"

definition hdr_str :: "header_map \<Rightarrow> string \<Rightarrow> string option" where
  "hdr_str h name = Option.bind (hdr_get h name) to_str"

text \<open>Every value filed under a name, in order.\<close>

definition hdr_all :: "header_map \<Rightarrow> string \<Rightarrow> string list" where
  "hdr_all h name = map snd (filter (\<lambda>(n, _). n = name) h)"

lemma hdr_all_append [simp]: "hdr_all (h @ h') name = hdr_all h name @ hdr_all h' name"
  by (simp add: hdr_all_def)

lemma hdr_all_Nil_iff: "hdr_all h name = [] \<longleftrightarrow> name \<notin> fst ` set h"
  by (force simp: hdr_all_def filter_empty_conv)

lemma hdr_all_Cons: "hdr_all ((n, v) # h) name = (if n = name then v # hdr_all h name else hdr_all h name)"
  by (simp add: hdr_all_def)

lemma hdr_all_filter:
  "hdr_all (filter (\<lambda>(n, v). p n) h) name = (if p name then hdr_all h name else [])"
  by (induction h) (auto simp: hdr_all_def)

section \<open>Responses\<close>

text \<open>A response, whatever its body is, with the extension \<open>AuditTransportId\<close> the proxy leaves in
  it. \<open>build_response\<close> of \<open>src/proxy.rs\<close> puts typed parts together, so that the builder has
  nothing to refuse.\<close>

record transport_id =
  ti_id :: string
  ti_diagnostics_enabled :: bool

record 'b response =
  rs_status :: nat
  rs_headers :: header_map
  rs_body :: 'b
  rs_transport :: "transport_id option"

definition build_response :: "nat \<Rightarrow> header_map \<Rightarrow> 'b \<Rightarrow> (app_error, 'b response) result" where
  "build_response status headers bd =
     Inr \<lparr>rs_status = status, rs_headers = headers, rs_body = bd, rs_transport = None\<rparr>"

end
