(* ===== verification/Database.thy ===== *)
theory Database
  imports Http
begin

text \<open>
  The SQLite schema the migrations build, as lists of records: the tables the code reads and
  writes, the foreign keys with their cascades, and the trigger that closes a provider's open
  circuit event when the provider leaves \<open>cooldown\<close>. A statement of the source that updates
  the column \<open>status\<close> goes through \<open>update_provider_status\<close>, which fires the trigger.
\<close>

section \<open>Rows\<close>

record provider =
  p_id :: string
  p_name :: string
  p_account_id :: string
  p_access_token :: string
  p_refresh_token :: string
  p_expires_at :: "i64 option"
  p_status :: string
  p_manual_disabled :: i64
  p_cooldown_until :: "i64 option"
  p_rate_limit_json :: "string option"
  p_last_error :: "string option"
  p_last_used_at :: "i64 option"
  p_created_at :: i64
  p_updated_at :: i64
  p_owner_id :: "string option"
  p_owner_name :: "string option"

record grant =
  g_provider_id :: string
  g_user_id :: string
  g_created_at :: i64

record affinity_row =
  af_hash :: string
  af_provider_id :: string
  af_expires_at :: i64
  af_updated_at :: i64

record circuit_event =
  ce_id :: string
  ce_provider_id :: string
  ce_cause :: string
  ce_rate_limit_json :: string
  ce_opened_at :: i64
  ce_cooldown_until :: i64
  ce_closed_at :: "i64 option"
  ce_resolution :: "string option"

record user_row =
  u_id :: string
  u_email :: "string option"
  u_display_name :: "string option"
  u_role :: string
  u_provider_access :: i64
  u_created_at :: i64

record consumer =
  k_id :: string
  k_user_id :: string
  k_name :: string
  k_prefix :: string
  k_secret_hash :: string
  k_request_archive :: i64
  k_created_at :: i64
  k_last_used_at :: "i64 option"
  k_revoked_at :: "i64 option"

record api_call =
  c_id :: string
  c_request_id :: string
  c_thread_id :: "string option"
  c_consumer_id :: string
  c_user_id :: string
  c_provider_id :: "string option"
  c_affinity_hash :: "string option"
  c_affinity_source :: "string option"
  c_method :: string
  c_path :: string
  c_model :: "string option"
  c_reasoning_effort :: "string option"
  c_status :: i64
  c_first_byte_latency_ms :: "i64 option"
  c_request_bytes :: i64
  c_response_bytes :: i64
  c_request_transport_bytes :: i64
  c_response_transport_bytes :: i64
  c_downstream_accept_encoding :: "string option"
  c_downstream_content_encoding :: "string option"
  c_upstream_accept_encoding :: "string option"
  c_upstream_content_encoding :: "string option"
  c_latency_ms :: i64
  c_input_tokens :: i64
  c_output_tokens :: i64
  c_cached_tokens :: i64
  c_cost_usd_nanos :: "i64 option"
  c_error :: "string option"
  c_client_ip :: string
  c_created_at :: i64
  c_upstream_http_version :: "string option"

record request_archive_row =
  ra_api_call_id :: string
  ra_request_headers_json :: string
  ra_upstream_request_headers_json :: "string option"
  ra_request_body :: string
  ra_request_body_truncated :: bool
  ra_response_headers_json :: "string option"
  ra_downstream_response_headers_json :: "string option"
  ra_response_body :: "string option"
  ra_response_body_truncated :: bool
  ra_created_at :: i64

record admin_audit_row =
  aa_id :: string
  aa_admin_user_id :: string
  aa_action :: string
  aa_target_id :: "string option"
  aa_client_ip :: string
  aa_created_at :: i64

record database =
  db_providers :: "provider list"
  db_grants :: "grant list"
  db_affinities :: "affinity_row list"
  db_circuits :: "circuit_event list"
  db_users :: "user_row list"
  db_consumers :: "consumer list"
  db_api_calls :: "api_call list"
  db_archives :: "request_archive_row list"
  db_admin_audit :: "admin_audit_row list"
  db_meta :: "(string \<times> string) list"

definition empty_db :: database where
  "empty_db =
     \<lparr>db_providers = [], db_grants = [], db_affinities = [], db_circuits = [], db_users = [],
      db_consumers = [], db_api_calls = [], db_archives = [], db_admin_audit = [], db_meta = []\<rparr>"

section \<open>Reading\<close>

definition provider_row :: "database \<Rightarrow> string \<Rightarrow> provider option" where
  "provider_row db pid = find (\<lambda>p. p_id p = pid) (db_providers db)"

definition user_row_of :: "database \<Rightarrow> string \<Rightarrow> user_row option" where
  "user_row_of db pid = find (\<lambda>u. u_id u = pid) (db_users db)"

definition consumer_row :: "database \<Rightarrow> string \<Rightarrow> consumer option" where
  "consumer_row db pid = find (\<lambda>k. k_id k = pid) (db_consumers db)"

definition provider_exists :: "database \<Rightarrow> string \<Rightarrow> bool" where
  "provider_exists db pid \<longleftrightarrow> pid \<in> p_id ` set (db_providers db)"

definition user_exists :: "database \<Rightarrow> string \<Rightarrow> bool" where
  "user_exists db pid \<longleftrightarrow> pid \<in> u_id ` set (db_users db)"

definition consumer_exists :: "database \<Rightarrow> string \<Rightarrow> bool" where
  "consumer_exists db pid \<longleftrightarrow> pid \<in> k_id ` set (db_consumers db)"

section \<open>The circuit trigger\<close>

text \<open>\<open>provider_circuit_events_close_on_status_change\<close>, for one updated row.\<close>

definition close_resolution :: "string \<Rightarrow> string" where
  "close_resolution status =
     (if status = ''active'' then ''provider became active''
      else ''provider status changed to '' @ status)"

definition circuit_trigger ::
  "provider \<Rightarrow> provider \<Rightarrow> circuit_event list \<Rightarrow> circuit_event list" where
  "circuit_trigger old new evs =
     (if p_status old = ''cooldown'' \<and> p_status new \<noteq> ''cooldown''
      then update_where (\<lambda>e. ce_provider_id e = p_id new \<and> ce_closed_at e = None)
             (\<lambda>e. e\<lparr>ce_closed_at := Some (p_updated_at new),
                    ce_resolution := Some (close_resolution (p_status new))\<rparr>) evs
      else evs)"

text \<open>\<open>UPDATE providers SET .. WHERE ..\<close> without and with the column \<open>status\<close> among the
  columns set; the second fires the trigger for every updated row.\<close>

definition update_provider_row ::
  "(provider \<Rightarrow> bool) \<Rightarrow> (provider \<Rightarrow> provider) \<Rightarrow> database \<Rightarrow> database" where
  "update_provider_row w f db = db\<lparr>db_providers := update_where w f (db_providers db)\<rparr>"

definition update_provider_status ::
  "(provider \<Rightarrow> bool) \<Rightarrow> (provider \<Rightarrow> provider) \<Rightarrow> database \<Rightarrow> database" where
  "update_provider_status w f db =
     db\<lparr>db_providers := update_where w f (db_providers db),
        db_circuits := fold (\<lambda>p. circuit_trigger p (f p)) (filter w (db_providers db))
                         (db_circuits db)\<rparr>"

section \<open>Deleting with cascades\<close>

text \<open>Grants, affinities and circuit events go with their provider; the call history stays and
  forgets it. A consumer takes its calls and their diagnostics with it.\<close>

definition delete_provider_rows :: "string \<Rightarrow> database \<Rightarrow> database" where
  "delete_provider_rows pid db =
     db\<lparr>db_providers := filter (\<lambda>p. p_id p \<noteq> pid) (db_providers db),
        db_grants := filter (\<lambda>g. g_provider_id g \<noteq> pid) (db_grants db),
        db_affinities := filter (\<lambda>a. af_provider_id a \<noteq> pid) (db_affinities db),
        db_circuits := filter (\<lambda>e. ce_provider_id e \<noteq> pid) (db_circuits db),
        db_api_calls := update_where (\<lambda>c. c_provider_id c = Some pid)
                          (\<lambda>c. c\<lparr>c_provider_id := None\<rparr>) (db_api_calls db)\<rparr>"

definition delete_consumer_rows :: "(consumer \<Rightarrow> bool) \<Rightarrow> database \<Rightarrow> database" where
  "delete_consumer_rows w db =
     (let gone = map k_id (filter w (db_consumers db));
          calls = map c_id (filter (\<lambda>c. c_consumer_id c \<in> set gone) (db_api_calls db))
      in db\<lparr>db_consumers := filter (\<lambda>k. \<not> w k) (db_consumers db),
            db_api_calls := filter (\<lambda>c. c_consumer_id c \<notin> set gone) (db_api_calls db),
            db_archives := filter (\<lambda>a. ra_api_call_id a \<notin> set calls) (db_archives db)\<rparr>)"

section \<open>Well-formed databases\<close>

text \<open>Primary keys, the unique index on open circuit events, the unique root, and the foreign
  keys the balancer's tables rest on.\<close>

definition open_circuits :: "database \<Rightarrow> string \<Rightarrow> circuit_event list" where
  "open_circuits db pid =
     filter (\<lambda>e. ce_provider_id e = pid \<and> ce_closed_at e = None) (db_circuits db)"

definition db_keys :: "database \<Rightarrow> bool" where
  "db_keys db \<longleftrightarrow>
     distinct (map p_id (db_providers db)) \<and> distinct (map af_hash (db_affinities db)) \<and>
     distinct (map u_id (db_users db)) \<and> distinct (map k_id (db_consumers db))"

definition db_refs :: "database \<Rightarrow> bool" where
  "db_refs db \<longleftrightarrow>
     (\<forall>g \<in> set (db_grants db). provider_exists db (g_provider_id g)) \<and>
     (\<forall>a \<in> set (db_affinities db). provider_exists db (af_provider_id a)) \<and>
     (\<forall>e \<in> set (db_circuits db). provider_exists db (ce_provider_id e))"

definition circuits_wf :: "database \<Rightarrow> bool" where
  "circuits_wf db \<longleftrightarrow>
     (\<forall>pid. length (open_circuits db pid) \<le> 1) \<and>
     (\<forall>p \<in> set (db_providers db). open_circuits db (p_id p) \<noteq> [] \<longrightarrow> p_status p = ''cooldown'')"

definition single_root :: "database \<Rightarrow> bool" where
  "single_root db \<longleftrightarrow> length (filter (\<lambda>u. u_role u = ''root'') (db_users db)) \<le> 1"

section \<open>Facts on rows\<close>

lemma provider_row_SomeD:
  "provider_row db pid = Some p \<Longrightarrow> p \<in> set (db_providers db) \<and> p_id p = pid"
  by (auto simp: provider_row_def dest!: find_SomeD)

lemma provider_row_None_iff: "provider_row db pid = None \<longleftrightarrow> \<not> provider_exists db pid"
  by (auto simp: provider_row_def provider_exists_def find_None_iff)

lemma user_row_of_SomeD: "user_row_of db pid = Some u \<Longrightarrow> u \<in> set (db_users db) \<and> u_id u = pid"
  by (auto simp: user_row_of_def dest!: find_SomeD)

lemma find_unique:
  "distinct (map g xs) \<Longrightarrow> x \<in> set xs \<Longrightarrow> find (\<lambda>y. g y = g x) xs = Some x"
  by (induction xs) (auto simp: image_iff)

lemma provider_row_unique:
  "distinct (map p_id (db_providers db)) \<Longrightarrow> p \<in> set (db_providers db) \<Longrightarrow>
     provider_row db (p_id p) = Some p"
  unfolding provider_row_def by (rule find_unique)

lemma image_update_where:
  "(\<And>x. g (f x) = g x) \<Longrightarrow> g ` set (update_where w f xs) = g ` set xs"
  by (metis map_update_where list.set_map)

lemma provider_exists_update_row [simp]:
  "(\<And>p. p_id (f p) = p_id p) \<Longrightarrow>
     provider_exists (update_provider_row w f db) = provider_exists db"
  by (rule ext) (simp add: provider_exists_def update_provider_row_def image_update_where)

lemma provider_exists_update_status [simp]:
  "(\<And>p. p_id (f p) = p_id p) \<Longrightarrow>
     provider_exists (update_provider_status w f db) = provider_exists db"
  by (rule ext) (simp add: provider_exists_def update_provider_status_def image_update_where)

lemma find_update_where:
  "(\<And>x. g (f x) = g x) \<Longrightarrow>
     find (\<lambda>x. g x = k) (update_where w f xs) =
       map_option (\<lambda>x. if w x then f x else x) (find (\<lambda>x. g x = k) xs)"
  by (induction xs) (auto simp: update_where_def)

lemma provider_row_update:
  assumes "\<And>p. p_id (f p) = p_id p"
  shows "provider_row (update_provider_row w f db) pid =
           map_option (\<lambda>p. if w p then f p else p) (provider_row db pid)"
    and "provider_row (update_provider_status w f db) pid =
           map_option (\<lambda>p. if w p then f p else p) (provider_row db pid)"
  using assms
  by (simp_all add: provider_row_def update_provider_row_def update_provider_status_def
      find_update_where)

section \<open>The trigger keeps the circuit invariant\<close>

lemma circuit_trigger_ids:
  "map ce_provider_id (circuit_trigger old new evs) = map ce_provider_id evs"
  by (auto simp: circuit_trigger_def intro!: map_update_where)

lemma fold_trigger_ids:
  "map ce_provider_id (fold (\<lambda>p. circuit_trigger p (f p)) ps evs) = map ce_provider_id evs"
  by (induction ps arbitrary: evs) (simp_all add: circuit_trigger_ids)

definition open_of :: "string \<Rightarrow> circuit_event list \<Rightarrow> circuit_event list" where
  "open_of pid evs = filter (\<lambda>e. ce_provider_id e = pid \<and> ce_closed_at e = None) evs"

lemma open_circuits_open_of: "open_circuits db pid = open_of pid (db_circuits db)"
  by (simp add: open_circuits_def open_of_def)

lemma open_of_close:
  "open_of pid (update_where (\<lambda>e. ce_provider_id e = k \<and> ce_closed_at e = None)
       (\<lambda>e. e\<lparr>ce_closed_at := Some t, ce_resolution := r\<rparr>) evs) =
     (if pid = k then [] else open_of pid evs)"
  by (induction evs) (auto simp: open_of_def update_where_def)

lemma open_of_trigger:
  "p_id new = p_id old \<Longrightarrow>
   open_of pid (circuit_trigger old new evs) =
     (if pid = p_id old \<and> p_status old = ''cooldown'' \<and> p_status new \<noteq> ''cooldown''
      then [] else open_of pid evs)"
  by (simp add: circuit_trigger_def open_of_close)

lemma open_of_fold_trigger:
  assumes "\<And>p. p_id (f p) = p_id p"
  shows "open_of pid (fold (\<lambda>p. circuit_trigger p (f p)) ps evs) =
     (if \<exists>p \<in> set ps. p_id p = pid \<and> p_status p = ''cooldown'' \<and> p_status (f p) \<noteq> ''cooldown''
      then [] else open_of pid evs)"
proof (induction ps arbitrary: evs)
  case Nil
  show ?case by simp
next
  case (Cons p ps)
  show ?case by (auto simp: Cons.IH open_of_trigger assms)
qed

lemma circuits_wf_update_status:
  assumes wf: "circuits_wf db" and keys: "distinct (map p_id (db_providers db))"
    and pid: "\<And>p. p_id (f p) = p_id p"
  shows "circuits_wf (update_provider_status w f db)"
proof -
  let ?db = "update_provider_status w f db"
  have opn: "open_circuits ?db pid =
      (if \<exists>p \<in> set (db_providers db). w p \<and> p_id p = pid \<and> p_status p = ''cooldown'' \<and>
            p_status (f p) \<noteq> ''cooldown''
       then [] else open_circuits db pid)" for pid
    by (auto simp: open_circuits_open_of update_provider_status_def open_of_fold_trigger pid)
  have one: "length (open_circuits ?db i) \<le> 1" for i
    using wf by (auto simp: opn circuits_wf_def)
  have cool: "p_status q = ''cooldown''"
    if q: "q \<in> set (db_providers ?db)" and o: "open_circuits ?db (p_id q) \<noteq> []" for q
  proof -
    from q obtain p where p: "p \<in> set (db_providers db)" "q = (if w p then f p else p)"
      by (auto simp: update_provider_status_def in_update_where)
    then have "p_id q = p_id p" by (simp add: pid)
    with o have "open_circuits db (p_id p) \<noteq> []" and
      n: "\<not> (\<exists>r \<in> set (db_providers db). w r \<and> p_id r = p_id p \<and> p_status r = ''cooldown'' \<and>
            p_status (f r) \<noteq> ''cooldown'')"
      by (auto simp: opn split: if_splits)
    with wf p have "p_status p = ''cooldown''" by (auto simp: circuits_wf_def)
    with n p show ?thesis by auto
  qed
  from one cool show ?thesis by (auto simp: circuits_wf_def)
qed

end
