(* ===== verification/Balancer.thy ===== *)
theory Balancer
  imports Database "HOL-Library.Char_ord" "HOL-Library.List_Lexorder" "HOL-Library.Product_Lexorder"
begin

text \<open>
  The in-memory load balancer of \<open>src/balancer.rs\<close>: the provider and grant snapshots, the
  in-flight counters (machine words, as \<open>AtomicUsize\<close>), the round-robin cursor, the affinity
  map with its dirty set, and the pending provider updates. Every method is one step on the
  state; the digest of an affinity key (\<open>hex(Sha256(..))\<close>) is the parameter \<open>sha\<close>, the clock
  the parameter \<open>now\<close>. Interleaved runs of the steps are the subject of
  \<open>Balancer_Machine\<close>, the transaction of the maintenance task of \<open>Balancer_Maint\<close>.
\<close>

section \<open>State\<close>

record affinity_entry =
  ent_provider_id :: string
  ent_expires_at :: i64
  ent_updated_at :: i64

record circuit_open =
  co_id :: string
  co_cause :: string
  co_rate_limit_json :: string
  co_opened_at :: i64
  co_cooldown_until :: i64

record provider_update =
  pu_status :: "string option"
  pu_cooldown_until :: "i64 option"
  pu_rate_limit_json :: string
  pu_last_error :: "string option"
  pu_last_used_at :: "i64 option"
  pu_updated_at :: i64
  pu_circuit :: "circuit_open option"

record balancer =
  b_inflight :: "(string, 64 word) dashmap"
  b_cursor :: "64 word"
  b_providers :: "provider list"
  b_provider_grants :: "(string, string list) dashmap"
  b_affinities :: "(string, affinity_entry) dashmap"
  b_dirty_affinities :: "string list"
  b_provider_updates :: "(string, provider_update) dashmap"

record lease =
  l_provider :: provider
  l_access_token :: string
  l_refresh_token :: string

definition balancer_default :: balancer where
  "balancer_default =
     \<lparr>b_inflight = [], b_cursor = 0, b_providers = [], b_provider_grants = [],
      b_affinities = [], b_dirty_affinities = [], b_provider_updates = []\<rparr>"

definition affinity_hash :: "(string \<Rightarrow> string) \<Rightarrow> string \<Rightarrow> string" where
  "affinity_hash sha key = sha key"

section \<open>Pending updates\<close>

text \<open>\<open>ProviderUpdate::merge\<close>: a later update without a status keeps the pending status, its
  cooldown, error and circuit; the remaining fields follow the later update.\<close>

definition merge_update :: "provider_update \<Rightarrow> provider_update \<Rightarrow> provider_update" where
  "merge_update self upd =
     (let s = (if pu_status upd \<noteq> None
               then self\<lparr>pu_status := pu_status upd, pu_cooldown_until := pu_cooldown_until upd,
                         pu_last_error := pu_last_error upd, pu_circuit := pu_circuit upd\<rparr>
               else self)
      in s\<lparr>pu_rate_limit_json := pu_rate_limit_json upd,
           pu_last_used_at := opt_or (pu_last_used_at upd) (pu_last_used_at self),
           pu_updated_at := max (pu_updated_at self) (pu_updated_at upd)\<rparr>)"

section \<open>Selection\<close>

definition provider_is_available :: "provider \<Rightarrow> i64 \<Rightarrow> bool" where
  "provider_is_available p now \<longleftrightarrow>
     p_manual_disabled p = 0 \<and>
     (p_status p = ''active'' \<or>
      (p_status p = ''cooldown'' \<and>
       (case p_cooldown_until p of None \<Rightarrow> False | Some until \<Rightarrow> until \<le> now)))"

text \<open>The second filter of \<open>select\<close>: global access, ownership, or a grant.\<close>

definition may_use :: "balancer \<Rightarrow> string \<Rightarrow> bool \<Rightarrow> provider \<Rightarrow> bool" where
  "may_use b user_id all_providers p \<longleftrightarrow>
     all_providers \<or> p_owner_id p = Some user_id \<or>
     (case dm_get (b_provider_grants b) (p_id p) of
        None \<Rightarrow> False
      | Some users \<Rightarrow> user_id \<in> set users)"

definition eligible_providers ::
  "balancer \<Rightarrow> i64 \<Rightarrow> string \<Rightarrow> bool \<Rightarrow> string option \<Rightarrow> provider list" where
  "eligible_providers b now user_id all_providers excluded =
     filter (\<lambda>p. excluded \<noteq> Some (p_id p))
       (filter (may_use b user_id all_providers)
         (filter (\<lambda>p. provider_is_available p now) (b_providers b)))"

definition affinity_provider ::
  "(string \<Rightarrow> string) \<Rightarrow> balancer \<Rightarrow> string \<Rightarrow> provider list \<Rightarrow> i64 \<Rightarrow> provider option" where
  "affinity_provider sha b key eligible now =
     (case dm_get (b_affinities b) (affinity_hash sha key) of
        None \<Rightarrow> None
      | Some entry \<Rightarrow>
          if now < ent_expires_at entry
          then find (\<lambda>p. p_id p = ent_provider_id entry) eligible
          else None)"

definition inflight :: "balancer \<Rightarrow> string \<Rightarrow> 64 word" where
  "inflight b provider_id = unwrap_or (dm_get (b_inflight b) provider_id) 0"

text \<open>\<open>least_inflight\<close>: the scan starts at the cursor, which advances (and wraps) by one. The
  source's \<open>expect\<close> is the \<open>None\<close> of an empty list, which \<open>select\<close> never passes.\<close>

definition least_inflight :: "balancer \<Rightarrow> provider list \<Rightarrow> provider option \<times> balancer" where
  "least_inflight b providers =
     (let start = unat (b_cursor b) mod length providers
      in (min_by_key (\<lambda>p. inflight b (p_id p)) (rotate start providers),
          b\<lparr>b_cursor := b_cursor b + 1\<rparr>))"

definition remember_affinity ::
  "(string \<Rightarrow> string) \<Rightarrow> string \<Rightarrow> string \<Rightarrow> i64 \<Rightarrow> i64 \<Rightarrow> balancer \<Rightarrow> balancer" where
  "remember_affinity sha key provider_id now ttl b =
     (let hash = affinity_hash sha key
      in b\<lparr>b_affinities :=
             dm_insert hash
               \<lparr>ent_provider_id = provider_id, ent_expires_at = now + ttl, ent_updated_at = now\<rparr>
               (b_affinities b),
           b_dirty_affinities := List.insert hash (b_dirty_affinities b)\<rparr>)"

definition acquire :: "provider \<Rightarrow> balancer \<Rightarrow> lease \<times> balancer" where
  "acquire p b =
     (\<lparr>l_provider = p, l_access_token = p_access_token p, l_refresh_token = p_refresh_token p\<rparr>,
      b\<lparr>b_inflight := dm_insert (p_id p) (inflight b (p_id p) + 1) (b_inflight b)\<rparr>)"

definition choose_provider ::
  "(string \<Rightarrow> string) \<Rightarrow> balancer \<Rightarrow> i64 \<Rightarrow> string option \<Rightarrow> provider list \<Rightarrow> provider \<times> balancer" where
  "choose_provider sha b now affinity eligible =
     (case (case affinity of
              Some key \<Rightarrow> affinity_provider sha b key eligible now
            | None \<Rightarrow> None) of
        Some p \<Rightarrow> (p, b)
      | None \<Rightarrow> (let (p, b') = least_inflight b eligible in (the p, b')))"

definition select ::
  "(string \<Rightarrow> string) \<Rightarrow> i64 \<Rightarrow> i64 \<Rightarrow> string \<Rightarrow> bool \<Rightarrow> string option \<Rightarrow> string option \<Rightarrow>
     balancer \<Rightarrow> (app_error, lease) result \<times> balancer" where
  "select sha ttl now user_id all_providers affinity excluded b =
     (let eligible = eligible_providers b now user_id all_providers excluded
      in if eligible = [] then (Inl (unavailable ''no available CodeX provider''), b)
         else
           let (chosen, b1) = choose_provider sha b now affinity eligible;
               b2 = (case affinity of
                       Some key \<Rightarrow> remember_affinity sha key (p_id chosen) now ttl b1
                     | None \<Rightarrow> b1);
               (l, b3) = acquire chosen b2
           in (Inr l, b3))"

text \<open>\<open>Drop for Lease\<close>: the counter, if there still is one, goes down by one (wrapping).\<close>

definition drop_lease :: "lease \<Rightarrow> balancer \<Rightarrow> balancer" where
  "drop_lease l b =
     (case dm_get (b_inflight b) (p_id (l_provider l)) of
        None \<Rightarrow> b
      | Some n \<Rightarrow> b\<lparr>b_inflight := dm_insert (p_id (l_provider l)) (n - 1) (b_inflight b)\<rparr>)"

section \<open>Snapshots\<close>

definition provider_order :: "provider list \<Rightarrow> provider list" where
  "provider_order rows = sort_key (\<lambda>p. (p_created_at p, p_id p)) rows"

definition add_grant ::
  "grant \<Rightarrow> (string, string list) dashmap \<Rightarrow> (string, string list) dashmap" where
  "add_grant g m =
     dm_insert (g_provider_id g)
       (List.insert (g_user_id g) (unwrap_or (dm_get m (g_provider_id g)) [])) m"

definition reload_providers :: "database \<Rightarrow> balancer \<Rightarrow> balancer" where
  "reload_providers db b =
     b\<lparr>b_providers := provider_order (db_providers db),
       b_provider_grants := fold add_grant (db_grants db) []\<rparr>"

definition load_affinity ::
  "affinity_row \<Rightarrow> (string, affinity_entry) dashmap \<Rightarrow> (string, affinity_entry) dashmap" where
  "load_affinity r m =
     dm_insert (af_hash r)
       \<lparr>ent_provider_id = af_provider_id r, ent_expires_at = af_expires_at r,
        ent_updated_at = af_updated_at r\<rparr> m"

definition hydrate :: "i64 \<Rightarrow> database \<Rightarrow> balancer \<Rightarrow> balancer" where
  "hydrate now db b =
     (let b1 = reload_providers db b
      in b1\<lparr>b_affinities :=
              fold load_affinity (filter (\<lambda>r. now < af_expires_at r) (db_affinities db)) []\<rparr>)"

text \<open>\<open>forget_provider\<close>: the deleted provider leaves every structure; an affinity to it goes
  with its dirty mark.\<close>

definition forget_affinity :: "string \<Rightarrow> string \<Rightarrow> balancer \<Rightarrow> balancer" where
  "forget_affinity provider_id hash b =
     (let (removed, affinities') =
            dm_remove_if hash (\<lambda>entry. ent_provider_id entry = provider_id) (b_affinities b)
      in if removed = None then b
         else
           let dirty = removeAll hash (b_dirty_affinities b)
           in b\<lparr>b_affinities := affinities',
                b_dirty_affinities :=
                  (if dm_contains affinities' hash then List.insert hash dirty else dirty)\<rparr>)"

definition forget_provider :: "string \<Rightarrow> balancer \<Rightarrow> balancer" where
  "forget_provider provider_id b =
     (let b1 = b\<lparr>b_providers := filter (\<lambda>p. p_id p \<noteq> provider_id) (b_providers b),
                 b_inflight := dm_remove provider_id (b_inflight b),
                 b_provider_updates := dm_remove provider_id (b_provider_updates b),
                 b_provider_grants := dm_remove provider_id (b_provider_grants b)\<rparr>;
          hashes = map fst (filter (\<lambda>(h, entry). ent_provider_id entry = provider_id)
                             (b_affinities b1))
      in fold (forget_affinity provider_id) hashes b1)"

section \<open>Observation of upstream responses\<close>

text \<open>\<open>iter_mut().find(..)\<close>: the first match is updated in place.\<close>

fun update_first :: "('a \<Rightarrow> bool) \<Rightarrow> ('a \<Rightarrow> 'a) \<Rightarrow> 'a list \<Rightarrow> 'a list" where
  "update_first q f [] = []"
| "update_first q f (x # xs) = (if q x then f x # xs else x # update_first q f xs)"

definition observe_provider :: "provider_update \<Rightarrow> provider \<Rightarrow> provider" where
  "observe_provider u p =
     (let p1 = (case pu_status u of
                  Some status \<Rightarrow>
                    if p_manual_disabled p = 0
                    then p\<lparr>p_status := status, p_cooldown_until := pu_cooldown_until u,
                           p_last_error := pu_last_error u\<rparr>
                    else p
                | None \<Rightarrow> p)
      in p1\<lparr>p_rate_limit_json := Some (pu_rate_limit_json u),
            p_last_used_at := opt_or (pu_last_used_at u) (p_last_used_at p),
            p_updated_at := pu_updated_at u\<rparr>)"

definition observe :: "string \<Rightarrow> provider_update \<Rightarrow> balancer \<Rightarrow> balancer" where
  "observe provider_id u b =
     b\<lparr>b_providers := update_first (\<lambda>p. p_id p = provider_id) (observe_provider u) (b_providers b),
       b_provider_updates :=
         dm_insert provider_id
           (case dm_get (b_provider_updates b) provider_id of
              None \<Rightarrow> u
            | Some current \<Rightarrow> merge_update current u)
           (b_provider_updates b)\<rparr>"

text \<open>The reset time of a usage-limit error: \<open>resets_at\<close> when it lies ahead, else
  \<open>resets_in_seconds\<close> from now, unless that overflows.\<close>

definition usage_limit_cooldown :: "json option \<Rightarrow> i64 \<Rightarrow> i64 option" where
  "usage_limit_cooldown error now =
     (case error of
        None \<Rightarrow> None
      | Some e \<Rightarrow>
          if Option.bind (jget e ''type'') as_str = Some ''usage_limit_reached''
          then opt_or
                 (opt_filter (\<lambda>reset. now < reset) (Option.bind (jget e ''resets_at'') as_i64))
                 (Option.bind
                    (opt_filter (\<lambda>seconds. 0 < seconds)
                       (Option.bind (jget e ''resets_in_seconds'') as_i64))
                    (\<lambda>seconds. checked_add now seconds))
          else None)"

definition plain_update :: "string \<Rightarrow> i64 \<Rightarrow> provider_update" where
  "plain_update rate_json now =
     \<lparr>pu_status = None, pu_cooldown_until = None, pu_rate_limit_json = rate_json,
      pu_last_error = None, pu_last_used_at = Some now, pu_updated_at = now, pu_circuit = None\<rparr>"

text \<open>The update \<open>track_response\<close> derives from a status and a body. \<open>parse\<close> and \<open>render\<close> are
  serde's \<open>from_slice\<close> and \<open>to_string\<close>, \<open>uuid\<close> the identifier drawn for a new circuit event.\<close>

definition response_update ::
  "(string \<Rightarrow> json option) \<Rightarrow> (json \<Rightarrow> string) \<Rightarrow> string \<Rightarrow> i64 \<Rightarrow> nat \<Rightarrow> string \<Rightarrow>
     provider_update" where
  "response_update parse render uuid now status body =
     (let error = Option.bind (parse body) (\<lambda>response. jget response ''error'');
          rate_json = (case error of None \<Rightarrow> ''{}'' | Some e \<Rightarrow> render e)
      in if status = 401 \<or> status = 403 then
           \<lparr>pu_status = Some ''auth_error'', pu_cooldown_until = None,
            pu_rate_limit_json = rate_json,
            pu_last_error = Some (''upstream HTTP '' @ show_nat status),
            pu_last_used_at = Some now, pu_updated_at = now, pu_circuit = None\<rparr>
         else if status = 429 then
           (case usage_limit_cooldown error now of
              Some cooldown \<Rightarrow>
                \<lparr>pu_status = Some ''cooldown'', pu_cooldown_until = Some cooldown,
                 pu_rate_limit_json = rate_json, pu_last_error = Some ''usage limit reached'',
                 pu_last_used_at = Some now, pu_updated_at = now,
                 pu_circuit = Some \<lparr>co_id = uuid, co_cause = ''usage_limit_reached'',
                   co_rate_limit_json = rate_json, co_opened_at = now,
                   co_cooldown_until = cooldown\<rparr>\<rparr>
            | None \<Rightarrow> plain_update rate_json now)
         else plain_update rate_json now)"

definition track_response ::
  "(string \<Rightarrow> json option) \<Rightarrow> (json \<Rightarrow> string) \<Rightarrow> string \<Rightarrow> i64 \<Rightarrow> string \<Rightarrow> nat \<Rightarrow>
     string \<Rightarrow> balancer \<Rightarrow> balancer" where
  "track_response parse render uuid now provider_id status body b =
     observe provider_id (response_update parse render uuid now status body) b"

definition recover_provider :: "i64 \<Rightarrow> provider \<Rightarrow> provider" where
  "recover_provider now p =
     (if p_manual_disabled p = 0 \<and> p_status p = ''cooldown'' \<and>
         (case p_cooldown_until p of None \<Rightarrow> False | Some until \<Rightarrow> until \<le> now)
      then p\<lparr>p_status := ''active'', p_cooldown_until := None, p_last_error := None,
             p_updated_at := now\<rparr>
      else p)"

definition recover_cached_providers :: "i64 \<Rightarrow> balancer \<Rightarrow> balancer" where
  "recover_cached_providers now b = b\<lparr>b_providers := map (recover_provider now) (b_providers b)\<rparr>"

end
