(* ===== verification/Balancer_Facts.thy ===== *)
theory Balancer_Facts
  imports Balancer
begin

text \<open>
  What selection promises: which provider a lease is for, when there is none, which of several
  is taken, and how affinities bind and rebind. \<open>balancer_simps\<close> collects the field equations
  of the operations, so that the properties below are a few steps each.
\<close>

named_theorems balancer_simps

section \<open>Field equations\<close>

lemma inflight_acquire [balancer_simps]:
  "inflight (snd (acquire p b)) q = inflight b q + (if q = p_id p then 1 else 0)"
  by (simp add: acquire_def inflight_def dm.get_insert)

lemma acquire_fields [balancer_simps]:
  "l_provider (fst (acquire p b)) = p"
  "l_access_token (fst (acquire p b)) = p_access_token p"
  "l_refresh_token (fst (acquire p b)) = p_refresh_token p"
  "b_providers (snd (acquire p b)) = b_providers b"
  "b_provider_grants (snd (acquire p b)) = b_provider_grants b"
  "b_affinities (snd (acquire p b)) = b_affinities b"
  "b_dirty_affinities (snd (acquire p b)) = b_dirty_affinities b"
  "b_provider_updates (snd (acquire p b)) = b_provider_updates b"
  "b_cursor (snd (acquire p b)) = b_cursor b"
  by (simp_all add: acquire_def)

lemma remember_fields [balancer_simps]:
  "b_providers (remember_affinity sha k i now ttl b) = b_providers b"
  "b_provider_grants (remember_affinity sha k i now ttl b) = b_provider_grants b"
  "b_inflight (remember_affinity sha k i now ttl b) = b_inflight b"
  "b_cursor (remember_affinity sha k i now ttl b) = b_cursor b"
  "b_provider_updates (remember_affinity sha k i now ttl b) = b_provider_updates b"
  "dm_get (b_affinities (remember_affinity sha k i now ttl b)) h =
     (if h = affinity_hash sha k
      then Some \<lparr>ent_provider_id = i, ent_expires_at = now + ttl, ent_updated_at = now\<rparr>
      else dm_get (b_affinities b) h)"
  "set (b_dirty_affinities (remember_affinity sha k i now ttl b)) =
     insert (affinity_hash sha k) (set (b_dirty_affinities b))"
  by (simp_all add: remember_affinity_def Let_def dm.get_insert)

lemma inflight_remember [balancer_simps]:
  "inflight (remember_affinity sha k i now ttl b) q = inflight b q"
  by (simp add: inflight_def balancer_simps)

lemma drop_lease_fields [balancer_simps]:
  "b_providers (drop_lease l b) = b_providers b"
  "b_provider_grants (drop_lease l b) = b_provider_grants b"
  "b_affinities (drop_lease l b) = b_affinities b"
  "b_dirty_affinities (drop_lease l b) = b_dirty_affinities b"
  "b_provider_updates (drop_lease l b) = b_provider_updates b"
  "b_cursor (drop_lease l b) = b_cursor b"
  by (simp_all add: drop_lease_def split: option.splits)

lemma inflight_drop_lease [balancer_simps]:
  "inflight (drop_lease l b) q =
     (if q = p_id (l_provider l) \<and> dm_contains (b_inflight b) q
      then inflight b q - 1 else inflight b q)"
  by (auto simp: drop_lease_def inflight_def dm_contains_def dm.get_insert split: option.splits)

lemma contains_acquire [balancer_simps]:
  "dm_contains (b_inflight (snd (acquire p b))) q \<longleftrightarrow>
     q = p_id p \<or> dm_contains (b_inflight b) q"
  by (simp add: acquire_def dm_contains_def dm.get_insert)

section \<open>Eligibility and choice\<close>

lemma eligible_iff:
  "p \<in> set (eligible_providers b now u allp ex) \<longleftrightarrow>
     p \<in> set (b_providers b) \<and> provider_is_available p now \<and> may_use b u allp p \<and>
     ex \<noteq> Some (p_id p)"
  by (auto simp: eligible_providers_def)

lemma available_mono: "provider_is_available p now \<Longrightarrow> now \<le> now' \<Longrightarrow> provider_is_available p now'"
  by (auto simp: provider_is_available_def split: option.splits)

lemma least_inflight_Some:
  assumes "ps \<noteq> []"
  obtains p where "fst (least_inflight b ps) = Some p" and "p \<in> set ps"
    and "\<forall>q \<in> set ps. inflight b (p_id p) \<le> inflight b (p_id q)"
proof -
  let ?rot = "rotate (unat (b_cursor b) mod length ps) ps"
  from assms obtain p where p: "min_by_key (\<lambda>p. inflight b (p_id p)) ?rot = Some p"
    using min_by_key_ex [of ?rot] by fastforce
  show thesis
    by (rule that [of p]) (use p min_by_key_SomeD [OF p] in \<open>auto simp: least_inflight_def\<close>)
qed

lemma affinity_provider_SomeD:
  "affinity_provider sha b key ps now = Some p \<Longrightarrow>
     p \<in> set ps \<and> (\<exists>e. dm_get (b_affinities b) (affinity_hash sha key) = Some e \<and>
       now < ent_expires_at e \<and> p_id p = ent_provider_id e)"
  by (auto simp: affinity_provider_def split: option.splits if_splits dest: find_SomeD)

lemma choose_provider_cases:
  assumes "ps \<noteq> []"
  shows "fst (choose_provider sha b now aff ps) \<in> set ps"
    and "snd (choose_provider sha b now aff ps) = b \<or>
         snd (choose_provider sha b now aff ps) = b\<lparr>b_cursor := b_cursor b + 1\<rparr>"
proof -
  obtain q where q: "fst (least_inflight b ps) = Some q" "q \<in> set ps"
    using least_inflight_Some [OF assms] by metis
  then obtain b' where lq: "least_inflight b ps = (Some q, b')"
    by (cases "least_inflight b ps") auto
  have b': "b' = b\<lparr>b_cursor := b_cursor b + 1\<rparr>"
    using lq by (simp add: least_inflight_def Let_def)
  show "fst (choose_provider sha b now aff ps) \<in> set ps"
    using q by (auto simp: choose_provider_def lq split: option.splits
        dest: affinity_provider_SomeD)
  show "snd (choose_provider sha b now aff ps) = b \<or>
        snd (choose_provider sha b now aff ps) = b\<lparr>b_cursor := b_cursor b + 1\<rparr>"
    by (auto simp: choose_provider_def lq b' split: option.splits)
qed

lemma inflight_cursor [simp]: "inflight (b\<lparr>b_cursor := c\<rparr>) q = inflight b q"
  by (simp add: inflight_def)

text \<open>A successful selection, taken apart: the chosen provider and the state it leaves.\<close>

lemma select_Inr:
  assumes "select sha ttl now u allp aff ex b = (Inr l, b')"
  obtains b1 where "eligible_providers b now u allp ex \<noteq> []"
    and "l_provider l = fst (choose_provider sha b now aff (eligible_providers b now u allp ex))"
    and "b1 = b \<or> b1 = b\<lparr>b_cursor := b_cursor b + 1\<rparr>"
    and "(l, b') = acquire (l_provider l)
           (case aff of Some key \<Rightarrow> remember_affinity sha key (p_id (l_provider l)) now ttl b1
                      | None \<Rightarrow> b1)"
proof -
  let ?el = "eligible_providers b now u allp ex"
  from assms have ne: "?el \<noteq> []" by (auto simp: select_def Let_def split: if_splits)
  obtain p b1 where ch: "choose_provider sha b now aff ?el = (p, b1)"
    by (cases "choose_provider sha b now aff ?el")
  let ?b2 = "case aff of Some key \<Rightarrow> remember_affinity sha key (p_id p) now ttl b1 | None \<Rightarrow> b1"
  have ac: "acquire p ?b2 = (l, b')"
    using assms ne by (auto simp: select_def Let_def ch split: prod.splits)
  then have lp: "l_provider l = p"
    using acquire_fields(1) [of p ?b2] by simp
  have b1: "b1 = b \<or> b1 = b\<lparr>b_cursor := b_cursor b + 1\<rparr>"
    using choose_provider_cases(2) [OF ne, of sha b now aff] ch by simp
  show thesis
    by (rule that [OF ne _ b1]) (simp_all only: ch lp ac fst_conv)
qed

text \<open>The counters and snapshots after a grant.\<close>

lemma select_sound_fields:
  assumes "select sha ttl now u allp aff ex b = (Inr l, b')"
  shows "l_provider l \<in> set (eligible_providers b now u allp ex)"
    and "l_access_token l = p_access_token (l_provider l)"
    and "l_refresh_token l = p_refresh_token (l_provider l)"
    and "inflight b' q = inflight b q + (if q = p_id (l_provider l) then 1 else 0)"
    and "b_providers b' = b_providers b" and "b_provider_grants b' = b_provider_grants b"
    and "b_provider_updates b' = b_provider_updates b"
proof -
  obtain b1 where ne: "eligible_providers b now u allp ex \<noteq> []"
    and p: "l_provider l = fst (choose_provider sha b now aff (eligible_providers b now u allp ex))"
    and b1: "b1 = b \<or> b1 = b\<lparr>b_cursor := b_cursor b + 1\<rparr>"
    and ac: "(l, b') = acquire (l_provider l)
           (case aff of Some key \<Rightarrow> remember_affinity sha key (p_id (l_provider l)) now ttl b1
                      | None \<Rightarrow> b1)" (is "_ = acquire _ ?b2")
    by (rule select_Inr [OF assms])
  have l: "l = fst (acquire (l_provider l) ?b2)" and b': "b' = snd (acquire (l_provider l) ?b2)"
    using ac by (metis fst_conv, metis snd_conv)
  have f: "inflight ?b2 q = inflight b q" "b_providers ?b2 = b_providers b"
    "b_provider_grants ?b2 = b_provider_grants b" "b_provider_updates ?b2 = b_provider_updates b"
    using b1 by (auto simp: balancer_simps split: option.splits)
  show "l_provider l \<in> set (eligible_providers b now u allp ex)"
    using choose_provider_cases(1) [OF ne] p by simp
  show "l_access_token l = p_access_token (l_provider l)"
    "l_refresh_token l = p_refresh_token (l_provider l)"
    by (metis l acquire_fields(2), metis l acquire_fields(3))
  show "inflight b' q = inflight b q + (if q = p_id (l_provider l) then 1 else 0)"
    "b_providers b' = b_providers b" "b_provider_grants b' = b_provider_grants b"
    "b_provider_updates b' = b_provider_updates b"
    unfolding b' inflight_acquire acquire_fields f by (rule refl)+
qed

section \<open>Properties of selection\<close>

text \<open>C10. A lease is only ever granted for a provider of the current snapshot that is available,
  that the user may use (global access, ownership or a grant) and that is not the excluded one;
  it carries that provider's tokens, raises exactly that provider's in-flight counter by one
  and leaves the snapshots alone.\<close>

theorem select_sound:
  assumes "select sha ttl now user all_providers affinity excluded b = (Inr l, b')"
  shows "l_provider l \<in> set (b_providers b) \<and> provider_is_available (l_provider l) now \<and>
     may_use b user all_providers (l_provider l) \<and> excluded \<noteq> Some (p_id (l_provider l)) \<and>
     l_access_token l = p_access_token (l_provider l) \<and>
     l_refresh_token l = p_refresh_token (l_provider l) \<and>
     (\<forall>q. inflight b' q = inflight b q + (if q = p_id (l_provider l) then 1 else 0)) \<and>
     b_providers b' = b_providers b \<and> b_provider_grants b' = b_provider_grants b"
  using select_sound_fields [OF assms] by (simp add: eligible_iff)

text \<open>Selection fails exactly when no provider of the snapshot is available, usable by the
  user and not excluded; the error is then 503 and the state is unchanged.\<close>

theorem select_fails_iff:
  "((\<exists>e b'. select sha ttl now user all_providers affinity excluded b = (Inl e, b')) \<longleftrightarrow>
     (\<forall>p \<in> set (b_providers b).
        \<not> (provider_is_available p now \<and> may_use b user all_providers p \<and>
           excluded \<noteq> Some (p_id p)))) \<and>
   (\<forall>e b'. select sha ttl now user all_providers affinity excluded b = (Inl e, b') \<longrightarrow>
      ae_status e = 503 \<and> b' = b)"
proof -
  have "eligible_providers b now user all_providers excluded = [] \<longleftrightarrow>
      (\<forall>p. p \<notin> set (eligible_providers b now user all_providers excluded))"
    by (cases "eligible_providers b now user all_providers excluded") auto
  then show ?thesis
    by (auto simp: select_def Let_def eligible_iff unavailable_def split: prod.splits if_splits)
qed

text \<open>Without an affinity key, the lease goes to a provider with the least requests in
  flight among the eligible ones; when they all carry the same load, it is the one the
  round-robin cursor points at, and the cursor moves on by one.\<close>

theorem select_least_loaded:
  assumes "select sha ttl now user all_providers None excluded b = (Inr l, b')"
  defines "ps \<equiv> eligible_providers b now user all_providers excluded"
  shows "(\<forall>q \<in> set ps. inflight b (p_id (l_provider l)) \<le> inflight b (p_id q)) \<and>
     ((\<forall>p \<in> set ps. \<forall>q \<in> set ps. inflight b (p_id p) = inflight b (p_id q)) \<longrightarrow>
        l_provider l = ps ! (unat (b_cursor b) mod length ps)) \<and>
     b_cursor b' = b_cursor b + 1"
proof -
  let ?n = "unat (b_cursor b) mod length ps"
  from assms obtain b1 where ne: "ps \<noteq> []"
    and p: "l_provider l = fst (choose_provider sha b now None ps)"
    and ac: "(l, b') = acquire (l_provider l) b1"
    by (elim select_Inr) (simp add: ps_def)
  obtain q where q: "fst (least_inflight b ps) = Some q"
    and qmin: "\<forall>r \<in> set ps. inflight b (p_id q) \<le> inflight b (p_id r)"
    using least_inflight_Some [OF ne] by metis
  have lq: "l_provider l = q"
    using p q by (simp add: choose_provider_def split: prod.splits)
  have cur: "b_cursor b' = b_cursor b + 1"
    using assms(1) ne
    by (auto simp: select_def Let_def choose_provider_def least_inflight_def acquire_def ps_def)
  have "q = ps ! ?n" if eq: "\<forall>p \<in> set ps. \<forall>q \<in> set ps. inflight b (p_id p) = inflight b (p_id q)"
  proof -
    have ln: "?n < length ps" using ne by simp
    have "rotate ?n ps \<noteq> []" using ne by simp
    then obtain x xs where x: "rotate ?n ps = x # xs" by (cases "rotate ?n ps") auto
    have "x = ps ! ?n"
      using x ln ne hd_rotate_conv_nth [of ps ?n] by simp
    moreover have sx: "set (x # xs) = set ps" using x by (metis set_rotate)
    have "inflight b (p_id x) \<le> inflight b (p_id y)" if "y \<in> set xs" for y
    proof -
      from that sx have "x \<in> set ps" "y \<in> set ps" by auto
      with eq have "inflight b (p_id x) = inflight b (p_id y)" by blast
      then show ?thesis by simp
    qed
    then have "min_by_key (\<lambda>p. inflight b (p_id p)) (rotate ?n ps) = Some x"
      unfolding x by (intro min_by_key_first) blast
    ultimately show ?thesis using q by (simp add: least_inflight_def)
  qed
  with qmin lq cur show ?thesis by blast
qed

text \<open>C12. Affinity is sticky: a request that repeats the key before the affinity expires is
  served by the same provider, with its load ignored, as long as the snapshot still holds it
  (whatever the first request's lease has become since).\<close>

theorem select_sticky:
  assumes first: "select sha ttl now user all_providers (Some key) ex b = (Inr l, b1)"
    and again: "select sha ttl now' user all_providers (Some key) None (drop_lease l b1) = (r, b2)"
    and time: "now \<le> now'" "now' < now + ttl"
    and keys: "distinct (map p_id (b_providers b))"
  shows "\<exists>l2. r = Inr l2 \<and> l_provider l2 = l_provider l"
proof -
  let ?p = "l_provider l" and ?b = "drop_lease l b1"
  let ?el = "eligible_providers ?b now' user all_providers None"
  have s: "?p \<in> set (b_providers b)" "provider_is_available ?p now" "may_use b user all_providers ?p"
    "b_providers b1 = b_providers b" "b_provider_grants b1 = b_provider_grants b"
    using select_sound_fields [OF first] by (simp_all add: eligible_iff)
  obtain b0 where ac: "(l, b1) = acquire ?p (remember_affinity sha key (p_id ?p) now ttl b0)"
    by (rule select_Inr [OF first]) simp
  then have aff: "dm_get (b_affinities ?b) (affinity_hash sha key) =
      Some \<lparr>ent_provider_id = p_id ?p, ent_expires_at = now + ttl, ent_updated_at = now\<rparr>"
    by (metis balancer_simps snd_conv)
  have provs: "b_providers ?b = b_providers b" using s by (simp add: balancer_simps)
  have "may_use ?b user all_providers ?p"
    using s by (simp add: may_use_def balancer_simps)
  then have el: "?p \<in> set ?el"
    using s time(1) provs by (simp add: eligible_iff) (blast intro: available_mono)
  have uniq: "q = ?p" if "q \<in> set ?el" "p_id q = p_id ?p" for q
    using that el keys unfolding eligible_iff provs by (metis distinct_map inj_onD)
  have "find (\<lambda>q. p_id q = p_id ?p) ?el = Some ?p"
  proof (cases "find (\<lambda>q. p_id q = p_id ?p) ?el")
    case None
    with el show ?thesis by (auto simp: find_None_iff)
  next
    case (Some q)
    with uniq show ?thesis by (auto dest: find_SomeD)
  qed
  then have "affinity_provider sha ?b key ?el now' = Some ?p"
    using time(2) by (simp add: affinity_provider_def aff)
  then have "fst (choose_provider sha ?b now' (Some key) ?el) = ?p"
    by (simp add: choose_provider_def)
  moreover have "?el \<noteq> []" using el by auto
  ultimately show ?thesis
    using again by (auto simp: select_def Let_def acquire_def split: prod.splits)
qed

text \<open>Failover rebinds: selecting with the first provider excluded never returns it again,
  and the affinity of the key now points, for a full time to live, at the provider taken
  instead and is marked for persistence.\<close>

lemma select_failover_rebinds:
  assumes "select sha ttl now user all_providers (Some key) (Some first_id) b = (Inr l, b')"
  shows "p_id (l_provider l) \<noteq> first_id \<and>
     dm_get (b_affinities b') (affinity_hash sha key) =
       Some \<lparr>ent_provider_id = p_id (l_provider l), ent_expires_at = now + ttl,
             ent_updated_at = now\<rparr> \<and>
     affinity_hash sha key \<in> set (b_dirty_affinities b')"
proof -
  have "p_id (l_provider l) \<noteq> first_id"
    using select_sound_fields(1) [OF assms] by (auto simp: eligible_iff)
  moreover obtain b1 where
    ac: "(l, b') = acquire (l_provider l)
           (remember_affinity sha key (p_id (l_provider l)) now ttl b1)"
    by (rule select_Inr [OF assms]) simp
  then have "b' = snd (acquire (l_provider l)
           (remember_affinity sha key (p_id (l_provider l)) now ttl b1))"
    by (metis snd_conv)
  ultimately show ?thesis by (simp add: balancer_simps)
qed

end
