(* ===== verification/Balancer_Maint.thy ===== *)
theory Balancer_Maint
  imports Balancer_Facts
begin

text \<open>
  \<open>Balancer::maintain\<close>, which runs every second, in the three phases the code has: it copies
  the pending updates and the dirty affinities, writes them in one transaction, and then
  removes what it wrote from the pending sets. Requests keep running between the phases, so
  the third phase is a step on a balancer that may have moved on since the first.
\<close>

section \<open>The transaction\<close>

text \<open>The columns the \<open>UPDATE providers\<close> of the transaction sets.\<close>

definition sql_apply_update :: "provider_update \<Rightarrow> provider \<Rightarrow> provider" where
  "sql_apply_update u p =
     p\<lparr>p_status := (if p_manual_disabled p = 1 then ''disabled''
                    else case pu_status u of None \<Rightarrow> p_status p | Some s \<Rightarrow> s),
       p_cooldown_until := (if p_manual_disabled p = 1 then None
                    else case pu_status u of None \<Rightarrow> p_cooldown_until p
                                           | Some _ \<Rightarrow> pu_cooldown_until u),
       p_rate_limit_json := Some (pu_rate_limit_json u),
       p_last_error := (case pu_status u of None \<Rightarrow> p_last_error p | Some _ \<Rightarrow> pu_last_error u),
       p_last_used_at := opt_or (pu_last_used_at u) (p_last_used_at p),
       p_updated_at := pu_updated_at u\<rparr>"

text \<open>The upsert of a circuit event: nothing for a missing or manually disabled provider; an
  event that is already open is extended, never doubled.\<close>

definition upsert_circuit :: "string \<Rightarrow> circuit_open \<Rightarrow> database \<Rightarrow> database" where
  "upsert_circuit pid c db =
     (if \<exists>p \<in> set (db_providers db). p_id p = pid \<and> p_manual_disabled p = 0
      then if open_circuits db pid \<noteq> []
        then db\<lparr>db_circuits :=
               update_where (\<lambda>e. ce_provider_id e = pid \<and> ce_closed_at e = None)
                 (\<lambda>e. e\<lparr>ce_cause := co_cause c, ce_rate_limit_json := co_rate_limit_json c,
                        ce_cooldown_until := max (ce_cooldown_until e) (co_cooldown_until c)\<rparr>)
                 (db_circuits db)\<rparr>
        else db\<lparr>db_circuits := db_circuits db @
               [\<lparr>ce_id = co_id c, ce_provider_id = pid, ce_cause = co_cause c,
                 ce_rate_limit_json = co_rate_limit_json c, ce_opened_at = co_opened_at c,
                 ce_cooldown_until = co_cooldown_until c, ce_closed_at = None,
                 ce_resolution = None\<rparr>]\<rparr>
      else db)"

definition persist_update :: "string \<times> provider_update \<Rightarrow> database \<Rightarrow> database" where
  "persist_update iu db =
     (case iu of (pid, u) \<Rightarrow>
        update_provider_status (\<lambda>p. p_id p = pid) (sql_apply_update u)
          (case pu_circuit u of None \<Rightarrow> db | Some c \<Rightarrow> upsert_circuit pid c db))"

definition affinity_row_of :: "string \<Rightarrow> affinity_entry \<Rightarrow> affinity_row" where
  "affinity_row_of hash e =
     \<lparr>af_hash = hash, af_provider_id = ent_provider_id e, af_expires_at = ent_expires_at e,
      af_updated_at = ent_updated_at e\<rparr>"

text \<open>The upsert of an affinity, and whether it affected a row: only if its provider exists.\<close>

definition persist_affinity :: "string \<Rightarrow> affinity_entry \<Rightarrow> database \<Rightarrow> bool \<times> database" where
  "persist_affinity hash e db =
     (if provider_exists db (ent_provider_id e)
      then (True,
        db\<lparr>db_affinities :=
          (if hash \<in> af_hash ` set (db_affinities db)
           then update_where (\<lambda>r. af_hash r = hash) (\<lambda>_. affinity_row_of hash e) (db_affinities db)
           else db_affinities db @ [affinity_row_of hash e])\<rparr>)
      else (False, db))"

fun persist_affinities ::
  "(string \<times> affinity_entry) list \<Rightarrow> database \<Rightarrow>
     (string \<times> affinity_entry \<times> bool) list \<times> database" where
  "persist_affinities [] db = ([], db)"
| "persist_affinities ((hash, e) # xs) db =
     (let (persisted, db1) = persist_affinity hash e db;
          (rest, db2) = persist_affinities xs db1
      in ((hash, e, persisted) # rest, db2))"

definition recover_rows :: "i64 \<Rightarrow> database \<Rightarrow> database" where
  "recover_rows now db =
     update_provider_status
       (\<lambda>p. p_manual_disabled p = 0 \<and> p_status p = ''cooldown'' \<and>
            (case p_cooldown_until p of None \<Rightarrow> False | Some until \<Rightarrow> until \<le> now))
       (\<lambda>p. p\<lparr>p_status := ''active'', p_cooldown_until := None, p_last_error := None,
              p_updated_at := now\<rparr>) db"

definition expire_affinities :: "i64 \<Rightarrow> database \<Rightarrow> database" where
  "expire_affinities now db =
     db\<lparr>db_affinities := filter (\<lambda>r. \<not> af_expires_at r \<le> now) (db_affinities db)\<rparr>"

definition maintain_transaction ::
  "i64 \<Rightarrow> (string \<times> provider_update) list \<Rightarrow> (string \<times> affinity_entry) list \<Rightarrow> database \<Rightarrow>
     (string \<times> affinity_entry \<times> bool) list \<times> database" where
  "maintain_transaction now updates affinities db =
     (let (persisted, db1) = persist_affinities affinities (fold persist_update updates db)
      in (persisted, expire_affinities now (recover_rows now db1)))"

section \<open>Before and after\<close>

definition maintain_snapshot ::
  "balancer \<Rightarrow> (string \<times> provider_update) list \<times> (string \<times> affinity_entry) list" where
  "maintain_snapshot b =
     (b_provider_updates b,
      List.map_filter (\<lambda>hash. map_option (\<lambda>e. (hash, e)) (dm_get (b_affinities b) hash))
        (b_dirty_affinities b))"

definition settle_updates ::
  "(string \<times> provider_update) list \<Rightarrow> (string, provider_update) dashmap \<Rightarrow>
     (string, provider_update) dashmap" where
  "settle_updates updates m =
     fold (\<lambda>(pid, u) m. if dm_get m pid = Some u then dm_remove pid m else m) updates m"

definition settle_affinity :: "string \<times> affinity_entry \<times> bool \<Rightarrow> balancer \<Rightarrow> balancer" where
  "settle_affinity hep b =
     (case hep of (hash, entry, persisted) \<Rightarrow>
        if dm_get (b_affinities b) hash = Some entry
        then
          let affs = (if persisted then b_affinities b
                      else snd (dm_remove_if hash (\<lambda>current. current = entry) (b_affinities b)));
              dirty = removeAll hash (b_dirty_affinities b)
          in b\<lparr>b_affinities := affs,
               b_dirty_affinities :=
                 (if dm_contains affs hash \<and> \<not> persisted then List.insert hash dirty
                  else dirty)\<rparr>
        else b)"

definition maintain_settle ::
  "i64 \<Rightarrow> (string \<times> provider_update) list \<Rightarrow> (string \<times> affinity_entry \<times> bool) list \<Rightarrow>
     balancer \<Rightarrow> balancer" where
  "maintain_settle now updates persisted b =
     (let b1 = b\<lparr>b_provider_updates := settle_updates updates (b_provider_updates b)\<rparr>;
          b2 = fold settle_affinity persisted b1;
          b3 = b2\<lparr>b_affinities := dm_retain (\<lambda>_ e. now < ent_expires_at e) (b_affinities b2)\<rparr>
      in recover_cached_providers now b3)"

text \<open>The whole task with nothing in between. \<open>commit\<close> tells whether the transaction
  succeeds; when it does not, the error is logged and both sides stay as they were.\<close>

definition maintain ::
  "bool \<Rightarrow> i64 \<Rightarrow> balancer \<Rightarrow> database \<Rightarrow> (app_error, unit) result \<times> balancer \<times> database" where
  "maintain commit now b db =
     (let (updates, affinities) = maintain_snapshot b
      in if commit
         then let (persisted, db') = maintain_transaction now updates affinities db
              in (Inr (), maintain_settle now updates persisted b, db')
         else (Inl internal_error, b, db))"

section \<open>Coalescing\<close>

text \<open>Pending updates of one provider are merged while they wait. The contract between the
  balancer and its table: writing the merged update has the effect of writing each in turn,
  if they were merged in the order of their time stamps.\<close>

locale coalescing =
  fixes merge :: "'u \<Rightarrow> 'u \<Rightarrow> 'u"
    and apply_to :: "'u \<Rightarrow> 'r \<Rightarrow> 'r"
    and stamp :: "'u \<Rightarrow> 'a::linorder"
  assumes apply_merge: "stamp u \<le> stamp v \<Longrightarrow> apply_to (merge u v) r = apply_to v (apply_to u r)"
    and stamp_merge: "stamp (merge u v) = max (stamp u) (stamp v)"
begin

lemma stamp_fold_merge:
  "sorted (map stamp (u # us)) \<Longrightarrow> stamp (fold (\<lambda>v w. merge w v) us u) = stamp (last (u # us))"
proof (induction us arbitrary: u)
  case Nil
  show ?case by simp
next
  case (Cons v us)
  then have "stamp u \<le> stamp v" by simp
  then have m: "stamp (merge u v) = stamp v" by (simp add: stamp_merge max_def)
  with Cons.prems have "sorted (map stamp (merge u v # us))" by simp
  from Cons.IH [OF this] show ?case using m by (cases us) simp_all
qed

lemma apply_fold_merge:
  "sorted (map stamp (u # us)) \<Longrightarrow>
     apply_to (fold (\<lambda>v w. merge w v) us u) r = fold apply_to us (apply_to u r)"
proof (induction us arbitrary: u)
  case Nil
  show ?case by simp
next
  case (Cons v us)
  then have uv: "stamp u \<le> stamp v" by simp
  then have "stamp (merge u v) = stamp v" by (simp add: stamp_merge max_def)
  with Cons.prems have "sorted (map stamp (merge u v # us))" by simp
  from Cons.IH [OF this] uv show ?case by (simp add: apply_merge)
qed

end

lemma opt_or_assoc: "opt_or (opt_or a b) c = opt_or a (opt_or b c)"
  by (cases a) simp_all

interpretation pu: coalescing merge_update sql_apply_update pu_updated_at
proof unfold_locales
  show "sql_apply_update (merge_update u v) r = sql_apply_update v (sql_apply_update u r)"
    if "pu_updated_at u \<le> pu_updated_at v" for u v r
    using that
    by (cases "pu_status v"; cases "pu_status u")
      (simp_all add: sql_apply_update_def merge_update_def Let_def opt_or_assoc max_def)
qed (simp add: merge_update_def Let_def)

lemma sql_apply_fields [simp]:
  "p_id (sql_apply_update u p) = p_id p"
  "p_manual_disabled (sql_apply_update u p) = p_manual_disabled p"
  "p_owner_id (sql_apply_update u p) = p_owner_id p"
  by (simp_all add: sql_apply_update_def)

text \<open>The cache and the table apply an update the same way to an enabled provider.\<close>

lemma observe_provider_sql:
  "p_manual_disabled p = 0 \<Longrightarrow> observe_provider u p = sql_apply_update u p"
  by (cases "pu_status u") (simp_all add: observe_provider_def sql_apply_update_def Let_def)

lemma observe_provider_fields [simp]:
  "p_id (observe_provider u p) = p_id p"
  "p_manual_disabled (observe_provider u p) = p_manual_disabled p"
  by (auto simp: observe_provider_def Let_def split: option.splits)

end
