(* ===== verification/Balancer_Refine.thy ===== *)
theory Balancer_Refine
  imports Balancer_Maint
begin

text \<open>
  What the maintenance task promises: coalesced updates write what the cache shows, nothing
  observed while the transaction runs is lost, a manual disable wins, circuit events stay
  consistent with provider states, cooldowns end when their time has come, and affinities
  never outlive their provider.
\<close>

section \<open>The cache and the table\<close>

lemma update_first_find:
  assumes "\<And>x. g (f x) = g x"
  shows "find (\<lambda>x. g x = k) (update_first (\<lambda>x. g x = k) f xs) =
           map_option f (find (\<lambda>x. g x = k) xs)"
    and "k' \<noteq> k \<Longrightarrow> find (\<lambda>x. g x = k') (update_first (\<lambda>x. g x = k) f xs) =
           find (\<lambda>x. g x = k') xs"
  by (induction xs) (auto simp: assms)

definition cached :: "balancer \<Rightarrow> string \<Rightarrow> provider option" where
  "cached b pid = find (\<lambda>p. p_id p = pid) (b_providers b)"

lemma cached_observe:
  "cached (observe pid u b) q =
     (if q = pid then map_option (observe_provider u) (cached b q) else cached b q)"
  by (simp add: cached_def observe_def update_first_find)

lemma pending_observe:
  "dm_get (b_provider_updates (observe pid u b)) q =
     (if q = pid
      then Some (case dm_get (b_provider_updates b) pid of
                   None \<Rightarrow> u | Some w \<Rightarrow> merge_update w u)
      else dm_get (b_provider_updates b) q)"
  by (simp add: observe_def dm.get_insert split: option.splits)

lemma observe_fold_pending:
  "dm_get (b_provider_updates b) pid = Some w \<Longrightarrow>
     dm_get (b_provider_updates (fold (observe pid) us b)) pid =
       Some (fold (\<lambda>v w. merge_update w v) us w)"
  by (induction us arbitrary: b w) (simp_all add: pending_observe)

lemma observe_fold_cached:
  "cached b pid = Some p \<Longrightarrow> p_manual_disabled p = 0 \<Longrightarrow>
     cached (fold (observe pid) us b) pid = Some (fold sql_apply_update us p)"
proof (induction us arbitrary: b p)
  case Nil
  then show ?case by simp
next
  case (Cons u us)
  from Cons.prems have "cached (observe pid u b) pid = Some (sql_apply_update u p)"
    by (simp add: cached_observe observe_provider_sql)
  with Cons.prems Cons.IH [of "observe pid u b" "sql_apply_update u p"] show ?case by simp
qed

text \<open>C13. Coalescing is lossless: after any non-empty run of observations of one enabled
  provider, in the order of time, the single pending update, applied by the SQL statement to
  the row the cache started from, gives exactly the row the cache now shows.\<close>

theorem observe_coalesces:
  assumes "cached b pid = Some p" and "p_manual_disabled p = 0"
    and "dm_get (b_provider_updates b) pid = None"
    and "us \<noteq> []" and "sorted (map pu_updated_at us)"
  shows "\<exists>u. dm_get (b_provider_updates (fold (observe pid) us b)) pid = Some u \<and>
     cached (fold (observe pid) us b) pid = Some (sql_apply_update u p)"
proof -
  obtain v vs where us: "us = v # vs" using assms(4) by (cases us) auto
  have "dm_get (b_provider_updates (observe pid v b)) pid = Some v"
    using assms(3) by (simp add: pending_observe)
  then have "dm_get (b_provider_updates (fold (observe pid) us b)) pid =
      Some (fold (\<lambda>x w. merge_update w x) vs v)"
    using observe_fold_pending us by simp
  moreover have "cached (fold (observe pid) us b) pid = Some (fold sql_apply_update us p)"
    by (rule observe_fold_cached [OF assms(1,2)])
  moreover have "fold sql_apply_update us p =
      sql_apply_update (fold (\<lambda>x w. merge_update w x) vs v) p"
    using assms(5) by (simp add: us pu.apply_fold_merge)
  ultimately show ?thesis by simp
qed

section \<open>Nothing observed meanwhile is lost\<close>

lemma settle_updates_get:
  "dm_get (settle_updates updates m) pid =
     (if \<exists>u. (pid, u) \<in> set updates \<and> dm_get m pid = Some u then None else dm_get m pid)"
  unfolding settle_updates_def by (rule dm.get_fold_remove_if_current)

lemma settle_affinity_other:
  "h \<noteq> hash \<Longrightarrow> dm_get (b_affinities (settle_affinity (hash, e, ps) b)) h = dm_get (b_affinities b) h"
  "h \<noteq> hash \<Longrightarrow> h \<in> set (b_dirty_affinities (settle_affinity (hash, e, ps) b)) \<longleftrightarrow>
     h \<in> set (b_dirty_affinities b)"
  by (auto simp: settle_affinity_def Let_def dm_remove_if_def dm.get_remove)

lemma settle_affinity_keeps:
  assumes "dm_get (b_affinities b) h = Some v" and "h \<in> set (b_dirty_affinities b)"
    and "\<forall>e ps. (h, e, ps) \<in> set heps \<longrightarrow> e \<noteq> v"
  shows "dm_get (b_affinities (fold settle_affinity heps b)) h = Some v \<and>
     h \<in> set (b_dirty_affinities (fold settle_affinity heps b))"
  using assms
proof (induction heps arbitrary: b)
  case Nil
  then show ?case by simp
next
  case (Cons x heps)
  obtain hash e ps where x: "x = (hash, e, ps)" by (cases x) auto
  have "dm_get (b_affinities (settle_affinity x b)) h = Some v \<and>
      h \<in> set (b_dirty_affinities (settle_affinity x b))"
  proof (cases "h = hash")
    case True
    with Cons.prems x have "settle_affinity x b = b" by (auto simp: settle_affinity_def)
    with Cons.prems show ?thesis by simp
  next
    case False
    with Cons.prems show ?thesis by (simp add: x settle_affinity_other)
  qed
  with Cons.IH [of "settle_affinity x b"] Cons.prems(3) show ?case by auto
qed

lemma settle_affinity_frame [simp]:
  "b_provider_updates (settle_affinity x b) = b_provider_updates b"
  "b_inflight (settle_affinity x b) = b_inflight b"
  "b_providers (settle_affinity x b) = b_providers b"
  "b_provider_grants (settle_affinity x b) = b_provider_grants b"
  by (cases x; simp add: settle_affinity_def Let_def)+

lemma fold_settle_affinity_frame [simp]:
  "b_provider_updates (fold settle_affinity heps b) = b_provider_updates b"
  "b_inflight (fold settle_affinity heps b) = b_inflight b"
  "b_providers (fold settle_affinity heps b) = b_providers b"
  "b_provider_grants (fold settle_affinity heps b) = b_provider_grants b"
  by (induction heps arbitrary: b) simp_all

lemma settle_affinity_ok: "dm_ok (b_affinities b) \<Longrightarrow> dm_ok (b_affinities (settle_affinity x b))"
  by (auto simp: settle_affinity_def Let_def dm_remove_if_def dm.ok_remove split: prod.splits)

lemma fold_settle_affinity_ok:
  "dm_ok (b_affinities b) \<Longrightarrow> dm_ok (b_affinities (fold settle_affinity heps b))"
  by (induction heps arbitrary: b) (simp_all add: settle_affinity_ok)

lemma persist_affinities_keys:
  "map (\<lambda>(h, e, _). (h, e)) (fst (persist_affinities xs db)) = xs"
  by (induction xs db rule: persist_affinities.induct) (auto simp: Let_def split: prod.splits)

lemma persisted_from_snapshot:
  assumes "maintain_transaction now ups affs db = (persisted, db')" and "(h, e, ps) \<in> set persisted"
  shows "(h, e) \<in> set affs"
proof -
  have "map (\<lambda>(h, e, _). (h, e)) persisted = affs"
    using assms(1) persist_affinities_keys [of affs "fold persist_update ups db"]
    by (auto simp: maintain_transaction_def Let_def split: prod.splits)
  with assms(2) show ?thesis by force
qed

lemma snapshot_affinity:
  "(h, e) \<in> set (snd (maintain_snapshot b)) \<Longrightarrow> dm_get (b_affinities b) h = Some e"
  by (auto simp: maintain_snapshot_def map_filter_def split: option.splits)

lemma maintain_settle_fields:
  "b_provider_updates (maintain_settle now ups heps b) = settle_updates ups (b_provider_updates b)"
  "b_dirty_affinities (maintain_settle now ups heps b) =
     b_dirty_affinities (fold settle_affinity heps
       (b\<lparr>b_provider_updates := settle_updates ups (b_provider_updates b)\<rparr>))"
  "b_affinities (maintain_settle now ups heps b) =
     dm_retain (\<lambda>_ e. now < ent_expires_at e)
       (b_affinities (fold settle_affinity heps
          (b\<lparr>b_provider_updates := settle_updates ups (b_provider_updates b)\<rparr>)))"
  "b_inflight (maintain_settle now ups heps b) = b_inflight b"
  "b_providers (maintain_settle now ups heps b) = map (recover_provider now) (b_providers b)"
  by (simp_all add: maintain_settle_def recover_cached_providers_def Let_def)

text \<open>C14. No lost update: whatever the requests did between the snapshot and the end of the
  transaction, an update or affinity that is not the one that was written stays pending: a
  different update of a provider remains queued, and a different, live, dirty affinity keeps
  its entry and its dirty mark.\<close>

theorem maintain_keeps_concurrent_work:
  assumes snap: "maintain_snapshot b0 = (ups, affs)"
    and tx: "maintain_transaction now ups affs db = (persisted, db')"
    and ok: "dm_ok (b_provider_updates b0)" "dm_ok (b_affinities b1)"
  shows "(\<forall>pid v. dm_get (b_provider_updates b1) pid = Some v \<and>
            dm_get (b_provider_updates b0) pid \<noteq> Some v \<longrightarrow>
            dm_get (b_provider_updates (maintain_settle now ups persisted b1)) pid = Some v) \<and>
     (\<forall>h v. dm_get (b_affinities b1) h = Some v \<and> h \<in> set (b_dirty_affinities b1) \<and>
            now < ent_expires_at v \<and> dm_get (b_affinities b0) h \<noteq> Some v \<longrightarrow>
            dm_get (b_affinities (maintain_settle now ups persisted b1)) h = Some v \<and>
            h \<in> set (b_dirty_affinities (maintain_settle now ups persisted b1)))"
proof (intro conjI allI impI)
  fix pid v
  assume a: "dm_get (b_provider_updates b1) pid = Some v \<and>
    dm_get (b_provider_updates b0) pid \<noteq> Some v"
  have "ups = b_provider_updates b0" using snap by (simp add: maintain_snapshot_def)
  with a ok(1) show "dm_get (b_provider_updates (maintain_settle now ups persisted b1)) pid = Some v"
    by (simp add: maintain_settle_fields settle_updates_get dm_in_set_get)
next
  fix h v
  assume a: "dm_get (b_affinities b1) h = Some v \<and> h \<in> set (b_dirty_affinities b1) \<and>
    now < ent_expires_at v \<and> dm_get (b_affinities b0) h \<noteq> Some v"
  let ?b = "b1\<lparr>b_provider_updates := settle_updates ups (b_provider_updates b1)\<rparr>"
  have "e \<noteq> v" if "(h, e, ps) \<in> set persisted" for e ps
    using a snapshot_affinity [of h e b0] persisted_from_snapshot [OF tx that] snap by auto
  then have keep: "dm_get (b_affinities (fold settle_affinity persisted ?b)) h = Some v"
      "h \<in> set (b_dirty_affinities (fold settle_affinity persisted ?b))"
    using a settle_affinity_keeps [of ?b h v persisted] by auto
  have "dm_ok (b_affinities (fold settle_affinity persisted ?b))"
    using ok(2) by (intro fold_settle_affinity_ok) simp
  with keep a show "dm_get (b_affinities (maintain_settle now ups persisted b1)) h = Some v"
    and "h \<in> set (b_dirty_affinities (maintain_settle now ups persisted b1))"
    by (simp_all add: maintain_settle_fields dm.get_retain)
qed

end
