(* ===== verification/Balancer_Tx.thy ===== *)
theory Balancer_Tx
  imports Balancer_Refine
begin

text \<open>
  The database side of maintenance: the circuit-event invariant, the rows of manually
  disabled providers, recovery from cooldown, and the foreign keys of affinities.
\<close>

section \<open>Rows through the transaction\<close>

lemma upsert_circuit_frame [simp]:
  "db_providers (upsert_circuit pid c db) = db_providers db"
  "db_affinities (upsert_circuit pid c db) = db_affinities db"
  "db_users (upsert_circuit pid c db) = db_users db"
  "db_grants (upsert_circuit pid c db) = db_grants db"
  by (simp_all add: upsert_circuit_def)

lemma provider_row_upsert [simp]: "provider_row (upsert_circuit pid c db) q = provider_row db q"
  by (simp add: provider_row_def)

lemma provider_row_persist:
  "provider_row (persist_update (pid, u) db) q =
     (if q = pid then map_option (sql_apply_update u) (provider_row db q) else provider_row db q)"
proof -
  have "provider_row (case pu_circuit u of None \<Rightarrow> db | Some c \<Rightarrow> upsert_circuit pid c db) q =
      provider_row db q"
    by (simp split: option.splits)
  then show ?thesis
    by (cases "provider_row db q")
      (auto simp: persist_update_def provider_row_update dest: provider_row_SomeD)
qed

lemma provider_ids_persist:
  "map p_id (db_providers (persist_update (pid, u) db)) = map p_id (db_providers db)"
  by (simp add: persist_update_def update_provider_status_def map_update_where split: option.splits)

lemma provider_ids_fold_persist:
  "map p_id (db_providers (fold persist_update ups db)) = map p_id (db_providers db)"
proof (induction ups arbitrary: db)
  case (Cons x ups)
  obtain pid u where "x = (pid, u)" by (cases x)
  with Cons show ?case by (simp add: provider_ids_persist)
qed simp

text \<open>The row of a provider after the updates of a snapshot: at most one update is its own.\<close>

lemma provider_row_fold_persist:
  "distinct (map fst ups) \<Longrightarrow>
     provider_row (fold persist_update ups db) q =
       (case map_of ups q of
          None \<Rightarrow> provider_row db q
        | Some u \<Rightarrow> map_option (sql_apply_update u) (provider_row db q))"
proof (induction ups arbitrary: db)
  case Nil
  show ?case by simp
next
  case (Cons x ups)
  obtain pid u where x: "x = (pid, u)" by (cases x)
  from Cons.prems x have "pid \<notin> fst ` set ups" by simp
  then have "map_of ups pid = None" by (simp add: map_of_eq_None_iff)
  with Cons x show ?case by (simp add: provider_row_persist split: option.splits)
qed

lemma persist_affinity_frame [simp]:
  "db_providers (snd (persist_affinity h e db)) = db_providers db"
  "db_circuits (snd (persist_affinity h e db)) = db_circuits db"
  "db_users (snd (persist_affinity h e db)) = db_users db"
  by (simp_all add: persist_affinity_def)

lemma persist_affinities_frame [simp]:
  "db_providers (snd (persist_affinities xs db)) = db_providers db"
  "db_circuits (snd (persist_affinities xs db)) = db_circuits db"
  "db_users (snd (persist_affinities xs db)) = db_users db"
proof (induction xs db rule: persist_affinities.induct)
  case (2 hash e xs db)
  {
    case 1
    show ?case using 2 by (simp add: Let_def split: prod.splits) (metis persist_affinity_frame(1) snd_conv)
  next
    case 2
    show ?case using "2.IH"(2) by (simp add: Let_def split: prod.splits) (metis persist_affinity_frame(2) snd_conv)
  next
    case 3
    show ?case using "2.IH"(3) by (simp add: Let_def split: prod.splits) (metis persist_affinity_frame(3) snd_conv)
  }
qed simp_all

lemma provider_row_persist_affinities [simp]:
  "provider_row (snd (persist_affinities xs db)) q = provider_row db q"
  by (simp add: provider_row_def)

section \<open>Circuit events\<close>

definition updates_wf :: "(string \<times> provider_update) list \<Rightarrow> bool" where
  "updates_wf ups \<longleftrightarrow>
     (\<forall>(pid, u) \<in> set ups. pu_circuit u \<noteq> None \<longrightarrow> pu_status u = Some ''cooldown'')"

lemma open_of_extend:
  "length (open_of q (update_where (\<lambda>e. ce_provider_id e = pid \<and> ce_closed_at e = None)
       (\<lambda>e. e\<lparr>ce_cause := a e, ce_rate_limit_json := b e, ce_cooldown_until := c e\<rparr>) evs)) =
     length (open_of q evs)"
  by (induction evs) (auto simp: open_of_def update_where_def)

lemma open_circuits_upsert:
  "length (open_circuits (upsert_circuit pid c db) q) =
     (if q = pid \<and> open_circuits db pid = [] \<and>
         (\<exists>p \<in> set (db_providers db). p_id p = pid \<and> p_manual_disabled p = 0)
      then 1 else length (open_circuits db q))"
  by (auto simp: upsert_circuit_def open_circuits_open_of open_of_extend)
    (simp_all add: open_of_def)

lemma open_circuits_update_status:
  assumes "\<And>p. p_id (f p) = p_id p"
  shows "open_circuits (update_provider_status w f db) q =
      (if \<exists>p \<in> set (db_providers db). w p \<and> p_id p = q \<and> p_status p = ''cooldown'' \<and>
            p_status (f p) \<noteq> ''cooldown''
       then [] else open_circuits db q)"
  by (auto simp: open_circuits_open_of update_provider_status_def open_of_fold_trigger assms)

lemma persist_update_circuits_wf:
  assumes wf: "circuits_wf db" and keys: "distinct (map p_id (db_providers db))"
    and u: "pu_circuit u \<noteq> None \<longrightarrow> pu_status u = Some ''cooldown''"
  shows "circuits_wf (persist_update (pid, u) db)"
proof (cases "pu_circuit u")
  case None
  then show ?thesis
    using circuits_wf_update_status [OF wf keys] by (simp add: persist_update_def)
next
  case (Some c)
  let ?db1 = "upsert_circuit pid c db"
  let ?db2 = "update_provider_status (\<lambda>p. p_id p = pid) (sql_apply_update u) ?db1"
  have db2: "persist_update (pid, u) db = ?db2" by (simp add: persist_update_def Some)
  have st: "pu_status u = Some ''cooldown''" using u Some by simp
  have opn: "open_circuits ?db2 q =
      (if \<exists>p \<in> set (db_providers db). p_id p = pid \<and> p_id p = q \<and> p_status p = ''cooldown'' \<and>
            p_manual_disabled p = 1
       then [] else open_circuits ?db1 q)" for q
    by (auto simp: open_circuits_update_status sql_apply_update_def st)
  have one: "length (open_circuits ?db2 q) \<le> 1" for q
    using wf by (auto simp: opn open_circuits_upsert circuits_wf_def)
  have cool: "p_status r = ''cooldown''"
    if r: "r \<in> set (db_providers ?db2)" and o: "open_circuits ?db2 (p_id r) \<noteq> []" for r
  proof -
    from r obtain p where p: "p \<in> set (db_providers db)"
      "r = (if p_id p = pid then sql_apply_update u p else p)"
      by (auto simp: update_provider_status_def in_update_where)
    show ?thesis
    proof (cases "p_id p = pid")
      case False
      with o p have "length (open_circuits ?db1 (p_id p)) \<noteq> 0"
        by (auto simp: opn split: if_splits)
      with False have "open_circuits db (p_id p) \<noteq> []" by (auto simp: open_circuits_upsert)
      with wf p False show ?thesis by (simp add: circuits_wf_def)
    next
      case True
      show ?thesis
      proof (rule ccontr)
        assume "p_status r \<noteq> ''cooldown''"
        with p True have man: "p_manual_disabled p = 1"
          by (auto simp: sql_apply_update_def st split: if_splits)
        have only: "q = p" if "q \<in> set (db_providers db)" "p_id q = pid" for q
          using that p(1) True keys by (metis distinct_map inj_onD)
        from o p True have "p_status p \<noteq> ''cooldown''" "length (open_circuits ?db1 pid) \<noteq> 0"
          using man by (auto simp: opn split: if_splits)
        moreover from this only man have "open_circuits db pid \<noteq> []"
          by (auto simp: open_circuits_upsert split: if_splits)
        ultimately show False using wf p(1) True by (auto simp: circuits_wf_def)
      qed
    qed
  qed
  from one cool show ?thesis by (auto simp: db2 circuits_wf_def)
qed

lemma fold_persist_circuits_wf:
  "circuits_wf db \<Longrightarrow> distinct (map p_id (db_providers db)) \<Longrightarrow> updates_wf ups \<Longrightarrow>
     circuits_wf (fold persist_update ups db)"
proof (induction ups arbitrary: db)
  case (Cons x ups)
  obtain pid u where x: "x = (pid, u)" by (cases x)
  have "circuits_wf (persist_update x db)"
    using Cons.prems x by (auto simp: updates_wf_def intro: persist_update_circuits_wf)
  moreover have "distinct (map p_id (db_providers (persist_update x db)))"
    using Cons.prems x by (simp add: provider_ids_persist)
  moreover have "updates_wf ups" using Cons.prems by (simp add: updates_wf_def)
  ultimately show ?case using Cons.IH by simp
qed simp

lemma circuits_wf_cong:
  "db_providers db' = db_providers db \<Longrightarrow> db_circuits db' = db_circuits db \<Longrightarrow>
     circuits_wf db' = circuits_wf db"
  by (simp add: circuits_wf_def open_circuits_def)

lemma expire_affinities_frame [simp]:
  "db_providers (expire_affinities now db) = db_providers db"
  "db_circuits (expire_affinities now db) = db_circuits db"
  by (simp_all add: expire_affinities_def)

lemma maintain_transaction_snd:
  "snd (maintain_transaction now ups affs db) =
     expire_affinities now (recover_rows now
       (snd (persist_affinities affs (fold persist_update ups db))))"
  by (simp add: maintain_transaction_def Let_def split: prod.splits)

text \<open>Pending updates stay well formed: a circuit only ever rides on a cooldown.\<close>

lemma response_update_wf:
  "pu_circuit (response_update parse render uuid now status body) \<noteq> None \<longrightarrow>
     pu_status (response_update parse render uuid now status body) = Some ''cooldown''"
  by (auto simp: response_update_def plain_update_def Let_def split: option.splits)

lemma merge_update_wf:
  "(pu_circuit u \<noteq> None \<longrightarrow> pu_status u = Some ''cooldown'') \<Longrightarrow>
   (pu_circuit v \<noteq> None \<longrightarrow> pu_status v = Some ''cooldown'') \<Longrightarrow>
     pu_circuit (merge_update u v) \<noteq> None \<longrightarrow> pu_status (merge_update u v) = Some ''cooldown''"
  by (auto simp: merge_update_def Let_def)

text \<open>Maintenance keeps the circuit history consistent: if every provider has at most one
  open circuit event, and only while it is in cooldown, then this still holds after the
  transaction, whatever well-formed updates were pending.\<close>

theorem maintain_keeps_circuits:
  assumes "circuits_wf db" and "distinct (map p_id (db_providers db))" and "updates_wf ups"
  shows "circuits_wf (snd (maintain_transaction now ups affs db))"
proof -
  let ?db1 = "snd (persist_affinities affs (fold persist_update ups db))"
  have "circuits_wf ?db1"
    using fold_persist_circuits_wf [OF assms] by (simp cong: circuits_wf_cong)
  moreover have "distinct (map p_id (db_providers ?db1))"
    using assms(2) by (simp add: provider_ids_fold_persist)
  ultimately have "circuits_wf (recover_rows now ?db1)"
    unfolding recover_rows_def by (rule circuits_wf_update_status) simp
  then show ?thesis by (simp add: maintain_transaction_snd cong: circuits_wf_cong)
qed

text \<open>Every pending update the balancer ever holds is well formed: recording the response
  to an upstream call keeps it so, for any status and body.\<close>

lemma track_response_keeps_updates_wf:
  assumes "updates_wf (b_provider_updates b)" and "dm_ok (b_provider_updates b)"
  shows "updates_wf (b_provider_updates
           (track_response parse render uuid now pid status body b)) \<and>
     dm_ok (b_provider_updates (track_response parse render uuid now pid status body b))"
proof -
  let ?b = "track_response parse render uuid now pid status body b"
  have ok: "dm_ok (b_provider_updates ?b)"
    using assms(2) by (auto simp: track_response_def observe_def split: option.splits)
  have "pu_circuit u \<noteq> None \<longrightarrow> pu_status u = Some ''cooldown''"
    if "(q, u) \<in> set (b_provider_updates ?b)" for q u
  proof -
    from that ok have g: "dm_get (b_provider_updates ?b) q = Some u" by (simp add: dm_in_set_get)
    show ?thesis
    proof (cases "q = pid")
      case False
      with g have "(q, u) \<in> set (b_provider_updates b)"
        by (simp add: track_response_def pending_observe dm_get_in_set)
      with assms(1) show ?thesis by (auto simp: updates_wf_def)
    next
      case True
      have old: "pu_circuit w \<noteq> None \<longrightarrow> pu_status w = Some ''cooldown''"
        if "dm_get (b_provider_updates b) pid = Some w" for w
        using assms(1) dm_get_in_set [OF that] by (auto simp: updates_wf_def)
      show ?thesis
      proof (cases "dm_get (b_provider_updates b) pid")
        case None
        with g True have "u = response_update parse render uuid now status body"
          by (simp add: track_response_def pending_observe)
        then show ?thesis using response_update_wf by metis
      next
        case (Some w)
        with g True have "u = merge_update w (response_update parse render uuid now status body)"
          by (simp add: track_response_def pending_observe)
        then show ?thesis using merge_update_wf [OF old [OF Some] response_update_wf] by metis
      qed
    qed
  qed
  with ok show ?thesis by (auto simp: updates_wf_def)
qed

section \<open>Rows after the transaction\<close>

lemma recover_rows_row:
  "provider_row (recover_rows now db) q = map_option (recover_provider now) (provider_row db q)"
  unfolding recover_rows_def
  by (subst provider_row_update) (auto simp: recover_provider_def intro!: option.map_cong)

lemma transaction_row:
  assumes "dm_ok ups"
  shows "provider_row (snd (maintain_transaction now ups affs db)) q =
     map_option (recover_provider now)
       (case dm_get ups q of
          None \<Rightarrow> provider_row db q
        | Some u \<Rightarrow> map_option (sql_apply_update u) (provider_row db q))"
proof -
  have "provider_row (expire_affinities now d) q = provider_row d q" for d
    by (simp add: provider_row_def)
  then show ?thesis
    using assms
    by (simp add: maintain_transaction_snd recover_rows_row provider_row_fold_persist dm_ok_def
        dm_get_def)
qed

lemma recover_provider_fields [simp]:
  "p_id (recover_provider now p) = p_id p"
  "p_manual_disabled (recover_provider now p) = p_manual_disabled p"
  by (simp_all add: recover_provider_def)

text \<open>A manual disable wins over everything upstream responses can report: the row of a
  manually disabled provider is still disabled after the transaction, with no cooldown left
  to end, so it is not available at any later time.\<close>

theorem maintain_respects_manual_disable:
  assumes "provider_row db pid = Some p" and "p_manual_disabled p = 1" and "p_status p = ''disabled''"
    and "dm_ok ups"
  shows "\<exists>r. provider_row (snd (maintain_transaction now ups affs db)) pid = Some r \<and>
     p_manual_disabled r = 1 \<and> p_status r = ''disabled'' \<and> (\<forall>t. \<not> provider_is_available r t)"
  using assms
  by (cases "dm_get ups pid")
    (auto simp: transaction_row recover_provider_def sql_apply_update_def provider_is_available_def)

lemma filter_update_other:
  "(\<And>e. w e \<Longrightarrow> \<not> q e \<and> \<not> q (f e)) \<Longrightarrow> filter q (update_where w f evs) = filter q evs"
  by (induction evs) (auto simp: update_where_def)

text \<open>Cooldown ends exactly on time: for an enabled provider in cooldown with no newer
  report pending, the transaction makes it active, without a cooldown, and closes its open
  circuit event if the cooldown has run out; otherwise row and open event stay as they are.\<close>

theorem maintain_recovers_on_time:
  assumes row: "provider_row db pid = Some p" and keys: "distinct (map p_id (db_providers db))"
    and p: "p_manual_disabled p = 0" "p_status p = ''cooldown''" "p_cooldown_until p = Some until"
    and ups: "dm_ok ups" "dm_get ups pid = None"
  shows "provider_row (snd (maintain_transaction now ups affs db)) pid =
       Some (if until \<le> now
             then p\<lparr>p_status := ''active'', p_cooldown_until := None, p_last_error := None,
                    p_updated_at := now\<rparr>
             else p) \<and>
     open_circuits (snd (maintain_transaction now ups affs db)) pid =
       (if until \<le> now then [] else open_circuits db pid)"
proof -
  let ?db1 = "snd (persist_affinities affs (fold persist_update ups db))"
  have other: "open_circuits (fold persist_update us d) pid = open_circuits d pid"
    if "pid \<notin> fst ` set us" for us d
    using that
  proof (induction us arbitrary: d)
    case (Cons x us)
    obtain q u where x: "x = (q, u)" by (cases x)
    with Cons.prems have "q \<noteq> pid" by auto
    then have "open_circuits (upsert_circuit q c d) pid = open_circuits d pid" for c
      by (auto simp: upsert_circuit_def open_circuits_def intro: filter_update_other)
    then have "open_circuits (persist_update x d) pid = open_circuits d pid"
      using \<open>q \<noteq> pid\<close>
      by (auto simp: x persist_update_def open_circuits_update_status split: option.splits)
    with Cons show ?case by simp
  qed simp
  have "pid \<notin> fst ` set ups" using ups by (auto simp: dm_get_def map_of_eq_None_iff)
  then have o1: "open_circuits ?db1 pid = open_circuits db pid"
    using other [of ups db] by (simp add: open_circuits_def)
  have row1: "provider_row ?db1 pid = Some p"
    using row ups by (simp add: provider_row_fold_persist dm_ok_def dm_get_def)
  then have pin: "p \<in> set (db_providers ?db1)" "p_id p = pid"
    by (auto dest: provider_row_SomeD)
  have only: "q = p" if "q \<in> set (db_providers ?db1)" "p_id q = pid" for q
  proof -
    have "distinct (map p_id (db_providers ?db1))" using keys by (simp add: provider_ids_fold_persist)
    with that pin show ?thesis by (metis distinct_map inj_onD)
  qed
  have "open_circuits (snd (maintain_transaction now ups affs db)) pid =
      open_circuits (recover_rows now ?db1) pid"
    by (simp add: maintain_transaction_snd open_circuits_def)
  also have "\<dots> = (if \<exists>q \<in> set (db_providers ?db1). p_id q = pid \<and> p_manual_disabled q = 0 \<and>
        p_status q = ''cooldown'' \<and>
        (case p_cooldown_until q of None \<Rightarrow> False | Some t \<Rightarrow> t \<le> now)
      then [] else open_circuits db pid)"
    unfolding recover_rows_def
    by (subst open_circuits_update_status, simp, rule if_cong) (auto simp: o1)
  also have "(\<exists>q \<in> set (db_providers ?db1). p_id q = pid \<and> p_manual_disabled q = 0 \<and>
        p_status q = ''cooldown'' \<and>
        (case p_cooldown_until q of None \<Rightarrow> False | Some t \<Rightarrow> t \<le> now)) \<longleftrightarrow> until \<le> now"
  proof
    assume "until \<le> now"
    with pin p show "\<exists>q \<in> set (db_providers ?db1). p_id q = pid \<and> p_manual_disabled q = 0 \<and>
        p_status q = ''cooldown'' \<and>
        (case p_cooldown_until q of None \<Rightarrow> False | Some t \<Rightarrow> t \<le> now)"
      by (intro bexI [of _ p]) simp_all
  qed (use only p in auto)
  finally show ?thesis
    using ups row p by (simp add: transaction_row recover_provider_def)
qed

section \<open>Publishing the cache\<close>

definition with_pending :: "balancer \<Rightarrow> provider \<Rightarrow> provider" where
  "with_pending b r =
     (case dm_get (b_provider_updates b) (p_id r) of
        None \<Rightarrow> r
      | Some u \<Rightarrow> sql_apply_update u r)"

text \<open>The cache shows the table as it will be once the pending updates are written.\<close>

definition cache_agrees :: "database \<Rightarrow> balancer \<Rightarrow> bool" where
  "cache_agrees db b \<longleftrightarrow>
     (\<forall>pid p r. cached b pid = Some p \<and> provider_row db pid = Some r \<and> p_manual_disabled r = 0 \<longrightarrow>
        p = with_pending b r)"

lemma settle_all: "dm_ok m \<Longrightarrow> settle_updates m m = []"
proof -
  assume ok: "dm_ok m"
  have ok': "dm_ok (settle_updates m m)"
    unfolding settle_updates_def using ok by (rule dm.ok_fold_remove_if_current)
  have "dm_get (settle_updates m m) k = None" for k
    using dm_in_set_get [OF ok] by (auto simp: settle_updates_get)
  then have "\<not> (k, v) \<in> set (settle_updates m m)" for k v
    using dm_in_set_get [OF ok'] by simp
  then show ?thesis by (metis list.set_intros(1) neq_Nil_conv surj_pair)
qed

lemma cached_settle: "cached (maintain_settle now ups heps b) q = map_option (recover_provider now) (cached b q)"
proof -
  have "find (\<lambda>p. p_id p = q) (map (recover_provider now) ps) =
      map_option (recover_provider now) (find (\<lambda>p. p_id p = q) ps)" for ps
    by (induction ps) auto
  then show ?thesis by (simp add: cached_def maintain_settle_fields)
qed

text \<open>Maintenance publishes the cache: if the cached providers are the table's rows with
  the pending updates applied, then after an undisturbed run of the task nothing is pending
  and every enabled provider reads the same in the cache and in the table.\<close>

lemma maintain_publishes_cache:
  assumes "cache_agrees db b" and "dm_ok (b_provider_updates b)"
    and run: "maintain True now b db = (Inr (), b', db')"
  shows "b_provider_updates b' = [] \<and>
     (\<forall>pid p r. cached b' pid = Some p \<and> provider_row db' pid = Some r \<and>
        p_manual_disabled r = 0 \<longrightarrow> p = r)"
proof -
  obtain affs where snap: "maintain_snapshot b = (b_provider_updates b, affs)"
    by (simp add: maintain_snapshot_def)
  obtain heps where b': "b' = maintain_settle now (b_provider_updates b) heps b"
    and db': "db' = snd (maintain_transaction now (b_provider_updates b) affs db)"
    using run by (auto simp: maintain_def snap split: prod.splits)
  have "p = r" if c: "cached b' pid = Some p" and r: "provider_row db' pid = Some r"
    and m: "p_manual_disabled r = 0" for pid p r
  proof -
    from c obtain p0 where p0: "cached b pid = Some p0" "p = recover_provider now p0"
      by (auto simp: b' cached_settle)
    from r obtain r0 where "provider_row db pid = Some r0"
      using assms(2) by (auto simp: db' transaction_row split: option.splits)
    with r have r0: "provider_row db pid = Some r0" "r = recover_provider now (with_pending b r0)"
      using assms(2) provider_row_SomeD [of db pid r0]
      by (auto simp: db' transaction_row with_pending_def split: option.splits)
    with m have "p_manual_disabled r0 = 0"
      by (simp add: with_pending_def split: option.splits)
    with assms(1) p0 r0 have "p0 = with_pending b r0" by (auto simp: cache_agrees_def)
    with p0 r0 show ?thesis by simp
  qed
  moreover have "b_provider_updates b' = []"
    using assms(2) by (simp add: b' maintain_settle_fields settle_all)
  ultimately show ?thesis by blast
qed

section \<open>Reloading over pending updates\<close>

lemma cached_reload:
  assumes "distinct (map p_id (db_providers db))"
  shows "cached (reload_providers db b) pid = provider_row db pid"
proof (cases "provider_row db pid")
  case None
  then have "pid \<notin> p_id ` set (db_providers db)"
    by (simp add: provider_row_None_iff provider_exists_def)
  then show ?thesis
    using None by (auto simp: cached_def reload_providers_def provider_order_def find_None_iff)
next
  case (Some p)
  then have p: "p \<in> set (db_providers db)" "p_id p = pid" by (auto dest: provider_row_SomeD)
  let ?ps = "provider_order (db_providers db)"
  have "distinct (map p_id ?ps)"
    using assms by (simp add: provider_order_def distinct_map)
  moreover have "p \<in> set ?ps" using p by (simp add: provider_order_def)
  ultimately have "find (\<lambda>q. p_id q = p_id p) ?ps = Some p" by (rule find_unique)
  with Some p show ?thesis by (simp add: cached_def reload_providers_def)
qed

lemma maintain_cached:
  "maintain True now b db = (r, b', db') \<Longrightarrow> cached b' q = map_option (recover_provider now) (cached b q)"
  by (auto simp: maintain_def Let_def cached_settle split: prod.splits)

lemma maintain_row:
  "maintain True now b db = (r, b', db') \<Longrightarrow> dm_ok (b_provider_updates b) \<Longrightarrow>
     provider_row db' q = map_option (recover_provider now)
       (case dm_get (b_provider_updates b) q of
          None \<Rightarrow> provider_row db q
        | Some u \<Rightarrow> map_option (sql_apply_update u) (provider_row db q))"
  using transaction_row [of "b_provider_updates b" now "snd (maintain_snapshot b)" db q]
  by (auto simp: maintain_def Let_def maintain_snapshot_def split: prod.splits)

text \<open>C15. A reload between an observation and its write makes the cache forget it for good: when
  the table is read back (any administrative change does that) before the pending status of an
  active provider is written, the next maintenance puts the status into the table while the
  cache keeps the active row, so that the provider stays selectable although its row is not.\<close>

theorem reload_forgets_observation:
  assumes keys: "distinct (map p_id (db_providers db))" and row: "provider_row db pid = Some p"
    and p: "p_manual_disabled p = 0" "p_status p = ''active''"
    and u: "pu_status u = Some s" "s \<noteq> ''active''"
      "s = ''cooldown'' \<longrightarrow> (case pu_cooldown_until u of None \<Rightarrow> True | Some t \<Rightarrow> now < t)"
    and b: "dm_ok (b_provider_updates b)" "dm_get (b_provider_updates b) pid = None"
    and run: "maintain True now (reload_providers db (observe pid u b)) db = (Inr (), b', db')"
  shows "\<exists>q r. cached b' pid = Some q \<and> provider_is_available q now \<and>
     provider_row db' pid = Some r \<and> p_status r = s \<and> \<not> provider_is_available r now"
proof -
  have pend: "dm_get (b_provider_updates (reload_providers db (observe pid u b))) pid = Some u"
    and ok: "dm_ok (b_provider_updates (reload_providers db (observe pid u b)))"
    using b by (simp_all add: reload_providers_def observe_def dm.ok_insert dm.get_insert)
  have "recover_provider now p = p" using p by (simp add: recover_provider_def)
  then have "cached b' pid = Some p"
    unfolding maintain_cached [OF run] cached_reload [OF keys] row by simp
  moreover have "provider_is_available p now" using p by (simp add: provider_is_available_def)
  moreover have r: "provider_row db' pid = Some (recover_provider now (sql_apply_update u p))"
    unfolding maintain_row [OF run ok] pend row by simp
  moreover have f: "p_status (sql_apply_update u p) = s"
    "p_cooldown_until (sql_apply_update u p) = pu_cooldown_until u"
    using p u by (simp_all add: sql_apply_update_def)
  moreover have "\<not> provider_is_available (sql_apply_update u p) now"
    unfolding provider_is_available_def f using u(2,3) by (auto split: option.splits)
  moreover have "recover_provider now (sql_apply_update u p) = sql_apply_update u p"
    unfolding recover_provider_def f using u(3) by (auto split: option.splits)
  ultimately show ?thesis by auto
qed

end
