(* ===== verification/Balancer_Machine.thy ===== *)
theory Balancer_Machine
  imports Balancer_Tx
begin

text \<open>
  The balancer under concurrent use: requests select and release leases, responses are
  observed, snapshots are reloaded, providers are forgotten and maintenance settles, in any
  order. The state carries the leases that are out and the providers that were forgotten;
  the invariant is that the in-flight counters count exactly those leases.
\<close>

record lb =
  lb_balancer :: balancer
  lb_leases :: "string list"
  lb_forgotten :: "string set"

definition lb_init :: "i64 \<Rightarrow> database \<Rightarrow> lb" where
  "lb_init now db =
     \<lparr>lb_balancer = hydrate now db balancer_default, lb_leases = [], lb_forgotten = {}\<rparr>"

inductive lb_step :: "lb \<Rightarrow> lb \<Rightarrow> bool" where
  leased: "select sha ttl now user allp aff ex (lb_balancer s) = (Inr l, b') \<Longrightarrow>
     lb_step s (s\<lparr>lb_balancer := b', lb_leases := p_id (l_provider l) # lb_leases s\<rparr>)"
| refused: "select sha ttl now user allp aff ex (lb_balancer s) = (Inl e, b') \<Longrightarrow>
     lb_step s (s\<lparr>lb_balancer := b'\<rparr>)"
| released: "p_id (l_provider l) \<in> set (lb_leases s) \<Longrightarrow>
     lb_step s (s\<lparr>lb_balancer := drop_lease l (lb_balancer s),
                  lb_leases := remove1 (p_id (l_provider l)) (lb_leases s)\<rparr>)"
| observed: "lb_step s (s\<lparr>lb_balancer := observe pid u (lb_balancer s)\<rparr>)"
| reloaded: "lb_step s (s\<lparr>lb_balancer := reload_providers db (lb_balancer s)\<rparr>)"
| settled: "lb_step s (s\<lparr>lb_balancer := maintain_settle now ups heps (lb_balancer s)\<rparr>)"
| forgot: "lb_step s (s\<lparr>lb_balancer := forget_provider pid (lb_balancer s),
                        lb_forgotten := insert pid (lb_forgotten s)\<rparr>)"

inductive_cases lb_stepE: "lb_step s t"

inductive lb_reachable :: "lb \<Rightarrow> bool" where
  start: "lb_reachable (lb_init now db)"
| step: "lb_reachable s \<Longrightarrow> lb_step s t \<Longrightarrow> lb_reachable t"

section \<open>Frames of the steps\<close>

lemma count_list_remove1:
  "count_list (remove1 x xs) q = (if q = x then count_list xs q - 1 else count_list xs q)"
  by (induction xs) auto

lemma count_list_pos: "q \<in> set xs \<Longrightarrow> 1 \<le> count_list xs q"
  by (induction xs) auto

lemma in_set_remove1D: "q \<in> set (remove1 x xs) \<Longrightarrow> q \<in> set xs"
  by (rule subsetD [OF set_remove1_subset])

lemma drop_lease_contains:
  "dm_contains (b_inflight (drop_lease l b)) q \<longleftrightarrow> dm_contains (b_inflight b) q"
  by (auto simp: drop_lease_def dm_contains_def dm.get_insert split: option.splits)

lemma inflight_cong: "b_inflight b = b_inflight b' \<Longrightarrow> inflight b q = inflight b' q"
  by (simp add: inflight_def)

lemma observe_inflight [simp]: "b_inflight (observe pid u b) = b_inflight b"
  by (simp add: observe_def)

lemma reload_inflight [simp]: "b_inflight (reload_providers db b) = b_inflight b"
  by (simp add: reload_providers_def)

lemma forget_affinity_frame [simp]:
  "b_inflight (forget_affinity pid h b) = b_inflight b"
  "b_providers (forget_affinity pid h b) = b_providers b"
  "b_provider_updates (forget_affinity pid h b) = b_provider_updates b"
  "b_provider_grants (forget_affinity pid h b) = b_provider_grants b"
  by (simp_all add: forget_affinity_def Let_def split: prod.splits)

lemma fold_forget_affinity_frame [simp]:
  "b_inflight (fold (forget_affinity pid) hs b) = b_inflight b"
  "b_providers (fold (forget_affinity pid) hs b) = b_providers b"
  "b_provider_updates (fold (forget_affinity pid) hs b) = b_provider_updates b"
  "b_provider_grants (fold (forget_affinity pid) hs b) = b_provider_grants b"
  by (induction hs arbitrary: b) simp_all

lemma forget_provider_fields:
  "b_inflight (forget_provider pid b) = dm_remove pid (b_inflight b)"
  "b_providers (forget_provider pid b) = filter (\<lambda>p. p_id p \<noteq> pid) (b_providers b)"
  "b_provider_updates (forget_provider pid b) = dm_remove pid (b_provider_updates b)"
  "b_provider_grants (forget_provider pid b) = dm_remove pid (b_provider_grants b)"
  by (simp_all add: forget_provider_def Let_def)

lemma inflight_forget: "q \<noteq> pid \<Longrightarrow> inflight (forget_provider pid b) q = inflight b q"
  by (simp add: inflight_def forget_provider_fields dm.get_remove)

text \<open>A grant of a lease, seen from the counters.\<close>

lemma select_inflight:
  assumes "select sha ttl now u allp aff ex b = (Inr l, b')"
  shows "inflight b' q = inflight b q + (if q = p_id (l_provider l) then 1 else 0)"
    and "dm_contains (b_inflight b') q \<longleftrightarrow>
           q = p_id (l_provider l) \<or> dm_contains (b_inflight b) q"
proof -
  show "inflight b' q = inflight b q + (if q = p_id (l_provider l) then 1 else 0)"
    using select_sound_fields [OF assms] by simp
  obtain b1 where b1: "b1 = b \<or> b1 = b\<lparr>b_cursor := b_cursor b + 1\<rparr>"
    and ac: "(l, b') = acquire (l_provider l)
           (case aff of Some key \<Rightarrow> remember_affinity sha key (p_id (l_provider l)) now ttl b1
                      | None \<Rightarrow> b1)" (is "_ = acquire _ ?b2")
    by (rule select_Inr [OF assms])
  have "b' = snd (acquire (l_provider l) ?b2)" using ac by (metis snd_conv)
  moreover have "b_inflight ?b2 = b_inflight b"
    using b1 by (auto simp: balancer_simps split: option.splits)
  ultimately show "dm_contains (b_inflight b') q \<longleftrightarrow>
      q = p_id (l_provider l) \<or> dm_contains (b_inflight b) q"
    by (simp add: contains_acquire)
qed

section \<open>Lease accounting\<close>

definition lease_inv :: "lb \<Rightarrow> bool" where
  "lease_inv s \<longleftrightarrow>
     (\<forall>q. q \<notin> lb_forgotten s \<longrightarrow>
        inflight (lb_balancer s) q = of_nat (count_list (lb_leases s) q) \<and>
        (q \<in> set (lb_leases s) \<longrightarrow> dm_contains (b_inflight (lb_balancer s)) q))"

lemma lease_inv_init: "lease_inv (lb_init now db)"
  by (simp add: lease_inv_def lb_init_def hydrate_def reload_providers_def balancer_default_def
      inflight_def Let_def)

lemma lease_inv_step: "lb_step s t \<Longrightarrow> lease_inv s \<Longrightarrow> lease_inv t"
proof (induction rule: lb_step.induct)
  case (leased sha ttl now user allp aff ex s l b')
  then show ?case by (auto simp: lease_inv_def select_inflight)
next
  case (refused sha ttl now user allp aff ex s e b')
  then have "b' = lb_balancer s"
    by (auto simp: select_def Let_def split: prod.splits if_splits)
  with refused show ?case by (simp add: lease_inv_def)
next
  case (released l s)
  let ?q = "p_id (l_provider l)"
  obtain m where m: "count_list (lb_leases s) ?q = Suc m"
    using count_list_pos [OF released(1)] by (cases "count_list (lb_leases s) ?q") auto
  from released m show ?case
    by (auto simp: lease_inv_def inflight_drop_lease count_list_remove1 drop_lease_contains
        dest: in_set_remove1D)
next
  case (forgot s pid)
  then show ?case
    by (auto simp: lease_inv_def inflight_forget forget_provider_fields dm_contains_def
        dm.get_remove)
qed (simp_all add: lease_inv_def inflight_def maintain_settle_fields)

lemma reachable_lease_inv: "lb_reachable s \<Longrightarrow> lease_inv s"
  by (induction rule: lb_reachable.induct) (auto intro: lease_inv_init lease_inv_step)

text \<open>C16. Lease accounting is exact: in every state any interleaving of the operations can
  reach, the in-flight counter of a provider that was not deleted is the number of its leases
  that are out (as long as fewer than 2^64 leases are, no wrap-around is ever visible).\<close>

theorem reachable_inflight_exact:
  assumes "lb_reachable s" and "q \<notin> lb_forgotten s" and "length (lb_leases s) < 2 ^ 64"
  shows "unat (inflight (lb_balancer s) q) = count_list (lb_leases s) q"
proof -
  have "count_list (lb_leases s) q < 2 ^ 64"
    using assms(3) count_le_length [of "lb_leases s" q] by simp
  moreover have "inflight (lb_balancer s) q = of_nat (count_list (lb_leases s) q)"
    using reachable_lease_inv [OF assms(1)] assms(2) by (simp add: lease_inv_def)
  ultimately show ?thesis by (simp add: unat_of_nat take_bit_nat_eq_self)
qed

section \<open>Forgetting a provider\<close>

definition bound_to :: "string \<Rightarrow> balancer \<Rightarrow> string \<Rightarrow> bool" where
  "bound_to pid b h \<longleftrightarrow>
     (case dm_get (b_affinities b) h of None \<Rightarrow> False | Some e \<Rightarrow> ent_provider_id e = pid)"

lemma forget_affinity_get:
  "dm_get (b_affinities (forget_affinity pid h b)) k =
     (if k = h \<and> bound_to pid b k then None else dm_get (b_affinities b) k)"
  by (auto simp: forget_affinity_def Let_def dm_remove_if_def dm.get_remove bound_to_def
      split: option.splits)

lemma forget_affinity_dirty:
  "k \<in> set (b_dirty_affinities (forget_affinity pid h b)) \<longleftrightarrow>
     k \<in> set (b_dirty_affinities b) \<and> \<not> (k = h \<and> bound_to pid b k)"
  by (auto simp: forget_affinity_def Let_def dm_remove_if_def dm.get_remove dm_contains_def
      bound_to_def split: option.splits)

lemma bound_to_forget_affinity:
  "bound_to pid (forget_affinity pid h b) k \<longleftrightarrow> bound_to pid b k \<and> k \<noteq> h"
  by (auto simp: bound_to_def [of pid "forget_affinity pid h b"] forget_affinity_get)
    (auto simp: bound_to_def)

lemma fold_forget_affinity_get:
  "dm_get (b_affinities (fold (forget_affinity pid) hs b)) k =
     (if k \<in> set hs \<and> bound_to pid b k then None else dm_get (b_affinities b) k)"
  by (induction hs arbitrary: b) (simp_all add: forget_affinity_get bound_to_forget_affinity)

lemma fold_forget_affinity_dirty:
  "k \<in> set (b_dirty_affinities (fold (forget_affinity pid) hs b)) \<longleftrightarrow>
     k \<in> set (b_dirty_affinities b) \<and> \<not> (k \<in> set hs \<and> bound_to pid b k)"
  by (induction hs arbitrary: b)
    (simp_all add: forget_affinity_dirty bound_to_forget_affinity, blast)

lemma forget_provider_affinities:
  assumes "dm_ok (b_affinities b)"
  shows "dm_get (b_affinities (forget_provider pid b)) k =
           opt_filter (\<lambda>e. ent_provider_id e \<noteq> pid) (dm_get (b_affinities b) k)"
    and "k \<in> set (b_dirty_affinities (forget_provider pid b)) \<longleftrightarrow>
           k \<in> set (b_dirty_affinities b) \<and> \<not> bound_to pid b k"
proof -
  let ?hs = "map fst (filter (\<lambda>(h, e). ent_provider_id e = pid) (b_affinities b))"
  let ?b1 = "b\<lparr>b_providers := filter (\<lambda>p. p_id p \<noteq> pid) (b_providers b),
               b_inflight := dm_remove pid (b_inflight b),
               b_provider_updates := dm_remove pid (b_provider_updates b),
               b_provider_grants := dm_remove pid (b_provider_grants b)\<rparr>"
  have f: "forget_provider pid b = fold (forget_affinity pid) ?hs ?b1"
    by (simp add: forget_provider_def Let_def)
  have hs: "k \<in> set ?hs \<longleftrightarrow> bound_to pid b k"
    using dm_in_set_get [OF assms] by (force simp: bound_to_def split: option.splits)
  have bound: "bound_to pid ?b1 k = bound_to pid b k" by (simp add: bound_to_def)
  show "dm_get (b_affinities (forget_provider pid b)) k =
      opt_filter (\<lambda>e. ent_provider_id e \<noteq> pid) (dm_get (b_affinities b) k)"
    unfolding f fold_forget_affinity_get hs bound
    by (cases "dm_get (b_affinities b) k") (simp_all add: bound_to_def)
  show "k \<in> set (b_dirty_affinities (forget_provider pid b)) \<longleftrightarrow>
      k \<in> set (b_dirty_affinities b) \<and> \<not> bound_to pid b k"
    unfolding f fold_forget_affinity_dirty hs bound by simp
qed

text \<open>Forgetting a deleted provider is complete and touches nothing else: no snapshot entry,
  counter, pending update, grant or affinity of it is left and none of its affinities waits to
  be written, while every entry of another provider stays as it was.\<close>

lemma forget_provider_complete:
  assumes "dm_ok (b_affinities b)"
  shows "pid \<notin> p_id ` set (b_providers (forget_provider pid b)) \<and>
     dm_get (b_inflight (forget_provider pid b)) pid = None \<and>
     dm_get (b_provider_updates (forget_provider pid b)) pid = None \<and>
     dm_get (b_provider_grants (forget_provider pid b)) pid = None \<and>
     (\<forall>h. dm_get (b_affinities (forget_provider pid b)) h =
        opt_filter (\<lambda>e. ent_provider_id e \<noteq> pid) (dm_get (b_affinities b) h)) \<and>
     (\<forall>h. h \<in> set (b_dirty_affinities (forget_provider pid b)) \<longleftrightarrow>
        h \<in> set (b_dirty_affinities b) \<and>
        \<not> bound_to pid b h) \<and>
     (\<forall>q. q \<noteq> pid \<longrightarrow> inflight (forget_provider pid b) q = inflight b q \<and>
        dm_get (b_provider_updates (forget_provider pid b)) q = dm_get (b_provider_updates b) q \<and>
        dm_get (b_provider_grants (forget_provider pid b)) q = dm_get (b_provider_grants b) q)"
  using forget_provider_affinities [OF assms]
  by (simp add: forget_provider_fields dm.get_remove inflight_forget image_iff) auto

end
