(* ===== verification/Balancer_Even.thy ===== *)
theory Balancer_Even
  imports Balancer_Facts
begin

text \<open>
  Even distribution: a run of selections without an affinity, whose leases all stay out, spreads them
  over the eligible providers so that no two of them differ by more than one request.
\<close>

section \<open>Runs\<close>

text \<open>The callers of a run, each with its time, its user and whether that user may use every provider.\<close>

fun select_all ::
  "(string \<Rightarrow> string) \<Rightarrow> i64 \<Rightarrow> (i64 \<times> string \<times> bool) list \<Rightarrow> balancer \<Rightarrow> lease list \<times> balancer" where
  "select_all sha ttl [] b = ([], b)"
| "select_all sha ttl ((now, user, allp) # cs) b =
     (case select sha ttl now user allp None None b of
        (Inl e, b') \<Rightarrow> select_all sha ttl cs b'
      | (Inr l, b') \<Rightarrow> (let (ls, b'') = select_all sha ttl cs b' in (l # ls, b'')))"

definition load :: "balancer \<Rightarrow> provider \<Rightarrow> nat" where
  "load b p = unat (inflight b (p_id p))"

definition even_loads :: "balancer \<Rightarrow> provider list \<Rightarrow> bool" where
  "even_loads b ps \<longleftrightarrow> (\<forall>p \<in> set ps. \<forall>q \<in> set ps. load b p \<le> load b q + 1)"

section \<open>Sums\<close>

lemma sum_single:
  "distinct (map f xs) \<Longrightarrow> y \<in> f ` set xs \<Longrightarrow> (\<Sum>x\<leftarrow>xs. g x + (if f x = y then 1 else 0)) = (\<Sum>x\<leftarrow>xs. g x) + (1 :: nat)"
proof (induction xs)
  case (Cons a xs)
  have rest: "y \<notin> f ` set xs \<Longrightarrow> (\<Sum>x\<leftarrow>xs. g x + (if f x = y then 1 else 0)) = (\<Sum>x\<leftarrow>xs. g x)"
    by (rule arg_cong [where f = sum_list]) (auto intro: map_cong)
  from Cons show ?case by (cases "f a = y") (auto simp: rest)
qed simp

text \<open>Numbers that differ by at most one are the rounded average.\<close>

lemma even_average:
  fixes xs :: "nat list"
  assumes even: "\<forall>x \<in> set xs. \<forall>y \<in> set xs. x \<le> y + 1" and x: "x \<in> set xs"
  shows "sum_list xs div length xs \<le> x" and "x \<le> sum_list xs div length xs + 1"
proof -
  obtain ys zs where xs: "xs = ys @ x # zs" using split_list [OF x] by blast
  let ?r = "ys @ zs"
  have up: "sum_list us \<le> length us * (x + 1)" if "set us \<subseteq> set xs" for us
    using that even x by (induction us) fastforce+
  have low: "length us * x \<le> sum_list us + length us" if "set us \<subseteq> set xs" for us
    using that even x by (induction us) fastforce+
  have "sum_list xs = x + sum_list ?r" "length xs = Suc (length ?r)" "set ?r \<subseteq> set xs"
    by (auto simp: xs)
  with up [of ?r] low [of ?r]
  have u: "sum_list xs < length xs * (x + 1)" and l: "length xs * x < sum_list xs + length xs"
    by (simp_all add: algebra_simps)
  have n: "0 < length xs" by (simp add: xs)
  with u have "sum_list xs div length xs < x + 1" by (simp add: div_less_iff_less_mult mult.commute)
  then show "sum_list xs div length xs \<le> x" by simp
  show "x \<le> sum_list xs div length xs + 1"
  proof (cases x)
    case (Suc n)
    with l have "n * length xs \<le> sum_list xs" by (simp add: algebra_simps)
    with n have "n \<le> sum_list xs div length xs" by (simp add: less_eq_div_iff_mult_less_eq)
    with Suc show ?thesis by simp
  qed simp
qed

section \<open>One selection\<close>

lemma eligible_select:
  "select sha ttl now u allp aff ex b = (Inr l, b') \<Longrightarrow>
     eligible_providers b' now' u' allp' ex' = eligible_providers b now' u' allp' ex'"
  using select_sound_fields(5,6) by (simp add: eligible_providers_def may_use_def)

lemma select_ok:
  "eligible_providers b now u allp ex \<noteq> [] \<Longrightarrow> \<exists>l b'. select sha ttl now u allp aff ex b = (Inr l, b')"
  by (auto simp: select_def Let_def split: prod.split)

lemma unat_Suc: "unat x + 1 < 2 ^ 64 \<Longrightarrow> unat (x + 1 :: 64 word) = unat x + 1"
  by (simp add: unat_word_ariths)

lemma select_load:
  assumes s: "select sha ttl now u allp None None b = (Inr l, b')"
    and room: "\<forall>p \<in> set (eligible_providers b now u allp None). load b p + 1 < 2 ^ 64"
    and p: "p \<in> set (eligible_providers b now u allp None)"
  shows "load b' p = load b p + (if p_id p = p_id (l_provider l) then 1 else 0)"
    and "load b (l_provider l) \<le> load b p"
proof -
  show "load b' p = load b p + (if p_id p = p_id (l_provider l) then 1 else 0)"
    using select_sound_fields(4) [OF s, of "p_id p"] room p unat_Suc by (auto simp: load_def)
  show "load b (l_provider l) \<le> load b p"
    using select_least_loaded [OF s] p by (simp add: load_def word_le_nat_alt)
qed

lemma select_even_step:
  assumes s: "select sha ttl now u allp None None b = (Inr l, b')"
    and room: "\<forall>p \<in> set (eligible_providers b now u allp None). load b p + 1 < 2 ^ 64"
    and even: "even_loads b (eligible_providers b now u allp None)"
  shows "even_loads b' (eligible_providers b now u allp None)"
proof -
  let ?E = "eligible_providers b now u allp None"
  have l: "l_provider l \<in> set ?E" by (rule select_sound_fields(1) [OF s])
  have "load b' p \<le> load b' q + 1" if "p \<in> set ?E" "q \<in> set ?E" for p q
  proof -
    have eq: "p_id p = p_id (l_provider l) \<Longrightarrow> load b p = load b (l_provider l)" by (simp add: load_def)
    have "load b p \<le> load b q + 1" using even that by (simp add: even_loads_def)
    then show ?thesis
      using select_load(1) [OF s room that(1)] select_load(1) [OF s room that(2)]
        select_load(2) [OF s room that(2)] eq
      by auto
  qed
  then show ?thesis by (simp add: even_loads_def)
qed

section \<open>All of them\<close>

lemma select_all_even:
  assumes "select_all sha ttl cs b = (ls, b')"
    and "\<forall>(now, user, allp) \<in> set cs. eligible_providers b now user allp None = ps" and "ps \<noteq> []"
    and "distinct (map p_id ps)" and "\<forall>p \<in> set ps. load b p + length cs < 2 ^ 64" and "even_loads b ps"
  shows "length ls = length cs \<and> (\<forall>l \<in> set ls. l_provider l \<in> set ps) \<and> even_loads b' ps \<and>
     sum_list (map (load b') ps) = sum_list (map (load b) ps) + length cs"
  using assms
proof (induction sha ttl cs b arbitrary: ls rule: select_all.induct)
  case (2 sha ttl now user allp cs b)
  have E: "eligible_providers b now user allp None = ps" using "2.prems"(2) by simp
  then obtain l b1 where s: "select sha ttl now user allp None None b = (Inr l, b1)"
    using select_ok "2.prems"(3) by metis
  obtain ls1 where rest: "select_all sha ttl cs b1 = (ls1, b')" and ls: "ls = l # ls1"
    using "2.prems"(1) by (auto simp: s split: prod.splits)
  have room: "\<forall>p \<in> set (eligible_providers b now user allp None). load b p + 1 < 2 ^ 64"
    using "2.prems"(5) unfolding E by fastforce
  have l: "l_provider l \<in> set ps" using select_sound_fields(1) [OF s] E by simp
  have loads: "load b1 p = load b p + (if p_id p = p_id (l_provider l) then 1 else 0)" if "p \<in> set ps" for p
    using select_load(1) [OF s room] that E by simp
  have "length ls1 = length cs \<and> (\<forall>l \<in> set ls1. l_provider l \<in> set ps) \<and> even_loads b' ps \<and>
     sum_list (map (load b') ps) = sum_list (map (load b1) ps) + length cs"
  proof (rule "2.IH"(2) [OF s [symmetric] refl rest])
    show "\<forall>(now, user, allp) \<in> set cs. eligible_providers b1 now user allp None = ps"
      using "2.prems"(2) by (auto simp: eligible_select [OF s])
    show "\<forall>p \<in> set ps. load b1 p + length cs < 2 ^ 64"
      using "2.prems"(5) by (fastforce simp: loads)
    show "even_loads b1 ps" using select_even_step [OF s room] "2.prems"(6) E by simp
  qed (use "2.prems" in simp_all)
  moreover have "sum_list (map (load b1) ps) = sum_list (map (load b) ps) + 1"
    using sum_single [OF "2.prems"(4), of "p_id (l_provider l)" "load b"] l loads
    by (simp cong: map_cong)
  ultimately show ?case using l by (simp add: ls)
qed simp


end
