(* ===== verification/Balancer_Witness.thy ===== *)
theory Balancer_Witness
  imports Balancer_Machine Balancer_Even
begin

text \<open>
  Concrete runs of the balancer: two providers, one active and owned by nobody with a grant
  for one user, one in cooldown, and runs of selection, observation and maintenance on them
  that meet the hypotheses of the properties.
\<close>

section \<open>Sample data\<close>

definition pa :: provider where
  "pa = \<lparr>p_id = ''pa'', p_name = ''A'', p_account_id = ''acct-a'', p_access_token = ''tok-a'',
    p_refresh_token = ''ref-a'', p_expires_at = None, p_status = ''active'',
    p_manual_disabled = 0, p_cooldown_until = None, p_rate_limit_json = None,
    p_last_error = None, p_last_used_at = None, p_created_at = 1, p_updated_at = 1,
    p_owner_id = None, p_owner_name = None\<rparr>"

definition pb :: provider where
  "pb = pa\<lparr>p_id := ''pb'', p_name := ''B'', p_account_id := ''acct-b'', p_access_token := ''tok-b'',
    p_refresh_token := ''ref-b'', p_status := ''cooldown'', p_cooldown_until := Some 100,
    p_created_at := 2, p_owner_id := Some ''owner''\<rparr>"

definition pc :: provider where
  "pc = pa\<lparr>p_id := ''pc'', p_status := ''disabled'', p_manual_disabled := 1, p_created_at := 3\<rparr>"

definition event_b :: circuit_event where
  "event_b = \<lparr>ce_id = ''e1'', ce_provider_id = ''pb'', ce_cause = ''usage_limit_reached'',
    ce_rate_limit_json = ''{}'', ce_opened_at = 50, ce_cooldown_until = 100,
    ce_closed_at = None, ce_resolution = None\<rparr>"

definition sample_db :: database where
  "sample_db = empty_db\<lparr>db_providers := [pb, pa, pc],
    db_grants := [\<lparr>g_provider_id = ''pa'', g_user_id = ''u1'', g_created_at = 5\<rparr>],
    db_circuits := [event_b]\<rparr>"

definition sample_lb :: balancer where
  "sample_lb = hydrate 60 sample_db balancer_default"

definition sample_update :: "i64 \<Rightarrow> provider_update" where
  "sample_update t = plain_update ''{}'' t"

lemmas sample_defs = pa_def pb_def pc_def event_b_def sample_db_def sample_lb_def empty_db_def
  sample_update_def

definition sample_select :: "string option \<Rightarrow> string option \<Rightarrow> (app_error, lease) result \<times> balancer"
  where
  "sample_select key ex = select (\<lambda>s. s) 3600 200 ''u1'' True key ex sample_lb"

definition sample_lease :: "string option \<Rightarrow> string option \<Rightarrow> lease" where
  "sample_lease key ex = (case fst (sample_select key ex) of Inr l \<Rightarrow> l | Inl _ \<Rightarrow> fst (acquire pc sample_lb))"

lemma sample_select_lease:
  "is_ok (fst (sample_select key ex)) \<Longrightarrow>
     select (\<lambda>s. s) 3600 200 ''u1'' True key ex sample_lb =
       (Inr (sample_lease key ex), snd (sample_select key ex))"
  by (cases "sample_select key ex")
    (auto simp: sample_lease_def sample_select_def is_ok_iff)

lemma sample_select_ok:
  "is_ok (fst (sample_select None None))"
  "is_ok (fst (sample_select (Some ''k'') None))"
  "is_ok (fst (sample_select (Some ''k'') (Some ''pa'')))"
  by code_simp+

section \<open>Selection\<close>

theorem select_sound_witness:
  "p_id (l_provider (sample_lease None None)) = ''pa'' \<and>
   l_access_token (sample_lease None None) = p_access_token (l_provider (sample_lease None None))"
proof -
  have "p_id (l_provider (sample_lease None None)) = ''pa''" by code_simp
  with select_sound [OF sample_select_lease [OF sample_select_ok(1)]] show ?thesis by simp
qed

lemma select_fails_iff_example:
  "(\<exists>e b'. select (\<lambda>s. s) 3600 60 ''u2'' False None None sample_lb = (Inl e, b') \<and>
      ae_status e = 503)"
proof -
  have "\<forall>p \<in> set (b_providers sample_lb).
      \<not> (provider_is_available p 60 \<and> may_use sample_lb ''u2'' False p \<and> None \<noteq> Some (p_id p))"
    by code_simp
  then show ?thesis
    using select_fails_iff [of "\<lambda>s. s" 3600 60 "''u2''" False None None sample_lb] by blast
qed

lemma select_least_loaded_example:
  "l_provider (sample_lease None None) = pa \<and> inflight sample_lb ''pa'' \<le> inflight sample_lb ''pb''"
proof -
  have p: "l_provider (sample_lease None None) = pa" by code_simp
  have "p_id pa = ''pa''" "p_id pb = ''pb''" by code_simp+
  moreover have "pb \<in> set (eligible_providers sample_lb 200 ''u1'' True None)" by code_simp
  ultimately show ?thesis
    using p select_least_loaded [OF sample_select_lease [OF sample_select_ok(1)]] by fastforce
qed

text \<open>Three callers, two providers: the second one is out of its cooldown by then.\<close>

definition sample_callers :: "(i64 \<times> string \<times> bool) list" where
  "sample_callers = [(200, ''u1'', True), (201, ''u2'', True), (202, ''u1'', True)]"


theorem select_sticky_witness:
  "\<exists>l2. fst (select (\<lambda>s. s) 3600 900 ''u1'' True (Some ''k'') None
        (drop_lease (sample_lease (Some ''k'') None) (snd (sample_select (Some ''k'') None)))) =
      Inr l2 \<and> l_provider l2 = l_provider (sample_lease (Some ''k'') None)"
proof -
  have "distinct (map p_id (b_providers sample_lb))" by code_simp
  from select_sticky [OF sample_select_lease [OF sample_select_ok(2)]
      surjective_pairing, where now' = 900, OF _ _ this]
  show ?thesis by simp
qed

section \<open>Observation and maintenance\<close>

definition sample_us :: "provider_update list" where
  "sample_us = [sample_update 70, (sample_update 80)\<lparr>pu_status := Some ''auth_error''\<rparr>, sample_update 90]"

theorem observe_coalesces_witness:
  "\<exists>u. dm_get (b_provider_updates (fold (observe ''pa'') sample_us sample_lb)) ''pa'' = Some u \<and>
     cached (fold (observe ''pa'') sample_us sample_lb) ''pa'' = Some (sql_apply_update u pa)"
proof (rule observe_coalesces)
  show "cached sample_lb ''pa'' = Some pa" by code_simp
  show "p_manual_disabled pa = 0" by (simp add: pa_def)
  show "dm_get (b_provider_updates sample_lb) ''pa'' = None" by code_simp
  show "sample_us \<noteq> []" by (simp add: sample_us_def)
  show "sorted (map pu_updated_at sample_us)" by code_simp
qed

definition observed_lb :: balancer where
  "observed_lb = observe ''pa'' (sample_update 70) (snd (sample_select (Some ''k'') None))"

definition moved_lb :: balancer where
  "moved_lb = observe ''pa'' (sample_update 75) observed_lb"

theorem maintain_keeps_concurrent_work_witness:
  "dm_get (b_provider_updates (maintain_settle 80 (fst (maintain_snapshot observed_lb))
       (fst (maintain_transaction 80 (fst (maintain_snapshot observed_lb))
          (snd (maintain_snapshot observed_lb)) sample_db)) moved_lb)) ''pa'' =
     Some (merge_update (sample_update 70) (sample_update 75))"
proof -
  have g: "dm_get (b_provider_updates moved_lb) ''pa'' =
      Some (merge_update (sample_update 70) (sample_update 75))"
    "dm_get (b_provider_updates observed_lb) ''pa'' \<noteq>
      Some (merge_update (sample_update 70) (sample_update 75))" by code_simp+
  have ok: "dm_ok (b_provider_updates observed_lb)" "dm_ok (b_affinities moved_lb)" by code_simp+
  show ?thesis
    using maintain_keeps_concurrent_work [OF surjective_pairing surjective_pairing ok] g by blast
qed

definition cooling_update :: provider_update where
  "cooling_update = response_update
     (\<lambda>_. Some (JObj [(''error'', JObj [(''type'', JStr ''usage_limit_reached''),
                                       (''resets_in_seconds'', JInt 30)])]))
     (\<lambda>_. ''{}'') ''e2'' 60 429 ''body''"

definition sample_ups :: "(string \<times> provider_update) list" where
  "sample_ups = [(''pa'', cooling_update), (''pc'', cooling_update)]"

lemma maintain_keeps_circuits_example:
  "circuits_wf (snd (maintain_transaction 60 sample_ups [] sample_db)) \<and>
   map ce_id (open_circuits (snd (maintain_transaction 60 sample_ups [] sample_db)) ''pa'') = [''e2'']"
proof (rule conjI)
  have one: "length (open_circuits sample_db pid) \<le> 1" for pid
    by (simp add: sample_defs open_circuits_def)
  have "\<forall>p \<in> set (db_providers sample_db).
      open_circuits sample_db (p_id p) \<noteq> [] \<longrightarrow> p_status p = ''cooldown''" by code_simp
  with one have "circuits_wf sample_db" by (simp add: circuits_wf_def)
  moreover have "distinct (map p_id (db_providers sample_db))" by code_simp
  moreover have "updates_wf sample_ups" by code_simp
  ultimately show "circuits_wf (snd (maintain_transaction 60 sample_ups [] sample_db))"
    by (rule maintain_keeps_circuits)
  show "map ce_id (open_circuits (snd (maintain_transaction 60 sample_ups [] sample_db)) ''pa'') = [''e2'']"
    by code_simp
qed

theorem reload_forgets_observation_witness:
  "\<exists>q r. cached (fst (snd (maintain True 61 (reload_providers sample_db (observe ''pa'' cooling_update sample_lb))
       sample_db))) ''pa'' = Some q \<and> provider_is_available q 61 \<and>
     provider_row (snd (snd (maintain True 61 (reload_providers sample_db (observe ''pa'' cooling_update sample_lb))
       sample_db))) ''pa'' = Some r \<and> p_status r = ''cooldown'' \<and> \<not> provider_is_available r 61"
proof (rule reload_forgets_observation)
  show "distinct (map p_id (db_providers sample_db))" "provider_row sample_db ''pa'' = Some pa"
    "p_manual_disabled pa = 0" "p_status pa = ''active''" by code_simp+
  show "pu_status cooling_update = Some ''cooldown''" by code_simp
  have "pu_cooldown_until cooling_update = Some 90" by code_simp
  then show "''cooldown'' = ''cooldown'' \<longrightarrow>
      (case pu_cooldown_until cooling_update of None \<Rightarrow> True | Some t \<Rightarrow> 61 < t)" by simp
  show "dm_ok (b_provider_updates sample_lb)" "dm_get (b_provider_updates sample_lb) ''pa'' = None"
    by code_simp+
  show "maintain True 61 (reload_providers sample_db (observe ''pa'' cooling_update sample_lb)) sample_db =
      (Inr (), fst (snd (maintain True 61 (reload_providers sample_db (observe ''pa'' cooling_update sample_lb))
        sample_db)),
       snd (snd (maintain True 61 (reload_providers sample_db (observe ''pa'' cooling_update sample_lb)) sample_db)))"
    by (simp add: maintain_def Let_def split: prod.splits)
qed simp

lemma maintain_respects_manual_disable_example:
  "\<exists>r. provider_row (snd (maintain_transaction 60 sample_ups [] sample_db)) ''pc'' = Some r \<and>
     p_manual_disabled r = 1 \<and> p_status r = ''disabled'' \<and> (\<forall>t. \<not> provider_is_available r t)"
proof (rule maintain_respects_manual_disable)
  show "provider_row sample_db ''pc'' = Some pc" by code_simp
  show "dm_ok sample_ups" by code_simp
qed (simp_all add: pc_def pa_def)

lemma maintain_recovers_on_time_example:
  "open_circuits (snd (maintain_transaction 100 sample_ups [] sample_db)) ''pb'' = [] \<and>
   open_circuits (snd (maintain_transaction 99 sample_ups [] sample_db)) ''pb'' = [event_b]"
proof -
  have row: "provider_row sample_db ''pb'' = Some pb" "distinct (map p_id (db_providers sample_db))"
    "p_manual_disabled pb = 0" "p_status pb = ''cooldown''" "p_cooldown_until pb = Some 100"
    "dm_ok sample_ups" "dm_get sample_ups ''pb'' = None"
    by code_simp+
  have "open_circuits sample_db ''pb'' = [event_b]" by code_simp
  with maintain_recovers_on_time [OF row, of 100 "[]"] maintain_recovers_on_time [OF row, of 99 "[]"]
  show ?thesis by simp
qed

section \<open>Machine\<close>

theorem reachable_inflight_exact_witness:
  "unat (inflight (snd (sample_select None None)) ''pa'') = 1"
proof -
  let ?start = "lb_init 60 sample_db"
  let ?s = "?start\<lparr>lb_balancer := snd (sample_select None None),
      lb_leases := p_id (l_provider (sample_lease None None)) # lb_leases ?start\<rparr>"
  have b: "lb_balancer ?start = sample_lb" by (simp add: lb_init_def sample_lb_def)
  have "select (\<lambda>s. s) 3600 200 ''u1'' True None None (lb_balancer ?start) =
      (Inr (sample_lease None None), snd (sample_select None None))"
    unfolding b by (rule sample_select_lease [OF sample_select_ok(1)])
  from lb_step.leased [OF this] have "lb_step ?start ?s" .
  then have "lb_reachable ?s" by (rule lb_reachable.step [OF lb_reachable.start])
  moreover have "p_id (l_provider (sample_lease None None)) = ''pa''" by code_simp
  ultimately show ?thesis
    using reachable_inflight_exact [of ?s "''pa''"] by (simp add: lb_init_def)
qed

end
