(* ===== verification/Usage_Cost.thy ===== *)
theory Usage_Cost
  imports Http
begin

text \<open>
  Token accounting of \<open>src/proxy.rs\<close>: the usage reported by an upstream response, its merge
  over the events of a stream, the incremental scan of server-sent events, the price table
  and the cost of a call, the images of an event stream, the error text of a failed call and
  the list of models. Reading a JSON text is serde's work, the parameter \<open>parse\<close>.
\<close>

section \<open>Usage\<close>

record usage =
  us_input_tokens :: i64
  us_output_tokens :: i64
  us_cached_tokens :: i64
  us_cache_write_tokens :: i64

definition usage_default :: usage where
  "usage_default = \<lparr>us_input_tokens = 0, us_output_tokens = 0, us_cached_tokens = 0,
     us_cache_write_tokens = 0\<rparr>"

definition merge_usage :: "usage \<Rightarrow> usage \<Rightarrow> usage" where
  "merge_usage self other =
     \<lparr>us_input_tokens = max (us_input_tokens self) (us_input_tokens other),
      us_output_tokens = max (us_output_tokens self) (us_output_tokens other),
      us_cached_tokens = max (us_cached_tokens self) (us_cached_tokens other),
      us_cache_write_tokens = max (us_cache_write_tokens self) (us_cache_write_tokens other)\<rparr>"

definition usage_from_value :: "json \<Rightarrow> usage" where
  "usage_from_value v =
     (let u = opt_or (jget v ''usage'') (jpointer v [''response'', ''usage'']);
          field = (\<lambda>path. unwrap_or (Option.bind (Option.bind u (\<lambda>w. jpointer w path)) as_i64) 0)
      in \<lparr>us_input_tokens = field [''input_tokens''],
          us_output_tokens = field [''output_tokens''],
          us_cached_tokens = field [''input_tokens_details'', ''cached_tokens''],
          us_cache_write_tokens = field [''input_tokens_details'', ''cache_write_tokens'']\<rparr>)"

definition usage_from_bytes :: "(string \<Rightarrow> json option) \<Rightarrow> string \<Rightarrow> usage" where
  "usage_from_bytes parse bytes = unwrap_or (map_option usage_from_value (parse bytes)) usage_default"

section \<open>Prices\<close>

abbreviation LONG_CONTEXT_THRESHOLD_TOKENS :: i64 where
  "LONG_CONTEXT_THRESHOLD_TOKENS \<equiv> 272000"

record token_rates =
  tr_input_usd_nanos :: i64
  tr_cached_input_usd_nanos :: i64
  tr_cache_write_usd_nanos :: i64
  tr_output_usd_nanos :: i64

definition mk_rates :: "i64 \<Rightarrow> i64 \<Rightarrow> i64 \<Rightarrow> i64 \<Rightarrow> token_rates" where
  "mk_rates input cached cache_write output =
     \<lparr>tr_input_usd_nanos = input, tr_cached_input_usd_nanos = cached,
      tr_cache_write_usd_nanos = cache_write, tr_output_usd_nanos = output\<rparr>"

record token_pricing =
  tp_model :: string
  tp_short :: token_rates
  tp_long :: "token_rates option"

definition pricing_rates :: "token_pricing \<Rightarrow> i64 \<Rightarrow> token_rates" where
  "pricing_rates p input_tokens =
     (if LONG_CONTEXT_THRESHOLD_TOKENS \<le> input_tokens
      then (case tp_long p of Some rates \<Rightarrow> rates | None \<Rightarrow> tp_short p)
      else tp_short p)"

definition token_pricing_5_4_up :: "token_pricing list" where
  "token_pricing_5_4_up =
    [\<lparr>tp_model = ''gpt-5.6-sol'', tp_short = mk_rates 5000 500 6250 30000,
     tp_long = Some (mk_rates 10000 1000 12500 45000)\<rparr>,
     \<lparr>tp_model = ''gpt-5.6-terra'', tp_short = mk_rates 2000 200 2500 12000,
     tp_long = Some (mk_rates 4000 400 5000 18000)\<rparr>,
     \<lparr>tp_model = ''gpt-5.6-luna'', tp_short = mk_rates 200 20 250 1200,
     tp_long = Some (mk_rates 400 40 500 1800)\<rparr>,
     \<lparr>tp_model = ''gpt-5.5'', tp_short = mk_rates 5000 500 0 30000,
     tp_long = Some (mk_rates 10000 1000 0 45000)\<rparr>,
     \<lparr>tp_model = ''gpt-5.5-pro'', tp_short = mk_rates 30000 0 0 180000,
     tp_long = Some (mk_rates 60000 0 0 270000)\<rparr>,
     \<lparr>tp_model = ''gpt-5.4'', tp_short = mk_rates 2500 250 0 15000,
     tp_long = Some (mk_rates 5000 500 0 22500)\<rparr>,
     \<lparr>tp_model = ''gpt-5.4-mini'', tp_short = mk_rates 750 75 0 4500,
     tp_long = None\<rparr>,
     \<lparr>tp_model = ''gpt-5.4-nano'', tp_short = mk_rates 200 20 0 1250,
     tp_long = None\<rparr>,
     \<lparr>tp_model = ''gpt-5.4-pro'', tp_short = mk_rates 30000 0 0 180000,
     tp_long = Some (mk_rates 60000 0 0 270000)\<rparr>]"

definition token_pricing_gpt :: "token_pricing list" where
  "token_pricing_gpt =
    [\<lparr>tp_model = ''gpt-5.3-codex'', tp_short = mk_rates 1750 175 0 14000,
     tp_long = None\<rparr>,
     \<lparr>tp_model = ''gpt-5.2'', tp_short = mk_rates 1750 175 0 14000,
     tp_long = None\<rparr>,
     \<lparr>tp_model = ''gpt-5.2-pro'', tp_short = mk_rates 21000 0 0 168000,
     tp_long = None\<rparr>,
     \<lparr>tp_model = ''gpt-5.1'', tp_short = mk_rates 1250 125 0 10000,
     tp_long = None\<rparr>,
     \<lparr>tp_model = ''gpt-5'', tp_short = mk_rates 1250 125 0 10000,
     tp_long = None\<rparr>,
     \<lparr>tp_model = ''gpt-5-mini'', tp_short = mk_rates 250 25 0 2000,
     tp_long = None\<rparr>,
     \<lparr>tp_model = ''gpt-5-nano'', tp_short = mk_rates 50 5 0 400,
     tp_long = None\<rparr>,
     \<lparr>tp_model = ''gpt-5-pro'', tp_short = mk_rates 15000 0 0 120000,
     tp_long = None\<rparr>,
     \<lparr>tp_model = ''gpt-4.1'', tp_short = mk_rates 2000 500 0 8000,
     tp_long = None\<rparr>,
     \<lparr>tp_model = ''gpt-4.1-mini'', tp_short = mk_rates 400 100 0 1600,
     tp_long = None\<rparr>]"

definition token_pricing_o :: "token_pricing list" where
  "token_pricing_o =
    [\<lparr>tp_model = ''gpt-4.1-nano'', tp_short = mk_rates 100 25 0 400,
     tp_long = None\<rparr>,
     \<lparr>tp_model = ''gpt-4o'', tp_short = mk_rates 2500 1250 0 10000,
     tp_long = None\<rparr>,
     \<lparr>tp_model = ''gpt-4o-mini'', tp_short = mk_rates 150 75 0 600,
     tp_long = None\<rparr>,
     \<lparr>tp_model = ''o1'', tp_short = mk_rates 15000 7500 0 60000,
     tp_long = None\<rparr>,
     \<lparr>tp_model = ''o1-pro'', tp_short = mk_rates 150000 0 0 600000,
     tp_long = None\<rparr>,
     \<lparr>tp_model = ''o3'', tp_short = mk_rates 2000 500 0 8000,
     tp_long = None\<rparr>,
     \<lparr>tp_model = ''o3-pro'', tp_short = mk_rates 20000 0 0 80000,
     tp_long = None\<rparr>,
     \<lparr>tp_model = ''o4-mini'', tp_short = mk_rates 1100 275 0 4400,
     tp_long = None\<rparr>,
     \<lparr>tp_model = ''o3-mini'', tp_short = mk_rates 1100 550 0 4400,
     tp_long = None\<rparr>,
     \<lparr>tp_model = ''gpt-4o-transcribe'', tp_short = mk_rates 2500 0 0 10000,
     tp_long = None\<rparr>,
     \<lparr>tp_model = ''gpt-4o-mini-transcribe'', tp_short = mk_rates 1250 0 0 5000,
     tp_long = None\<rparr>]"

definition TOKEN_PRICING :: "token_pricing list" where
  "TOKEN_PRICING = token_pricing_5_4_up @ token_pricing_gpt @ token_pricing_o"

text \<open>The outer \<open>None\<close> is the panic of \<open>clamp\<close>, the inner one an unknown model.\<close>

definition cost_usd_nanos :: "string \<Rightarrow> usage \<Rightarrow> i64 option may_panic" where
  "cost_usd_nanos model u =
     (case find (\<lambda>p. tp_model p = model) TOKEN_PRICING of
        None \<Rightarrow> Some None
      | Some pricing \<Rightarrow>
          let rates = pricing_rates pricing (us_input_tokens u)
          in Option.bind (clamp 0 (max (us_input_tokens u) 0) (us_cached_tokens u)) (\<lambda>cached_tokens.
             let uncached_tokens = sat_sub (us_input_tokens u) cached_tokens
             in Option.bind
                  (if tr_cache_write_usd_nanos rates = 0 then Some 0
                   else clamp 0 uncached_tokens (us_cache_write_tokens u)) (\<lambda>cache_write_tokens.
                Some (Some
                  (sat_add
                    (sat_add
                      (sat_add
                        (sat_mul (sat_sub uncached_tokens cache_write_tokens)
                           (tr_input_usd_nanos rates))
                        (sat_mul cached_tokens (tr_cached_input_usd_nanos rates)))
                      (sat_mul cache_write_tokens (tr_cache_write_usd_nanos rates)))
                    (sat_mul (max (us_output_tokens u) 0) (tr_output_usd_nanos rates)))))))"

section \<open>Server-sent events\<close>

text \<open>\<open>update_sse_usage\<close>: complete lines are taken off the pending bytes one by one; a rest
  longer than 2 MiB is thrown away.\<close>

definition line_usage :: "(string \<Rightarrow> json option) \<Rightarrow> string \<Rightarrow> usage \<Rightarrow> usage" where
  "line_usage parse line u =
     (case parse (unwrap_or (strip_prefix ''data: '' line) []) of
        None \<Rightarrow> u
      | Some v \<Rightarrow> merge_usage u (usage_from_value v))"

function scan_lines :: "(string \<Rightarrow> json option) \<Rightarrow> string \<times> usage \<Rightarrow> string \<times> usage" where
  "scan_lines parse (pending, u) =
     (case position (\<lambda>byte. byte = CHR 0x0A) pending of
        None \<Rightarrow> (pending, u)
      | Some index \<Rightarrow>
          scan_lines parse
            (drop (Suc index) pending, line_usage parse (take (Suc index) pending) u))"
  by pat_completeness auto
termination
  by (relation "measure (\<lambda>(parse, pending, u). length pending)")
    (auto dest: position_SomeD)

declare scan_lines.simps [simp del]

abbreviation sse_limit :: nat where "sse_limit \<equiv> 2 * 1024 * 1024"

definition update_sse_usage ::
  "(string \<Rightarrow> json option) \<Rightarrow> string \<times> usage \<Rightarrow> string \<Rightarrow> string \<times> usage" where
  "update_sse_usage parse st bytes =
     (let (pending, u) = scan_lines parse (fst st @ bytes, snd st)
      in if sse_limit < length pending then ([], u) else (pending, u))"

section \<open>Images\<close>

definition is_image_item :: "json \<Rightarrow> bool" where
  "is_image_item item \<longleftrightarrow> Option.bind (jget item ''type'') as_str = Some ''image_generation_call''"

definition image_event :: "json \<Rightarrow> json list \<times> usage \<Rightarrow> json list \<times> usage" where
  "image_event event st =
     (let (items, u) = st;
          kind = Option.bind (jget event ''type'') as_str;
          u' = merge_usage u (usage_from_value event);
          items1 = (if kind = Some ''response.output_item.done''
                    then (case opt_filter is_image_item (jget event ''item'') of
                            Some item \<Rightarrow> items @ [item]
                          | None \<Rightarrow> items)
                    else items);
          items2 = (if kind = Some ''response.completed'' \<and> items1 = []
                    then (case Option.bind (jpointer event [''response'', ''output'']) as_array of
                            Some output \<Rightarrow> items1 @ filter is_image_item output
                          | None \<Rightarrow> items1)
                    else items1)
      in (items2, u'))"

definition image_data :: "json \<Rightarrow> json option" where
  "image_data item =
     map_option
       (\<lambda>r. JObj [(''b64_json'', JStr r), (''revised_prompt'', unwrap_or (jget item ''revised_prompt'') JNull)])
       (Option.bind (jget item ''result'') as_str)"

definition image_lines :: "(string \<Rightarrow> json option) \<Rightarrow> string \<Rightarrow> json list" where
  "image_lines parse text = List.map_filter parse (List.map_filter (strip_prefix ''data: '') (str_lines text))"

definition images_from_sse ::
  "(string \<Rightarrow> json option) \<Rightarrow> string \<Rightarrow> (app_error, json list \<times> usage) result" where
  "images_from_sse parse bytes =
     (if valid_utf8 bytes
      then
        let (items, u) = fold image_event (image_lines parse bytes) ([], usage_default);
            data = List.map_filter image_data items
        in if data = [] then Inl (upstream 502 ''upstream did not return image data'')
           else Inr (data, u)
      else Inl (upstream 502 ''invalid image event stream''))"

section \<open>Errors and models\<close>

definition error_from ::
  "(string \<Rightarrow> json option) \<Rightarrow> nat \<Rightarrow> string \<Rightarrow> string option" where
  "error_from parse status bytes =
     (if is_success status then None
      else Some (unwrap_or
             (Option.bind (parse bytes) (\<lambda>v.
                Option.bind (jpointer v [''error'', ''message'']) as_str))
             (''upstream HTTP '' @ show_nat status)))"

definition model_ids :: "string list" where
  "model_ids = [''gpt-5.4'', ''gpt-5.3-codex'', ''gpt-5.4-mini'', ''gpt-4o-transcribe'',
     ''gpt-image-1'', ''gpt-image-1.5'', ''gpt-image-2'']"

definition models_response :: "(json \<Rightarrow> string) \<Rightarrow> (app_error, string response) result" where
  "models_response render =
     build_response 200 [(''content-type'', ''application/json'')]
       (render
         (JObj [(''object'', JStr ''list''),
                (''data'', JArr (map (\<lambda>i. JObj [(''id'', JStr i), (''object'', JStr ''model''),
                                              (''owned_by'', JStr ''openai'')]) model_ids))]))"

end
