(* ===== verification/Chunks.thy ===== *)
theory Chunks
  imports Prelude
begin

text \<open>
  Bodies arrive in chunks of any size. A component that reads one keeps a state and is fed
  chunk after chunk; what it has read must not depend on where the chunks were cut. The locale
  states that contract once, the scanner of server-sent events, the archive preview and the
  audio spool are its instances.
\<close>

locale chunk_reader =
  fixes feed :: "'s \<Rightarrow> 'b list \<Rightarrow> 's"
    and settled :: "'s \<Rightarrow> bool"
    and fits :: "'s \<Rightarrow> 'b list \<Rightarrow> bool"
  assumes feed_append: "settled s \<Longrightarrow> fits s xs \<Longrightarrow> feed (feed s xs) ys = feed s (xs @ ys)"
    and feed_settled: "settled s \<Longrightarrow> settled (feed s xs)"
    and feed_Nil: "settled s \<Longrightarrow> feed s [] = s"
begin

text \<open>Every cut of the body leaves a prefix the reader can hold.\<close>

definition all_fit :: "'s \<Rightarrow> 'b list list \<Rightarrow> bool" where
  "all_fit s chunks \<longleftrightarrow> (\<forall>n < length chunks. fits s (concat (take n chunks)))"

lemma fold_feed_settled: "settled s \<Longrightarrow> settled (fold (\<lambda>c s. feed s c) chunks s)"
  by (induction chunks arbitrary: s) (simp_all add: feed_settled)

lemma fold_feed_concat:
  "settled s \<Longrightarrow> all_fit s chunks \<Longrightarrow> fold (\<lambda>c s. feed s c) chunks s = feed s (concat chunks)"
proof (induction chunks rule: rev_induct)
  case Nil
  then show ?case by (simp add: feed_Nil)
next
  case (snoc c chunks)
  have "all_fit s chunks"
    unfolding all_fit_def
  proof (intro allI impI)
    fix n assume n: "n < length chunks"
    with snoc.prems(2) have "fits s (concat (take n (chunks @ [c])))"
      unfolding all_fit_def by (metis less_SucI length_append_singleton)
    with n show "fits s (concat (take n chunks))" by simp
  qed
  moreover have "fits s (concat chunks)"
    using snoc.prems(2) unfolding all_fit_def
    by (metis lessI length_append_singleton append_eq_conv_conj)
  ultimately show ?case using snoc by (simp add: feed_append)
qed

text \<open>Two cuts of the same body that both fit are read the same.\<close>

lemma cut_independent:
  "settled s \<Longrightarrow> all_fit s cs \<Longrightarrow> all_fit s ds \<Longrightarrow> concat cs = concat ds \<Longrightarrow>
     fold (\<lambda>c s. feed s c) cs s = fold (\<lambda>c s. feed s c) ds s"
  by (simp add: fold_feed_concat)

end

text \<open>A reader without limits, as the preview: any cut will do.\<close>

locale unbounded_reader =
  fixes feed :: "'s \<Rightarrow> 'b list \<Rightarrow> 's" and good :: "'s \<Rightarrow> bool"
  assumes append_feed: "good s \<Longrightarrow> feed (feed s xs) ys = feed s (xs @ ys)"
    and feed_good: "good s \<Longrightarrow> good (feed s xs)"
    and good_Nil: "good s \<Longrightarrow> feed s [] = s"

sublocale unbounded_reader \<subseteq> chunk_reader feed good "\<lambda>_ _. True"
  by unfold_locales (auto simp: append_feed feed_good good_Nil)

end
