(* ===== verification/Usage_Facts.thy ===== *)
theory Usage_Facts
  imports Usage_Cost Chunks
begin

text \<open>
  What the accounting promises: usage does not depend on how often or in which order the
  events of a stream report it, nor on how the stream is cut into chunks; the cost of a call
  bills every input token exactly once; images are only ever taken from the events of the
  stream.
\<close>

section \<open>Usage is a join\<close>

interpretation usage: semilattice merge_usage
  by unfold_locales (simp_all add: merge_usage_def ac_simps)

lemma line_usage_comm: "line_usage parse l (line_usage parse k u) = line_usage parse k (line_usage parse l u)"
  by (simp add: line_usage_def usage.assoc usage.commute usage.left_commute split: option.splits)

lemma line_usage_idem: "line_usage parse l (line_usage parse l u) = line_usage parse l u"
  by (simp add: line_usage_def usage.assoc split: option.splits)

interpretation line: comp_fun_idem "line_usage parse" for parse
  by unfold_locales (simp_all add: fun_eq_iff line_usage_comm line_usage_idem)

section \<open>Scanning\<close>

definition line_open :: "string \<Rightarrow> bool" where
  "line_open s \<longleftrightarrow> CHR 0x0A \<notin> set s"

lemma position_line_open [simp]: "position (\<lambda>byte. byte = CHR 0x0A) s = None \<longleftrightarrow> line_open s"
  by (auto simp: position_None_iff line_open_def)

lemma scan_lines_open: "line_open s \<Longrightarrow> scan_lines parse (s, u) = (s, u)"
  by (subst scan_lines.simps) (simp split: option.splits, metis option.distinct(1) position_line_open)

lemma scan_lines_step:
  "position (\<lambda>byte. byte = CHR 0x0A) s = Some i \<Longrightarrow>
     scan_lines parse (s, u) =
       scan_lines parse (drop (Suc i) s, line_usage parse (take (Suc i) s) u)"
  by (subst scan_lines.simps) simp

lemma scan_lines_rest_open: "line_open (fst (scan_lines parse (s, u)))"
proof (induction "length s" arbitrary: s u rule: less_induct)
  case less
  show ?case
  proof (cases "position (\<lambda>byte. byte = CHR 0x0A) s")
    case None
    then show ?thesis by (simp add: scan_lines_open)
  next
    case (Some i)
    then have "length (drop (Suc i) s) < length s" by (auto dest: position_SomeD)
    from less [OF this] show ?thesis by (simp add: scan_lines_step [OF Some])
  qed
qed

lemma scan_lines_append:
  "scan_lines parse (s @ t, u) =
     (case scan_lines parse (s, u) of (r, v) \<Rightarrow> scan_lines parse (r @ t, v))"
proof (induction "length s" arbitrary: s u rule: less_induct)
  case less
  show ?case
  proof (cases "position (\<lambda>byte. byte = CHR 0x0A) s")
    case None
    then show ?thesis by (simp add: scan_lines_open)
  next
    case (Some i)
    then have i: "i < length s" by (auto dest: position_SomeD)
    from Some have "position (\<lambda>byte. byte = CHR 0x0A) (s @ t) = Some i"
      by (simp add: position_append)
    moreover from i have "length (drop (Suc i) s) < length s" by simp
    note less [OF this, of "line_usage parse (take (Suc i) s) u"]
    ultimately show ?thesis using i by (simp add: scan_lines_step [OF Some] scan_lines_step)
  qed
qed

lemma scan_lines_concat:
  "\<forall>l \<in> set ls. \<exists>k. line_open k \<and> l = k @ [CHR 0x0A] \<Longrightarrow>
     scan_lines parse (concat ls, u) = ([], fold (line_usage parse) ls u)"
proof (induction ls arbitrary: u)
  case Nil
  show ?case by (simp add: scan_lines_open line_open_def)
next
  case (Cons l ls)
  then obtain k where k: "line_open k" "l = k @ [CHR 0x0A]" by auto
  have "position (\<lambda>byte. byte = CHR 0x0A) (l @ concat ls) = Some (length k)"
    using k by (simp add: position_append iffD2 [OF position_line_open k(1)])
  from scan_lines_step [OF this] k Cons show ?case by simp
qed

text \<open>Usage does not depend on the order or the repetition of a stream's lines: two
  streams with the same set of complete lines report the same usage, the component-wise
  maximum over their events and the usage before.\<close>

lemma usage_of_lines_order_free:
  assumes "\<forall>l \<in> set ls \<union> set ks. \<exists>k. CHR 0x0A \<notin> set k \<and> l = k @ [CHR 0x0A]"
    and "set ls = set ks"
  shows "scan_lines parse (concat ls, u) = scan_lines parse (concat ks, u)"
proof -
  have "fold (line_usage parse) ls u = fold (line_usage parse) ks u"
    unfolding line.fold_set_fold [symmetric] assms(2) ..
  with assms(1) show ?thesis by (subst scan_lines_concat, simp add: line_open_def)+ simp
qed

section \<open>Chunks\<close>

definition rest_fits :: "(string \<Rightarrow> json option) \<Rightarrow> string \<times> usage \<Rightarrow> string \<Rightarrow> bool" where
  "rest_fits parse st bytes \<longleftrightarrow>
     length (fst (scan_lines parse (fst st @ bytes, snd st))) \<le> sse_limit"

interpretation sse: chunk_reader "update_sse_usage parse" "\<lambda>st. line_open (fst st) \<and> length (fst st) \<le> sse_limit"
  "rest_fits parse" for parse
proof unfold_locales
  fix s :: "string \<times> usage" and xs ys
  show "update_sse_usage parse (update_sse_usage parse s xs) ys = update_sse_usage parse s (xs @ ys)"
    if "rest_fits parse s xs"
  proof -
    obtain r v where rv: "scan_lines parse (fst s @ xs, snd s) = (r, v)" by (cases "scan_lines parse (fst s @ xs, snd s)")
    with that have u: "update_sse_usage parse s xs = (r, v)"
      by (simp add: update_sse_usage_def rest_fits_def)
    show ?thesis
      using scan_lines_append [of parse "fst s @ xs" ys "snd s"] rv
      by (simp add: u) (simp add: update_sse_usage_def)
  qed
  show "line_open (fst (update_sse_usage parse s xs)) \<and> length (fst (update_sse_usage parse s xs)) \<le> sse_limit"
    using scan_lines_rest_open [of parse "fst s @ xs" "snd s"]
    by (auto simp: update_sse_usage_def Let_def line_open_def split: prod.splits)
  show "update_sse_usage parse s [] = s" if "line_open (fst s) \<and> length (fst s) \<le> sse_limit"
    using that by (cases s) (simp add: update_sse_usage_def scan_lines_open)
qed

text \<open>C21. The usage of a stream does not depend on how the network cut it: fed in any chunks,
  the scanner ends as if it had seen the whole stream at once, as long as no unfinished line
  exceeds 2 MiB.\<close>

theorem sse_usage_cut_free:
  assumes "\<forall>n < length chunks.
     length (fst (scan_lines parse (concat (take n chunks), usage_default))) \<le> sse_limit"
  shows "fold (\<lambda>c st. update_sse_usage parse st c) chunks ([], usage_default) =
     update_sse_usage parse ([], usage_default) (concat chunks)"
proof (rule sse.fold_feed_concat)
  show "sse.all_fit parse ([], usage_default) chunks"
    using assms by (simp add: sse.all_fit_def rest_fits_def)
qed (simp add: line_open_def)

text \<open>The pending bytes never exceed the limit, whatever is fed.\<close>

lemma sse_pending_bounded: "length (fst (update_sse_usage parse st bytes)) \<le> sse_limit"
  by (simp add: update_sse_usage_def Let_def split: prod.splits)

section \<open>Cost\<close>

definition rates_wf :: "token_rates \<Rightarrow> bool" where
  "rates_wf r \<longleftrightarrow>
     0 \<le> tr_input_usd_nanos r \<and> tr_input_usd_nanos r \<le> 600000 \<and>
     0 \<le> tr_cached_input_usd_nanos r \<and> tr_cached_input_usd_nanos r \<le> tr_input_usd_nanos r \<and>
     0 \<le> tr_cache_write_usd_nanos r \<and> tr_cache_write_usd_nanos r \<le> 600000 \<and>
     0 \<le> tr_output_usd_nanos r \<and> tr_output_usd_nanos r \<le> 600000"

lemma pricing_table_wf:
  "p \<in> set TOKEN_PRICING \<Longrightarrow> rates_wf (pricing_rates p n)"
proof -
  have "list_all (\<lambda>p. rates_wf (tp_short p) \<and> (case tp_long p of None \<Rightarrow> True | Some r \<Rightarrow> rates_wf r))
      TOKEN_PRICING" by code_simp
  then show "p \<in> set TOKEN_PRICING \<Longrightarrow> rates_wf (pricing_rates p n)"
    by (auto simp: list_all_iff pricing_rates_def split: option.splits)
qed

lemma nonneg_product_le:
  fixes a b :: int
  shows "0 \<le> a \<Longrightarrow> a \<le> m \<Longrightarrow> 0 \<le> b \<Longrightarrow> b \<le> n \<Longrightarrow> 0 \<le> a * b \<and> a * b \<le> m * n"
  by (simp add: mult_mono)

lemma sat_exact:
  "in_i64 (a + b) \<Longrightarrow> sat_add a b = a + b" "in_i64 (a - b) \<Longrightarrow> sat_sub a b = a - b"
  "in_i64 (a * b) \<Longrightarrow> sat_mul a b = a * b"
  by (simp_all add: sat_add_def sat_sub_def sat_mul_def saturate_id)

text \<open>C22. The cost of a call bills every token exactly once: for a priced model and counts up
  to 10^12, the input splits into cached, cache-write (only where the model prices it) and
  plain tokens, each at its own rate of the price class the input size selects, the output is
  added, and nothing saturates.\<close>

theorem cost_bills_each_token_once:
  assumes p: "find (\<lambda>p. tp_model p = model) TOKEN_PRICING = Some p"
    and nonneg: "0 \<le> us_input_tokens u" "0 \<le> us_output_tokens u" "0 \<le> us_cached_tokens u"
      "0 \<le> us_cache_write_tokens u"
    and small: "us_input_tokens u \<le> 10 ^ 12" "us_output_tokens u \<le> 10 ^ 12"
  defines "r \<equiv> pricing_rates p (us_input_tokens u)"
  defines "cached \<equiv> min (us_cached_tokens u) (us_input_tokens u)"
  defines "written \<equiv> (if tr_cache_write_usd_nanos r = 0 then 0
                     else min (us_cache_write_tokens u) (us_input_tokens u - cached))"
  defines "plain \<equiv> us_input_tokens u - cached - written"
  shows "cost_usd_nanos model u = Some (Some
     (plain * tr_input_usd_nanos r + cached * tr_cached_input_usd_nanos r +
      written * tr_cache_write_usd_nanos r + us_output_tokens u * tr_output_usd_nanos r)) \<and>
     0 \<le> plain \<and> plain + cached + written = us_input_tokens u"
proof -
  have wf: "rates_wf r"
    unfolding r_def using p by (auto intro: pricing_table_wf dest: find_SomeD)
  have parts: "0 \<le> cached" "0 \<le> written" "0 \<le> plain" "cached \<le> 10 ^ 12" "written \<le> 10 ^ 12"
    "plain \<le> 10 ^ 12"
    using nonneg small by (auto simp: cached_def written_def plain_def)
  have b1: "0 \<le> plain * tr_input_usd_nanos r \<and> plain * tr_input_usd_nanos r \<le> 10 ^ 12 * 600000"
    and b2: "0 \<le> cached * tr_cached_input_usd_nanos r \<and>
      cached * tr_cached_input_usd_nanos r \<le> 10 ^ 12 * 600000"
    and b3: "0 \<le> written * tr_cache_write_usd_nanos r \<and>
      written * tr_cache_write_usd_nanos r \<le> 10 ^ 12 * 600000"
    and b4: "0 \<le> us_output_tokens u * tr_output_usd_nanos r \<and>
      us_output_tokens u * tr_output_usd_nanos r \<le> 10 ^ 12 * 600000"
    using wf parts nonneg small by (intro nonneg_product_le; simp add: rates_wf_def)+
  have c: "clamp 0 (max (us_input_tokens u) 0) (us_cached_tokens u) = Some cached"
    using nonneg by (auto simp: clamp_def cached_def)
  have s1: "sat_sub (us_input_tokens u) cached = us_input_tokens u - cached"
    using nonneg small parts by (simp add: sat_exact in_i64_def cached_def)
  have w: "(if tr_cache_write_usd_nanos r = 0 then Some 0
      else clamp 0 (us_input_tokens u - cached) (us_cache_write_tokens u)) = Some written"
    using nonneg by (auto simp: clamp_def written_def cached_def)
  have s2: "sat_sub (us_input_tokens u - cached) written = plain"
    using parts small by (simp add: sat_exact in_i64_def plain_def)
  have o: "max (us_output_tokens u) 0 = us_output_tokens u" using nonneg by simp
  have i: "in_i64 (plain * tr_input_usd_nanos r)" "in_i64 (cached * tr_cached_input_usd_nanos r)"
    "in_i64 (written * tr_cache_write_usd_nanos r)"
    "in_i64 (us_output_tokens u * tr_output_usd_nanos r)"
    "in_i64 (plain * tr_input_usd_nanos r + cached * tr_cached_input_usd_nanos r)"
    "in_i64 (plain * tr_input_usd_nanos r + cached * tr_cached_input_usd_nanos r +
      written * tr_cache_write_usd_nanos r)"
    "in_i64 (plain * tr_input_usd_nanos r + cached * tr_cached_input_usd_nanos r +
      written * tr_cache_write_usd_nanos r + us_output_tokens u * tr_output_usd_nanos r)"
    using b1 b2 b3 b4 by (simp_all add: in_i64_def)
  have "cost_usd_nanos model u = Some (Some
     (plain * tr_input_usd_nanos r + cached * tr_cached_input_usd_nanos r +
      written * tr_cache_write_usd_nanos r + us_output_tokens u * tr_output_usd_nanos r))"
    unfolding cost_usd_nanos_def p option.case Let_def r_def [symmetric] c bind.bind_lunit s1 w s2 o
    by (simp only: sat_exact i)
  with parts show ?thesis by (simp add: plain_def)
qed

text \<open>C23. Pricing panics exactly when the upstream reports a negative number of input tokens
  for one of the models with a cache-write price; for every other input it returns.\<close>

theorem cost_panics_iff:
  "cost_usd_nanos model u = None \<longleftrightarrow>
     us_input_tokens u < 0 \<and> model \<in> {''gpt-5.6-sol'', ''gpt-5.6-terra'', ''gpt-5.6-luna''}"
proof -
  let ?find = "find (\<lambda>p. tp_model p = model) TOKEN_PRICING"
  have short: "(case ?find of None \<Rightarrow> False | Some p \<Rightarrow> tr_cache_write_usd_nanos (tp_short p) \<noteq> 0) \<longleftrightarrow>
      model \<in> {''gpt-5.6-sol'', ''gpt-5.6-terra'', ''gpt-5.6-luna''}"
    by (simp add: TOKEN_PRICING_def token_pricing_5_4_up_def token_pricing_gpt_def
        token_pricing_o_def mk_rates_def)
  show ?thesis
  proof (cases ?find)
    case None
    with short show ?thesis by (simp add: cost_usd_nanos_def)
  next
    case (Some p)
    show ?thesis
    proof (cases "us_input_tokens u < 0")
      case True
      then have "pricing_rates p (us_input_tokens u) = tp_short p" by (simp add: pricing_rates_def)
      moreover have "sat_sub (us_input_tokens u) 0 < 0" using True by (simp add: sat_sub_def saturate_def)
      ultimately show ?thesis
        using short Some True by (auto simp: cost_usd_nanos_def clamp_def Let_def)
    next
      case False
      then have "0 \<le> sat_sub (us_input_tokens u) c" if "c \<le> us_input_tokens u" for c
        using that by (simp add: sat_sub_def saturate_nonneg)
      with Some False show ?thesis
        by (auto simp: cost_usd_nanos_def clamp_def Let_def)
    qed
  qed
qed

section \<open>Images\<close>

text \<open>The image an event carries as a finished item, and the images of a completed response.\<close>

definition done_item :: "json \<Rightarrow> json option" where
  "done_item event =
     (if Option.bind (jget event ''type'') as_str = Some ''response.output_item.done''
      then opt_filter is_image_item (jget event ''item'') else None)"

definition completed_items :: "json \<Rightarrow> json list" where
  "completed_items event =
     (if Option.bind (jget event ''type'') as_str = Some ''response.completed''
      then filter is_image_item
             (unwrap_or (Option.bind (jpointer event [''response'', ''output'']) as_array) [])
      else [])"

text \<open>The first event with an image decides: its images, then the finished items after it.\<close>

definition stream_images :: "json list \<Rightarrow> json list" where
  "stream_images events =
     (case dropWhile (\<lambda>e. done_item e = None \<and> completed_items e = []) events of
        [] \<Rightarrow> []
      | e # rest \<Rightarrow> (case done_item e of Some i \<Rightarrow> [i] | None \<Rightarrow> completed_items e) @
                  List.map_filter done_item rest)"

lemma image_event_step:
  "image_event e (items, u) =
     ((case done_item e of Some i \<Rightarrow> items @ [i]
       | None \<Rightarrow> if items = [] then completed_items e else items),
      merge_usage u (usage_from_value e))"
  by (auto simp: image_event_def done_item_def completed_items_def Let_def unwrap_or_def
      opt_filter_def split: option.splits)

lemma image_events_nonempty:
  "items \<noteq> [] \<Longrightarrow> fst (fold image_event es (items, u)) = items @ List.map_filter done_item es"
  by (induction es arbitrary: items u) (auto simp: image_event_step map_filter_simps split: option.splits)

lemma image_events_usage:
  "snd (fold image_event es (items, u)) = fold (\<lambda>e u. merge_usage u (usage_from_value e)) es u"
  by (induction es arbitrary: items u) (simp_all add: image_event_step)

lemma image_events_fst: "fst (fold image_event es ([], u)) = stream_images es"
proof (induction es arbitrary: u)
  case Nil
  show ?case by (simp add: stream_images_def)
next
  case (Cons e es)
  show ?case
  proof (cases "done_item e = None \<and> completed_items e = []")
    case True
    with Cons show ?thesis by (simp add: image_event_step stream_images_def)
  next
    case False
    then show ?thesis
      by (auto simp: image_event_step stream_images_def image_events_nonempty split: option.splits)
  qed
qed

text \<open>C24. The images of an event stream are those of its first event that carries one followed
  by the finished items after it, so that a final summary repeating them adds nothing; each
  needs a result, the usage is joined over all events, and without an image (or on bytes that
  are no UTF-8) the answer is a 502.\<close>

theorem images_from_sse_spec:
  "images_from_sse parse bytes =
     (let events = image_lines parse bytes;
          data = List.map_filter image_data (stream_images events)
      in if \<not> valid_utf8 bytes then Inl (upstream 502 ''invalid image event stream'')
         else if data = [] then Inl (upstream 502 ''upstream did not return image data'')
         else Inr (data, fold (\<lambda>e u. merge_usage u (usage_from_value e)) events usage_default))"
  using image_events_fst [of "image_lines parse bytes" usage_default]
    image_events_usage [of "image_lines parse bytes" "[]" usage_default]
  by (simp add: images_from_sse_def Let_def case_prod_unfold)

section \<open>Witnesses\<close>

definition sample_events :: "string \<Rightarrow> json option" where
  "sample_events s =
     (if s = ''a'' @ [CHR 0x0A]
      then Some (JObj [(''usage'', JObj [(''input_tokens'', JInt 7), (''output_tokens'', JInt 2)])])
      else if s = ''b'' @ [CHR 0x0A]
      then Some (JObj [(''response'', JObj [(''usage'', JObj [(''input_tokens'', JInt 9)])])])
      else None)"

definition line_a :: string where "line_a = ''data: a'' @ [CHR 0x0A]"
definition line_b :: string where "line_b = ''data: b'' @ [CHR 0x0A]"

theorem sse_usage_cut_free_witness:
  "fold (\<lambda>c st. update_sse_usage sample_events st c) [''data'', '': a'' @ [CHR 0x0A] @ ''da'', ''ta: b'', [CHR 0x0A]]
      ([], usage_default) =
   update_sse_usage sample_events ([], usage_default) (line_a @ line_b)"
proof -
  let ?cs = "[''data'', '': a'' @ [CHR 0x0A] @ ''da'', ''ta: b'', [CHR 0x0A]]"
  define held where "held n =
      length (fst (scan_lines sample_events (concat (take n ?cs), usage_default)))" for n
  have "map held [0, 1, 2, 3] = [0, 4, 2, 7]" unfolding held_def by code_simp
  moreover have "n = 0 \<or> n = 1 \<or> n = 2 \<or> n = 3" if "n < 4" for n :: nat
    using that by arith
  ultimately have "held n \<le> sse_limit" if "n < 4" for n
    using that by fastforce
  then have "\<forall>n < length ?cs.
      length (fst (scan_lines sample_events (concat (take n ?cs), usage_default))) \<le> sse_limit"
    by (simp add: held_def)
  from sse_usage_cut_free [OF this] show ?thesis by (simp add: line_a_def line_b_def)
qed

definition sample_usage :: usage where
  "sample_usage = \<lparr>us_input_tokens = 300000, us_output_tokens = 10, us_cached_tokens = 1000,
     us_cache_write_tokens = 500\<rparr>"

theorem cost_bills_each_token_once_witness:
  "cost_usd_nanos ''gpt-5.6-sol'' sample_usage =
     Some (Some (298500 * 10000 + 1000 * 1000 + 500 * 12500 + 10 * 45000))"
proof -
  have f: "find (\<lambda>p. tp_model p = ''gpt-5.6-sol'') TOKEN_PRICING =
      Some \<lparr>tp_model = ''gpt-5.6-sol'', tp_short = mk_rates 5000 500 6250 30000,
        tp_long = Some (mk_rates 10000 1000 12500 45000)\<rparr>"
    by (simp add: TOKEN_PRICING_def token_pricing_5_4_up_def)
  show ?thesis
    using cost_bills_each_token_once [OF f, of sample_usage]
    by (simp add: sample_usage_def pricing_rates_def mk_rates_def)
qed

end
