(* ===== verification/Image_Request.thy ===== *)
theory Image_Request
  imports Http
begin

text \<open>
  Request bodies of \<open>src/proxy.rs\<close>: the validation of an image request and its translation
  into a Responses call, and the defaults every other JSON request gets. Writing a value as
  text is serde's work, the parameter \<open>render\<close>; the host model is a setting, the parameter
  \<open>host_model\<close>.
\<close>

section \<open>Validation\<close>

abbreviation MAX_REFERENCE_IMAGES :: nat where "MAX_REFERENCE_IMAGES \<equiv> 4"

definition validate_image_size :: "string \<Rightarrow> string option \<Rightarrow> (app_error, unit) result" where
  "validate_image_size dims model =
     (if dims \<in> {''auto'', ''1024x1024'', ''1536x1024'', ''1024x1536''} then Inr ()
      else if model \<noteq> Some ''gpt-image-2''
      then Inl (bad_request ''custom image sizes require model gpt-image-2'')
      else
        rbind (ok_or (split_once ''x'' dims) (bad_request ''size must use WIDTHxHEIGHT'')) (\<lambda>(w, h).
        rbind (ok_or (parse_u64 w) (bad_request ''size must use WIDTHxHEIGHT'')) (\<lambda>width.
        rbind (ok_or (parse_u64 h) (bad_request ''size must use WIDTHxHEIGHT'')) (\<lambda>height.
        rbind (ensure (\<not> (width > 3840 \<or> height > 3840 \<or> width mod 16 \<noteq> 0 \<or> height mod 16 \<noteq> 0))
          (bad_request ''size dimensions must be multiples of 16 and no larger than 3840'')) (\<lambda>_.
        let pixels = width * height
        in ensure
             (\<not> (\<not> (655360 \<le> pixels \<and> pixels \<le> 8294400) \<or> max width height > 3 * min width height))
             (bad_request ''size must contain 655360-8294400 pixels with an aspect ratio no wider than 3:1''))))))"

definition image_mimes :: "string list" where
  "image_mimes = [''image/png'', ''image/jpeg'', ''image/jpg'', ''image/webp'', ''image/gif'']"

definition validate_reference_image_url :: "string \<Rightarrow> (app_error, unit) result" where
  "validate_reference_image_url image_url =
     rbind (ok_or (split_once '';base64,'' image_url)
              (bad_request ''reference images must be base64 data URLs'')) (\<lambda>(metadata, encoded).
     let mime = opt_filter (\<lambda>m. m \<in> set image_mimes) (strip_prefix ''data:'' metadata)
     in ensure (\<not> (mime = None \<or> encoded = []))
          (bad_request ''reference images must be PNG, JPEG, WEBP, or GIF data URLs''))"

definition reference_image_input :: "json \<Rightarrow> (app_error, json) result" where
  "reference_image_input img =
     rbind (ok_or (as_str img) (bad_request ''reference_images must contain strings'')) (\<lambda>image_url.
     rbind (validate_reference_image_url image_url) (\<lambda>_.
     Inr (JObj [(''type'', JStr ''input_image''), (''image_url'', JStr image_url),
                (''detail'', JStr ''auto'')])))"

definition reference_image_inputs :: "json_map \<Rightarrow> (app_error, json list) result" where
  "reference_image_inputs m =
     (case map_of m ''reference_images'' of
        None \<Rightarrow> Inr []
      | Some v \<Rightarrow>
          rbind (ok_or (as_array v) (bad_request ''reference_images must be an array'')) (\<lambda>images.
          rbind (ensure (\<not> MAX_REFERENCE_IMAGES < length images)
            (bad_request ''reference_images supports at most 4 images'')) (\<lambda>_.
          traverse reference_image_input images)))"

definition validate_enum :: "json_map \<Rightarrow> string \<Rightarrow> string list \<Rightarrow> (app_error, unit) result" where
  "validate_enum m field allowed =
     (case map_of m field of
        None \<Rightarrow> Inr ()
      | Some v \<Rightarrow>
          rbind (ok_or (as_str v) (bad_request (field @ '' must be a string''))) (\<lambda>s.
          ensure (s \<in> set allowed) (bad_request (''unsupported '' @ field))))"

text \<open>A check of one optional member of the request object.\<close>

definition check_member ::
  "json_map \<Rightarrow> string \<Rightarrow> (json \<Rightarrow> (app_error, unit) result) \<Rightarrow> (app_error, unit) result" where
  "check_member m k check = (case map_of m k of None \<Rightarrow> Inr () | Some v \<Rightarrow> check v)"

definition check_image_n :: "json \<Rightarrow> (app_error, unit) result" where
  "check_image_n v =
     ensure (as_i64 v = Some 1) (bad_request ''image generation supports integer n=1 only'')"

definition check_image_stream :: "json \<Rightarrow> (app_error, unit) result" where
  "check_image_stream v =
     (case as_bool v of
        Some False \<Rightarrow> Inr ()
      | Some True \<Rightarrow> Inl (bad_request ''streaming images are not supported by this endpoint'')
      | None \<Rightarrow> Inl (bad_request ''stream must be a boolean''))"

definition check_compression :: "json \<Rightarrow> (app_error, unit) result" where
  "check_compression v =
     rbind (ok_or (as_i64 v) (bad_request ''output_compression must be an integer from 0 to 100''))
       (\<lambda>c. ensure (0 \<le> c \<and> c \<le> 100) (bad_request ''output_compression must be 0-100''))"

definition validate_image_request :: "json_map \<Rightarrow> (app_error, unit) result" where
  "validate_image_request m =
     rbind (check_member m ''n'' check_image_n) (\<lambda>_.
     rbind (check_member m ''stream'' check_image_stream) (\<lambda>_.
     rbind (check_member m ''response_format'' (\<lambda>v. ensure (as_str v = Some ''b64_json'')
              (bad_request ''response_format must be the string b64_json''))) (\<lambda>_.
     rbind (check_member m ''model'' (\<lambda>v. ensure (\<not> (as_str v = None \<or> as_str v = Some []))
              (bad_request ''model must be a non-empty string''))) (\<lambda>_.
     rbind (check_member m ''size'' (\<lambda>v.
              rbind (ok_or (as_str v) (bad_request ''size must be a string'')) (\<lambda>dims.
              validate_image_size dims (str_field m ''model'')))) (\<lambda>_.
     rbind (validate_enum m ''quality'' [''auto'', ''low'', ''medium'', ''high'']) (\<lambda>_.
     rbind (validate_enum m ''background'' [''auto'', ''opaque'', ''transparent'']) (\<lambda>_.
     rbind (validate_enum m ''output_format'' [''png'', ''jpeg'', ''webp'']) (\<lambda>_.
     rbind (validate_enum m ''moderation'' [''auto'', ''low'']) (\<lambda>_.
     rbind (reference_image_inputs m) (\<lambda>_.
     check_member m ''output_compression'' check_compression))))))))))"

section \<open>Transformation\<close>

definition str_or :: "json_map \<Rightarrow> string \<Rightarrow> string \<Rightarrow> json" where
  "str_or m k d = JStr (unwrap_or (str_field m k) d)"

definition image_instructions :: string where
  "image_instructions =
     ''You are an image generator. You MUST call image_generation exactly once and return only '' @
     ''that tool call. Mirror the user'' @ [CHR 0x27] @
     ''s request verbatim into the prompt argument.''"

definition image_tool :: "json_map \<Rightarrow> json" where
  "image_tool m =
     JObj [(''type'', JStr ''image_generation''),
           (''model'', str_or m ''model'' ''gpt-image-1''),
           (''size'', str_or m ''size'' ''1024x1024''),
           (''quality'', str_or m ''quality'' ''auto''),
           (''background'', str_or m ''background'' ''auto''),
           (''output_format'', str_or m ''output_format'' ''png''),
           (''output_compression'',
              JInt (unwrap_or (Option.bind (map_of m ''output_compression'') as_u64) 100)),
           (''moderation'', str_or m ''moderation'' ''auto'')]"

definition translated_image :: "string \<Rightarrow> json_map \<Rightarrow> string \<Rightarrow> json list \<Rightarrow> json" where
  "translated_image host_model m prompt refs =
     JObj [(''model'', JStr host_model),
           (''instructions'', JStr image_instructions),
           (''input'', JArr [JObj [(''type'', JStr ''message''), (''role'', JStr ''user''),
              (''content'', JArr (JObj [(''type'', JStr ''input_text''), (''text'', JStr prompt)] # refs))]]),
           (''tools'', JArr [image_tool m]),
           (''tool_choice'', JObj [(''type'', JStr ''image_generation'')]),
           (''stream'', JBool True), (''store'', JBool False)]"

definition transformed_object :: "string \<Rightarrow> json_map \<Rightarrow> json_map" where
  "transformed_object path m =
     (let m1 = jmap_or_insert ''instructions'' (JStr []) m
      in if ends_with path ''/compact'' then m1
         else jmap_remove ''temperature''
                (jmap_remove ''max_output_tokens'' (jmap_insert ''store'' (JBool False) m1)))"

definition transform_request ::
  "(json \<Rightarrow> string) \<Rightarrow> string \<Rightarrow> json option \<Rightarrow> string \<Rightarrow> (app_error, string) result" where
  "transform_request render path parsed host_model =
     rbind (ok_or parsed (bad_request ''JSON request body required'')) (\<lambda>v.
     rbind (ok_or (as_object v) (bad_request ''JSON object required'')) (\<lambda>m.
     if path = ''/v1/images/generations''
     then
       rbind (validate_image_request m) (\<lambda>_.
       rbind (ok_or (str_field m ''prompt'') (bad_request ''prompt is required'')) (\<lambda>prompt.
       rbind (reference_image_inputs m) (\<lambda>refs.
       Inr (render (translated_image host_model m prompt refs)))))
     else Inr (render (JObj (transformed_object path m)))))"

section \<open>Sizes\<close>

lemma side_bound:
  fixes w h :: nat
  assumes "655360 \<le> w * h" and "max w h \<le> 3 * min w h" and "w mod 16 = 0" and "h mod 16 = 0"
  shows "480 \<le> min w h"
proof (rule ccontr)
  assume "\<not> 480 \<le> min w h"
  moreover obtain k where k: "min w h = 16 * k"
    using assms(3,4) by (metis min_def mod_eq_0_iff_dvd dvdE)
  ultimately have "k \<le> 29" by linarith
  with k have m: "min w h \<le> 464" by linarith
  have "w * h = min w h * max w h" by (simp add: min_def max_def mult.commute)
  also have "\<dots> \<le> min w h * (3 * min w h)" using assms(2) by (rule mult_le_mono2)
  also have "\<dots> \<le> 464 * (3 * 464)" using m by (intro mult_le_mono) simp_all
  finally show False using assms(1) by simp
qed

text \<open>An image size is accepted only as one of the four presets or, for gpt-image-2, as a
  width and height that are multiples of 16 between 480 and 3840 with a pixel count in the
  allowed range and an aspect ratio of at most 3:1; every such size is accepted, and what is
  refused is a bad request.\<close>

lemma validate_image_size_spec:
  "(validate_image_size dims model = Inr () \<longleftrightarrow>
     dims \<in> {''auto'', ''1024x1024'', ''1536x1024'', ''1024x1536''} \<or>
     model = Some ''gpt-image-2'' \<and>
     (\<exists>ws hs w h. split_once ''x'' dims = Some (ws, hs) \<and>
        parse_u64 ws = Some w \<and> parse_u64 hs = Some h \<and>
        w \<in> {480..3840} \<and> h \<in> {480..3840} \<and> 16 dvd w \<and> 16 dvd h \<and>
        w * h \<in> {655360..8294400} \<and> max w h \<le> 3 * min w h)) \<and>
   (\<forall>e. validate_image_size dims model = Inl e \<longrightarrow> ae_status e = 400)"
proof (rule conjI)
  let ?P = "dims \<in> {''auto'', ''1024x1024'', ''1536x1024'', ''1024x1536''}"
  show "validate_image_size dims model = Inr () \<longleftrightarrow> ?P \<or>
     model = Some ''gpt-image-2'' \<and>
     (\<exists>ws hs w h. split_once ''x'' dims = Some (ws, hs) \<and>
        parse_u64 ws = Some w \<and> parse_u64 hs = Some h \<and>
        w \<in> {480..3840} \<and> h \<in> {480..3840} \<and> 16 dvd w \<and> 16 dvd h \<and>
        w * h \<in> {655360..8294400} \<and> max w h \<le> 3 * min w h)" (is "_ \<longleftrightarrow> _ \<or> ?R")
  proof (cases ?P)
    case True
    then show ?thesis by (simp add: validate_image_size_def)
  next
    case False
    have "validate_image_size dims model = Inr () \<longleftrightarrow>
        model = Some ''gpt-image-2'' \<and>
        (\<exists>ws hs w h. split_once ''x'' dims = Some (ws, hs) \<and>
          parse_u64 ws = Some w \<and> parse_u64 hs = Some h \<and>
          w \<le> 3840 \<and> h \<le> 3840 \<and> 16 dvd w \<and> 16 dvd h \<and>
          w * h \<in> {655360..8294400} \<and> max w h \<le> 3 * min w h)"
      unfolding validate_image_size_def if_not_P [OF False]
      by (simp add: result_simps Let_def not_less dvd_eq_mod_eq_0 case_prod_unfold)
    also have "\<dots> \<longleftrightarrow> ?R"
    proof -
      have "w \<le> 3840 \<and> h \<le> 3840 \<and> 16 dvd w \<and> 16 dvd h \<and> w * h \<in> {655360..8294400} \<and>
          max w h \<le> 3 * min w h \<longleftrightarrow>
          w \<in> {480..3840} \<and> h \<in> {480..3840} \<and> 16 dvd w \<and> 16 dvd h \<and>
          w * h \<in> {655360..8294400} \<and> max w h \<le> 3 * min w h" for w h :: nat
      proof (rule iffI)
        assume a: "w \<le> 3840 \<and> h \<le> 3840 \<and> 16 dvd w \<and> 16 dvd h \<and> w * h \<in> {655360..8294400} \<and>
          max w h \<le> 3 * min w h"
        then have "480 \<le> min w h" by (intro side_bound) simp_all
        with a show "w \<in> {480..3840} \<and> h \<in> {480..3840} \<and> 16 dvd w \<and> 16 dvd h \<and>
          w * h \<in> {655360..8294400} \<and> max w h \<le> 3 * min w h"
          by (simp only: atLeastAtMost_iff min.bounded_iff)
      qed (simp only: atLeastAtMost_iff)
      then show ?thesis by metis
    qed
    finally show ?thesis using False by simp
  qed
  have "fails_with (\<lambda>e. ae_status e = 400) (validate_image_size dims model)"
    unfolding validate_image_size_def by (intro fails_rules) (simp_all add: error_defs)
  then show "\<forall>e. validate_image_size dims model = Inl e \<longrightarrow> ae_status e = 400"
    by (simp add: fails_with_def)
qed

section \<open>Translation\<close>

definition is_image_data_url :: "string \<Rightarrow> bool" where
  "is_image_data_url s \<longleftrightarrow>
     (\<exists>mime encoded.
        s = ''data:'' @ mime @ '';base64,'' @ encoded \<and> encoded \<noteq> [] \<and>
        mime \<in> set image_mimes)"

lemma validate_reference_image_url_sound:
  "validate_reference_image_url s = Inr () \<Longrightarrow> is_image_data_url s"
proof -
  assume "validate_reference_image_url s = Inr ()"
  then obtain a b mime where s: "split_once '';base64,'' s = Some (a, b)" and "b \<noteq> []"
    and "strip_prefix ''data:'' a = Some mime" "mime \<in> set image_mimes"
    by (auto simp: validate_reference_image_url_def result_simps Let_def opt_filter_def
        simp del: split_once.simps split: option.splits if_splits)
  moreover from this have "s = ''data:'' @ mime @ '';base64,'' @ b"
    using split_once_SomeD [OF s] unfolding strip_prefix_Some_iff by simp
  ultimately show ?thesis unfolding is_image_data_url_def by blast
qed

definition input_image_of :: "string \<Rightarrow> json" where
  "input_image_of url =
     JObj [(''type'', JStr ''input_image''), (''image_url'', JStr url), (''detail'', JStr ''auto'')]"

lemma reference_image_input_Inr:
  "reference_image_input v = Inr r \<Longrightarrow>
     \<exists>url. v = JStr url \<and> is_image_data_url url \<and> r = input_image_of url"
  by (cases v) (auto simp: reference_image_input_def result_simps input_image_of_def
      dest: validate_reference_image_url_sound)

lemma traverse_reference_images:
  "traverse reference_image_input vs = Inr rs \<Longrightarrow>
     \<exists>urls. vs = map JStr urls \<and> rs = map input_image_of urls \<and> list_all is_image_data_url urls"
proof (induction vs arbitrary: rs)
  case Nil
  then show ?case by simp
next
  case (Cons v vs)
  then obtain r rs' where r: "reference_image_input v = Inr r" "rs = r # rs'"
    and rs': "traverse reference_image_input vs = Inr rs'" by (auto simp: rbind_Inr_iff)
  obtain url where u: "v = JStr url" "is_image_data_url url" "r = input_image_of url"
    using reference_image_input_Inr [OF r(1)] by auto
  obtain urls where "vs = map JStr urls" "rs' = map input_image_of urls"
    "list_all is_image_data_url urls" using Cons.IH [OF rs'] by auto
  with u r(2) have "v # vs = map JStr (url # urls) \<and> rs = map input_image_of (url # urls) \<and>
      list_all is_image_data_url (url # urls)" by simp
  then show ?case by (rule exI)
qed

lemma reference_image_inputs_Inr:
  "reference_image_inputs m = Inr rs \<Longrightarrow>
     \<exists>urls. rs = map input_image_of urls \<and> list_all is_image_data_url urls \<and> length urls \<le> 4"
  by (auto simp: reference_image_inputs_def result_simps simp del: traverse_Inr_iff
      split: option.splits dest!: traverse_reference_images)

text \<open>C25. An image request that is accepted becomes one streamed, unstored call of the host
  model whose only tool is the image generation that must be called, whose only input is the
  prompt followed by at most four reference images, each a base64 data URL of an image type.\<close>

theorem image_translation_sound:
  assumes "transform_request render ''/v1/images/generations'' (Some (JObj m)) host = Inr out"
  shows "\<exists>prompt urls v. out = render v \<and> map_of m ''prompt'' = Some (JStr prompt) \<and>
     length urls \<le> 4 \<and> list_all is_image_data_url urls \<and>
     jget v ''model'' = Some (JStr host) \<and> jget v ''stream'' = Some (JBool True) \<and>
     jget v ''store'' = Some (JBool False) \<and> jget v ''tools'' = Some (JArr [image_tool m]) \<and>
     jpointer v [''tool_choice'', ''type''] = Some (JStr ''image_generation'') \<and>
     jget v ''input'' = Some (JArr [JObj [(''type'', JStr ''message''), (''role'', JStr ''user''),
       (''content'', JArr (JObj [(''type'', JStr ''input_text''), (''text'', JStr prompt)] #
          map input_image_of urls))]])"
proof -
  have "rbind (validate_image_request m) (\<lambda>_.
       rbind (ok_or (str_field m ''prompt'') (bad_request ''prompt is required'')) (\<lambda>prompt.
       rbind (reference_image_inputs m) (\<lambda>refs.
       Inr (render (translated_image host m prompt refs))))) = Inr out"
    using assms unfolding transform_request_def by simp
  then obtain prompt refs where p: "str_field m ''prompt'' = Some prompt"
    and r: "reference_image_inputs m = Inr refs"
    and o: "out = render (translated_image host m prompt refs)"
    unfolding rbind_Inr_iff ok_or_Inr_iff by blast
  obtain urls where u: "refs = map input_image_of urls" "list_all is_image_data_url urls" "length urls \<le> 4"
    using reference_image_inputs_Inr [OF r] by blast
  have "map_of m ''prompt'' = Some (JStr prompt)"
    using p unfolding str_field_def by (rule bind_as_str)
  with u show ?thesis
    by (intro exI [of _ prompt] exI [of _ urls] exI [of _ "translated_image host m prompt refs"])
      (simp add: o translated_image_def)
qed

lemma transformed_object_get:
  "map_of (transformed_object path m) k =
     (if k = ''instructions'' \<and> map_of m k = None then Some (JStr [])
      else if ends_with path ''/compact'' then map_of m k
      else if k = ''store'' then Some (JBool False)
      else if k \<in> {''max_output_tokens'', ''temperature''} then None
      else map_of m k)"
proof -
  consider "k = ''instructions''" | "k = ''store''" | "k = ''max_output_tokens''"
    | "k = ''temperature''"
    | "k \<noteq> ''instructions''" "k \<noteq> ''store''" "k \<noteq> ''max_output_tokens''" "k \<noteq> ''temperature''"
    by blast
  then show ?thesis
    by cases (simp_all add: transformed_object_def Let_def jmap_or_insert_get)
qed

lemma transformed_object_idem:
  "map_of (transformed_object path (transformed_object path m)) k = map_of (transformed_object path m) k"
  unfolding transformed_object_get [of path "transformed_object path m"]
  by (cases "k = ''instructions''") (simp_all add: transformed_object_get)

text \<open>C26. Every other JSON call keeps the caller's members, with exactly these changes: missing
  instructions become empty and, unless the call is a compaction, storing is switched off and
  the two parameters the upstream refuses are removed; doing it twice changes nothing more.\<close>

theorem transform_request_effect:
  assumes "path \<noteq> ''/v1/images/generations''"
  shows "\<exists>m'. transform_request render path (Some (JObj m)) host = Inr (render (JObj m')) \<and>
     (\<forall>k. map_of m' k =
        (if k = ''instructions'' \<and> map_of m k = None then Some (JStr [])
         else if ends_with path ''/compact'' then map_of m k
         else if k = ''store'' then Some (JBool False)
         else if k \<in> {''max_output_tokens'', ''temperature''} then None
         else map_of m k)) \<and>
     map_of (transformed_object path m') = map_of m'"
proof (intro exI conjI)
  show "transform_request render path (Some (JObj m)) host =
      Inr (render (JObj (transformed_object path m)))"
    using assms by (simp add: transform_request_def)
  show "map_of (transformed_object path (transformed_object path m)) = map_of (transformed_object path m)"
    by (rule ext) (rule transformed_object_idem)
qed (intro allI, rule transformed_object_get)

section \<open>Witnesses\<close>

definition sample_image_request :: json_map where
  "sample_image_request =
     [(''prompt'', JStr ''a cat''), (''quality'', JStr ''low''),
      (''reference_images'', JArr [JStr ''data:image/png;base64,AAAA''])]"

theorem image_translation_sound_witness:
  "\<exists>prompt urls v. transform_request (\<lambda>_. ''ok'')
       ''/v1/images/generations'' (Some (JObj sample_image_request)) ''host'' = Inr ''ok'' \<and>
     map_of sample_image_request ''prompt'' = Some (JStr prompt) \<and> length urls \<le> 4 \<and>
     list_all is_image_data_url urls \<and> jget v ''stream'' = Some (JBool True)"
proof -
  have t: "transform_request (\<lambda>_. ''ok'')
       ''/v1/images/generations'' (Some (JObj sample_image_request)) ''host'' = Inr ''ok''"
    by (simp add: transform_request_def sample_image_request_def validate_image_request_def
        check_member_def validate_enum_def reference_image_inputs_def reference_image_input_def
        validate_reference_image_url_def str_field_def image_mimes_def strip_prefix_def)
  from image_translation_sound [OF this] t show ?thesis by blast
qed

theorem transform_request_effect_witness:
  "\<exists>m'. transform_request (\<lambda>_. []) ''/v1/responses'' (Some (JObj [(''temperature'', JInt 1)])) [] =
       Inr [] \<and>
     map_of m' ''store'' = Some (JBool False) \<and> map_of m' ''temperature'' = None"
proof -
  have "''/v1/responses'' \<noteq> ''/v1/images/generations''" by simp
  from transform_request_effect [OF this, of "\<lambda>_. []" "[(''temperature'', JInt 1)]" "[]"]
  obtain m' where m': "transform_request (\<lambda>_. []) ''/v1/responses'' (Some (JObj [(''temperature'', JInt 1)])) [] =
       Inr []"
    and g: "\<And>k. map_of m' k =
       (if k = ''instructions'' \<and> map_of [(''temperature'', JInt 1)] k = None then Some (JStr [])
        else if ends_with ''/v1/responses'' ''/compact'' then map_of [(''temperature'', JInt 1)] k
        else if k = ''store'' then Some (JBool False)
        else if k \<in> {''max_output_tokens'', ''temperature''} then None
        else map_of [(''temperature'', JInt 1)] k)"
    by blast
  moreover have "\<not> ends_with ''/v1/responses'' ''/compact''" by code_simp
  moreover from this have "map_of m' ''store'' = Some (JBool False)" "map_of m' ''temperature'' = None"
    unfolding g by simp_all
  ultimately show ?thesis by blast
qed

end
