(* ===== verification/Config.thy ===== *)
theory Config
  imports Database
begin

text \<open>
  The settings of \<open>src/config.rs\<close>: the record every component reads, and its loading from the
  table \<open>app_meta\<close>, whose values are text. Paths and the listen address are opaque strings.
\<close>

record bootstrap_config =
  bc_listen :: string
  bc_data_dir :: string
  bc_database_path :: string

record config =
  cf_listen :: string
  cf_data_dir :: string
  cf_database_path :: string
  cf_setup_complete :: bool
  cf_auth_issuer :: "string option"
  cf_auth_audience :: "string option"
  cf_upstream_base :: string
  cf_upstream_openai_beta :: "string option"
  cf_image_host_model :: string
  cf_oauth_authorize_url :: string
  cf_oauth_token_url :: string
  cf_oauth_redirect_uri :: string
  cf_oauth_client_id :: string
  cf_response_body_limit :: nat
  cf_image_body_limit :: nat
  cf_audio_body_limit :: nat
  cf_affinity_ttl_seconds :: i64
  cf_request_archive_retention_days :: i64

text \<open>Reading one key: an error names the missing key, or the text that does not parse.\<close>

definition meta_value :: "(string \<times> string) list \<Rightarrow> string \<Rightarrow> (string, string) result" where
  "meta_value rows key = ok_or (map_of (rev rows) key) (''app_meta is missing '' @ key)"

definition meta_parse ::
  "(string \<Rightarrow> 'a option) \<Rightarrow> (string \<times> string) list \<Rightarrow> string \<Rightarrow> (string, 'a) result" where
  "meta_parse p rows key = rbind (meta_value rows key) (\<lambda>v. ok_or (p v) (''invalid '' @ key))"

definition meta_optional :: "(string \<times> string) list \<Rightarrow> string \<Rightarrow> (string, string option) result" where
  "meta_optional rows key =
     rbind (meta_value rows key) (\<lambda>v.
       Inr (if trim v = [] then None else Some (trim_end_matches ''/'' (trim v))))"

definition config_load :: "bootstrap_config \<Rightarrow> database \<Rightarrow> (string, config) result" where
  "config_load boot db =
     (let rows = db_meta db
      in rbind (meta_parse parse_bool rows ''setup_complete'') (\<lambda>setup.
         rbind (meta_optional rows ''auth_issuer'') (\<lambda>issuer.
         rbind (meta_optional rows ''auth_audience'') (\<lambda>audience.
         rbind (meta_value rows ''upstream_base'') (\<lambda>base.
         rbind (meta_value rows ''upstream_openai_beta'') (\<lambda>beta.
         rbind (meta_value rows ''image_host_model'') (\<lambda>host.
         rbind (meta_value rows ''oauth_authorize_url'') (\<lambda>authorize.
         rbind (meta_value rows ''oauth_token_url'') (\<lambda>token.
         rbind (meta_value rows ''oauth_redirect_uri'') (\<lambda>redirect.
         rbind (meta_value rows ''oauth_client_id'') (\<lambda>client.
         rbind (meta_parse parse_u64 rows ''response_body_limit'') (\<lambda>response_limit.
         rbind (meta_parse parse_u64 rows ''image_body_limit'') (\<lambda>image_limit.
         rbind (meta_parse parse_u64 rows ''audio_body_limit'') (\<lambda>audio_limit.
         rbind (meta_parse parse_i64 rows ''affinity_ttl_seconds'') (\<lambda>ttl.
         rbind (meta_parse parse_i64 rows ''request_archive_retention_days'') (\<lambda>retention.
         Inr \<lparr>cf_listen = bc_listen boot, cf_data_dir = bc_data_dir boot,
              cf_database_path = bc_database_path boot, cf_setup_complete = setup,
              cf_auth_issuer = issuer, cf_auth_audience = audience,
              cf_upstream_base = trim_end_matches ''/'' base,
              cf_upstream_openai_beta = (if trim beta = [] then None else Some (trim beta)),
              cf_image_host_model = host, cf_oauth_authorize_url = authorize,
              cf_oauth_token_url = token, cf_oauth_redirect_uri = redirect,
              cf_oauth_client_id = client, cf_response_body_limit = response_limit,
              cf_image_body_limit = image_limit, cf_audio_body_limit = audio_limit,
              cf_affinity_ttl_seconds = ttl,
              cf_request_archive_retention_days = retention\<rparr>))))))))))))))))"

end
