(* ===== verification/Headers.thy ===== *)
theory Headers
  imports Balancer Config
begin

text \<open>
  The header policy of \<open>src/proxy.rs\<close>: which headers of a caller reach the upstream, what the
  proxy adds, which headers of an answer reach the caller, how a call is identified by its
  headers and body, and what is kept of headers for diagnostics. \<open>RequestBuilder::header\<close>
  appends; a request is only built when the upstream address and every value are valid, which
  the HTTP client decides (the parameters \<open>valid_url\<close> and \<open>valid_value\<close>).
\<close>

section \<open>Policy\<close>

definition HOP_HEADERS :: "string list" where
  "HOP_HEADERS =
     [''connection'', ''keep-alive'', ''proxy-authenticate'', ''proxy-authorization'', ''te'',
      ''trailer'', ''transfer-encoding'', ''upgrade'', ''host'', ''content-length'', ''cookie'',
      ''proxy-connection'', ''set-cookie'']"

definition PROXY_ONLY_HEADERS :: "string list" where
  "PROXY_ONLY_HEADERS =
     [''x-lb-affinity-key'', ''x-session-id'', ''session_id'', ''x-codex-session-id'',
      ''x-codex-conversation-id'']"

definition COMMON_HEADERS :: "string list" where
  "COMMON_HEADERS =
     [''accept'', ''accept-encoding'', ''user-agent'', ''originator'', ''session-id'',
      ''thread-id'', ''x-client-request-id'']"

definition TRANSCRIPTION_ORIGINATOR :: string where
  "TRANSCRIPTION_ORIGINATOR = ''Codex Desktop''"

definition TRANSCRIPTION_USER_AGENT :: string where
  "TRANSCRIPTION_USER_AGENT = ''Codex Desktop/26.519.81530 (macos; aarch64)''"

definition should_forward_request_header :: "string \<Rightarrow> string \<Rightarrow> bool" where
  "should_forward_request_header path name =
     (let lower = to_ascii_lowercase name
      in if lower = ''authorization'' \<or> lower \<in> set HOP_HEADERS \<or> lower \<in> set PROXY_ONLY_HEADERS
         then False
         else
           let common = lower \<in> set COMMON_HEADERS \<or> starts_with lower ''x-openai-'' \<or>
                        starts_with lower ''x-codex-''
           in if path = ''/v1/audio/transcriptions''
              then common \<or> lower = ''content-type''
              else common \<or> starts_with lower ''openai-'')"

definition forwarded :: "string \<Rightarrow> header_map \<Rightarrow> header_map" where
  "forwarded path inbound = filter (\<lambda>(name, _). should_forward_request_header path name) inbound"

definition filtered_response_headers :: "header_map \<Rightarrow> header_map" where
  "filtered_response_headers headers =
     filter (\<lambda>(name, _).
       let lower = to_ascii_lowercase name
       in lower \<notin> set HOP_HEADERS \<and> lower \<noteq> ''x-request-id'') headers"

section \<open>Upstream requests\<close>

record upstream_request =
  rq_url :: string
  rq_headers :: header_map
  rq_body :: string

definition build_request ::
  "(string \<Rightarrow> bool) \<Rightarrow> (string \<Rightarrow> bool) \<Rightarrow> string \<Rightarrow> header_map \<Rightarrow> string \<Rightarrow>
     (app_error, upstream_request) result" where
  "build_request valid_url valid_value url headers bd =
     (if valid_url url \<and> list_all (\<lambda>(_, v). valid_value v) headers
      then Inr \<lparr>rq_url = url, rq_headers = headers, rq_body = bd\<rparr>
      else Inl internal_error)"

definition credential_headers :: "lease \<Rightarrow> header_map" where
  "credential_headers l =
     [(''authorization'', ''Bearer '' @ l_access_token l),
      (''chatgpt-account-id'', p_account_id (l_provider l))]"

definition beta_header :: "config \<Rightarrow> header_map" where
  "beta_header cfg =
     (case cf_upstream_openai_beta cfg of Some v \<Rightarrow> [(''openai-beta'', v)] | None \<Rightarrow> [])"

definition transcription_request ::
  "(string \<Rightarrow> bool) \<Rightarrow> (string \<Rightarrow> bool) \<Rightarrow> config \<Rightarrow> lease \<Rightarrow> header_map \<Rightarrow> string \<Rightarrow>
     (app_error, upstream_request) result" where
  "transcription_request valid_url valid_value cfg l inbound bd =
     build_request valid_url valid_value
       (trim_end_matches ''/codex'' (cf_upstream_base cfg) @ ''/transcribe'')
       (forwarded ''/v1/audio/transcriptions'' inbound @ credential_headers l @
          [(''originator'', TRANSCRIPTION_ORIGINATOR), (''user-agent'', TRANSCRIPTION_USER_AGENT)])
       bd"

definition upstream_suffix :: "string \<Rightarrow> string" where
  "upstream_suffix path =
     (if path \<in> {''/v1/responses/compact'', ''/backend-api/codex/responses/compact''}
      then ''/responses/compact'' else ''/responses'')"

definition json_request ::
  "(string \<Rightarrow> bool) \<Rightarrow> (string \<Rightarrow> bool) \<Rightarrow> config \<Rightarrow> lease \<Rightarrow> string \<Rightarrow> header_map \<Rightarrow> string \<Rightarrow>
     (app_error, upstream_request) result" where
  "json_request valid_url valid_value cfg l path inbound bd =
     build_request valid_url valid_value
       (cf_upstream_base cfg @ upstream_suffix path)
       (forwarded path inbound @ credential_headers l @
          [(''content-type'', ''application/json'')] @ beta_header cfg)
       bd"

text \<open>The request \<open>send_upstream\<close> builds, and that of \<open>send_console_image_upstream\<close>.\<close>

definition upstream_request_for ::
  "(string \<Rightarrow> bool) \<Rightarrow> (string \<Rightarrow> bool) \<Rightarrow> config \<Rightarrow> lease \<Rightarrow> string \<Rightarrow> header_map \<Rightarrow> string \<Rightarrow>
     (app_error, upstream_request) result" where
  "upstream_request_for valid_url valid_value cfg l path inbound bd =
     (if path = ''/v1/audio/transcriptions''
      then transcription_request valid_url valid_value cfg l inbound bd
      else json_request valid_url valid_value cfg l path inbound bd)"

definition console_image_request ::
  "(string \<Rightarrow> bool) \<Rightarrow> (string \<Rightarrow> bool) \<Rightarrow> config \<Rightarrow> lease \<Rightarrow> header_map \<Rightarrow> string \<Rightarrow>
     (app_error, upstream_request) result" where
  "console_image_request valid_url valid_value cfg l inbound bd =
     build_request valid_url valid_value
       (cf_upstream_base cfg @ ''/responses'')
       (forwarded ''/v1/images/generations'' inbound @ credential_headers l @
          [(''content-type'', ''application/json'')] @ beta_header cfg)
       bd"

section \<open>Identity of a call\<close>

definition header_value :: "header_map \<Rightarrow> string \<Rightarrow> string option" where
  "header_value headers name = hdr_str headers name"

text \<open>A header or member whose trimmed text is not empty.\<close>

definition trimmed :: "string option \<Rightarrow> string option" where
  "trimmed s = opt_filter (\<lambda>v. v \<noteq> []) (map_option trim s)"

record affinity_key_t =
  ak_source :: string
  ak_value :: string

definition affinity_headers :: "string list" where
  "affinity_headers =
     [''x-lb-affinity-key'', ''session_id'', ''x-session-id'', ''x-codex-session-id'',
      ''x-codex-conversation-id'', ''thread-id'']"

definition affinity_members :: "string list" where
  "affinity_members = [''session_id'', ''previous_response_id'', ''prompt_cache_key'']"

definition affinity_of :: "(string \<Rightarrow> string option) \<Rightarrow> string list \<Rightarrow> affinity_key_t option" where
  "affinity_of read names =
     find_map (\<lambda>name. map_option (\<lambda>v. \<lparr>ak_source = name, ak_value = v\<rparr>) (trimmed (read name))) names"

definition affinity_key :: "header_map \<Rightarrow> json option \<Rightarrow> affinity_key_t option" where
  "affinity_key headers bd =
     opt_or (affinity_of (hdr_str headers) affinity_headers)
       (Option.bind bd (\<lambda>v. affinity_of (\<lambda>name. Option.bind (jget v name) as_str) affinity_members))"

definition thread_id :: "header_map \<Rightarrow> string option" where
  "thread_id headers =
     find_map (\<lambda>name. trimmed (hdr_str headers name)) [''x-codex-conversation-id'', ''thread-id'']"

definition reasoning_effort :: "json \<Rightarrow> string option" where
  "reasoning_effort request =
     opt_or (Option.bind (jpointer request [''reasoning'', ''effort'']) as_str)
       (Option.bind (jget request ''reasoning_effort'') as_str)"

section \<open>Diagnostics\<close>

definition archived_pairs :: "header_map \<Rightarrow> (string \<times> string) list" where
  "archived_pairs headers =
     map (\<lambda>(name, v). (name, unwrap_or (to_str v) ''<non-UTF-8 header value>'')) headers"

definition archive_headers :: "((string \<times> string) list \<Rightarrow> string) \<Rightarrow> header_map \<Rightarrow> string" where
  "archive_headers render headers = render (archived_pairs headers)"

definition SENSITIVE_HEADERS :: "string list" where
  "SENSITIVE_HEADERS =
     [''authorization'', ''proxy-authorization'', ''cookie'', ''set-cookie'', ''api-key'',
      ''x-api-key'', ''x-openai-api-key'', ''x-goog-api-key'', ''x-auth'', ''x-credential'',
      ''access-key'', ''x-amz-security-token'', ''x-session-id'', ''x-codex-session-id'',
      ''session-id'', ''session_id'']"

definition sensitive_header :: "string \<Rightarrow> bool" where
  "sensitive_header name =
     (let lower = to_ascii_lowercase name
      in lower \<in> set SENSITIVE_HEADERS \<or> ends_with lower ''-api-key'' \<or>
         ends_with lower ''-token'' \<or> contains_str lower ''secret'')"

text \<open>\<open>read\<close> and \<open>render\<close> are serde's reading and writing of a list of pairs.\<close>

definition visible_archive_headers ::
  "(string \<Rightarrow> (string \<times> string) list option) \<Rightarrow> ((string \<times> string) list \<Rightarrow> string) \<Rightarrow>
     string option \<Rightarrow> bool \<Rightarrow> string option" where
  "visible_archive_headers read render headers admin =
     (if admin then headers
      else map_option (\<lambda>h.
             case read h of
               Some pairs \<Rightarrow> render (filter (\<lambda>(name, _). \<not> sensitive_header name) pairs)
             | None \<Rightarrow> ''[]'') headers)"

end
