(* ===== verification/Header_Facts.thy ===== *)
theory Header_Facts
  imports Headers
begin

text \<open>
  What the header policy promises: exactly the leased credential goes upstream and nothing of
  the caller's session does; the answer loses the connection headers and keeps the rest; the
  affinity key is the first non-blank candidate; diagnostics hide secrets from non-admins.
\<close>

section \<open>Requests\<close>

lemma build_request_Inr:
  "build_request vu vv url h bd = Inr r \<longleftrightarrow>
     vu url \<and> list_all (\<lambda>(_, v). vv v) h \<and> r = \<lparr>rq_url = url, rq_headers = h, rq_body = bd\<rparr>"
  by (auto simp: build_request_def)

lemma hdr_all_forwarded:
  "hdr_all (forwarded path inbound) name =
     (if should_forward_request_header path name then hdr_all inbound name else [])"
  by (simp add: forwarded_def hdr_all_filter)

text \<open>Names that never pass, whatever the caller sends.\<close>

definition BLOCKED_HEADERS :: "string list" where
  "BLOCKED_HEADERS = ''authorization'' # ''chatgpt-account-id'' # HOP_HEADERS @ PROXY_ONLY_HEADERS"

lemma blocked_not_forwarded:
  "name \<in> set BLOCKED_HEADERS \<Longrightarrow> \<not> should_forward_request_header path name"
proof -
  have "list_all (\<lambda>n. \<not> should_forward_request_header ''/v1/audio/transcriptions'' n \<and>
      \<not> should_forward_request_header ''other'' n) BLOCKED_HEADERS" by code_simp
  moreover have "path \<noteq> ''/v1/audio/transcriptions'' \<Longrightarrow>
      should_forward_request_header path name = should_forward_request_header ''other'' name"
    by (simp add: should_forward_request_header_def)
  ultimately show "name \<in> set BLOCKED_HEADERS \<Longrightarrow> \<not> should_forward_request_header path name"
    by (cases "path = ''/v1/audio/transcriptions''") (auto simp: list_all_iff)
qed

text \<open>The part every request shares: forwarded headers, credentials, and more that touches
  no blocked name.\<close>

lemma credential_exact:
  assumes h: "h = forwarded path inbound @ credential_headers l @ extra"
    and extra: "\<forall>n \<in> fst ` set extra. n \<notin> set BLOCKED_HEADERS"
  shows "hdr_all h ''authorization'' = [''Bearer '' @ l_access_token l]"
    and "hdr_all h ''chatgpt-account-id'' = [p_account_id (l_provider l)]"
    and "n \<in> set HOP_HEADERS \<union> set PROXY_ONLY_HEADERS \<Longrightarrow> hdr_all h n = []"
proof -
  have none: "hdr_all (forwarded path inbound) n = [] \<and> hdr_all extra n = []"
    if "n \<in> set BLOCKED_HEADERS" for n
    using that extra blocked_not_forwarded by (auto simp: hdr_all_forwarded hdr_all_Nil_iff)
  have "''authorization'' \<in> set BLOCKED_HEADERS" "''chatgpt-account-id'' \<in> set BLOCKED_HEADERS"
    by (simp_all add: BLOCKED_HEADERS_def)
  from none [OF this(1)] none [OF this(2)]
  show "hdr_all h ''authorization'' = [''Bearer '' @ l_access_token l]"
    and "hdr_all h ''chatgpt-account-id'' = [p_account_id (l_provider l)]"
    by (simp_all add: h hdr_all_def credential_headers_def)
  show "hdr_all h n = []" if n: "n \<in> set HOP_HEADERS \<union> set PROXY_ONLY_HEADERS"
  proof -
    have "list_all (\<lambda>n. n \<noteq> ''authorization'' \<and> n \<noteq> ''chatgpt-account-id'')
        (HOP_HEADERS @ PROXY_ONLY_HEADERS)" by code_simp
    with n have "hdr_all (credential_headers l) n = []"
      by (auto simp: list_all_iff hdr_all_def credential_headers_def)
    moreover from n have "n \<in> set BLOCKED_HEADERS" by (auto simp: BLOCKED_HEADERS_def)
    ultimately show ?thesis using none [of n] by (simp add: h)
  qed
qed

lemma added_not_blocked:
  "\<forall>n \<in> fst ` set ([(''content-type'', ''application/json'')] @ beta_header cfg).
     n \<notin> set BLOCKED_HEADERS"
  "\<forall>n \<in> fst ` set [(''originator'', TRANSCRIPTION_ORIGINATOR), (''user-agent'', TRANSCRIPTION_USER_AGENT)].
     n \<notin> set BLOCKED_HEADERS"
proof -
  have "list_all (\<lambda>n. n \<notin> set BLOCKED_HEADERS)
      [''content-type'', ''openai-beta'', ''originator'', ''user-agent'']" by code_simp
  then show "\<forall>n \<in> fst ` set ([(''content-type'', ''application/json'')] @ beta_header cfg).
      n \<notin> set BLOCKED_HEADERS"
    "\<forall>n \<in> fst ` set [(''originator'', TRANSCRIPTION_ORIGINATOR), (''user-agent'', TRANSCRIPTION_USER_AGENT)].
     n \<notin> set BLOCKED_HEADERS"
    by (auto simp: beta_header_def split: option.splits)
qed

lemma upstream_headers_of:
  "upstream_request_for vu vv cfg l path inbound bd = Inr r \<Longrightarrow>
     \<exists>p extra. rq_headers r = forwarded p inbound @ credential_headers l @ extra \<and>
       (\<forall>n \<in> fst ` set extra. n \<notin> set BLOCKED_HEADERS)"
  "console_image_request vu vv cfg l inbound bd = Inr r \<Longrightarrow>
     \<exists>p extra. rq_headers r = forwarded p inbound @ credential_headers l @ extra \<and>
       (\<forall>n \<in> fst ` set extra. n \<notin> set BLOCKED_HEADERS)"
proof -
  show "\<exists>p extra. rq_headers r = forwarded p inbound @ credential_headers l @ extra \<and>
       (\<forall>n \<in> fst ` set extra. n \<notin> set BLOCKED_HEADERS)"
    if "upstream_request_for vu vv cfg l path inbound bd = Inr r"
  proof (cases "path = ''/v1/audio/transcriptions''")
    case True
    with that show ?thesis
      unfolding upstream_request_for_def transcription_request_def
      using added_not_blocked(2) by (force simp: build_request_Inr)
  next
    case False
    with that show ?thesis
      unfolding upstream_request_for_def json_request_def
      using added_not_blocked(1) [of cfg] by (force simp: build_request_Inr)
  qed
  show "\<exists>p extra. rq_headers r = forwarded p inbound @ credential_headers l @ extra \<and>
       (\<forall>n \<in> fst ` set extra. n \<notin> set BLOCKED_HEADERS)"
    if "console_image_request vu vv cfg l inbound bd = Inr r"
    using that unfolding console_image_request_def
    using added_not_blocked(1) [of cfg] by (force simp: build_request_Inr)
qed

text \<open>C27. Whatever the caller sends, a request to the upstream carries exactly one credential,
  the leased provider's token, and exactly one account, the leased provider's; no connection
  header, cookie or proxy header of the caller reaches the upstream. This holds for every path
  and for the console's image calls.\<close>

theorem upstream_credential_exact:
  assumes "upstream_request_for vu vv cfg l path inbound bd = Inr r \<or>
     console_image_request vu vv cfg l inbound bd = Inr r"
  shows "hdr_all (rq_headers r) ''authorization'' = [''Bearer '' @ l_access_token l] \<and>
     hdr_all (rq_headers r) ''chatgpt-account-id'' = [p_account_id (l_provider l)] \<and>
     (\<forall>n \<in> set HOP_HEADERS \<union> set PROXY_ONLY_HEADERS. hdr_all (rq_headers r) n = [])"
proof -
  obtain p extra where "rq_headers r = forwarded p inbound @ credential_headers l @ extra"
    and "\<forall>n \<in> fst ` set extra. n \<notin> set BLOCKED_HEADERS"
    using assms upstream_headers_of by metis
  from credential_exact [OF this] show ?thesis by blast
qed

text \<open>The desktop identity of a transcription does not replace the caller's: a caller's user
  agent and originator are forwarded, the identity the endpoint needs is appended after them, so
  that a reader of the first value sees the caller's.\<close>

lemma transcription_identity_appended:
  assumes "transcription_request vu vv cfg l inbound bd = Inr r"
  shows "hdr_all (rq_headers r) ''user-agent'' =
       hdr_all inbound ''user-agent'' @ [TRANSCRIPTION_USER_AGENT] \<and>
     hdr_all (rq_headers r) ''originator'' = hdr_all inbound ''originator'' @ [TRANSCRIPTION_ORIGINATOR]"
proof -
  have "should_forward_request_header ''/v1/audio/transcriptions'' ''user-agent''"
    "should_forward_request_header ''/v1/audio/transcriptions'' ''originator''" by code_simp+
  with assms show ?thesis
    unfolding transcription_request_def build_request_Inr
    by (simp add: hdr_all_forwarded credential_headers_def) (simp add: hdr_all_def)
qed

section \<open>Answers\<close>

text \<open>An answer keeps every header of the upstream, in order and with all its values, except
  the connection headers, cookies and the upstream's request id, in any case of letters.\<close>

lemma response_headers_filtered:
  "hdr_all (filtered_response_headers h) name =
     (if to_ascii_lowercase name \<in> set HOP_HEADERS \<or> to_ascii_lowercase name = ''x-request-id''
      then [] else hdr_all h name)"
  unfolding filtered_response_headers_def Let_def
  by (subst hdr_all_filter) simp

section \<open>Affinity\<close>

lemma affinity_of_Some:
  "affinity_of read names = Some k \<longleftrightarrow>
     (\<exists>pre post. names = pre @ ak_source k # post \<and> trimmed (read (ak_source k)) = Some (ak_value k) \<and>
        (\<forall>n \<in> set pre. trimmed (read n) = None))"
proof (induction names)
  case Nil
  show ?case by (simp add: affinity_of_def)
next
  case (Cons n names)
  have step: "affinity_of read (n # names) =
      (case trimmed (read n) of
         Some v \<Rightarrow> Some \<lparr>ak_source = n, ak_value = v\<rparr> | None \<Rightarrow> affinity_of read names)"
    by (simp add: affinity_of_def split: option.splits)
  show ?case
  proof (cases "trimmed (read n)")
    case None
    have "affinity_of read (n # names) = Some k \<longleftrightarrow> affinity_of read names = Some k"
      by (simp add: step None)
    also have "\<dots> \<longleftrightarrow> (\<exists>pre post. n # names = pre @ ak_source k # post \<and>
        trimmed (read (ak_source k)) = Some (ak_value k) \<and> (\<forall>n \<in> set pre. trimmed (read n) = None))"
      (is "_ \<longleftrightarrow> (\<exists>pre post. ?Q pre post)")
    proof
      assume "affinity_of read names = Some k"
      then obtain pre post where "names = pre @ ak_source k # post"
        "trimmed (read (ak_source k)) = Some (ak_value k)" "\<forall>n \<in> set pre. trimmed (read n) = None"
        unfolding Cons.IH by blast
      with None have "?Q (n # pre) post" by simp
      then show "\<exists>pre post. ?Q pre post" by blast
    next
      assume "\<exists>pre post. ?Q pre post"
      then obtain pre post where q: "?Q pre post" by blast
      with None have "pre \<noteq> []" by auto
      with q obtain pre' where "pre = n # pre'" by (cases pre) auto
      with q have "names = pre' @ ak_source k # post" "\<forall>n \<in> set pre'. trimmed (read n) = None" by auto
      with q show "affinity_of read names = Some k" unfolding Cons.IH by blast
    qed
    finally show ?thesis .
  next
    case (Some v)
    have "affinity_of read (n # names) = Some k \<longleftrightarrow> ak_source k = n \<and> ak_value k = v"
      using Some by (cases k) (auto simp: step)
    also have "\<dots> \<longleftrightarrow> (\<exists>pre post. n # names = pre @ ak_source k # post \<and>
        trimmed (read (ak_source k)) = Some (ak_value k) \<and> (\<forall>n \<in> set pre. trimmed (read n) = None))"
      (is "_ \<longleftrightarrow> (\<exists>pre post. ?Q pre post)")
    proof
      assume "ak_source k = n \<and> ak_value k = v"
      with Some have "?Q [] names" by simp
      then show "\<exists>pre post. ?Q pre post" by blast
    next
      assume "\<exists>pre post. ?Q pre post"
      then obtain pre post where q: "?Q pre post" by blast
      with Some have "pre = []" by (cases pre) auto
      with q Some show "ak_source k = n \<and> ak_value k = v" by simp
    qed
    finally show ?thesis .
  qed
qed

lemma affinity_of_None:
  "affinity_of read names = None \<longleftrightarrow> (\<forall>n \<in> set names. trimmed (read n) = None)"
  by (auto simp: affinity_of_def find_map_None_iff)

text \<open>The affinity key of a call is the trimmed value of the first header of the list that is
  not blank; the body is only consulted when every header is missing or blank, and again the
  first non-blank member counts. No key is ever empty.\<close>

lemma affinity_key_priority:
  "affinity_key headers bd = Some k \<longleftrightarrow>
     ak_value k \<noteq> [] \<and>
     ((\<exists>pre post. affinity_headers = pre @ ak_source k # post \<and>
         map_option trim (hdr_str headers (ak_source k)) = Some (ak_value k) \<and>
         (\<forall>n \<in> set pre. trimmed (hdr_str headers n) = None)) \<or>
      (\<forall>n \<in> set affinity_headers. trimmed (hdr_str headers n) = None) \<and>
      (\<exists>v pre post. bd = Some v \<and> affinity_members = pre @ ak_source k # post \<and>
         map_option trim (Option.bind (jget v (ak_source k)) as_str) = Some (ak_value k) \<and>
         (\<forall>n \<in> set pre. trimmed (Option.bind (jget v n) as_str) = None)))"
proof -
  have nonempty: "trimmed s = Some v \<longleftrightarrow> map_option trim s = Some v \<and> v \<noteq> []" for s v
    by (auto simp: trimmed_def)
  show ?thesis
  proof (cases "affinity_of (hdr_str headers) affinity_headers")
    case None
    then have blank: "\<forall>n \<in> set affinity_headers. trimmed (hdr_str headers n) = None"
      by (simp add: affinity_of_None)
    then have no: "\<not> (\<exists>pre post. affinity_headers = pre @ ak_source k # post \<and>
         map_option trim (hdr_str headers (ak_source k)) = Some (ak_value k)) \<or> ak_value k = []"
      using nonempty by (metis in_set_conv_decomp option.distinct(1))
    have "affinity_key headers bd = Some k \<longleftrightarrow>
        (\<exists>v. bd = Some v \<and> affinity_of (\<lambda>name. Option.bind (jget v name) as_str) affinity_members = Some k)"
      by (simp add: affinity_key_def None bind_eq_Some_conv)
    also have "\<dots> \<longleftrightarrow> ak_value k \<noteq> [] \<and>
      (\<exists>v pre post. bd = Some v \<and> affinity_members = pre @ ak_source k # post \<and>
         map_option trim (Option.bind (jget v (ak_source k)) as_str) = Some (ak_value k) \<and>
         (\<forall>n \<in> set pre. trimmed (Option.bind (jget v n) as_str) = None))"
      unfolding affinity_of_Some nonempty by blast
    finally show ?thesis using blank no by blast
  next
    case (Some k')
    then have some: "\<not> (\<forall>n \<in> set affinity_headers. trimmed (hdr_str headers n) = None)"
      by (metis affinity_of_None option.distinct(1))
    have "affinity_key headers bd = Some k \<longleftrightarrow> affinity_of (hdr_str headers) affinity_headers = Some k"
      by (simp add: affinity_key_def Some)
    also have "\<dots> \<longleftrightarrow> ak_value k \<noteq> [] \<and>
      (\<exists>pre post. affinity_headers = pre @ ak_source k # post \<and>
         map_option trim (hdr_str headers (ak_source k)) = Some (ak_value k) \<and>
         (\<forall>n \<in> set pre. trimmed (hdr_str headers n) = None))"
      unfolding affinity_of_Some nonempty by blast
    finally show ?thesis using some by blast
  qed
qed

section \<open>Diagnostics\<close>

text \<open>Archived headers shown to somebody who is no administrator contain no sensitive name:
  what is read back is exactly the archive without the authorization, cookie, key, token,
  secret and session headers. An administrator sees the archive unchanged. The hypothesis is
  that the JSON library reads back the list it wrote.\<close>

theorem visible_headers_hide_secrets:
  assumes "\<And>ps. read (render ps) = Some ps"
  shows "Option.bind (visible_archive_headers read render (Some (archive_headers render h)) False) read =
       Some (filter (\<lambda>(n, _). \<not> sensitive_header n) (archived_pairs h)) \<and>
     visible_archive_headers read render (Some (archive_headers render h)) True =
       Some (archive_headers render h) \<and>
     (\<forall>n \<in> set SENSITIVE_HEADERS. sensitive_header n)"
proof -
  have "list_all sensitive_header SENSITIVE_HEADERS" by code_simp
  with assms show ?thesis
    by (simp add: visible_archive_headers_def archive_headers_def list_all_iff)
qed

section \<open>Witnesses\<close>

definition sample_config :: config where
  "sample_config =
     \<lparr>cf_listen = ''0.0.0.0:8080'', cf_data_dir = ''/d'', cf_database_path = ''/d/db'',
      cf_setup_complete = True, cf_auth_issuer = Some ''https://auth'', cf_auth_audience = Some ''lb'',
      cf_upstream_base = ''https://up/codex'', cf_upstream_openai_beta = Some ''beta'',
      cf_image_host_model = ''gpt-5.4'', cf_oauth_authorize_url = ''https://a'',
      cf_oauth_token_url = ''https://t'', cf_oauth_redirect_uri = ''http://r'',
      cf_oauth_client_id = ''client'', cf_response_body_limit = 1000, cf_image_body_limit = 1000,
      cf_audio_body_limit = 1000, cf_affinity_ttl_seconds = 3600,
      cf_request_archive_retention_days = 7\<rparr>"

definition header_provider :: provider where
  "header_provider = \<lparr>p_id = ''pa'', p_name = ''A'', p_account_id = ''acct-a'', p_access_token = ''tok-a'',
    p_refresh_token = ''ref-a'', p_expires_at = None, p_status = ''active'',
    p_manual_disabled = 0, p_cooldown_until = None, p_rate_limit_json = None,
    p_last_error = None, p_last_used_at = None, p_created_at = 1, p_updated_at = 1,
    p_owner_id = None, p_owner_name = None\<rparr>"

definition header_lease :: lease where
  "header_lease = \<lparr>l_provider = header_provider, l_access_token = ''tok-a'', l_refresh_token = ''ref-a''\<rparr>"

definition sample_inbound :: header_map where
  "sample_inbound =
     [(''authorization'', ''Bearer sk-caller''), (''cookie'', ''c=1''), (''user-agent'', ''curl''),
      (''session_id'', '' s1 '')]"

theorem upstream_credential_exact_witness:
  "\<exists>r. upstream_request_for (\<lambda>_. True) (\<lambda>_. True) sample_config header_lease ''/v1/responses''
       sample_inbound ''body'' = Inr r \<and>
     hdr_all (rq_headers r) ''authorization'' = [''Bearer tok-a''] \<and> hdr_all (rq_headers r) ''cookie'' = []"
proof -
  let ?q = "upstream_request_for (\<lambda>_. True) (\<lambda>_. True) sample_config header_lease ''/v1/responses''
       sample_inbound ''body''"
  have "is_ok ?q" by code_simp
  then obtain r where r: "?q = Inr r" by (auto simp: is_ok_iff)
  have "''cookie'' \<in> set HOP_HEADERS" by code_simp
  with upstream_credential_exact [OF disjI1 [OF r]] r show ?thesis
    by (auto simp: header_lease_def)
qed

text \<open>A list of pairs written with its length in front of each text reads back.\<close>

fun take_text :: "string \<Rightarrow> string \<times> string" where
  "take_text [] = ([], [])"
| "take_text (c # s) =
     (if c = CHR ''s'' then (case s of [] \<Rightarrow> ([], []) | d # s' \<Rightarrow> (case take_text s' of (t, r) \<Rightarrow> (d # t, r)))
      else ([], s))"

definition put_text :: "string \<Rightarrow> string" where
  "put_text t = concat (map (\<lambda>d. [CHR ''s'', d]) t) @ ''.''"

lemma take_put_text [simp]: "take_text (put_text t @ r) = (t, r)"
  by (induction t) (simp_all add: put_text_def)

definition write_pairs :: "(string \<times> string) list \<Rightarrow> string" where
  "write_pairs ps = concat (map (\<lambda>(n, v). ''p'' @ put_text n @ put_text v) ps)"

fun read_pairs_fuel :: "nat \<Rightarrow> string \<Rightarrow> (string \<times> string) list option" where
  "read_pairs_fuel _ [] = Some []"
| "read_pairs_fuel 0 _ = None"
| "read_pairs_fuel (Suc k) (c # s) =
     (if c = CHR ''p''
      then (case take_text s of (n, r) \<Rightarrow> case take_text r of (v, r') \<Rightarrow>
              map_option (\<lambda>ps. (n, v) # ps) (read_pairs_fuel k r'))
      else None)"

definition read_pairs :: "string \<Rightarrow> (string \<times> string) list option" where
  "read_pairs s = read_pairs_fuel (length s) s"

lemma read_write_pairs: "read_pairs (write_pairs ps) = Some ps"
proof -
  have "length (write_pairs ps) \<le> k \<Longrightarrow> read_pairs_fuel k (write_pairs ps) = Some ps" for k
  proof (induction ps arbitrary: k)
    case Nil
    show ?case by (cases k) (simp_all add: write_pairs_def)
  next
    case (Cons p ps)
    obtain n v where p: "p = (n, v)" by (cases p)
    have w: "write_pairs (p # ps) = CHR ''p'' # put_text n @ put_text v @ write_pairs ps"
      by (simp add: p write_pairs_def)
    with Cons.prems obtain j where k: "k = Suc j" by (cases k) auto
    with Cons.prems w have "length (write_pairs ps) \<le> j" by simp
    with Cons.IH show ?case unfolding w k by (simp add: p)
  qed
  then show ?thesis by (simp add: read_pairs_def)
qed

lemma visible_headers_hide_secrets_example:
  "Option.bind (visible_archive_headers read_pairs write_pairs
       (Some (archive_headers write_pairs sample_inbound)) False) read_pairs =
     Some [(''user-agent'', ''curl'')]"
proof -
  have "filter (\<lambda>(n, _). \<not> sensitive_header n) (archived_pairs sample_inbound) = [(''user-agent'', ''curl'')]"
    by code_simp
  with visible_headers_hide_secrets [of read_pairs write_pairs sample_inbound] read_write_pairs
  show ?thesis by simp
qed

end
