(* ===== verification/Auth.thy ===== *)
theory Auth
  imports Config
begin

text \<open>
  Identities, \<open>src/auth.rs\<close>: bearer tokens, browser sessions verified by Auth Mini (an external
  library: a verifier is a function from a token to the subject or an error, and making one
  from an issuer and an audience is the parameter \<open>create\<close>), and API identities looked up by
  the digest of the consumer's secret.
\<close>

section \<open>Data\<close>

datatype auth_mini_error = JwksUnavailable | InvalidIssuer | InvalidToken

type_synonym verifier = "string \<Rightarrow> (auth_mini_error, string) result"
type_synonym create_verifier = "string \<Rightarrow> string \<Rightarrow> (auth_mini_error, verifier) result"

record user_identity =
  ui_id :: string
  ui_email :: "string option"
  ui_name :: "string option"
  ui_role :: string

record api_identity_t =
  ai_consumer_id :: string
  ai_user_id :: string
  ai_request_archive :: bool
  ai_all_providers :: bool

fun auth_error :: "auth_mini_error \<Rightarrow> app_error" where
  "auth_error JwksUnavailable = unavailable ''Auth Mini JWKS is unavailable''"
| "auth_error InvalidIssuer = bad_request ''Auth Mini issuer is not valid''"
| "auth_error InvalidToken = unauthorized ''invalid or expired bearer token''"

definition map_err :: "('e \<Rightarrow> 'f) \<Rightarrow> ('e, 'a) result \<Rightarrow> ('f, 'a) result" where
  "map_err f m = (case m of Inl e \<Rightarrow> Inl (f e) | Inr x \<Rightarrow> Inr x)"

lemma map_err_Inr [result_simps]: "map_err f m = Inr x \<longleftrightarrow> m = Inr x"
  by (cases m) (simp_all add: map_err_def)

section \<open>The manager\<close>

text \<open>\<open>AuthManager::new\<close>: issuer and audience come together or not at all.\<close>

definition auth_manager_new ::
  "create_verifier \<Rightarrow> string option \<Rightarrow> string option \<Rightarrow> (string, verifier option) result" where
  "auth_manager_new create issuer audience =
     (case (issuer, audience) of
        (None, None) \<Rightarrow> Inr None
      | (Some i, Some a) \<Rightarrow>
          rbind (map_err (\<lambda>_. ''Auth Mini verifier'') (create i a)) (\<lambda>v. Inr (Some v))
      | _ \<Rightarrow> Inl ''Auth Mini issuer and audience must be configured together'')"

definition verify_candidate ::
  "create_verifier \<Rightarrow> string \<Rightarrow> string \<Rightarrow> string \<Rightarrow> (app_error, string \<times> verifier) result" where
  "verify_candidate create issuer audience token =
     rbind (map_err auth_error (create issuer audience)) (\<lambda>v.
     rbind (map_err auth_error (v token)) (\<lambda>subject. Inr (subject, v)))"

definition verify :: "verifier option \<Rightarrow> string \<Rightarrow> (app_error, string) result" where
  "verify installed token =
     rbind (ok_or installed (unavailable ''OpenAI-LB setup is not complete'')) (\<lambda>v.
     map_err auth_error (v token))"

section \<open>Browser sessions\<close>

definition bearer :: "header_map \<Rightarrow> (app_error, string) result" where
  "bearer headers =
     ok_or (opt_filter (\<lambda>v. v \<noteq> [])
              (Option.bind (hdr_str headers ''authorization'') (strip_prefix ''Bearer '')))
       (unauthorized ''missing bearer token'')"

definition identity_of :: "user_row \<Rightarrow> user_identity" where
  "identity_of u = \<lparr>ui_id = u_id u, ui_email = u_email u, ui_name = u_display_name u, ui_role = u_role u\<rparr>"

text \<open>\<open>upsert_user\<close>: a new subject becomes a plain user; the row is then read back.\<close>

definition insert_user :: "i64 \<Rightarrow> string \<Rightarrow> database \<Rightarrow> database" where
  "insert_user now uid db =
     (if user_exists db uid then db
      else db\<lparr>db_users := db_users db @
             [\<lparr>u_id = uid, u_email = None, u_display_name = None, u_role = ''user'',
               u_provider_access = 0, u_created_at = now\<rparr>]\<rparr>)"

definition upsert_user :: "i64 \<Rightarrow> string \<Rightarrow> (database, app_error, user_identity) handler" where
  "upsert_user now uid =
     sbind (smodify (insert_user now uid)) (\<lambda>_.
     sbind (sgets (\<lambda>db. user_row_of db uid)) (\<lambda>row.
     slift (rbind (ok_or row internal_error) (\<lambda>u. Inr (identity_of u)))))"

definition browser_identity ::
  "i64 \<Rightarrow> verifier option \<Rightarrow> header_map \<Rightarrow> (database, app_error, user_identity) handler" where
  "browser_identity now installed headers =
     sbind (slift (bearer headers)) (\<lambda>token.
     sbind (slift (verify installed token)) (\<lambda>uid.
     upsert_user now uid))"

definition is_admin :: "user_identity \<Rightarrow> bool" where
  "is_admin u \<longleftrightarrow> ui_role u = ''root'' \<or> ui_role u = ''admin''"

definition require_admin :: "user_identity \<Rightarrow> (app_error, unit) result" where
  "require_admin u = ensure (is_admin u) (forbidden ''administrator access required'')"

definition require_root :: "user_identity \<Rightarrow> (app_error, unit) result" where
  "require_root u = ensure (ui_role u = ''root'') (forbidden ''root access required'')"

section \<open>API calls\<close>

definition consumer_secret_hash :: "(string \<Rightarrow> string) \<Rightarrow> string \<Rightarrow> string" where
  "consumer_secret_hash sha secret = sha secret"

text \<open>One row of the join of \<open>consumers\<close> and \<open>users\<close>.\<close>

definition consumer_match :: "database \<Rightarrow> string \<Rightarrow> consumer \<Rightarrow> (consumer \<times> user_row) option" where
  "consumer_match db hash k =
     (if k_secret_hash k = hash \<and> k_revoked_at k = None
      then map_option (\<lambda>u. (k, u)) (user_row_of db (k_user_id k)) else None)"

definition api_identity ::
  "(string \<Rightarrow> string) \<Rightarrow> database \<Rightarrow> header_map \<Rightarrow> (app_error, api_identity_t) result" where
  "api_identity sha db headers =
     rbind (bearer headers) (\<lambda>secret.
     rbind (ensure (starts_with secret ''sk-'') (unauthorized ''invalid consumer credential'')) (\<lambda>_.
     rbind (ok_or (find_map (consumer_match db (consumer_secret_hash sha secret)) (db_consumers db))
              (unauthorized ''invalid consumer credential'')) (\<lambda>(k, u).
     Inr \<lparr>ai_consumer_id = k_id k, ai_user_id = k_user_id k,
          ai_request_archive = (k_request_archive k \<noteq> 0),
          ai_all_providers = (u_role u \<noteq> ''user'' \<or> u_provider_access u \<noteq> 0)\<rparr>)))"

section \<open>Facts\<close>

lemma insert_user_exists: "user_exists (insert_user now uid db) uid"
  by (simp add: insert_user_def user_exists_def)

lemma user_row_of_ex: "user_exists db uid \<Longrightarrow> \<exists>u. user_row_of db uid = Some u"
  by (cases "user_row_of db uid") (auto simp: user_row_of_def user_exists_def find_None_iff)

lemma insert_user_frame [simp]:
  "db_providers (insert_user now uid db) = db_providers db"
  "db_grants (insert_user now uid db) = db_grants db"
  "db_consumers (insert_user now uid db) = db_consumers db"
  "db_meta (insert_user now uid db) = db_meta db"
  "db_admin_audit (insert_user now uid db) = db_admin_audit db"
  "db_api_calls (insert_user now uid db) = db_api_calls db"
  "db_affinities (insert_user now uid db) = db_affinities db"
  "db_circuits (insert_user now uid db) = db_circuits db"
  by (simp_all add: insert_user_def)

lemma insert_user_row:
  "user_row_of (insert_user now uid db) q =
     (case user_row_of db q of
        Some u \<Rightarrow> Some u
      | None \<Rightarrow> if q = uid
                then Some \<lparr>u_id = uid, u_email = None, u_display_name = None, u_role = ''user'',
                           u_provider_access = 0, u_created_at = now\<rparr>
                else None)"
proof -
  have a: "find P (xs @ ys) = (case find P xs of Some x \<Rightarrow> Some x | None \<Rightarrow> find P ys)"
    for P and xs ys :: "user_row list"
    by (induction xs) auto
  show ?thesis
    using user_row_of_ex [of db uid]
    by (auto simp: insert_user_def user_row_of_def a split: option.splits)
qed

lemma insert_user_single_root: "single_root (insert_user now uid db) = single_root db"
  by (simp add: single_root_def insert_user_def)

lemma upsert_user_Inr:
  "upsert_user now uid db = (Inr i, db') \<longleftrightarrow>
     db' = insert_user now uid db \<and>
     (\<exists>u. user_row_of (insert_user now uid db) uid = Some u \<and> i = identity_of u)"
  by (auto simp: upsert_user_def rbind_Inr_iff ok_or_Inr_iff)

lemma upsert_user_total: "\<exists>i. upsert_user now uid db = (Inr i, insert_user now uid db)"
  using user_row_of_ex [OF insert_user_exists [of now uid db]]
  by (auto simp: upsert_user_def)

lemma browser_identity_Inr:
  "browser_identity now v headers db = (Inr i, db') \<longleftrightarrow>
     (\<exists>token uid u. bearer headers = Inr token \<and> verify v token = Inr uid \<and>
        db' = insert_user now uid db \<and> user_row_of db' uid = Some u \<and> i = identity_of u)"
  by (auto simp: browser_identity_def sbind_Inr_iff upsert_user_Inr slift_def)

lemma browser_identity_db:
  "snd (browser_identity now v headers db) = db \<or>
     (\<exists>uid. snd (browser_identity now v headers db) = insert_user now uid db)"
  by (auto simp: browser_identity_def sbind_def upsert_user_def slift_def split: sum.splits prod.splits)

lemma find_map_unique:
  assumes "x \<in> set xs" and "f x = Some y" and uniq: "\<And>z. z \<in> set xs \<Longrightarrow> f z \<noteq> None \<Longrightarrow> z = x"
  shows "find_map f xs = Some y"
proof -
  have "find_map f xs \<noteq> None" using assms(1,2) by (auto simp: find_map_None_iff)
  then obtain y' where y': "find_map f xs = Some y'" by blast
  then obtain z where "z \<in> set xs" "f z = Some y'" by (blast dest: find_map_SomeD)
  with uniq [of z] assms(2) y' show ?thesis by simp
qed

lemma consumer_lookup:
  assumes "distinct (map k_secret_hash (db_consumers db))"
  shows "find_map (consumer_match db h) (db_consumers db) = Some (k, u) \<longleftrightarrow>
      k \<in> set (db_consumers db) \<and> k_secret_hash k = h \<and> k_revoked_at k = None \<and>
      user_row_of db (k_user_id k) = Some u"
proof
  assume "find_map (consumer_match db h) (db_consumers db) = Some (k, u)"
  then obtain k' where "k' \<in> set (db_consumers db)" "consumer_match db h k' = Some (k, u)"
    by (blast dest: find_map_SomeD)
  then show "k \<in> set (db_consumers db) \<and> k_secret_hash k = h \<and> k_revoked_at k = None \<and>
    user_row_of db (k_user_id k) = Some u"
    by (auto simp: consumer_match_def split: if_splits)
next
  assume k: "k \<in> set (db_consumers db) \<and> k_secret_hash k = h \<and> k_revoked_at k = None \<and>
    user_row_of db (k_user_id k) = Some u"
  show "find_map (consumer_match db h) (db_consumers db) = Some (k, u)"
  proof (rule find_map_unique)
    show "k \<in> set (db_consumers db)" "consumer_match db h k = Some (k, u)"
      using k by (simp_all add: consumer_match_def)
    show "z = k" if "z \<in> set (db_consumers db)" "consumer_match db h z \<noteq> None" for z
      using that k assms by (auto simp: consumer_match_def distinct_map inj_on_def split: if_splits)
  qed
qed

text \<open>C28. An API call is authenticated exactly when its bearer token starts with sk- and its
  digest is that of a consumer that is not revoked and whose user exists (digests are unique);
  the identity is that consumer's, with access to all providers exactly for administrators and
  for users who were granted it. Everything else is a 401.\<close>

theorem api_identity_spec:
  assumes "distinct (map k_secret_hash (db_consumers db))"
  shows "(api_identity sha db headers = Inr i \<longleftrightarrow>
     (\<exists>secret k u. bearer headers = Inr secret \<and> prefix ''sk-'' secret \<and>
        k \<in> set (db_consumers db) \<and> k_secret_hash k = consumer_secret_hash sha secret \<and>
        k_revoked_at k = None \<and> user_row_of db (k_user_id k) = Some u \<and>
        ai_consumer_id i = k_id k \<and> ai_user_id i = k_user_id k \<and>
        ai_request_archive i = (k_request_archive k \<noteq> 0) \<and>
        ai_all_providers i = (u_role u \<noteq> ''user'' \<or> u_provider_access u \<noteq> 0))) \<and>
     fails_with (\<lambda>e. ae_status e = 401) (api_identity sha db headers)"
proof (rule conjI)
  note m = consumer_lookup [OF assms]
  have eq: "i = \<lparr>ai_consumer_id = a, ai_user_id = b, ai_request_archive = c, ai_all_providers = d\<rparr> \<longleftrightarrow>
      ai_consumer_id i = a \<and> ai_user_id i = b \<and> ai_request_archive i = c \<and> ai_all_providers i = d"
    for a b c d
    by (cases i) auto
  show "api_identity sha db headers = Inr i \<longleftrightarrow>
     (\<exists>secret k u. bearer headers = Inr secret \<and> prefix ''sk-'' secret \<and>
        k \<in> set (db_consumers db) \<and> k_secret_hash k = consumer_secret_hash sha secret \<and>
        k_revoked_at k = None \<and> user_row_of db (k_user_id k) = Some u \<and>
        ai_consumer_id i = k_id k \<and> ai_user_id i = k_user_id k \<and>
        ai_request_archive i = (k_request_archive k \<noteq> 0) \<and>
        ai_all_providers i = (u_role u \<noteq> ''user'' \<or> u_provider_access u \<noteq> 0))"
    unfolding api_identity_def rbind_Inr_iff ensure_Inr_iff ok_or_Inr_iff starts_with_def
    using m eq by (auto simp: eq_commute [of _ i])
  show "fails_with (\<lambda>e. ae_status e = 401) (api_identity sha db headers)"
    unfolding api_identity_def bearer_def
    by (intro fails_rules) (simp_all add: error_defs)
qed

end
