(* ===== verification/App.thy ===== *)
theory App
  imports Auth Headers
begin

text \<open>
  The state the handlers share, \<open>AppState\<close> of \<open>src/lib.rs\<close>, and the outside world they consult
  in one call (\<open>env\<close>): the clock, the identifiers and random bytes drawn, digests and encodings,
  JSON text, URLs, the OAuth token endpoint, the account API and Auth Mini. None of the world's functions is
  given a definition here; a property that needs one of them to behave says so.
\<close>

record oauth_flow =
  of_verifier :: string
  of_created_by :: string
  of_expires_at :: i64

record app =
  ap_config :: config
  ap_db :: database
  ap_balancer :: balancer
  ap_verifier :: "verifier option"
  ap_oauth_flows :: "(string, oauth_flow) dashmap"

record token_response =
  tk_access_token :: string
  tk_refresh_token :: string
  tk_expires_in :: i64

text \<open>What the token endpoint may answer: nothing, a status with a body that does not parse, or
  a status with a token.\<close>

datatype token_reply = Unreachable | Reply nat "token_response option"

datatype api_reply = ApiUnreachable | ApiReply nat "json option"

record env =
  ev_now :: i64
  ev_uuid :: "nat \<Rightarrow> string"
  ev_random :: "nat \<Rightarrow> string"
  ev_digest :: "string \<Rightarrow> string"
  ev_hex :: "string \<Rightarrow> string"
  ev_b64 :: "string \<Rightarrow> string"
  ev_unb64 :: "string \<Rightarrow> string option"
  ev_parse :: "string \<Rightarrow> json option"
  ev_render :: "json \<Rightarrow> string"
  ev_url :: "string \<Rightarrow> (string \<times> string option) option"
  ev_query_url :: "string \<Rightarrow> (string \<times> string) list \<Rightarrow> string option"
  ev_header_ok :: "string \<Rightarrow> bool"
  ev_token :: "string \<Rightarrow> (string \<times> string) list \<Rightarrow> token_reply"
  ev_verifier :: create_verifier
  ev_set_path :: "string \<Rightarrow> string \<Rightarrow> string option"
  ev_api :: "string \<Rightarrow> string \<Rightarrow> header_map \<Rightarrow> json option \<Rightarrow> api_reply"
  ev_uuid_ok :: "string \<Rightarrow> bool"
  ev_status_text :: "nat \<Rightarrow> string"

definition ev_sha :: "env \<Rightarrow> string \<Rightarrow> string" where
  "ev_sha ev s = ev_hex ev (ev_digest ev s)"

type_synonym 'a app_handler = "(app, app_error, 'a) handler"

text \<open>An operation on the database, lifted to the program's state.\<close>

definition on_db :: "(database, 'e, 'a) handler \<Rightarrow> (app, 'e, 'a) handler" where
  "on_db m s = (let (r, db) = m (ap_db s) in (r, s\<lparr>ap_db := db\<rparr>))"

definition exec :: "(database \<Rightarrow> database) \<Rightarrow> unit app_handler" where
  "exec f = smodify (\<lambda>s. s\<lparr>ap_db := f (ap_db s)\<rparr>)"

definition db_get :: "(database \<Rightarrow> 'a) \<Rightarrow> 'a app_handler" where
  "db_get g = sgets (\<lambda>s. g (ap_db s))"

definition session :: "env \<Rightarrow> header_map \<Rightarrow> user_identity app_handler" where
  "session ev headers s = on_db (browser_identity (ev_now ev) (ap_verifier s) headers) s"

definition reload :: "unit app_handler" where
  "reload = smodify (\<lambda>s. s\<lparr>ap_balancer := reload_providers (ap_db s) (ap_balancer s)\<rparr>)"

lemma exec_simps [simp]:
  "sbind (exec f) h s = h () (s\<lparr>ap_db := f (ap_db s)\<rparr>)"
  "exec f s = (Inr (), s\<lparr>ap_db := f (ap_db s)\<rparr>)"
  by (simp_all add: exec_def)

lemma db_get_simps [simp]:
  "sbind (db_get g) h s = h (g (ap_db s)) s" "db_get k s = (Inr (k (ap_db s)), s)"
  by (simp_all add: db_get_def)

lemma reload_simps [simp]:
  "sbind reload h s = h () (s\<lparr>ap_balancer := reload_providers (ap_db s) (ap_balancer s)\<rparr>)"
  "reload s = (Inr (), s\<lparr>ap_balancer := reload_providers (ap_db s) (ap_balancer s)\<rparr>)"
  by (simp_all add: reload_def)

lemma session_Inr:
  "session ev headers s = (Inr i, s') \<longleftrightarrow>
     (\<exists>token uid u. bearer headers = Inr token \<and> verify (ap_verifier s) token = Inr uid \<and>
        s' = s\<lparr>ap_db := insert_user (ev_now ev) uid (ap_db s)\<rparr> \<and>
        user_row_of (insert_user (ev_now ev) uid (ap_db s)) uid = Some u \<and> i = identity_of u)"
proof -
  have "session ev headers s = (Inr i, s') \<longleftrightarrow>
      (\<exists>db. browser_identity (ev_now ev) (ap_verifier s) headers (ap_db s) = (Inr i, db) \<and>
         s' = s\<lparr>ap_db := db\<rparr>)"
    by (auto simp: session_def on_db_def Let_def split: prod.splits)
  then show ?thesis unfolding browser_identity_Inr by blast
qed

lemma session_run:
  "session ev headers s = (Inr u, s1) \<Longrightarrow> sbind (session ev headers) f s = f u s1"
  by (rule sbind_run)

lemma session_known:
  assumes "bearer headers = Inr token" and "verify (ap_verifier s) token = Inr uid"
    and w: "user_row_of (ap_db s) uid = Some w"
  shows "session ev headers s = (Inr (identity_of w), s)"
proof -
  have "insert_user (ev_now ev) uid (ap_db s) = ap_db s"
    using user_row_of_SomeD [OF w] by (auto simp: insert_user_def user_exists_def)
  with assms have "session ev headers s = (Inr (identity_of w), s\<lparr>ap_db := ap_db s\<rparr>)"
    by (auto simp: session_Inr)
  then show ?thesis by simp
qed

text \<open>A session changes at most the table of users, and there only adds a plain user.\<close>

lemma session_state:
  "\<exists>db. snd (session ev headers s) = s\<lparr>ap_db := db\<rparr> \<and>
     (db = ap_db s \<or> (\<exists>uid. db = insert_user (ev_now ev) uid (ap_db s)))"
  using browser_identity_db [of "ev_now ev" "ap_verifier s" headers "ap_db s"]
  by (auto simp: session_def on_db_def Let_def split: prod.splits)

end
