(* ===== verification/OAuth.thy ===== *)
theory OAuth
  imports App
begin

text \<open>
  The CodeX account flow of \<open>src/oauth.rs\<close>: the claims of an access token, the start of an
  authorization with its one-time state, the exchange of a code, and the refresh of a token;
  then \<open>refresh_if_needed\<close> of \<open>src/proxy.rs\<close>, the refresh before a call, whose lock makes the
  whole function one step per provider.
\<close>

section \<open>Claims\<close>

definition jwt_claims :: "env \<Rightarrow> string \<Rightarrow> json option" where
  "jwt_claims ev token =
     Option.bind (nth_opt (split_on (CHR ''.'') token) 1) (\<lambda>payload.
     Option.bind (ev_unb64 ev payload) (ev_parse ev))"

definition account_id_from_jwt :: "env \<Rightarrow> string \<Rightarrow> (app_error, string) result" where
  "account_id_from_jwt ev token =
     ok_or
       (Option.bind (jwt_claims ev token) (\<lambda>claims.
        Option.bind
          (opt_or (jpointer claims [''https://api.openai.com/auth'', ''chatgpt_account_id''])
                  (jpointer claims [''https://api.openai.com/auth'', ''account_id'']))
          as_str))
       internal_error"

definition expires_at_from_jwt :: "env \<Rightarrow> string \<Rightarrow> i64 option" where
  "expires_at_from_jwt ev token =
     Option.bind (Option.bind (jwt_claims ev token) (\<lambda>claims. jget claims ''exp'')) as_i64"

section \<open>Authorization\<close>

record oauth_start_t =
  os_authorize_url :: string
  os_state :: string

definition authorize_query :: "config \<Rightarrow> string \<Rightarrow> string \<Rightarrow> (string \<times> string) list" where
  "authorize_query cfg challenge raw_state =
     [(''response_type'', ''code''),
      (''client_id'', cf_oauth_client_id cfg),
      (''redirect_uri'', cf_oauth_redirect_uri cfg),
      (''scope'', ''openid profile email offline_access''),
      (''code_challenge'', challenge),
      (''code_challenge_method'', ''S256''),
      (''state'', raw_state),
      (''id_token_add_organizations'', ''true''),
      (''codex_cli_simplified_flow'', ''true''),
      (''originator'', ''codex_cli_rs'')]"

definition oauth_start :: "env \<Rightarrow> string \<Rightarrow> oauth_start_t app_handler" where
  "oauth_start ev user_id s =
     (let cfg = ap_config s;
          verifier = ev_b64 ev (ev_random ev 0);
          challenge = ev_b64 ev (ev_digest ev verifier);
          raw_state = ev_b64 ev (ev_random ev 1);
          state_hash = ev_sha ev raw_state;
          now = ev_now ev;
          flows = dm_retain (\<lambda>_ flow. now < of_expires_at flow) (ap_oauth_flows s);
          s' = s\<lparr>ap_oauth_flows := dm_insert state_hash
                   \<lparr>of_verifier = verifier, of_created_by = user_id, of_expires_at = now + 600\<rparr> flows\<rparr>
      in (rbind (ok_or (ev_query_url ev (cf_oauth_authorize_url cfg)
                          (authorize_query cfg challenge raw_state)) internal_error)
            (\<lambda>url. Inr \<lparr>os_authorize_url = url, os_state = raw_state\<rparr>), s'))"

definition token_request :: "env \<Rightarrow> config \<Rightarrow> (string \<times> string) list \<Rightarrow> (app_error, token_response) result" where
  "token_request ev cfg form =
     (case ev_token ev (cf_oauth_token_url cfg) form of
        Unreachable \<Rightarrow> Inl internal_error
      | Reply status tok \<Rightarrow>
          rbind (ensure (is_success status) (upstream status ''CodeX OAuth token exchange failed'')) (\<lambda>_.
          rbind (ok_or tok internal_error) (\<lambda>token.
          rbind (ensure (\<not> (tk_access_token token = [] \<or> tk_refresh_token token = [] \<or> tk_expires_in token \<le> 0))
                   (upstream 502 ''CodeX OAuth response is missing fields'')) (\<lambda>_.
          Inr token))))"

definition exchange_form :: "config \<Rightarrow> string \<Rightarrow> oauth_flow \<Rightarrow> (string \<times> string) list" where
  "exchange_form cfg code flow =
     [(''grant_type'', ''authorization_code''), (''client_id'', cf_oauth_client_id cfg),
      (''code'', code), (''code_verifier'', of_verifier flow),
      (''redirect_uri'', cf_oauth_redirect_uri cfg)]"

definition exchange :: "env \<Rightarrow> string \<Rightarrow> string \<Rightarrow> string \<Rightarrow> token_response app_handler" where
  "exchange ev raw_state code user_id s =
     (let state_hash = ev_sha ev raw_state;
          now = ev_now ev;
          (removed, flows) = dm_remove_if state_hash
             (\<lambda>flow. of_created_by flow = user_id \<and> now < of_expires_at flow) (ap_oauth_flows s);
          s' = s\<lparr>ap_oauth_flows := flows\<rparr>
      in (rbind (ok_or removed (bad_request ''invalid or expired OAuth state'')) (\<lambda>flow.
            token_request ev (ap_config s) (exchange_form (ap_config s) code flow)), s'))"

definition refresh_form :: "config \<Rightarrow> string \<Rightarrow> (string \<times> string) list" where
  "refresh_form cfg refresh_token =
     [(''grant_type'', ''refresh_token''), (''refresh_token'', refresh_token),
      (''client_id'', cf_oauth_client_id cfg)]"

definition refresh :: "env \<Rightarrow> config \<Rightarrow> string \<Rightarrow> (app_error, token_response) result" where
  "refresh ev cfg refresh_token = token_request ev cfg (refresh_form cfg refresh_token)"

section \<open>Refresh before a call\<close>

definition token_is_fresh :: "i64 option \<Rightarrow> i64 \<Rightarrow> bool" where
  "token_is_fresh expires now = (case expires of None \<Rightarrow> False | Some e \<Rightarrow> now + 60 < e)"

text \<open>The two updates of the row; both only touch a row that still holds the refresh token that
  was used.\<close>

definition mark_refresh_failed :: "i64 \<Rightarrow> string \<Rightarrow> string \<Rightarrow> database \<Rightarrow> database" where
  "mark_refresh_failed now pid used db =
     update_provider_status (\<lambda>p. p_id p = pid \<and> p_refresh_token p = used)
       (\<lambda>p. p\<lparr>p_status := ''auth_error'', p_last_error := Some ''credential refresh failed'',
              p_updated_at := now\<rparr>) db"

definition store_refreshed ::
  "i64 \<Rightarrow> string \<Rightarrow> string \<Rightarrow> token_response \<Rightarrow> string \<Rightarrow> i64 \<Rightarrow> database \<Rightarrow> database" where
  "store_refreshed now pid used token account_id expires_at db =
     update_provider_status (\<lambda>p. p_id p = pid \<and> p_refresh_token p = used)
       (\<lambda>p. p\<lparr>p_access_token := tk_access_token token, p_refresh_token := tk_refresh_token token,
              p_account_id := account_id, p_expires_at := Some expires_at, p_status := ''active'',
              p_last_error := None, p_updated_at := now\<rparr>) db"

definition refreshed_lease :: "lease \<Rightarrow> string \<Rightarrow> string \<Rightarrow> string \<Rightarrow> i64 option \<Rightarrow> lease" where
  "refreshed_lease l access refr account_id expires =
     l\<lparr>l_access_token := access, l_refresh_token := refr,
       l_provider := (l_provider l)\<lparr>p_account_id := account_id, p_expires_at := expires\<rparr>\<rparr>"

definition refresh_if_needed :: "env \<Rightarrow> lease \<Rightarrow> lease app_handler" where
  "refresh_if_needed ev l =
     (let pid = p_id (l_provider l); now = ev_now ev
      in if (case p_expires_at (l_provider l) of None \<Rightarrow> True | Some e \<Rightarrow> now + 60 < e)
         then sreturn l
         else
           sbind (db_get (\<lambda>db. provider_row db pid)) (\<lambda>row.
           sbind (slift (ok_or row internal_error)) (\<lambda>current.
           if token_is_fresh (p_expires_at current) now
           then sreturn (refreshed_lease l (p_access_token current) (p_refresh_token current)
                   (p_account_id current) (p_expires_at current))
           else
             sbind (sgets ap_config) (\<lambda>cfg.
             case refresh ev cfg (p_refresh_token current) of
               Inl e \<Rightarrow>
                 sbind (exec (mark_refresh_failed now pid (p_refresh_token current))) (\<lambda>_.
                 sbind reload (\<lambda>_. sfail e))
             | Inr token \<Rightarrow>
                 let account_id = (case account_id_from_jwt ev (tk_access_token token) of
                                     Inr a \<Rightarrow> a | Inl _ \<Rightarrow> p_account_id (l_provider l));
                     expires_at = now + tk_expires_in token
                 in sbind (db_get (\<lambda>db. rows_affected
                        (\<lambda>p. p_id p = pid \<and> p_refresh_token p = p_refresh_token current)
                        (db_providers db))) (\<lambda>updated.
                    sbind (exec (store_refreshed now pid (p_refresh_token current) token account_id expires_at)) (\<lambda>_.
                    if updated = 0
                    then sfail (unavailable ''provider credential changed during refresh'')
                    else sbind reload (\<lambda>_.
                      sreturn (refreshed_lease l (tk_access_token token) (tk_refresh_token token)
                        account_id (Some expires_at)))))))))"

end
