(* ===== verification/Api_Consumers.thy ===== *)
theory Api_Consumers
  imports OAuth
begin

text \<open>
  The console's handlers of \<open>src/api.rs\<close> for setup, the current user and consumers. A handler
  returns the JSON document of the answer; database statements are updates of the rows, a
  statement's \<open>rows_affected\<close> is read off the rows it selects.
\<close>

section \<open>Shared\<close>

definition opt_json :: "('a \<Rightarrow> json) \<Rightarrow> 'a option \<Rightarrow> json" where
  "opt_json f x = (case x of None \<Rightarrow> JNull | Some a \<Rightarrow> f a)"

definition ok_json :: json where
  "ok_json = JObj [(''ok'', JBool True)]"

definition write_admin_audit ::
  "env \<Rightarrow> string \<Rightarrow> string \<Rightarrow> string option \<Rightarrow> string \<Rightarrow> unit app_handler" where
  "write_admin_audit ev admin_user_id action target_id client_ip =
     exec (\<lambda>db. db\<lparr>db_admin_audit := db_admin_audit db @
       [\<lparr>aa_id = ev_uuid ev 9, aa_admin_user_id = admin_user_id, aa_action = action,
         aa_target_id = target_id, aa_client_ip = client_ip, aa_created_at = ev_now ev\<rparr>]\<rparr>)"

text \<open>The shape of every audited operation: it runs to its result, the audit row names the action
  or the action with \<open>.failed\<close>, and the result is returned.\<close>

definition audited ::
  "env \<Rightarrow> string \<Rightarrow> string \<Rightarrow> (json option \<Rightarrow> string option) \<Rightarrow> string \<Rightarrow> json app_handler \<Rightarrow>
     json app_handler" where
  "audited ev uid action target ip operation s =
     (let (result, s1) = operation s
      in sbind (write_admin_audit ev uid
                  (if is_ok result then action else action @ ''.failed'')
                  (target (result_ok result)) ip) (\<lambda>_. slift result) s1)"

definition required_setting :: "string \<Rightarrow> string \<Rightarrow> (app_error, string) result" where
  "required_setting name v =
     (let t = trim v
      in if t = [] \<or> 200 < length t then Inl (bad_request (name @ '' must be 1-200 characters''))
         else Inr t)"

section \<open>Setup\<close>

text \<open>\<open>SELECT value FROM app_meta WHERE key=..\<close> and its update; \<open>key\<close> is the primary key.\<close>

definition meta_get :: "database \<Rightarrow> string \<Rightarrow> string option" where
  "meta_get db key = map_of (db_meta db) key"

definition meta_set :: "string \<Rightarrow> string \<Rightarrow> database \<Rightarrow> database" where
  "meta_set key v db =
     db\<lparr>db_meta := update_where (\<lambda>kv. fst kv = key) (\<lambda>kv. (fst kv, v)) (db_meta db)\<rparr>"

definition setup_required :: "bool app_handler" where
  "setup_required =
     sbind (db_get (\<lambda>db. meta_get db ''setup_complete'')) (\<lambda>v.
     slift (rbind (ok_or v internal_error) (\<lambda>t. Inr (t \<noteq> ''true''))))"

definition setup_status :: "json app_handler" where
  "setup_status =
     sbind setup_required (\<lambda>required.
     sbind (sgets ap_config) (\<lambda>cfg.
     sreturn (JObj [(''setup_required'', JBool required),
       (''auth_issuer'', if required then JNull else opt_json JStr (cf_auth_issuer cfg))])))"

definition public_config :: "json app_handler" where
  "public_config =
     sbind setup_required (\<lambda>required.
     sbind (sgets ap_config) (\<lambda>cfg.
     sreturn (JObj [(''setup_required'', JBool required),
       (''auth_issuer'', if required then JNull else opt_json JStr (cf_auth_issuer cfg))])))"

definition health :: json where
  "health = JObj [(''status'', JStr ''ok'')]"

text \<open>The statements of the setup transaction. The upsert of the root fails on the unique index
  when another user is the root.\<close>

definition make_root :: "i64 \<Rightarrow> string \<Rightarrow> database \<Rightarrow> database option" where
  "make_root now uid db =
     (if \<exists>u \<in> set (db_users db). u_role u = ''root'' \<and> u_id u \<noteq> uid then None
      else Some (db\<lparr>db_users :=
        (if user_exists db uid
         then update_where (\<lambda>u. u_id u = uid) (\<lambda>u. u\<lparr>u_role := ''root''\<rparr>) (db_users db)
         else db_users db @
           [\<lparr>u_id = uid, u_email = None, u_display_name = None, u_role = ''root'',
             u_provider_access = 0, u_created_at = now\<rparr>])\<rparr>))"

definition adopt_providers :: "string \<Rightarrow> database \<Rightarrow> database" where
  "adopt_providers uid db =
     update_provider_row (\<lambda>p. p_owner_id p = None) (\<lambda>p. p\<lparr>p_owner_id := Some uid\<rparr>) db"

definition setup_transaction ::
  "i64 \<Rightarrow> string \<Rightarrow> string \<Rightarrow> string \<Rightarrow> database \<Rightarrow> (app_error, database) result" where
  "setup_transaction now uid issuer audience db =
     rbind (ok_or (meta_get db ''setup_complete'') internal_error) (\<lambda>complete.
     if complete = ''true'' then Inl (not_found ''setup is already complete'')
     else
       rbind (ok_or (make_root now uid db) internal_error) (\<lambda>db1.
       Inr (meta_set ''setup_complete'' ''true''
              (meta_set ''auth_audience'' audience
                (meta_set ''auth_issuer'' issuer (adopt_providers uid db1))))))"

definition api_setup :: "env \<Rightarrow> header_map \<Rightarrow> string \<Rightarrow> string \<Rightarrow> json app_handler" where
  "api_setup ev headers input_issuer input_audience =
     sbind setup_required (\<lambda>required.
     if \<not> required then sfail (not_found ''setup is already complete'')
     else
       let issuer = trim_end_matches ''/'' (trim input_issuer)
       in sbind (slift (required_setting ''Auth Mini audience'' input_audience)) (\<lambda>audience.
          sbind (slift (bearer headers)) (\<lambda>token.
          sbind (slift (verify_candidate (ev_verifier ev) issuer audience token)) (\<lambda>(uid, verifier).
          sbind (db_get (setup_transaction (ev_now ev) uid issuer audience)) (\<lambda>tx.
          sbind (slift tx) (\<lambda>db'.
          sbind (smodify (\<lambda>s. s\<lparr>ap_db := db', ap_verifier := Some verifier,
                   ap_config := (ap_config s)\<lparr>cf_setup_complete := True,
                     cf_auth_issuer := Some issuer, cf_auth_audience := Some audience\<rparr>\<rparr>)) (\<lambda>_.
          sreturn (JObj [(''ok'', JBool True), (''root_user_id'', JStr uid)]))))))))"

definition me :: "env \<Rightarrow> header_map \<Rightarrow> json app_handler" where
  "me ev headers =
     sbind (session ev headers) (\<lambda>u.
     sreturn (JObj [(''id'', JStr (ui_id u)), (''email'', opt_json JStr (ui_email u)),
       (''name'', opt_json JStr (ui_name u)), (''role'', JStr (ui_role u))]))"

section \<open>Consumers\<close>

definition consumer_name :: "string \<Rightarrow> (app_error, string) result" where
  "consumer_name v =
     (let name = trim v
      in if name = [] \<or> 80 < length name
         then Inl (bad_request ''consumer name must be 1-80 characters'') else Inr name)"

definition consumer_json :: "consumer \<Rightarrow> json" where
  "consumer_json k =
     JObj [(''id'', JStr (k_id k)), (''name'', JStr (k_name k)), (''prefix'', JStr (k_prefix k)),
       (''created_at'', JInt (k_created_at k)), (''last_used_at'', opt_json JInt (k_last_used_at k)),
       (''revoked_at'', opt_json JInt (k_revoked_at k)),
       (''request_archive'', JBool (k_request_archive k \<noteq> 0))]"

text \<open>\<open>ORDER BY created_at DESC\<close>; rows of the same second keep their order.\<close>

definition newest_first :: "('a \<Rightarrow> i64) \<Rightarrow> 'a list \<Rightarrow> 'a list" where
  "newest_first f rows = sort_key (\<lambda>r. - f r) rows"

definition list_consumers :: "env \<Rightarrow> header_map \<Rightarrow> json app_handler" where
  "list_consumers ev headers =
     sbind (session ev headers) (\<lambda>u.
     sbind (db_get (\<lambda>db. newest_first k_created_at
              (filter (\<lambda>k. k_user_id k = ui_id u) (db_consumers db)))) (\<lambda>rows.
     sreturn (JArr (map consumer_json rows))))"

text \<open>The insert fails on the unique digest, on the primary key and when its user is not one.\<close>

definition insert_consumer :: "consumer \<Rightarrow> database \<Rightarrow> database option" where
  "insert_consumer k db =
     (if (\<exists>k' \<in> set (db_consumers db). k_id k' = k_id k \<or> k_secret_hash k' = k_secret_hash k) \<or>
         \<not> user_exists db (k_user_id k)
      then None else Some (db\<lparr>db_consumers := db_consumers db @ [k]\<rparr>))"

definition bool_i64 :: "bool \<Rightarrow> i64" where "bool_i64 b = (if b then 1 else 0)"

definition create_consumer :: "env \<Rightarrow> header_map \<Rightarrow> string \<Rightarrow> bool \<Rightarrow> json app_handler" where
  "create_consumer ev headers input_name request_archive =
     sbind (session ev headers) (\<lambda>u.
     sbind (slift (consumer_name input_name)) (\<lambda>name.
     let secret = ''sk-'' @ ev_b64 ev (ev_random ev 0);
         pre = take 11 secret;
         cid = ev_uuid ev 0;
         k = \<lparr>k_id = cid, k_user_id = ui_id u, k_name = name, k_prefix = pre,
              k_secret_hash = consumer_secret_hash (ev_sha ev) secret,
              k_request_archive = bool_i64 request_archive, k_created_at = ev_now ev,
              k_last_used_at = None, k_revoked_at = None\<rparr>
     in sbind (db_get (insert_consumer k)) (\<lambda>r.
        sbind (slift (ok_or r internal_error)) (\<lambda>db'.
        sbind (exec (\<lambda>_. db')) (\<lambda>_.
        sreturn (JObj [(''id'', JStr cid), (''name'', JStr name), (''prefix'', JStr pre),
          (''secret'', JStr secret), (''request_archive'', JBool request_archive)]))))))"

definition owned_consumer :: "string \<Rightarrow> string \<Rightarrow> consumer \<Rightarrow> bool" where
  "owned_consumer cid uid k \<longleftrightarrow> k_id k = cid \<and> k_user_id k = uid"

definition update_consumer ::
  "env \<Rightarrow> header_map \<Rightarrow> string \<Rightarrow> string option \<Rightarrow> bool option \<Rightarrow> json app_handler" where
  "update_consumer ev headers cid input_name input_archive =
     sbind (session ev headers) (\<lambda>u.
     if input_name = None \<and> input_archive = None
     then sfail (bad_request ''consumer update is empty'')
     else
       sbind (db_get (\<lambda>db. find (owned_consumer cid (ui_id u)) (db_consumers db))) (\<lambda>row.
       sbind (slift (ok_or row (not_found ''consumer not found''))) (\<lambda>current.
       if input_archive \<noteq> None \<and> k_revoked_at current \<noteq> None
       then sfail (not_found ''consumer not found'')
       else
         sbind (slift (case input_name of Some n \<Rightarrow> consumer_name n | None \<Rightarrow> Inr (k_name current))) (\<lambda>name.
         let request_archive = unwrap_or input_archive (k_request_archive current \<noteq> 0)
         in sbind (exec (\<lambda>db. db\<lparr>db_consumers :=
                update_where (owned_consumer cid (ui_id u))
                  (\<lambda>k. k\<lparr>k_name := name, k_request_archive := bool_i64 request_archive\<rparr>)
                  (db_consumers db)\<rparr>)) (\<lambda>_.
            sreturn (JObj [(''id'', JStr cid), (''name'', JStr name),
              (''request_archive'', JBool request_archive)]))))))"

definition revoke_consumer :: "env \<Rightarrow> header_map \<Rightarrow> string \<Rightarrow> json app_handler" where
  "revoke_consumer ev headers cid =
     sbind (session ev headers) (\<lambda>u.
     let w = (\<lambda>k. owned_consumer cid (ui_id u) k \<and> k_revoked_at k = None)
     in sbind (db_get (\<lambda>db. rows_affected w (db_consumers db))) (\<lambda>affected.
        sbind (exec (\<lambda>db. db\<lparr>db_consumers :=
             update_where w (\<lambda>k. k\<lparr>k_revoked_at := Some (ev_now ev)\<rparr>) (db_consumers db)\<rparr>)) (\<lambda>_.
        if affected = 0 then sfail (not_found ''consumer not found'') else sreturn ok_json)))"

definition delete_consumer :: "env \<Rightarrow> header_map \<Rightarrow> string \<Rightarrow> json app_handler" where
  "delete_consumer ev headers cid =
     sbind (session ev headers) (\<lambda>u.
     sbind (db_get (\<lambda>db. rows_affected (owned_consumer cid (ui_id u)) (db_consumers db))) (\<lambda>affected.
     sbind (exec (delete_consumer_rows (owned_consumer cid (ui_id u)))) (\<lambda>_.
     if affected = 0 then sfail (not_found ''consumer not found'') else sreturn ok_json)))"

section \<open>Frames\<close>

lemma audited_result:
  "fst (audited ev uid action target ip operation s) = fst (operation s)"
  by (simp add: audited_def write_admin_audit_def case_prod_unfold Let_def)

lemma audited_state:
  "snd (audited ev uid action target ip operation s) =
     (let s1 = snd (operation s)
      in s1\<lparr>ap_db := (ap_db s1)\<lparr>db_admin_audit := db_admin_audit (ap_db s1) @
        [\<lparr>aa_id = ev_uuid ev 9, aa_admin_user_id = uid,
          aa_action = (if is_ok (fst (operation s)) then action else action @ ''.failed''),
          aa_target_id = target (result_ok (fst (operation s))), aa_client_ip = ip,
          aa_created_at = ev_now ev\<rparr>]\<rparr>\<rparr>)"
  by (simp add: audited_def write_admin_audit_def case_prod_unfold Let_def)

end
