(* ===== verification/Api_Providers.thy ===== *)
theory Api_Providers
  imports Api_Consumers
begin

text \<open>
  The console's provider handlers of \<open>src/api.rs\<close>: listing, creation, update, tokens, deletion,
  grants, circuit events, the account API behind a provider, and the two OAuth endpoints.
  Everything that changes a provider goes through \<open>require_provider_manager\<close>.
\<close>

section \<open>Access\<close>

definition provider_owned :: "database \<Rightarrow> string \<Rightarrow> string \<Rightarrow> bool" where
  "provider_owned db pid uid \<longleftrightarrow>
     list_ex (\<lambda>p. p_id p = pid \<and> p_owner_id p = Some uid) (db_providers db)"

definition require_provider_manager :: "user_identity \<Rightarrow> string \<Rightarrow> unit app_handler" where
  "require_provider_manager u pid =
     (if is_admin u
      then sbind (db_get (\<lambda>db. list_ex (\<lambda>p. p_id p = pid) (db_providers db))) (\<lambda>exists.
           slift (ensure exists (not_found ''provider not found'')))
      else sbind (db_get (\<lambda>db. provider_owned db pid (ui_id u))) (\<lambda>owned.
           slift (ensure owned (not_found ''provider not found''))))"

definition manager :: "env \<Rightarrow> header_map \<Rightarrow> string \<Rightarrow> (user_identity \<Rightarrow> 'a app_handler) \<Rightarrow> 'a app_handler" where
  "manager ev headers pid f =
     sbind (session ev headers) (\<lambda>u. sbind (require_provider_manager u pid) (\<lambda>_. f u))"

section \<open>Listing\<close>

definition provider_json :: "app \<Rightarrow> provider \<Rightarrow> json" where
  "provider_json s p =
     JObj [(''id'', JStr (p_id p)), (''name'', JStr (p_name p)), (''account_id'', JStr (p_account_id p)),
       (''expires_at'', opt_json JInt (p_expires_at p)), (''status'', JStr (p_status p)),
       (''manual_disabled'', JInt (p_manual_disabled p)),
       (''cooldown_until'', opt_json JInt (p_cooldown_until p)),
       (''rate_limit_json'', opt_json JStr (p_rate_limit_json p)),
       (''last_error'', opt_json JStr (p_last_error p)),
       (''last_used_at'', opt_json JInt (p_last_used_at p)), (''created_at'', JInt (p_created_at p)),
       (''updated_at'', JInt (p_updated_at p)), (''owner_id'', opt_json JStr (p_owner_id p)),
       (''owner_name'', opt_json JStr (Option.bind (p_owner_id p) (\<lambda>ow.
          Option.bind (user_row_of (ap_db s) ow) u_display_name))),
       (''inflight'', JInt (uint (inflight (ap_balancer s) (p_id p))))]"

definition visible_providers :: "user_identity \<Rightarrow> database \<Rightarrow> provider list" where
  "visible_providers u db =
     newest_first p_created_at
       (filter (\<lambda>p. is_admin u \<or> p_owner_id p = Some (ui_id u)) (db_providers db))"

definition list_providers :: "env \<Rightarrow> header_map \<Rightarrow> json app_handler" where
  "list_providers ev headers =
     sbind (session ev headers) (\<lambda>u.
     sbind (sgets (\<lambda>s. map (provider_json s) (visible_providers u (ap_db s)))) (\<lambda>rows.
     sreturn (JArr rows)))"

definition circuit_json :: "circuit_event \<Rightarrow> json" where
  "circuit_json e =
     JObj [(''id'', JStr (ce_id e)), (''provider_id'', JStr (ce_provider_id e)),
       (''cause'', JStr (ce_cause e)), (''rate_limit_json'', JStr (ce_rate_limit_json e)),
       (''opened_at'', JInt (ce_opened_at e)), (''cooldown_until'', JInt (ce_cooldown_until e)),
       (''closed_at'', opt_json JInt (ce_closed_at e)),
       (''resolution'', opt_json JStr (ce_resolution e))]"

text \<open>\<open>ORDER BY opened_at DESC,id DESC\<close>.\<close>

definition circuit_order :: "circuit_event list \<Rightarrow> circuit_event list" where
  "circuit_order es = rev (sort_key (\<lambda>e. (ce_opened_at e, ce_id e)) es)"

definition list_provider_circuit_events :: "env \<Rightarrow> header_map \<Rightarrow> string \<Rightarrow> json app_handler" where
  "list_provider_circuit_events ev headers pid =
     manager ev headers pid (\<lambda>_.
     sbind (db_get (\<lambda>db. take 100 (circuit_order
              (filter (\<lambda>e. ce_provider_id e = pid) (db_circuits db))))) (\<lambda>events.
     sreturn (JArr (map circuit_json events))))"

definition latest_circuit :: "database \<Rightarrow> circuit_event \<Rightarrow> bool" where
  "latest_circuit db e \<longleftrightarrow>
     (case circuit_order (filter (\<lambda>x. ce_provider_id x = ce_provider_id e) (db_circuits db)) of
        [] \<Rightarrow> False | x # _ \<Rightarrow> ce_id x = ce_id e)"

definition list_provider_circuit_summaries :: "env \<Rightarrow> header_map \<Rightarrow> json app_handler" where
  "list_provider_circuit_summaries ev headers =
     sbind (session ev headers) (\<lambda>u.
     sbind (db_get (\<lambda>db. circuit_order (filter (\<lambda>e. latest_circuit db e \<and>
              list_ex (\<lambda>p. p_id p = ce_provider_id e \<and> (is_admin u \<or> p_owner_id p = Some (ui_id u)))
                (db_providers db)) (db_circuits db)))) (\<lambda>events.
     sreturn (JObj [(''providers'', JObj (fold (\<lambda>e. jmap_insert (ce_provider_id e) (circuit_json e)) events []))])))"

section \<open>Creation\<close>

text \<open>The insert fails on the primary key and when the owner is not a user.\<close>

definition insert_provider_row :: "provider \<Rightarrow> database \<Rightarrow> database option" where
  "insert_provider_row p db =
     (if provider_exists db (p_id p) \<or> (\<exists>o'. p_owner_id p = Some o' \<and> \<not> user_exists db o')
      then None else Some (db\<lparr>db_providers := db_providers db @ [p]\<rparr>))"

definition insert_provider ::
  "env \<Rightarrow> string \<Rightarrow> string \<Rightarrow> string \<Rightarrow> string \<Rightarrow> i64 option \<Rightarrow> json app_handler" where
  "insert_provider ev owner_id name access refr expires_at =
     (if trim name = [] \<or> trim access = [] \<or> trim refr = []
      then sfail (bad_request ''name, access_key and refresh_key are required'')
      else
        sbind (slift (account_id_from_jwt ev access)) (\<lambda>account_id.
        let pid = ev_uuid ev 0; now = ev_now ev;
            expires = opt_or expires_at (expires_at_from_jwt ev access)
        in sbind (db_get (insert_provider_row
             \<lparr>p_id = pid, p_name = trim name, p_account_id = account_id,
               p_access_token = trim access, p_refresh_token = trim refr, p_expires_at = expires,
               p_status = ''active'', p_manual_disabled = 0, p_cooldown_until = None,
               p_rate_limit_json = None, p_last_error = None, p_last_used_at = None,
               p_created_at = now, p_updated_at = now, p_owner_id = Some owner_id,
               p_owner_name = None\<rparr>)) (\<lambda>r.
           sbind (slift (ok_or r internal_error)) (\<lambda>db'.
           sbind (exec (\<lambda>_. db')) (\<lambda>_.
           sbind reload (\<lambda>_.
           sreturn (JObj [(''id'', JStr pid), (''name'', JStr (trim name)),
             (''account_id'', JStr account_id), (''owner_id'', JStr owner_id),
             (''status'', JStr ''active'')])))))))"

definition created_id :: "json option \<Rightarrow> string option" where
  "created_id v = Option.bind v (\<lambda>j. Option.bind (jget j ''id'') as_str)"

definition create_provider ::
  "env \<Rightarrow> string \<Rightarrow> header_map \<Rightarrow> string \<Rightarrow> string \<Rightarrow> string \<Rightarrow> json app_handler" where
  "create_provider ev ip headers name access refr =
     sbind (session ev headers) (\<lambda>u.
     audited ev (ui_id u) ''provider.create'' created_id ip
       (insert_provider ev (ui_id u) name access refr None))"

section \<open>Update\<close>

text \<open>\<open>refresh_provider\<close>: like the refresh before a call, but a manual disable is respected and
  the cooldown ends.\<close>

definition store_provider_tokens ::
  "i64 \<Rightarrow> string \<Rightarrow> string \<Rightarrow> token_response \<Rightarrow> string \<Rightarrow> database \<Rightarrow> database" where
  "store_provider_tokens now pid used token account_id db =
     update_provider_status (\<lambda>p. p_id p = pid \<and> p_refresh_token p = used)
       (\<lambda>p. p\<lparr>p_access_token := tk_access_token token, p_refresh_token := tk_refresh_token token,
              p_account_id := account_id, p_expires_at := Some (now + tk_expires_in token),
              p_status := (if p_manual_disabled p = 1 then ''disabled'' else ''active''),
              p_cooldown_until := None, p_last_error := None, p_updated_at := now\<rparr>) db"

definition refresh_provider :: "env \<Rightarrow> string \<Rightarrow> unit app_handler" where
  "refresh_provider ev pid =
     sbind (db_get (\<lambda>db. provider_row db pid)) (\<lambda>row.
     sbind (slift (ok_or row (not_found ''provider not found''))) (\<lambda>p.
     sbind (sgets ap_config) (\<lambda>cfg.
     sbind (slift (refresh ev cfg (p_refresh_token p))) (\<lambda>token.
     let account_id = (case account_id_from_jwt ev (tk_access_token token) of
                         Inr a \<Rightarrow> a | Inl _ \<Rightarrow> p_account_id p)
     in sbind (db_get (\<lambda>db. rows_affected
            (\<lambda>q. p_id q = pid \<and> p_refresh_token q = p_refresh_token p) (db_providers db))) (\<lambda>updated.
        sbind (exec (store_provider_tokens (ev_now ev) pid (p_refresh_token p) token account_id)) (\<lambda>_.
        if updated = 0 then sfail (unavailable ''provider credential changed during refresh'')
        else reload))))))"

definition rename_provider :: "i64 \<Rightarrow> string \<Rightarrow> string \<Rightarrow> database \<Rightarrow> database" where
  "rename_provider now pid name db =
     update_provider_row (\<lambda>p. p_id p = pid) (\<lambda>p. p\<lparr>p_name := name, p_updated_at := now\<rparr>) db"

definition enable_provider :: "i64 \<Rightarrow> string \<Rightarrow> bool \<Rightarrow> database \<Rightarrow> database" where
  "enable_provider now pid enabled db =
     update_provider_status (\<lambda>p. p_id p = pid)
       (\<lambda>p. p\<lparr>p_manual_disabled := (if enabled then 0 else 1),
              p_status := (if enabled then ''active'' else ''disabled''),
              p_cooldown_until := None, p_updated_at := now\<rparr>) db"

definition update_provider_operation ::
  "env \<Rightarrow> string \<Rightarrow> string option \<Rightarrow> bool option \<Rightarrow> bool option \<Rightarrow> json app_handler" where
  "update_provider_operation ev pid name enabled refr =
     sbind (case opt_filter (\<lambda>n. trim n \<noteq> []) name of
              Some n \<Rightarrow> exec (rename_provider (ev_now ev) pid (trim n)) | None \<Rightarrow> sreturn ()) (\<lambda>_.
     sbind (case enabled of
              Some e \<Rightarrow> exec (enable_provider (ev_now ev) pid e) | None \<Rightarrow> sreturn ()) (\<lambda>_.
     sbind (if unwrap_or refr False then refresh_provider ev pid else sreturn ()) (\<lambda>_.
     sbind reload (\<lambda>_. sreturn ok_json))))"

definition update_provider ::
  "env \<Rightarrow> string \<Rightarrow> header_map \<Rightarrow> string \<Rightarrow> string option \<Rightarrow> bool option \<Rightarrow> bool option \<Rightarrow>
     json app_handler" where
  "update_provider ev ip headers pid name enabled refr =
     manager ev headers pid (\<lambda>u.
     audited ev (ui_id u) ''provider.update'' (\<lambda>_. Some pid) ip
       (update_provider_operation ev pid name enabled refr))"

section \<open>Tokens\<close>

definition read_tokens_operation :: "string \<Rightarrow> json app_handler" where
  "read_tokens_operation pid =
     sbind (db_get (\<lambda>db. provider_row db pid)) (\<lambda>row.
     sbind (slift (ok_or row (not_found ''provider not found''))) (\<lambda>p.
     sreturn (JObj [(''access_key'', JStr (p_access_token p)), (''refresh_key'', JStr (p_refresh_token p))])))"

definition read_provider_tokens ::
  "env \<Rightarrow> string \<Rightarrow> header_map \<Rightarrow> string \<Rightarrow> (header_map \<times> json) app_handler" where
  "read_provider_tokens ev ip headers pid =
     manager ev headers pid (\<lambda>u.
     sbind (audited ev (ui_id u) ''provider.tokens.read'' (\<lambda>_. Some pid) ip
              (read_tokens_operation pid)) (\<lambda>v.
     sreturn ([(''cache-control'', ''no-store'')], v)))"

definition replace_token_row ::
  "i64 \<Rightarrow> string \<Rightarrow> string \<Rightarrow> string \<Rightarrow> string \<Rightarrow> string \<Rightarrow> i64 option \<Rightarrow> database \<Rightarrow> database" where
  "replace_token_row now pid name access refr account_id expires db =
     update_provider_status (\<lambda>p. p_id p = pid)
       (\<lambda>p. p\<lparr>p_name := name, p_access_token := access, p_refresh_token := refr,
              p_account_id := account_id, p_expires_at := expires,
              p_status := (if p_manual_disabled p = 1 then ''disabled'' else ''active''),
              p_cooldown_until := None, p_last_error := None, p_updated_at := now\<rparr>) db"

definition replace_provider_token_values ::
  "env \<Rightarrow> string \<Rightarrow> string \<Rightarrow> string \<Rightarrow> string \<Rightarrow> json app_handler" where
  "replace_provider_token_values ev pid name access refr =
     (if name = [] \<or> access = [] \<or> refr = []
      then sfail (bad_request ''name, access_key and refresh_key are required'')
      else
        sbind (slift (account_id_from_jwt ev access)) (\<lambda>account_id.
        sbind (db_get (\<lambda>db. rows_affected (\<lambda>p. p_id p = pid) (db_providers db))) (\<lambda>updated.
        sbind (exec (replace_token_row (ev_now ev) pid name access refr account_id
                 (expires_at_from_jwt ev access))) (\<lambda>_.
        if updated = 0 then sfail (not_found ''provider not found'')
        else sbind reload (\<lambda>_.
          sreturn (JObj [(''ok'', JBool True), (''name'', JStr name), (''account_id'', JStr account_id)]))))))"

definition replace_provider_tokens ::
  "env \<Rightarrow> string \<Rightarrow> header_map \<Rightarrow> string \<Rightarrow> string \<Rightarrow> string \<Rightarrow> string \<Rightarrow> json app_handler" where
  "replace_provider_tokens ev ip headers pid name access refr =
     manager ev headers pid (\<lambda>u.
     audited ev (ui_id u) ''provider.tokens.update'' (\<lambda>_. Some pid) ip
       (replace_provider_token_values ev pid (trim name) (trim access) (trim refr)))"

section \<open>The account API\<close>

text \<open>One call with the provider's own credential, as the three functions below make it.\<close>

definition account_call ::
  "env \<Rightarrow> string \<Rightarrow> string \<Rightarrow> string \<Rightarrow> json option \<Rightarrow> string \<Rightarrow> app \<Rightarrow> (app_error, json) result" where
  "account_call ev label meth path bd pid s =
     rbind (ok_or (provider_row (ap_db s) pid) (not_found ''provider not found'')) (\<lambda>p.
     rbind (ok_or (ev_set_path ev (cf_upstream_base (ap_config s)) path) internal_error) (\<lambda>target.
     case ev_api ev meth target [(''authorization'', ''Bearer '' @ p_access_token p),
            (''chatgpt-account-id'', p_account_id p)] bd of
       ApiUnreachable \<Rightarrow> Inl (upstream 502 (label @ '' request failed''))
     | ApiReply status reply \<Rightarrow>
         rbind (ensure (is_success status) (upstream 502 (label @ '' returned '' @ ev_status_text ev status))) (\<lambda>_.
         ok_or reply (upstream 502 (label @ '' returned invalid JSON'')))))"

definition provider_usage_value :: "env \<Rightarrow> string \<Rightarrow> app \<Rightarrow> (app_error, json) result" where
  "provider_usage_value ev pid =
     account_call ev ''provider Usage API'' ''GET'' ''/backend-api/wham/usage'' None pid"

definition provider_rate_limit_resets_value :: "env \<Rightarrow> string \<Rightarrow> app \<Rightarrow> (app_error, json) result" where
  "provider_rate_limit_resets_value ev pid =
     account_call ev ''provider rate-limit reset API'' ''GET''
       ''/backend-api/wham/rate-limit-reset-credits'' None pid"

definition consume_provider_rate_limit_reset_value ::
  "env \<Rightarrow> string \<Rightarrow> string option \<Rightarrow> string \<Rightarrow> app \<Rightarrow> (app_error, json) result" where
  "consume_provider_rate_limit_reset_value ev pid input_credit input_key s =
     (let key = trim input_key; credit = map_option trim input_credit in
      rbind (ensure (ev_uuid_ok ev key) (bad_request ''idempotency_key must be a UUID'')) (\<lambda>_.
      rbind (ensure (credit \<noteq> Some []) (bad_request ''credit_id must not be empty'')) (\<lambda>_.
      let start = jmap_insert ''idempotency_key'' (JStr key) [];
          bd = (case credit of Some c \<Rightarrow> jmap_insert ''credit_id'' (JStr c) start | None \<Rightarrow> start)
      in account_call ev ''provider rate-limit reset API'' ''POST''
           ''/backend-api/wham/rate-limit-reset-credits/consume'' (Some (JObj bd)) pid s)))"

definition reported :: "string \<Rightarrow> (app_error, json) result \<Rightarrow> json" where
  "reported label r =
     (case r of Inr v \<Rightarrow> JObj [(label, v)] | Inl e \<Rightarrow> JObj [(''error'', JStr (ae_message e))])"

definition list_provider_usage :: "env \<Rightarrow> header_map \<Rightarrow> json app_handler" where
  "list_provider_usage ev headers =
     sbind (session ev headers) (\<lambda>u.
     sbind (sgets (\<lambda>s. fold (\<lambda>p. jmap_insert (p_id p)
              (reported ''usage'' (provider_usage_value ev (p_id p) s)))
              (visible_providers u (ap_db s)) [])) (\<lambda>providers.
     sreturn (JObj [(''providers'', JObj providers)])))"

definition list_provider_rate_limit_resets :: "env \<Rightarrow> header_map \<Rightarrow> json app_handler" where
  "list_provider_rate_limit_resets ev headers =
     sbind (session ev headers) (\<lambda>u.
     sbind (sgets (\<lambda>s. fold (\<lambda>p. jmap_insert (p_id p)
              (reported ''resets'' (provider_rate_limit_resets_value ev (p_id p) s)))
              (visible_providers u (ap_db s)) [])) (\<lambda>providers.
     sreturn (JObj [(''providers'', JObj providers)])))"

definition provider_usage :: "env \<Rightarrow> string \<Rightarrow> json app_handler" where
  "provider_usage ev pid =
     sbind (sgets (provider_usage_value ev pid)) (\<lambda>r.
     sbind (slift r) (\<lambda>v. sreturn (JObj [(''ok'', JBool True), (''usage'', v)])))"

definition test_provider :: "env \<Rightarrow> string \<Rightarrow> header_map \<Rightarrow> string \<Rightarrow> json app_handler" where
  "test_provider ev ip headers pid =
     manager ev headers pid (\<lambda>u.
     audited ev (ui_id u) ''provider.test'' (\<lambda>_. Some pid) ip (provider_usage ev pid))"

definition consume_provider_rate_limit_reset ::
  "env \<Rightarrow> string \<Rightarrow> header_map \<Rightarrow> string \<Rightarrow> string option \<Rightarrow> string \<Rightarrow> json app_handler" where
  "consume_provider_rate_limit_reset ev ip headers pid credit key =
     manager ev headers pid (\<lambda>u.
     audited ev (ui_id u) ''provider.rate_limit_reset.consume'' (\<lambda>_. Some pid) ip
       (sbind (sgets (consume_provider_rate_limit_reset_value ev pid credit key)) slift))"

section \<open>Deletion and grants\<close>

definition delete_provider_operation :: "string \<Rightarrow> json app_handler" where
  "delete_provider_operation pid =
     sbind (db_get (\<lambda>db. rows_affected (\<lambda>p. p_id p = pid) (db_providers db))) (\<lambda>deleted.
     sbind (exec (delete_provider_rows pid)) (\<lambda>_.
     if deleted = 0 then sfail (not_found ''provider not found'')
     else
       sbind (smodify (\<lambda>s. s\<lparr>ap_balancer := forget_provider pid (ap_balancer s)\<rparr>)) (\<lambda>_.
       sbind reload (\<lambda>_. sreturn ok_json))))"

definition delete_provider :: "env \<Rightarrow> string \<Rightarrow> header_map \<Rightarrow> string \<Rightarrow> json app_handler" where
  "delete_provider ev ip headers pid =
     manager ev headers pid (\<lambda>u.
     audited ev (ui_id u) ''provider.delete'' (\<lambda>_. Some pid) ip (delete_provider_operation pid))"

definition list_provider_grants :: "env \<Rightarrow> header_map \<Rightarrow> string \<Rightarrow> json app_handler" where
  "list_provider_grants ev headers pid =
     manager ev headers pid (\<lambda>_.
     sbind (db_get (\<lambda>db. sort_key (\<lambda>g. (g_created_at g, g_user_id g))
              (filter (\<lambda>g. g_provider_id g = pid) (db_grants db)))) (\<lambda>rows.
     sreturn (JArr (map (\<lambda>g. JObj [(''user_id'', JStr (g_user_id g)),
       (''created_at'', JInt (g_created_at g))]) rows))))"

definition granted :: "database \<Rightarrow> string \<Rightarrow> string \<Rightarrow> bool" where
  "granted db pid uid \<longleftrightarrow>
     list_ex (\<lambda>g. g_provider_id g = pid \<and> g_user_id g = uid) (db_grants db)"

text \<open>\<open>INSERT .. SELECT .. FROM users .. ON CONFLICT DO NOTHING\<close>: the rows inserted and the
  table after it.\<close>

definition insert_grant :: "i64 \<Rightarrow> string \<Rightarrow> string \<Rightarrow> database \<Rightarrow> nat \<times> database" where
  "insert_grant now pid uid db =
     (if user_exists db uid \<and> \<not> granted db pid uid
      then (1, db\<lparr>db_grants := db_grants db @
             [\<lparr>g_provider_id = pid, g_user_id = uid, g_created_at = now\<rparr>]\<rparr>)
      else (0, db))"

definition create_provider_grant ::
  "env \<Rightarrow> string \<Rightarrow> header_map \<Rightarrow> string \<Rightarrow> string \<Rightarrow> json app_handler" where
  "create_provider_grant ev ip headers pid input_user =
     manager ev headers pid (\<lambda>u.
     let target = trim input_user in
     if target = [] \<or> 200 < length target
     then sfail (bad_request ''user_id must be 1-200 characters'')
     else
       sbind (db_get (\<lambda>db. provider_row db pid)) (\<lambda>row.
       sbind (slift (ok_or row internal_error)) (\<lambda>p.
       if p_owner_id p = Some target
       then sfail (bad_request ''provider owner already has implicit access'')
       else
         sbind (on_db (\<lambda>db. (Inr (fst (insert_grant (ev_now ev) pid target db)),
                                 snd (insert_grant (ev_now ev) pid target db)))) (\<lambda>affected.
         if affected = 0
         then sbind (db_get (\<lambda>db. user_exists db target)) (\<lambda>known.
              sfail (if known then bad_request ''provider grant already exists''
                     else not_found ''user_id not found''))
         else
           sbind reload (\<lambda>_.
           sbind (write_admin_audit ev (ui_id u) ''provider.grant.create''
                    (Some (pid @ '':'' @ target)) ip) (\<lambda>_.
           sreturn (JObj [(''ok'', JBool True), (''user_id'', JStr target)])))))))"

definition delete_provider_grant ::
  "env \<Rightarrow> string \<Rightarrow> header_map \<Rightarrow> string \<Rightarrow> string \<Rightarrow> json app_handler" where
  "delete_provider_grant ev ip headers pid uid =
     manager ev headers pid (\<lambda>u.
     let w = (\<lambda>g. g_provider_id g = pid \<and> g_user_id g = uid) in
     sbind (db_get (\<lambda>db. rows_affected w (db_grants db))) (\<lambda>deleted.
     sbind (exec (\<lambda>db. db\<lparr>db_grants := filter (\<lambda>g. \<not> w g) (db_grants db)\<rparr>)) (\<lambda>_.
     if deleted = 0 then sfail (not_found ''provider grant not found'')
     else
       sbind reload (\<lambda>_.
       sbind (write_admin_audit ev (ui_id u) ''provider.grant.delete''
                (Some (pid @ '':'' @ uid)) ip) (\<lambda>_.
       sreturn ok_json)))))"

section \<open>The OAuth endpoints\<close>

definition oauth_start_operation :: "env \<Rightarrow> string \<Rightarrow> json app_handler" where
  "oauth_start_operation ev uid =
     sbind (oauth_start ev uid) (\<lambda>st.
     sreturn (JObj [(''authorize_url'', JStr (os_authorize_url st)), (''state'', JStr (os_state st))]))"

definition api_oauth_start :: "env \<Rightarrow> string \<Rightarrow> header_map \<Rightarrow> json app_handler" where
  "api_oauth_start ev ip headers =
     sbind (session ev headers) (\<lambda>u.
     audited ev (ui_id u) ''oauth.start'' (\<lambda>_. None) ip (oauth_start_operation ev (ui_id u)))"

definition oauth_complete_operation :: "env \<Rightarrow> string \<Rightarrow> string \<Rightarrow> string \<Rightarrow> string \<Rightarrow> json app_handler" where
  "oauth_complete_operation ev uid input_state code name =
     sbind (exchange ev input_state code uid) (\<lambda>token.
     insert_provider ev uid name (tk_access_token token) (tk_refresh_token token)
       (Some (ev_now ev + tk_expires_in token)))"

definition oauth_complete ::
  "env \<Rightarrow> string \<Rightarrow> header_map \<Rightarrow> string \<Rightarrow> string \<Rightarrow> string \<Rightarrow> json app_handler" where
  "oauth_complete ev ip headers input_state code name =
     sbind (session ev headers) (\<lambda>u.
     audited ev (ui_id u) ''oauth.complete'' created_id ip
       (oauth_complete_operation ev (ui_id u) input_state code name))"

end
