(* ===== verification/Api_Settings.thy ===== *)
theory Api_Settings
  imports Api_Providers
begin

text \<open>
  The console's handlers of \<open>src/api.rs\<close> for the settings and the users. The settings are
  validated, written to \<open>app_meta\<close> in one transaction and swapped into the running
  configuration; \<open>update_user\<close> performs up to three updates, each followed by its audit row.
\<close>

section \<open>Validation\<close>

definition validate_http_url :: "env \<Rightarrow> string \<Rightarrow> string \<Rightarrow> (app_error, string) result" where
  "validate_http_url ev name v =
     (let normalized = trim_end_matches ''/'' (trim v)
      in rbind (ok_or (ev_url ev normalized) (bad_request (name @ '' must be an absolute URL''))) (\<lambda>(scheme, host).
         rbind (ensure (\<not> (scheme \<notin> {''http'', ''https''} \<or> host = None))
                  (bad_request (name @ '' must use HTTP or HTTPS''))) (\<lambda>_.
         Inr normalized)))"

definition optional_header_value :: "env \<Rightarrow> string \<Rightarrow> string \<Rightarrow> (app_error, string option) result" where
  "optional_header_value ev name v =
     (let t = trim v
      in if t = [] then Inr None
         else if 1024 < length t \<or> \<not> ev_header_ok ev t
         then Inl (bad_request (name @ '' must be a valid HTTP header value up to 1024 characters''))
         else Inr (Some t))"

section \<open>Settings\<close>

definition settings_json :: "user_identity \<Rightarrow> config \<Rightarrow> json" where
  "settings_json u cfg =
     JObj [(''role'', JStr (ui_role u)), (''auth_issuer'', opt_json JStr (cf_auth_issuer cfg)),
       (''upstream_base'', JStr (cf_upstream_base cfg)),
       (''upstream_openai_beta'', opt_json JStr (cf_upstream_openai_beta cfg)),
       (''image_host_model'', JStr (cf_image_host_model cfg)),
       (''oauth_authorize_url'', JStr (cf_oauth_authorize_url cfg)),
       (''oauth_token_url'', JStr (cf_oauth_token_url cfg)),
       (''oauth_redirect_uri'', JStr (cf_oauth_redirect_uri cfg)),
       (''oauth_client_id'', JStr (cf_oauth_client_id cfg)),
       (''response_body_limit'', JInt (int (cf_response_body_limit cfg))),
       (''image_body_limit'', JInt (int (cf_image_body_limit cfg))),
       (''audio_body_limit'', JInt (int (cf_audio_body_limit cfg))),
       (''affinity_ttl_seconds'', JInt (cf_affinity_ttl_seconds cfg)),
       (''request_archive_retention_days'', JInt (cf_request_archive_retention_days cfg))]"

definition settings :: "env \<Rightarrow> header_map \<Rightarrow> json app_handler" where
  "settings ev headers =
     sbind (session ev headers) (\<lambda>u.
     sbind (sgets ap_config) (\<lambda>cfg. sreturn (settings_json u cfg)))"

record update_settings_t =
  us_upstream_base :: string
  us_upstream_openai_beta :: string
  us_image_host_model :: string
  us_oauth_authorize_url :: string
  us_oauth_token_url :: string
  us_oauth_redirect_uri :: string
  us_oauth_client_id :: string
  us_response_body_limit :: nat
  us_image_body_limit :: nat
  us_audio_body_limit :: nat
  us_affinity_ttl_seconds :: i64
  us_request_archive_retention_days :: i64

definition numeric_settings_ok :: "update_settings_t \<Rightarrow> bool" where
  "numeric_settings_ok i \<longleftrightarrow>
     1024 \<le> us_response_body_limit i \<and> us_response_body_limit i \<le> 16777216 \<and>
     1024 \<le> us_image_body_limit i \<and> us_image_body_limit i \<le> 16777216 \<and>
     1048576 \<le> us_audio_body_limit i \<and> us_audio_body_limit i \<le> 2000000000 \<and>
     60 \<le> us_affinity_ttl_seconds i \<and> us_affinity_ttl_seconds i \<le> 2592000 \<and>
     1 \<le> us_request_archive_retention_days i \<and> us_request_archive_retention_days i \<le> 365"

text \<open>The configuration the handler stores: the current one with the validated input.\<close>

definition validated_settings ::
  "env \<Rightarrow> update_settings_t \<Rightarrow> config \<Rightarrow> (app_error, config) result" where
  "validated_settings ev i cfg =
     rbind (validate_http_url ev ''upstream base'' (us_upstream_base i)) (\<lambda>base.
     rbind (optional_header_value ev ''upstream OpenAI-Beta'' (us_upstream_openai_beta i)) (\<lambda>beta.
     rbind (validate_http_url ev ''OAuth authorize URL'' (us_oauth_authorize_url i)) (\<lambda>authorize.
     rbind (validate_http_url ev ''OAuth token URL'' (us_oauth_token_url i)) (\<lambda>token.
     rbind (validate_http_url ev ''OAuth redirect URI'' (us_oauth_redirect_uri i)) (\<lambda>redirect.
     rbind (required_setting ''image host model'' (us_image_host_model i)) (\<lambda>host.
     rbind (required_setting ''OAuth client ID'' (us_oauth_client_id i)) (\<lambda>client.
     rbind (ensure (numeric_settings_ok i)
              (bad_request ''one or more numeric settings are outside the allowed range'')) (\<lambda>_.
     Inr (cfg\<lparr>cf_upstream_base := base, cf_upstream_openai_beta := beta,
       cf_image_host_model := host, cf_oauth_authorize_url := authorize,
       cf_oauth_token_url := token, cf_oauth_redirect_uri := redirect,
       cf_oauth_client_id := client, cf_response_body_limit := us_response_body_limit i,
       cf_image_body_limit := us_image_body_limit i, cf_audio_body_limit := us_audio_body_limit i,
       cf_affinity_ttl_seconds := us_affinity_ttl_seconds i,
       cf_request_archive_retention_days := us_request_archive_retention_days i\<rparr>)))))))))"

text \<open>The rows written: the text of each value, in the order of the transaction.\<close>

definition settings_values :: "config \<Rightarrow> (string \<times> string) list" where
  "settings_values cfg =
     [(''upstream_base'', cf_upstream_base cfg),
      (''upstream_openai_beta'', unwrap_or (cf_upstream_openai_beta cfg) []),
      (''image_host_model'', cf_image_host_model cfg),
      (''oauth_authorize_url'', cf_oauth_authorize_url cfg),
      (''oauth_token_url'', cf_oauth_token_url cfg),
      (''oauth_redirect_uri'', cf_oauth_redirect_uri cfg),
      (''oauth_client_id'', cf_oauth_client_id cfg),
      (''response_body_limit'', show_nat (cf_response_body_limit cfg)),
      (''image_body_limit'', show_nat (cf_image_body_limit cfg)),
      (''audio_body_limit'', show_nat (cf_audio_body_limit cfg)),
      (''affinity_ttl_seconds'', show_i64 (cf_affinity_ttl_seconds cfg)),
      (''request_archive_retention_days'', show_i64 (cf_request_archive_retention_days cfg))]"

definition write_settings :: "(string \<times> string) list \<Rightarrow> database \<Rightarrow> database" where
  "write_settings = fold (\<lambda>(key, v). meta_set key v)"

definition update_settings ::
  "env \<Rightarrow> string \<Rightarrow> header_map \<Rightarrow> update_settings_t \<Rightarrow> json app_handler" where
  "update_settings ev ip headers input =
     sbind (session ev headers) (\<lambda>root.
     sbind (slift (require_root root)) (\<lambda>_.
     sbind (sgets ap_config) (\<lambda>cfg.
     sbind (slift (validated_settings ev input cfg)) (\<lambda>cfg'.
     sbind (exec (write_settings (settings_values cfg'))) (\<lambda>_.
     sbind (smodify (\<lambda>s. s\<lparr>ap_config := cfg'\<rparr>)) (\<lambda>_.
     sbind (write_admin_audit ev (ui_id root) ''settings.update'' None ip) (\<lambda>_.
     sreturn ok_json)))))))"

section \<open>Users\<close>

definition user_json :: "user_row \<Rightarrow> json" where
  "user_json u =
     JObj [(''id'', JStr (u_id u)), (''display_name'', opt_json JStr (u_display_name u)),
       (''role'', JStr (u_role u)), (''provider_access'', JBool (u_provider_access u \<noteq> 0)),
       (''created_at'', JInt (u_created_at u))]"

definition list_users :: "env \<Rightarrow> header_map \<Rightarrow> json app_handler" where
  "list_users ev headers =
     sbind (session ev headers) (\<lambda>root.
     sbind (slift (require_admin root)) (\<lambda>_.
     sbind (db_get (\<lambda>db. sort_key (\<lambda>u. (u_created_at u, u_id u)) (db_users db))) (\<lambda>rows.
     sreturn (JArr (map user_json rows)))))"

text \<open>One of the three parts of \<open>update_user\<close>: the update, an error when no row was selected,
  the audit row.\<close>

definition user_step ::
  "env \<Rightarrow> string \<Rightarrow> string \<Rightarrow> string \<Rightarrow> string \<Rightarrow> (user_row \<Rightarrow> bool) \<Rightarrow> (user_row \<Rightarrow> user_row) \<Rightarrow>
     app_error \<Rightarrow> unit app_handler" where
  "user_step ev ip admin_id uid action w f e =
     sbind (db_get (\<lambda>db. rows_affected w (db_users db))) (\<lambda>n.
     sbind (exec (\<lambda>db. db\<lparr>db_users := update_where w f (db_users db)\<rparr>)) (\<lambda>_.
     sbind (slift (ensure (n \<noteq> 0) e)) (\<lambda>_.
     write_admin_audit ev admin_id action (Some uid) ip)))"

definition update_user_name ::
  "env \<Rightarrow> string \<Rightarrow> string \<Rightarrow> string \<Rightarrow> string option \<Rightarrow> unit app_handler" where
  "update_user_name ev ip admin_id uid display_name =
     (case display_name of
        None \<Rightarrow> sreturn ()
      | Some d \<Rightarrow>
          user_step ev ip admin_id uid ''user.display_name.update'' (\<lambda>u. u_id u = uid)
            (\<lambda>u. u\<lparr>u_display_name := Some d\<rparr>) (not_found ''user not found''))"

definition update_user_role ::
  "env \<Rightarrow> string \<Rightarrow> user_identity \<Rightarrow> string \<Rightarrow> string option \<Rightarrow> unit app_handler" where
  "update_user_role ev ip admin uid role =
     (case role of
        None \<Rightarrow> sreturn ()
      | Some r \<Rightarrow>
          sbind (slift (require_root admin)) (\<lambda>_.
          sbind (slift (ensure (r \<in> {''admin'', ''user''}) (bad_request ''role must be admin or user''))) (\<lambda>_.
          user_step ev ip (ui_id admin) uid ''user.role.update''
            (\<lambda>u. u_id u = uid \<and> u_role u \<noteq> ''root'') (\<lambda>u. u\<lparr>u_role := r\<rparr>)
            (not_found ''user not found or root role is immutable''))))"

definition update_user_access ::
  "env \<Rightarrow> string \<Rightarrow> string \<Rightarrow> string \<Rightarrow> bool option \<Rightarrow> unit app_handler" where
  "update_user_access ev ip admin_id uid provider_access =
     (case provider_access of
        None \<Rightarrow> sreturn ()
      | Some a \<Rightarrow>
          user_step ev ip admin_id uid ''user.provider_access.update''
            (\<lambda>u. u_id u = uid \<and> u_role u = ''user'')
            (\<lambda>u. u\<lparr>u_provider_access := bool_i64 a\<rparr>)
            (bad_request ''provider access only applies to tenant users''))"

definition update_user ::
  "env \<Rightarrow> string \<Rightarrow> header_map \<Rightarrow> string \<Rightarrow> string option \<Rightarrow> string option \<Rightarrow> bool option \<Rightarrow>
     json app_handler" where
  "update_user ev ip headers uid input_name input_role input_access =
     sbind (session ev headers) (\<lambda>admin.
     sbind (slift (require_admin admin)) (\<lambda>_.
     if input_name = None \<and> input_role = None \<and> input_access = None
     then sfail (bad_request ''display_name, role, or provider_access is required'')
     else
       sbind (slift (case input_name of
                None \<Rightarrow> Inr None
              | Some n \<Rightarrow> rbind (required_setting ''display name'' n) (\<lambda>d. Inr (Some d)))) (\<lambda>display_name.
       sbind (update_user_name ev ip (ui_id admin) uid display_name) (\<lambda>_.
       sbind (update_user_role ev ip admin uid input_role) (\<lambda>_.
       sbind (update_user_access ev ip (ui_id admin) uid input_access) (\<lambda>_.
       sreturn ok_json))))))"

end
