(* ===== verification/Api_Audit.thy ===== *)
theory Api_Audit
  imports Api_Settings
begin

text \<open>
  The console's read-only handlers of \<open>src/api.rs\<close> over the call history: the usage table, the
  audit list with its filters, one call in detail, the administrators' log and the dashboard.
  A joined row is a tuple of the rows it was made of. \<open>date\<close> stands for SQLite's function of
  that name on Unix times; SQLite's \<open>lower\<close> folds ASCII letters only.
\<close>

section \<open>Usage\<close>

datatype usage_period = Last24Hours | Last7Days

fun usage_period_seconds :: "usage_period \<Rightarrow> i64" where
  "usage_period_seconds Last24Hours = 24 * 60 * 60"
| "usage_period_seconds Last7Days = 7 * 24 * 60 * 60"

fun usage_period_label :: "usage_period \<Rightarrow> string" where
  "usage_period_label Last24Hours = ''24h''"
| "usage_period_label Last7Days = ''7d''"

record usage_row_t =
  ur_user_id :: string
  ur_user_email :: "string option"
  ur_user_name :: "string option"
  ur_consumer_id :: string
  ur_consumer_name :: string
  ur_consumer_prefix :: string
  ur_model :: string
  ur_date :: string

text \<open>The rows of the join the query groups: calls in the window, of the user unless an
  administrator asks.\<close>

definition usage_calls :: "user_identity \<Rightarrow> i64 \<Rightarrow> database \<Rightarrow> (api_call \<times> user_row \<times> consumer) list" where
  "usage_calls u since db =
     concat (map (\<lambda>c.
       case (user_row_of db (c_user_id c), consumer_row db (c_consumer_id c)) of
         (Some r, Some k) \<Rightarrow> [(c, r, k)] | _ \<Rightarrow> [])
       (filter (\<lambda>c. since \<le> c_created_at c \<and> (is_admin u \<or> c_user_id c = ui_id u)) (db_api_calls db)))"

definition usage_key :: "(i64 \<Rightarrow> string) \<Rightarrow> api_call \<times> user_row \<times> consumer \<Rightarrow> usage_row_t" where
  "usage_key date row =
     (case row of (c, r, k) \<Rightarrow>
        \<lparr>ur_user_id = c_user_id c, ur_user_email = u_email r, ur_user_name = u_display_name r,
         ur_consumer_id = k_id k, ur_consumer_name = k_name k, ur_consumer_prefix = k_prefix k,
         ur_model = (if c_model c = None \<or> c_model c = Some [] then ''unknown'' else the (c_model c)),
         ur_date = date (c_created_at c)\<rparr>)"

definition sum_calls :: "(api_call \<Rightarrow> i64) \<Rightarrow> (api_call \<times> user_row \<times> consumer) list \<Rightarrow> i64" where
  "sum_calls f rows = sum_list (map (\<lambda>(c, _, _). f c) rows)"

definition usage_row_json :: "usage_row_t \<Rightarrow> (api_call \<times> user_row \<times> consumer) list \<Rightarrow> json" where
  "usage_row_json k rows =
     JObj [(''user_id'', JStr (ur_user_id k)), (''user_email'', opt_json JStr (ur_user_email k)),
       (''user_name'', opt_json JStr (ur_user_name k)), (''consumer_id'', JStr (ur_consumer_id k)),
       (''consumer_name'', JStr (ur_consumer_name k)), (''consumer_prefix'', JStr (ur_consumer_prefix k)),
       (''model'', JStr (ur_model k)), (''date'', JStr (ur_date k)),
       (''requests'', JInt (int (length rows))),
       (''input_tokens'', JInt (sum_calls c_input_tokens rows)),
       (''cached_tokens'', JInt (sum_calls c_cached_tokens rows)),
       (''output_tokens'', JInt (sum_calls c_output_tokens rows)),
       (''network_transport_bytes'',
          JInt (sum_calls (\<lambda>c. c_request_transport_bytes c + c_response_transport_bytes c) rows)),
       (''cost_usd_nanos'', JInt (sum_calls (\<lambda>c. unwrap_or (c_cost_usd_nanos c) 0) rows))]"

text \<open>\<open>GROUP BY\<close> the key, \<open>ORDER BY\<close> the date.\<close>

definition usage_groups ::
  "(i64 \<Rightarrow> string) \<Rightarrow> (api_call \<times> user_row \<times> consumer) list \<Rightarrow>
     (usage_row_t \<times> (api_call \<times> user_row \<times> consumer) list) list" where
  "usage_groups date rows =
     map (\<lambda>k. (k, filter (\<lambda>r. usage_key date r = k) rows))
       (sort_key ur_date (remdups (map (usage_key date) rows)))"

definition usage_rows :: "(i64 \<Rightarrow> string) \<Rightarrow> user_identity \<Rightarrow> i64 \<Rightarrow> database \<Rightarrow> json list" where
  "usage_rows date u since db =
     map (\<lambda>(k, rows). usage_row_json k rows) (usage_groups date (usage_calls u since db))"

definition api_usage ::
  "env \<Rightarrow> (i64 \<Rightarrow> string) \<Rightarrow> header_map \<Rightarrow> usage_period option \<Rightarrow> json app_handler" where
  "api_usage ev date headers query_period =
     sbind (session ev headers) (\<lambda>u.
     let period = unwrap_or query_period Last24Hours;
         since = ev_now ev - usage_period_seconds period
     in sbind (db_get (usage_rows date u since)) (\<lambda>rows.
        sreturn (JObj [(''period'', JStr (usage_period_label period)), (''since'', JInt since),
          (''rows'', JArr rows)])))"

section \<open>The audit list\<close>

datatype audit_status = AuditSuccess | AuditError

record audit_query =
  aq_limit :: "i64 option"
  aq_offset :: "i64 option"
  aq_user_id :: "string option"
  aq_consumer :: "string option"
  aq_provider :: "string option"
  aq_model :: "string option"
  aq_status :: "audit_status option"

type_synonym audit_row = "api_call \<times> consumer \<times> provider option"

definition audit_join :: "database \<Rightarrow> audit_row list" where
  "audit_join db =
     concat (map (\<lambda>c.
       case consumer_row db (c_consumer_id c) of
         None \<Rightarrow> [] | Some k \<Rightarrow> [(c, k, Option.bind (c_provider_id c) (provider_row db))])
       (db_api_calls db))"

definition audit_text_filter :: "string option \<Rightarrow> string option \<Rightarrow> bool" where
  "audit_text_filter column v =
     (case opt_filter (\<lambda>t. t \<noteq> []) (map_option trim v) of
        None \<Rightarrow> True
      | Some t \<Rightarrow> contains_str (to_ascii_lowercase (unwrap_or column [])) (to_ascii_lowercase t))"

fun audit_status_matches :: "audit_status option \<Rightarrow> i64 \<Rightarrow> bool" where
  "audit_status_matches None s = True"
| "audit_status_matches (Some AuditSuccess) s = (s < 400)"
| "audit_status_matches (Some AuditError) s = (400 \<le> s)"

definition audit_filter :: "audit_query \<Rightarrow> user_identity \<Rightarrow> audit_row \<Rightarrow> bool" where
  "audit_filter q u row \<longleftrightarrow>
     (case row of (c, k, ch) \<Rightarrow>
        (is_admin u \<or> c_user_id c = ui_id u) \<and>
        audit_text_filter (Some (c_user_id c)) (aq_user_id q) \<and>
        audit_text_filter (Some (k_name k)) (aq_consumer q) \<and>
        audit_text_filter (map_option p_name ch) (aq_provider q) \<and>
        audit_text_filter (c_model c) (aq_model q) \<and>
        audit_status_matches (aq_status q) (c_status c))"

definition audit_row_json :: "database \<Rightarrow> audit_row \<Rightarrow> json" where
  "audit_row_json db row =
     (case row of (c, k, ch) \<Rightarrow>
        JObj [(''id'', JStr (c_id c)), (''request_id'', JStr (c_request_id c)),
          (''thread_id'', opt_json JStr (c_thread_id c)), (''user_id'', JStr (c_user_id c)),
          (''user_name'', opt_json JStr (Option.bind (user_row_of db (c_user_id c)) u_display_name)),
          (''consumer_name'', JStr (k_name k)), (''provider_id'', opt_json JStr (c_provider_id c)),
          (''provider_name'', opt_json (\<lambda>p. JStr (p_name p)) ch), (''path'', JStr (c_path c)),
          (''method'', JStr (c_method c)), (''model'', opt_json JStr (c_model c)),
          (''reasoning_effort'', opt_json JStr (c_reasoning_effort c)), (''status'', JInt (c_status c)),
          (''latency_ms'', JInt (c_latency_ms c)), (''input_tokens'', JInt (c_input_tokens c)),
          (''output_tokens'', JInt (c_output_tokens c)), (''cached_tokens'', JInt (c_cached_tokens c)),
          (''error'', opt_json JStr (c_error c)), (''client_ip'', JStr (c_client_ip c)),
          (''created_at'', JInt (c_created_at c)),
          (''first_byte_latency_ms'', opt_json JInt (c_first_byte_latency_ms c)),
          (''request_bytes'', JInt (c_request_bytes c)), (''response_bytes'', JInt (c_response_bytes c)),
          (''request_transport_bytes'', JInt (c_request_transport_bytes c)),
          (''response_transport_bytes'', JInt (c_response_transport_bytes c)),
          (''cost_usd_nanos'', opt_json JInt (c_cost_usd_nanos c))])"

text \<open>\<open>LIMIT\<close> and \<open>OFFSET\<close> with the clamps of the handler: \<open>clamp(1, 500)\<close> and \<open>max(0)\<close>.\<close>

definition page_limit :: "i64 option \<Rightarrow> i64" where
  "page_limit l = max 1 (min 500 (unwrap_or l 100))"

definition page_offset :: "i64 option \<Rightarrow> i64" where
  "page_offset ow = max (unwrap_or ow 0) 0"

definition page :: "i64 option \<Rightarrow> i64 option \<Rightarrow> 'a list \<Rightarrow> 'a list" where
  "page l ow xs = take (nat (page_limit l)) (drop (nat (page_offset ow)) xs)"

definition audit_matches :: "audit_query \<Rightarrow> user_identity \<Rightarrow> database \<Rightarrow> audit_row list" where
  "audit_matches q u db = filter (audit_filter q u) (audit_join db)"

definition api_audit :: "env \<Rightarrow> header_map \<Rightarrow> audit_query \<Rightarrow> json app_handler" where
  "api_audit ev headers q =
     sbind (session ev headers) (\<lambda>u.
     sbind (db_get (\<lambda>db. length (audit_matches q u db))) (\<lambda>total.
     sbind (db_get (\<lambda>db. map (audit_row_json db)
              (page (aq_limit q) (aq_offset q)
                (newest_first (\<lambda>(c, _, _). c_created_at c) (audit_matches q u db))))) (\<lambda>rows.
     sreturn (JObj [(''rows'', JArr rows), (''total'', JInt (int total))]))))"

section \<open>One call\<close>

text \<open>serde's reading of a list of pairs, and its writing.\<close>

fun pair_of_json :: "json \<Rightarrow> (string \<times> string) option" where
  "pair_of_json (JArr [JStr a, JStr b]) = Some (a, b)"
| "pair_of_json _ = None"

fun pairs_of :: "json list \<Rightarrow> (string \<times> string) list option" where
  "pairs_of [] = Some []"
| "pairs_of (v # vs) =
     Option.bind (pair_of_json v) (\<lambda>p. Option.bind (pairs_of vs) (\<lambda>ps. Some (p # ps)))"

definition parse_pairs :: "env \<Rightarrow> string \<Rightarrow> (string \<times> string) list option" where
  "parse_pairs ev text = Option.bind (Option.bind (ev_parse ev text) as_array) pairs_of"

definition render_pairs :: "env \<Rightarrow> (string \<times> string) list \<Rightarrow> string" where
  "render_pairs ev ps = ev_render ev (JArr (map (\<lambda>(a, b). JArr [JStr a, JStr b]) ps))"

definition visible_headers :: "env \<Rightarrow> bool \<Rightarrow> string option \<Rightarrow> json" where
  "visible_headers ev admin h =
     opt_json JStr (visible_archive_headers (parse_pairs ev) (render_pairs ev) h admin)"

definition nav_json :: "api_call option \<Rightarrow> json" where
  "nav_json = opt_json (\<lambda>c. JObj [(''id'', JStr (c_id c)), (''request_id'', JStr (c_request_id c)),
     (''created_at'', JInt (c_created_at c))])"

text \<open>The calls of the same thread and consumer, in order; a call's neighbours in it.\<close>

definition navigation_rows :: "user_identity \<Rightarrow> api_call \<Rightarrow> database \<Rightarrow> api_call list" where
  "navigation_rows u c db =
     (case c_thread_id c of
        None \<Rightarrow> []
      | Some t \<Rightarrow>
          sort_key (\<lambda>x. (c_created_at x, c_id x))
            (filter (\<lambda>x. c_thread_id x = Some t \<and> c_consumer_id x = c_consumer_id c \<and>
                         (is_admin u \<or> c_user_id x = ui_id u)) (db_api_calls db)))"

definition neighbours :: "string \<Rightarrow> api_call list \<Rightarrow> api_call option \<times> api_call option" where
  "neighbours cid rows =
     (case position (\<lambda>x. c_id x = cid) rows of
        None \<Rightarrow> (None, None)
      | Some i \<Rightarrow> (if i = 0 then None else nth_opt rows (i - 1), nth_opt rows (i + 1)))"

definition audit_detail_row :: "user_identity \<Rightarrow> string \<Rightarrow> database \<Rightarrow> audit_row option" where
  "audit_detail_row u cid db =
     find (\<lambda>(c, _, _). c_id c = cid \<and> (is_admin u \<or> c_user_id c = ui_id u)) (audit_join db)"

definition archive_of :: "database \<Rightarrow> string \<Rightarrow> request_archive_row option" where
  "archive_of db cid = find (\<lambda>a. ra_api_call_id a = cid) (db_archives db)"

definition audit_detail_json :: "env \<Rightarrow> user_identity \<Rightarrow> database \<Rightarrow> audit_row \<Rightarrow> json" where
  "audit_detail_json ev u db row =
     (case row of (c, k, ch) \<Rightarrow>
        let a = archive_of db (c_id c);
            admin = is_admin u;
            (before, after) = neighbours (c_id c) (navigation_rows u c db)
        in JObj
          [(''id'', JStr (c_id c)), (''request_id'', JStr (c_request_id c)),
           (''thread_id'', opt_json JStr (c_thread_id c)), (''user_id'', JStr (c_user_id c)),
           (''consumer_name'', JStr (k_name k)), (''provider_id'', opt_json JStr (c_provider_id c)),
           (''provider_name'', opt_json (\<lambda>p. JStr (p_name p)) ch), (''method'', JStr (c_method c)),
           (''path'', JStr (c_path c)), (''model'', opt_json JStr (c_model c)),
           (''reasoning_effort'', opt_json JStr (c_reasoning_effort c)), (''status'', JInt (c_status c)),
           (''latency_ms'', JInt (c_latency_ms c)), (''input_tokens'', JInt (c_input_tokens c)),
           (''output_tokens'', JInt (c_output_tokens c)), (''cached_tokens'', JInt (c_cached_tokens c)),
           (''error'', opt_json JStr (c_error c)), (''client_ip'', JStr (c_client_ip c)),
           (''first_byte_latency_ms'', opt_json JInt (c_first_byte_latency_ms c)),
           (''request_bytes'', JInt (c_request_bytes c)), (''response_bytes'', JInt (c_response_bytes c)),
           (''request_transport_bytes'', JInt (c_request_transport_bytes c)),
           (''response_transport_bytes'', JInt (c_response_transport_bytes c)),
           (''downstream_accept_encoding'', opt_json JStr (c_downstream_accept_encoding c)),
           (''downstream_content_encoding'', opt_json JStr (c_downstream_content_encoding c)),
           (''upstream_accept_encoding'', opt_json JStr (c_upstream_accept_encoding c)),
           (''upstream_content_encoding'', opt_json JStr (c_upstream_content_encoding c)),
           (''affinity_hash'', opt_json JStr (c_affinity_hash c)),
           (''affinity_source'', opt_json JStr (c_affinity_source c)),
           (''created_at'', JInt (c_created_at c)), (''archive_available'', JBool (a \<noteq> None)),
           (''request_headers'', visible_headers ev admin (map_option ra_request_headers_json a)),
           (''upstream_request_headers'',
              visible_headers ev admin (Option.bind a ra_upstream_request_headers_json)),
           (''request_body'', opt_json (\<lambda>x. JStr (utf8_lossy (ra_request_body x))) a),
           (''request_body_truncated'', JBool (unwrap_or (map_option ra_request_body_truncated a) False)),
           (''response_headers'', visible_headers ev admin (Option.bind a ra_response_headers_json)),
           (''downstream_response_headers'',
              visible_headers ev admin (Option.bind a ra_downstream_response_headers_json)),
           (''response_body'', opt_json (\<lambda>b. JStr (utf8_lossy b)) (Option.bind a ra_response_body)),
           (''response_body_truncated'', JBool (unwrap_or (map_option ra_response_body_truncated a) False)),
           (''previous'', nav_json before), (''next'', nav_json after),
           (''upstream_http_version'', opt_json JStr (c_upstream_http_version c)),
           (''cost_usd_nanos'', opt_json JInt (c_cost_usd_nanos c))])"

definition audit_detail :: "env \<Rightarrow> header_map \<Rightarrow> string \<Rightarrow> json app_handler" where
  "audit_detail ev headers cid =
     sbind (session ev headers) (\<lambda>u.
     sbind (db_get (audit_detail_row u cid)) (\<lambda>row.
     sbind (slift (ok_or row (not_found ''audit event not found''))) (\<lambda>r.
     sbind (db_get (\<lambda>db. audit_detail_json ev u db r)) sreturn)))"

section \<open>The administrators' log and the dashboard\<close>

definition admin_audit_json :: "admin_audit_row \<Rightarrow> user_row \<Rightarrow> json" where
  "admin_audit_json a u =
     JObj [(''id'', JStr (aa_id a)), (''admin_user_id'', JStr (aa_admin_user_id a)),
       (''admin_email'', opt_json JStr (u_email u)), (''action'', JStr (aa_action a)),
       (''target_id'', opt_json JStr (aa_target_id a)), (''client_ip'', JStr (aa_client_ip a)),
       (''created_at'', JInt (aa_created_at a))]"

definition admin_audit_join :: "database \<Rightarrow> (admin_audit_row \<times> user_row) list" where
  "admin_audit_join db =
     concat (map (\<lambda>a. case user_row_of db (aa_admin_user_id a) of None \<Rightarrow> [] | Some u \<Rightarrow> [(a, u)])
       (db_admin_audit db))"

definition list_admin_audit ::
  "env \<Rightarrow> header_map \<Rightarrow> i64 option \<Rightarrow> i64 option \<Rightarrow> json app_handler" where
  "list_admin_audit ev headers limit offset =
     sbind (session ev headers) (\<lambda>u.
     sbind (slift (require_admin u)) (\<lambda>_.
     sbind (db_get (\<lambda>db. page limit offset
              (newest_first (\<lambda>(a, _). aa_created_at a) (admin_audit_join db)))) (\<lambda>rows.
     sreturn (JArr (map (\<lambda>(a, r). admin_audit_json a r) rows)))))"

definition recent_calls :: "string \<Rightarrow> i64 \<Rightarrow> database \<Rightarrow> api_call list" where
  "recent_calls uid now db =
     filter (\<lambda>c. c_user_id c = uid \<and> now - 86400 < c_created_at c) (db_api_calls db)"

definition available_providers :: "user_identity \<Rightarrow> i64 \<Rightarrow> database \<Rightarrow> nat" where
  "available_providers u access db =
     length (filter (\<lambda>p. p_manual_disabled p = 0 \<and> p_status p = ''active'' \<and>
         (is_admin u \<or> access \<noteq> 0 \<or> p_owner_id p = Some (ui_id u) \<or> granted db (p_id p) (ui_id u)))
       (db_providers db))"

definition dashboard :: "env \<Rightarrow> header_map \<Rightarrow> json app_handler" where
  "dashboard ev headers =
     sbind (session ev headers) (\<lambda>u.
     sbind (db_get (\<lambda>db. length (filter (\<lambda>k. k_user_id k = ui_id u \<and> k_revoked_at k = None)
              (db_consumers db)))) (\<lambda>keys.
     sbind (db_get (recent_calls (ui_id u) (ev_now ev))) (\<lambda>calls.
     sbind (db_get (\<lambda>db. user_row_of db (ui_id u))) (\<lambda>row.
     sbind (slift (ok_or row internal_error)) (\<lambda>r.
     sbind (db_get (available_providers u (u_provider_access r))) (\<lambda>providers.
     sreturn (JObj [(''active_consumers'', JInt (int keys)), (''calls_24h'', JInt (int (length calls))),
       (''errors_24h'', JInt (int (length (filter (\<lambda>c. 400 \<le> c_status c) calls)))),
       (''cost_usd_nanos_24h'', JInt (sum_list (map (\<lambda>c. unwrap_or (c_cost_usd_nanos c) 0) calls))),
       (''available_providers'', JInt (int providers))])))))))"

end
