(* ===== verification/Setup_Facts.thy ===== *)
theory Setup_Facts
  imports Api_Audit
begin

text \<open>
  Setup happens once and makes one root; the settings survive a restart, the audience of the
  setup only when it does not end with a slash.
\<close>

section \<open>Metadata\<close>

lemma map_of_update_where_fst:
  "map_of (update_where (\<lambda>kv. fst kv = k) (\<lambda>kv. (fst kv, v)) rows) q =
     (if q = k \<and> k \<in> fst ` set rows then Some v else map_of rows q)"
proof (induction rows)
  case Nil
  show ?case by (simp add: update_where_def)
next
  case (Cons r rows)
  obtain a b where r: "r = (a, b)" by (cases r)
  show ?case
  proof (cases "q = k")
    case True
    with Cons show ?thesis by (simp add: r update_where_def)
  next
    case False
    with Cons show ?thesis by (auto simp: r update_where_def)
  qed
qed

lemma rev_update_where: "rev (update_where p f rows) = update_where p f (rev rows)"
  by (simp add: update_where_def rev_map)

lemma meta_value_set:
  "meta_value (db_meta (meta_set k v db)) q =
     (if q = k \<and> k \<in> fst ` set (db_meta db) then Inr v else meta_value (db_meta db) q)"
  by (simp add: meta_value_def meta_set_def rev_update_where map_of_update_where_fst)

lemma meta_set_keys [simp]: "fst ` set (db_meta (meta_set k v db)) = fst ` set (db_meta db)"
  unfolding meta_set_def by (simp add: image_update_where)

lemma meta_value_Inr_key: "meta_value rows k = Inr v \<Longrightarrow> k \<in> fst ` set rows"
  by (auto simp: meta_value_def ok_or_def split: option.splits dest!: map_of_SomeD intro: rev_image_eqI)

lemma meta_get_set:
  "meta_get (meta_set k v db) q =
     (if q = k \<and> k \<in> fst ` set (db_meta db) then Some v else meta_get db q)"
  by (simp add: meta_get_def meta_set_def map_of_update_where_fst)

lemma meta_get_Some_key: "meta_get db k = Some v \<Longrightarrow> k \<in> fst ` set (db_meta db)"
  by (auto simp: meta_get_def dest!: map_of_SomeD intro: rev_image_eqI)

section \<open>Setup\<close>

lemma setup_transaction_Inr:
  assumes "setup_transaction now uid issuer audience db = Inr db'"
  obtains db1 where "make_root now uid db = Some db1"
    and "meta_get db ''setup_complete'' \<noteq> Some ''true''" and "meta_get db ''setup_complete'' \<noteq> None"
    and "db' = meta_set ''setup_complete'' ''true''
              (meta_set ''auth_audience'' audience
                (meta_set ''auth_issuer'' issuer (adopt_providers uid db1)))"
  using assms
  by (auto simp: setup_transaction_def rbind_Inr_iff ok_or_Inr_iff split: if_splits)

lemma make_root_users:
  assumes "make_root now uid db = Some db1"
  shows "\<forall>u \<in> set (db_users db1). u_role u = ''root'' \<longleftrightarrow> u_id u = uid" and "user_exists db1 uid"
    and "db_meta db1 = db_meta db" and "db_providers db1 = db_providers db"
proof -
  have "(\<forall>u \<in> set (db_users db1). u_role u = ''root'' \<longleftrightarrow> u_id u = uid) \<and> user_exists db1 uid \<and>
      db_meta db1 = db_meta db \<and> db_providers db1 = db_providers db"
  proof (cases "user_exists db uid")
    case True
    with assms have "\<forall>u \<in> set (db_users db). u_role u = ''root'' \<longrightarrow> u_id u = uid"
      and d: "db1 = db\<lparr>db_users := update_where (\<lambda>u. u_id u = uid) (\<lambda>u. u\<lparr>u_role := ''root''\<rparr>) (db_users db)\<rparr>"
      by (auto simp: make_root_def split: if_splits)
    moreover from d True have "user_exists db1 uid"
      by (simp add: user_exists_def image_update_where)
    moreover have "\<forall>u \<in> set (db_users db1). u_role u = ''root'' \<longleftrightarrow> u_id u = uid"
    proof
      fix u assume "u \<in> set (db_users db1)"
      then obtain w where w: "w \<in> set (db_users db)"
        "u = (if u_id w = uid then w\<lparr>u_role := ''root''\<rparr> else w)"
        by (auto simp: d in_update_where)
      with \<open>\<forall>u \<in> set (db_users db). u_role u = ''root'' \<longrightarrow> u_id u = uid\<close>
      show "u_role u = ''root'' \<longleftrightarrow> u_id u = uid" by (cases "u_id w = uid") auto
    qed
    ultimately show ?thesis by (simp add: d)
  next
    case False
    with assms have "\<forall>u \<in> set (db_users db). u_role u = ''root'' \<longrightarrow> u_id u = uid"
      and d: "db1 = db\<lparr>db_users := db_users db @
           [\<lparr>u_id = uid, u_email = None, u_display_name = None, u_role = ''root'',
             u_provider_access = 0, u_created_at = now\<rparr>]\<rparr>"
      by (simp_all add: make_root_def split: if_splits)
    moreover have "\<forall>u \<in> set (db_users db). u_id u \<noteq> uid" using False by (auto simp: user_exists_def)
    ultimately show ?thesis by (auto simp: user_exists_def)
  qed
  then show "\<forall>u \<in> set (db_users db1). u_role u = ''root'' \<longleftrightarrow> u_id u = uid" and "user_exists db1 uid"
    and "db_meta db1 = db_meta db" and "db_providers db1 = db_providers db"
    by blast+
qed

lemma setup_required_done:
  "meta_get (ap_db s) ''setup_complete'' = Some ''true'' \<Longrightarrow> setup_required s = (Inr False, s)"
  by (simp add: setup_required_def)

lemma api_setup_Inr:
  assumes "api_setup ev headers issuer audience s = (Inr v, s')"
  obtains uid verifier token a db' where "bearer headers = Inr token"
    and "required_setting ''Auth Mini audience'' audience = Inr a"
    and "verify_candidate (ev_verifier ev) (trim_end_matches ''/'' (trim issuer)) a token = Inr (uid, verifier)"
    and "setup_transaction (ev_now ev) uid (trim_end_matches ''/'' (trim issuer)) a (ap_db s) = Inr db'"
    and "s' = s\<lparr>ap_db := db', ap_verifier := Some verifier,
           ap_config := (ap_config s)\<lparr>cf_setup_complete := True,
             cf_auth_issuer := Some (trim_end_matches ''/'' (trim issuer)), cf_auth_audience := Some a\<rparr>\<rparr>"
  using assms
  by (auto simp: api_setup_def sbind_Inr_iff setup_required_def Let_def slift_def db_get_def
      sgets_def smodify_def sfail_def sreturn_def split: if_splits)

text \<open>C31. Setup happens once. When it succeeds, the bearer's token was accepted by a verifier
  made from the submitted issuer and audience, that verifier is the one installed, its subject
  is the root and nobody else is, every provider has an owner, and any later setup, whoever
  asks with whatever input, is refused with 404 and changes nothing.\<close>

theorem setup_once:
  assumes "api_setup ev headers issuer audience s = (Inr v, s')"
  shows "(\<exists>token uid verifier. bearer headers = Inr token \<and>
            ev_verifier ev (trim_end_matches ''/'' (trim issuer)) (trim audience) = Inr verifier \<and>
            verifier token = Inr uid \<and> ap_verifier s' = Some verifier \<and>
            user_exists (ap_db s') uid \<and>
            (\<forall>u \<in> set (db_users (ap_db s')). u_role u = ''root'' \<longleftrightarrow> u_id u = uid)) \<and>
         (\<forall>p \<in> set (db_providers (ap_db s')). p_owner_id p \<noteq> None) \<and>
         (\<forall>ev2 headers2 issuer2 audience2.
            api_setup ev2 headers2 issuer2 audience2 s' =
              (Inl (not_found ''setup is already complete''), s'))"
proof -
  from assms obtain uid verifier token a db' where b: "bearer headers = Inr token"
    and a: "required_setting ''Auth Mini audience'' audience = Inr a"
    and vc: "verify_candidate (ev_verifier ev) (trim_end_matches ''/'' (trim issuer)) a token =
        Inr (uid, verifier)"
    and tx: "setup_transaction (ev_now ev) uid (trim_end_matches ''/'' (trim issuer)) a (ap_db s) = Inr db'"
    and s': "s' = s\<lparr>ap_db := db', ap_verifier := Some verifier,
           ap_config := (ap_config s)\<lparr>cf_setup_complete := True,
             cf_auth_issuer := Some (trim_end_matches ''/'' (trim issuer)), cf_auth_audience := Some a\<rparr>\<rparr>"
    by (rule api_setup_Inr)
  from tx obtain db1 where r: "make_root (ev_now ev) uid (ap_db s) = Some db1"
    and some: "meta_get (ap_db s) ''setup_complete'' \<noteq> None"
    and db': "db' = meta_set ''setup_complete'' ''true''
              (meta_set ''auth_audience'' a
                (meta_set ''auth_issuer'' (trim_end_matches ''/'' (trim issuer)) (adopt_providers uid db1)))"
    by (rule setup_transaction_Inr)
  note root = make_root_users [OF r]
  have users: "db_users db' = db_users db1"
    by (simp add: db' meta_set_def adopt_providers_def update_provider_row_def)
  have prov: "db_providers db' = db_providers (adopt_providers uid db1)"
    by (simp add: db' meta_set_def)
  from some have "''setup_complete'' \<in> fst ` set (db_meta (ap_db s))"
    by (auto dest: meta_get_Some_key)
  then have fin: "meta_get db' ''setup_complete'' = Some ''true''"
    by (simp add: db' meta_get_set adopt_providers_def update_provider_row_def root(3))
  have again: "api_setup ev2 headers2 issuer2 audience2 s' =
      (Inl (not_found ''setup is already complete''), s')" for ev2 headers2 issuer2 audience2
  proof -
    have "setup_required s' = (Inr False, s')" by (rule setup_required_done) (simp add: s' fin)
    then show ?thesis by (simp add: api_setup_def sbind_def)
  qed
  have av: "a = trim audience"
    using a by (simp add: required_setting_def Let_def split: if_splits)
  have "ev_verifier ev (trim_end_matches ''/'' (trim issuer)) (trim audience) = Inr verifier \<and>
      verifier token = Inr uid"
    using vc by (auto simp: verify_candidate_def rbind_Inr_iff map_err_Inr av)
  moreover have "ap_verifier s' = Some verifier" "ap_db s' = db'" by (simp_all add: s')
  moreover have "user_exists db' uid \<and> (\<forall>u \<in> set (db_users db'). u_role u = ''root'' \<longleftrightarrow> u_id u = uid)"
    using root(1,2) by (simp add: users user_exists_def)
  moreover have "\<forall>p \<in> set (db_providers db'). p_owner_id p \<noteq> None"
    by (auto simp: prov adopt_providers_def update_provider_row_def in_update_where)
  ultimately show ?thesis using b again by auto
qed

section \<open>Settings and restarts\<close>

text \<open>The running configuration is the one a restart would load.\<close>

definition config_synced :: "bootstrap_config \<Rightarrow> app \<Rightarrow> bool" where
  "config_synced boot s \<longleftrightarrow> config_load boot (ap_db s) = Inr (ap_config s)"

lemma config_load_meta:
  "db_meta db' = db_meta db \<Longrightarrow> config_load boot db' = config_load boot db"
  by (simp add: config_load_def)

lemma config_load_Inr:
  "config_load boot db = Inr cfg \<longleftrightarrow>
     meta_parse parse_bool (db_meta db) ''setup_complete'' = Inr (cf_setup_complete cfg) \<and>
     meta_optional (db_meta db) ''auth_issuer'' = Inr (cf_auth_issuer cfg) \<and>
     meta_optional (db_meta db) ''auth_audience'' = Inr (cf_auth_audience cfg) \<and>
     (\<exists>base. meta_value (db_meta db) ''upstream_base'' = Inr base \<and>
        cf_upstream_base cfg = trim_end_matches ''/'' base) \<and>
     (\<exists>beta. meta_value (db_meta db) ''upstream_openai_beta'' = Inr beta \<and>
        cf_upstream_openai_beta cfg = (if trim beta = [] then None else Some (trim beta))) \<and>
     meta_value (db_meta db) ''image_host_model'' = Inr (cf_image_host_model cfg) \<and>
     meta_value (db_meta db) ''oauth_authorize_url'' = Inr (cf_oauth_authorize_url cfg) \<and>
     meta_value (db_meta db) ''oauth_token_url'' = Inr (cf_oauth_token_url cfg) \<and>
     meta_value (db_meta db) ''oauth_redirect_uri'' = Inr (cf_oauth_redirect_uri cfg) \<and>
     meta_value (db_meta db) ''oauth_client_id'' = Inr (cf_oauth_client_id cfg) \<and>
     meta_parse parse_u64 (db_meta db) ''response_body_limit'' = Inr (cf_response_body_limit cfg) \<and>
     meta_parse parse_u64 (db_meta db) ''image_body_limit'' = Inr (cf_image_body_limit cfg) \<and>
     meta_parse parse_u64 (db_meta db) ''audio_body_limit'' = Inr (cf_audio_body_limit cfg) \<and>
     meta_parse parse_i64 (db_meta db) ''affinity_ttl_seconds'' = Inr (cf_affinity_ttl_seconds cfg) \<and>
     meta_parse parse_i64 (db_meta db) ''request_archive_retention_days'' =
       Inr (cf_request_archive_retention_days cfg) \<and>
     cf_listen cfg = bc_listen boot \<and> cf_data_dir cfg = bc_data_dir boot \<and>
     cf_database_path cfg = bc_database_path boot"
  by (cases cfg) (simp add: config_load_def Let_def rbind_Inr_iff, blast)

lemma meta_parse_set:
  "meta_parse f (db_meta (meta_set k v db)) q =
     (if q = k \<and> k \<in> fst ` set (db_meta db) then ok_or (f v) (''invalid '' @ q)
      else meta_parse f (db_meta db) q)"
  by (auto simp: meta_parse_def meta_value_set)

lemma meta_optional_set:
  "meta_optional (db_meta (meta_set k v db)) q =
     (if q = k \<and> k \<in> fst ` set (db_meta db)
      then Inr (if trim v = [] then None else Some (trim_end_matches ''/'' (trim v)))
      else meta_optional (db_meta db) q)"
  by (auto simp: meta_optional_def meta_value_set)

lemma meta_parse_Inr_key: "meta_parse f rows k = Inr v \<Longrightarrow> k \<in> fst ` set rows"
  by (auto simp: meta_parse_def rbind_Inr_iff intro: meta_value_Inr_key)

lemma meta_optional_Inr_key: "meta_optional rows k = Inr v \<Longrightarrow> k \<in> fst ` set rows"
  by (auto simp: meta_optional_def rbind_Inr_iff intro: meta_value_Inr_key)

lemmas meta_sets = meta_value_set meta_parse_set meta_optional_set

lemmas meta_keys = meta_value_Inr_key meta_parse_Inr_key meta_optional_Inr_key

lemma validate_http_url_Inr: "validate_http_url ev name v = Inr t \<Longrightarrow> trim_end_matches ''/'' t = t"
  by (auto simp: validate_http_url_def rbind_Inr_iff ensure_Inr_iff Let_def)

lemma optional_header_value_Inr:
  "optional_header_value ev name v = Inr b \<Longrightarrow>
     (case b of None \<Rightarrow> True | Some t \<Rightarrow> t \<noteq> [] \<and> trim t = t)"
  by (auto simp: optional_header_value_def Let_def split: if_splits)

lemma validated_settings_Inr:
  assumes "validated_settings ev i cfg = Inr cfg'"
  shows "numeric_settings_ok i"
    and "trim_end_matches ''/'' (cf_upstream_base cfg') = cf_upstream_base cfg'"
    and "case cf_upstream_openai_beta cfg' of None \<Rightarrow> True | Some t \<Rightarrow> t \<noteq> [] \<and> trim t = t"
    and "cf_response_body_limit cfg' = us_response_body_limit i"
    and "cf_image_body_limit cfg' = us_image_body_limit i"
    and "cf_audio_body_limit cfg' = us_audio_body_limit i"
    and "cf_affinity_ttl_seconds cfg' = us_affinity_ttl_seconds i"
    and "cf_request_archive_retention_days cfg' = us_request_archive_retention_days i"
    and "cf_setup_complete cfg' = cf_setup_complete cfg" and "cf_auth_issuer cfg' = cf_auth_issuer cfg"
    and "cf_auth_audience cfg' = cf_auth_audience cfg" and "cf_listen cfg' = cf_listen cfg"
    and "cf_data_dir cfg' = cf_data_dir cfg" and "cf_database_path cfg' = cf_database_path cfg"
proof -
  obtain base beta authorize token redirect host client
    where u: "validate_http_url ev ''upstream base'' (us_upstream_base i) = Inr base"
    and h: "optional_header_value ev ''upstream OpenAI-Beta'' (us_upstream_openai_beta i) = Inr beta"
    and n: "numeric_settings_ok i"
    and c: "cfg' = cfg\<lparr>cf_upstream_base := base, cf_upstream_openai_beta := beta,
       cf_image_host_model := host, cf_oauth_authorize_url := authorize,
       cf_oauth_token_url := token, cf_oauth_redirect_uri := redirect,
       cf_oauth_client_id := client, cf_response_body_limit := us_response_body_limit i,
       cf_image_body_limit := us_image_body_limit i, cf_audio_body_limit := us_audio_body_limit i,
       cf_affinity_ttl_seconds := us_affinity_ttl_seconds i,
       cf_request_archive_retention_days := us_request_archive_retention_days i\<rparr>"
    using assms unfolding validated_settings_def rbind_Inr_iff ensure_Inr_iff by blast
  show "numeric_settings_ok i" by (rule n)
  show "trim_end_matches ''/'' (cf_upstream_base cfg') = cf_upstream_base cfg'"
    using validate_http_url_Inr [OF u] by (simp add: c)
  show "case cf_upstream_openai_beta cfg' of None \<Rightarrow> True | Some t \<Rightarrow> t \<noteq> [] \<and> trim t = t"
    using optional_header_value_Inr [OF h] by (simp add: c)
  show "cf_response_body_limit cfg' = us_response_body_limit i" by (simp add: c)
  show "cf_image_body_limit cfg' = us_image_body_limit i" by (simp add: c)
  show "cf_audio_body_limit cfg' = us_audio_body_limit i" by (simp add: c)
  show "cf_affinity_ttl_seconds cfg' = us_affinity_ttl_seconds i" by (simp add: c)
  show "cf_request_archive_retention_days cfg' = us_request_archive_retention_days i" by (simp add: c)
  show "cf_setup_complete cfg' = cf_setup_complete cfg" "cf_auth_issuer cfg' = cf_auth_issuer cfg"
    "cf_auth_audience cfg' = cf_auth_audience cfg" "cf_listen cfg' = cf_listen cfg"
    "cf_data_dir cfg' = cf_data_dir cfg" "cf_database_path cfg' = cf_database_path cfg"
    by (simp_all add: c)
qed

lemma settings_written_load:
  assumes old: "config_load boot db = Inr cfg" and ok: "validated_settings ev i cfg = Inr cfg'"
  shows "config_load boot (write_settings (settings_values cfg') db) = Inr cfg'"
proof -
  note v = validated_settings_Inr [OF ok]
  note o = old [unfolded config_load_Inr]
  have keys: "''upstream_base'' \<in> fst ` set (db_meta db)" "''upstream_openai_beta'' \<in> fst ` set (db_meta db)"
    "''image_host_model'' \<in> fst ` set (db_meta db)" "''oauth_authorize_url'' \<in> fst ` set (db_meta db)"
    "''oauth_token_url'' \<in> fst ` set (db_meta db)" "''oauth_redirect_uri'' \<in> fst ` set (db_meta db)"
    "''oauth_client_id'' \<in> fst ` set (db_meta db)" "''response_body_limit'' \<in> fst ` set (db_meta db)"
    "''image_body_limit'' \<in> fst ` set (db_meta db)" "''audio_body_limit'' \<in> fst ` set (db_meta db)"
    "''affinity_ttl_seconds'' \<in> fst ` set (db_meta db)"
    "''request_archive_retention_days'' \<in> fst ` set (db_meta db)"
    using o by (blast intro: meta_keys)+
  have nums: "us_response_body_limit i < 2 ^ 64" "us_image_body_limit i < 2 ^ 64"
    "us_audio_body_limit i < 2 ^ 64" "in_i64 (us_affinity_ttl_seconds i)"
    "in_i64 (us_request_archive_retention_days i)"
    using v(1) by (simp_all add: numeric_settings_ok_def in_i64_def)
  have beta: "(if trim (unwrap_or (cf_upstream_openai_beta cfg') []) = [] then None
      else Some (trim (unwrap_or (cf_upstream_openai_beta cfg') []))) = cf_upstream_openai_beta cfg'"
    using v(3) by (cases "cf_upstream_openai_beta cfg'") (simp_all add: trim_def trim_start_def trim_end_def)
  show ?thesis
    unfolding config_load_Inr settings_values_def write_settings_def
    using o v(2) nums beta
    by (simp add: meta_sets keys v(4-) )
qed

lemma session_meta: "db_meta (ap_db (snd (session ev headers s))) = db_meta (ap_db s)"
  using session_state [of ev headers s] by auto

lemma session_frame:
  "ap_config (snd (session ev headers s)) = ap_config s"
  "ap_balancer (snd (session ev headers s)) = ap_balancer s"
  "ap_verifier (snd (session ev headers s)) = ap_verifier s"
  "ap_oauth_flows (snd (session ev headers s)) = ap_oauth_flows s"
  using session_state [of ev headers s] by auto

lemma config_synced_cong:
  "db_meta (ap_db s') = db_meta (ap_db s) \<Longrightarrow> ap_config s' = ap_config s \<Longrightarrow>
     config_synced boot s' = config_synced boot s"
  unfolding config_synced_def using config_load_meta [of "ap_db s'" "ap_db s" boot] by simp

lemma keeps_session_config [keeps_rules]: "keeps (config_synced boot) (session ev headers)"
  unfolding keeps_def
  using config_synced_cong [OF session_meta session_frame(1)] by blast

lemma keeps_audit_config [keeps_rules]:
  "keeps (config_synced boot) (write_admin_audit ev uid action target ip)"
  unfolding keeps_def
proof (intro allI impI)
  fix s assume "config_synced boot s"
  moreover have "config_synced boot (snd (write_admin_audit ev uid action target ip s)) = config_synced boot s"
    by (rule config_synced_cong) (simp_all add: write_admin_audit_def)
  ultimately show "config_synced boot (snd (write_admin_audit ev uid action target ip s))" by simp
qed

lemma keeps_write_settings_config:
  "keeps (config_synced boot)
     (sbind (sgets ap_config) (\<lambda>cfg.
      sbind (slift (validated_settings ev input cfg)) (\<lambda>cfg'.
      sbind (exec (write_settings (settings_values cfg'))) (\<lambda>_.
      sbind (smodify (\<lambda>s. s\<lparr>ap_config := cfg'\<rparr>)) (\<lambda>_.
      sbind (write_admin_audit ev uid action target ip) (\<lambda>_. sreturn v))))))"
  unfolding keeps_def
proof (intro allI impI)
  fix s assume s: "config_synced boot s"
  let ?tail = "sbind (write_admin_audit ev uid action target ip) (\<lambda>_. sreturn v)"
  show "config_synced boot (snd
     (sbind (sgets ap_config) (\<lambda>cfg.
      sbind (slift (validated_settings ev input cfg)) (\<lambda>cfg'.
      sbind (exec (write_settings (settings_values cfg'))) (\<lambda>_.
      sbind (smodify (\<lambda>s. s\<lparr>ap_config := cfg'\<rparr>)) (\<lambda>_. ?tail)))) s))"
  proof (cases "validated_settings ev input (ap_config s)")
    case (Inl e)
    with s show ?thesis by simp
  next
    case (Inr cfg')
    let ?s2 = "s\<lparr>ap_db := write_settings (settings_values cfg') (ap_db s), ap_config := cfg'\<rparr>"
    have "config_synced boot ?s2"
      using settings_written_load [OF s [unfolded config_synced_def] Inr] by (simp add: config_synced_def)
    moreover have "keeps (config_synced boot) ?tail" by (intro keeps_rules)
    ultimately have "config_synced boot (snd (?tail ?s2))" by (simp add: keeps_def)
    with Inr show ?thesis by simp
  qed
qed

text \<open>C33. Whatever the outcome of a settings update, the running configuration stays the one a
  restart would load from the database: nothing is written that the loader reads differently.\<close>

theorem settings_survive_restart:
  assumes "config_synced boot s"
  shows "config_synced boot (snd (update_settings ev ip headers input s))"
proof -
  have "keeps (config_synced boot) (update_settings ev ip headers input)"
    unfolding update_settings_def
    by (intro keeps_sbind keeps_session_config keeps_slift keeps_write_settings_config)
  with assms show ?thesis by (simp add: keeps_def)
qed

text \<open>C32. Setup stores the audience as it was typed (trimmed), the loader also drops trailing
  slashes: after a successful setup a restart loads the running configuration exactly when the
  audience does not end with a slash.\<close>

theorem setup_restart_iff:
  assumes "config_synced boot s" and "api_setup ev headers issuer audience s = (Inr v, s')"
    and "trim (trim_end_matches ''/'' (trim issuer)) = trim_end_matches ''/'' (trim issuer)"
    and "trim_end_matches ''/'' (trim issuer) \<noteq> []"
  shows "config_synced boot s' \<longleftrightarrow> \<not> suffix ''/'' (trim audience)"
proof -
  let ?i = "trim_end_matches ''/'' (trim issuer)"
  from assms(2) obtain uid verifier a db' where
    a: "required_setting ''Auth Mini audience'' audience = Inr a"
    and tx: "setup_transaction (ev_now ev) uid ?i a (ap_db s) = Inr db'"
    and s': "s' = s\<lparr>ap_db := db', ap_verifier := Some verifier,
           ap_config := (ap_config s)\<lparr>cf_setup_complete := True,
             cf_auth_issuer := Some ?i, cf_auth_audience := Some a\<rparr>\<rparr>"
    by (rule api_setup_Inr)
  from tx obtain db1 where r: "make_root (ev_now ev) uid (ap_db s) = Some db1"
    and db': "db' = meta_set ''setup_complete'' ''true''
              (meta_set ''auth_audience'' a (meta_set ''auth_issuer'' ?i (adopt_providers uid db1)))"
    by (rule setup_transaction_Inr)
  have meta: "db_meta (adopt_providers uid db1) = db_meta (ap_db s)"
    by (simp add: adopt_providers_def update_provider_row_def make_root_users(3) [OF r])
  have av: "a = trim audience" "a \<noteq> []"
    using a by (simp_all add: required_setting_def Let_def split: if_splits)
  note old = assms(1) [unfolded config_synced_def config_load_Inr]
  have keys: "''setup_complete'' \<in> fst ` set (db_meta (ap_db s))"
    "''auth_issuer'' \<in> fst ` set (db_meta (ap_db s))"
    "''auth_audience'' \<in> fst ` set (db_meta (ap_db s))"
    using old by (blast intro: meta_keys)+
  have "config_synced boot s' \<longleftrightarrow> trim_end_matches ''/'' a = a"
    unfolding config_synced_def config_load_Inr s' db'
    using old assms(3,4) av
    by (simp add: meta_sets meta keys parse_bool_def)
  also have "\<dots> \<longleftrightarrow> \<not> suffix ''/'' a"
  proof
    show "\<not> suffix ''/'' a" if "trim_end_matches ''/'' a = a"
      using trim_end_matches_clean [of "''/''" a] that by simp
    show "trim_end_matches ''/'' a = a" if "\<not> suffix ''/'' a"
      using that by (simp add: trim_end_matches_def strip_any_clean strip_prefix_def suffix_to_prefix)
  qed
  finally show ?thesis by (simp add: av)
qed

end
