(* ===== verification/User_Facts.thy ===== *)
theory User_Facts
  imports Setup_Facts
begin

text \<open>
  What \<open>update_user\<close> of \<open>src/api.rs\<close> may do to the table of users: roles change only by the
  root's hand, but the parts of one update are not atomic.
\<close>

section \<open>Users\<close>

text \<open>A handler rewrites the table of users row by row, by a function that meets \<open>Q\<close>.\<close>

definition maps_users :: "'a app_handler \<Rightarrow> ((user_row \<Rightarrow> user_row) \<Rightarrow> bool) \<Rightarrow> bool" where
  "maps_users m Q \<longleftrightarrow>
     (\<forall>s. \<exists>f. Q f \<and> db_users (ap_db (snd (m s))) = map f (db_users (ap_db s)))"

lemma maps_users_id: "(\<And>s. db_users (ap_db (snd (m s))) = db_users (ap_db s)) \<Longrightarrow> Q (\<lambda>u. u) \<Longrightarrow> maps_users m Q"
  unfolding maps_users_def by (metis list.map_ident)

lemma maps_users_sbind:
  assumes m: "maps_users m Q1" and k: "\<And>x. maps_users (k x) Q2" and i: "Q2 (\<lambda>u. u)"
    and c: "\<And>f g. Q1 f \<Longrightarrow> Q2 g \<Longrightarrow> Q (\<lambda>u. g (f u))"
  shows "maps_users (sbind m k) Q"
  unfolding maps_users_def
proof
  fix s
  obtain r s1 where ms: "m s = (r, s1)" by (cases "m s")
  from m obtain f where f: "Q1 f" "db_users (ap_db s1) = map f (db_users (ap_db s))"
    unfolding maps_users_def by (metis ms snd_conv)
  show "\<exists>f. Q f \<and> db_users (ap_db (snd (sbind m k s))) = map f (db_users (ap_db s))"
  proof (cases r)
    case (Inl e)
    have "Q f" using c [OF f(1) i] by simp
    with f(2) show ?thesis by (auto simp: sbind_def ms Inl)
  next
    case (Inr x)
    from k [of x] obtain g where g: "Q2 g" "db_users (ap_db (snd (k x s1))) = map g (db_users (ap_db s1))"
      unfolding maps_users_def by blast
    have "Q (\<lambda>u. g (f u))" using c [OF f(1) g(1)] .
    moreover have "db_users (ap_db (snd (sbind m k s))) = map (\<lambda>u. g (f u)) (db_users (ap_db s))"
      by (simp add: sbind_def ms Inr g(2) f(2))
    ultimately show ?thesis by blast
  qed
qed

lemma user_step_users:
  "db_users (ap_db (snd (user_step ev ip admin uid action w f e s))) =
     update_where w f (db_users (ap_db s))"
  by (simp add: user_step_def write_admin_audit_def ensure_def)

lemma maps_users_user_step:
  "Q (\<lambda>u. if w u then f u else u) \<Longrightarrow> maps_users (user_step ev ip admin uid action w f e) Q"
  unfolding maps_users_def user_step_users update_where_def by blast

text \<open>What one part of the update may do to a row.\<close>

definition row_kept :: "string \<Rightarrow> (user_row \<Rightarrow> user_row) \<Rightarrow> bool" where
  "row_kept uid f \<longleftrightarrow> (\<forall>u. u_id (f u) = u_id u \<and> (f u \<noteq> u \<longrightarrow> u_id u = uid))"

definition role_change_ok :: "user_identity \<Rightarrow> user_row \<Rightarrow> user_row \<Rightarrow> bool" where
  "role_change_ok admin u v \<longleftrightarrow>
     u_role v = u_role u \<or>
     (ui_role admin = ''root'' \<and> u_role u \<noteq> ''root'' \<and> u_role v \<in> {''admin'', ''user''})"

text \<open>What the three parts may do, and what the whole update may do.\<close>

definition name_part :: "string \<Rightarrow> (user_row \<Rightarrow> user_row) \<Rightarrow> bool" where
  "name_part uid f \<longleftrightarrow> row_kept uid f \<and> (\<forall>u. u_role (f u) = u_role u \<and> u_provider_access (f u) = u_provider_access u)"

definition role_part :: "user_identity \<Rightarrow> string \<Rightarrow> (user_row \<Rightarrow> user_row) \<Rightarrow> bool" where
  "role_part admin uid f \<longleftrightarrow> row_kept uid f \<and> (\<forall>u. role_change_ok admin u (f u) \<and> u_provider_access (f u) = u_provider_access u)"

definition access_part :: "string \<Rightarrow> (user_row \<Rightarrow> user_row) \<Rightarrow> bool" where
  "access_part uid f \<longleftrightarrow> row_kept uid f \<and> (\<forall>u. u_role (f u) = u_role u \<and>
        (u_provider_access (f u) \<noteq> u_provider_access u \<longrightarrow> u_role u = ''user''))"

lemmas part_defs = name_part_def role_part_def access_part_def

lemma name_rows:
  "maps_users (update_user_name ev ip a uid d)
     (name_part uid)"
  unfolding update_user_name_def
  by (cases d) (auto intro!: maps_users_id maps_users_user_step simp: part_defs row_kept_def split: if_splits)

lemma role_rows:
  "maps_users (update_user_role ev ip admin uid r)
     (role_part admin uid)"
proof (cases r)
  case None
  then show ?thesis
    by (auto intro!: maps_users_id simp: update_user_role_def part_defs row_kept_def role_change_ok_def)
next
  case (Some role)
  show ?thesis
  proof (cases "ui_role admin = ''root'' \<and> role \<in> {''admin'', ''user''}")
    case True
    then have "update_user_role ev ip admin uid r =
        user_step ev ip (ui_id admin) uid ''user.role.update'' (\<lambda>u. u_id u = uid \<and> u_role u \<noteq> ''root'')
          (\<lambda>u. u\<lparr>u_role := role\<rparr>) (not_found ''user not found or root role is immutable'')"
      by (auto simp: update_user_role_def Some require_root_def ensure_def)
    with True show ?thesis
      by (auto intro!: maps_users_user_step simp: part_defs row_kept_def role_change_ok_def split: if_splits)
  next
    case False
    then have "snd (update_user_role ev ip admin uid r s) = s" for s
      by (auto simp: update_user_role_def Some require_root_def ensure_def)
    then show ?thesis by (auto intro!: maps_users_id simp: part_defs row_kept_def role_change_ok_def)
  qed
qed

lemma access_rows:
  "maps_users (update_user_access ev ip a uid acc)
     (access_part uid)"
  unfolding update_user_access_def
  by (cases acc) (auto intro!: maps_users_id maps_users_user_step simp: part_defs row_kept_def split: if_splits)

definition user_change_ok :: "user_identity \<Rightarrow> string \<Rightarrow> (user_row \<Rightarrow> user_row) \<Rightarrow> bool" where
  "user_change_ok admin uid f \<longleftrightarrow>
     row_kept uid f \<and>
     (\<forall>u. role_change_ok admin u (f u) \<and>
        (u_provider_access (f u) \<noteq> u_provider_access u \<longrightarrow> u_role (f u) = ''user''))"

lemma row_kept_comp: "row_kept uid f \<Longrightarrow> row_kept uid g \<Longrightarrow> row_kept uid (\<lambda>u. g (f u))"
  unfolding row_kept_def by metis

lemma change_then_access:
  assumes f: "role_part admin uid f"
    and g: "access_part uid g"
  shows "user_change_ok admin uid (\<lambda>u. g (f u))"
proof -
  have "row_kept uid (\<lambda>u. g (f u))" by (rule row_kept_comp) (use f g in \<open>simp_all add: part_defs\<close>)
  moreover have "role_change_ok admin u (g (f u))" for u
  proof -
    have "role_change_ok admin u (f u)" and "u_role (g (f u)) = u_role (f u)"
      using f g by (simp_all add: part_defs)
    then show ?thesis by (simp only: role_change_ok_def)
  qed
  moreover have "u_role (g (f u)) = ''user''"
    if p: "u_provider_access (g (f u)) \<noteq> u_provider_access u" for u
  proof -
    have "u_provider_access (f u) = u_provider_access u" using f by (simp add: part_defs)
    with p have "u_provider_access (g (f u)) \<noteq> u_provider_access (f u)" by simp
    with g have "u_role (f u) = ''user''" "u_role (g (f u)) = u_role (f u)"
      by (simp_all add: access_part_def)
    then show ?thesis by simp
  qed
  ultimately show ?thesis by (simp add: user_change_ok_def)
qed

lemma name_then_change:
  assumes f: "name_part uid f"
    and g: "user_change_ok admin uid g"
  shows "user_change_ok admin uid (\<lambda>u. g (f u))"
proof -
  have "row_kept uid (\<lambda>u. g (f u))"
    by (rule row_kept_comp) (use f g in \<open>simp_all add: part_defs user_change_ok_def\<close>)
  moreover have "role_change_ok admin u (g (f u))" for u
  proof -
    have "role_change_ok admin (f u) (g (f u))" and "u_role (f u) = u_role u"
      using f g by (simp_all add: part_defs user_change_ok_def)
    then show ?thesis by (simp only: role_change_ok_def)
  qed
  moreover have "u_role (g (f u)) = ''user''"
    if p: "u_provider_access (g (f u)) \<noteq> u_provider_access u" for u
  proof -
    have "u_provider_access (f u) = u_provider_access u" using f by (simp add: part_defs)
    with p g show ?thesis by (simp add: user_change_ok_def)
  qed
  ultimately show ?thesis by (simp add: user_change_ok_def)
qed

lemma update_user_parts_rows:
  "maps_users
     (sbind (update_user_name ev ip (ui_id admin) uid d) (\<lambda>_.
      sbind (update_user_role ev ip admin uid r) (\<lambda>_.
      sbind (update_user_access ev ip (ui_id admin) uid acc) (\<lambda>_. sreturn v))))
     (user_change_ok admin uid)"
proof -
  have 0: "maps_users (sreturn v) (\<lambda>f. f = (\<lambda>u. u))" by (rule maps_users_id) simp_all
  have 1: "maps_users (sbind (update_user_access ev ip (ui_id admin) uid acc) (\<lambda>_. sreturn v)) (access_part uid)"
    by (rule maps_users_sbind [OF access_rows 0]) simp_all
  have A: "access_part uid (\<lambda>u. u)" by (simp add: access_part_def row_kept_def)
  have 2: "maps_users (sbind (update_user_role ev ip admin uid r) (\<lambda>_.
      sbind (update_user_access ev ip (ui_id admin) uid acc) (\<lambda>_. sreturn v))) (user_change_ok admin uid)"
    by (rule maps_users_sbind [OF role_rows 1 A change_then_access])
  have I: "user_change_ok admin uid (\<lambda>u. u)"
    by (simp add: user_change_ok_def row_kept_def role_change_ok_def)
  show ?thesis by (rule maps_users_sbind [OF name_rows 2 I name_then_change])
qed

text \<open>C34. However an update of a user ends, it only rewrites the row it names, only an
  administrator's call changes anything, a role changes only by the root's hand, never that of
  the root, and only to admin or user, and access to all providers changes only for a row that
  ends as a plain user.\<close>

theorem update_user_authority:
  assumes "session ev headers s = (Inr admin, s1)"
    and "update_user ev ip headers uid name role access s = (r, s2)"
  shows "\<exists>f. db_users (ap_db s2) = map f (db_users (ap_db s1)) \<and> user_change_ok admin uid f \<and>
     (is_admin admin \<or> db_users (ap_db s2) = db_users (ap_db s1))"
proof (cases "is_admin admin")
  case False
  then have "s2 = s1"
    using assms by (simp add: update_user_def sbind_def require_admin_def ensure_def)
  moreover have "user_change_ok admin uid (\<lambda>u. u)"
    by (simp add: user_change_ok_def row_kept_def role_change_ok_def)
  ultimately show ?thesis by (intro exI [of _ "\<lambda>u. u"]) simp
next
  case True
  have body: "maps_users (if name = None \<and> role = None \<and> access = None
     then sfail (bad_request ''display_name, role, or provider_access is required'')
     else
       sbind (slift (case name of
                None \<Rightarrow> Inr None
              | Some n \<Rightarrow> rbind (required_setting ''display name'' n) (\<lambda>d. Inr (Some d)))) (\<lambda>display_name.
       sbind (update_user_name ev ip (ui_id admin) uid display_name) (\<lambda>_.
       sbind (update_user_role ev ip admin uid role) (\<lambda>_.
       sbind (update_user_access ev ip (ui_id admin) uid access) (\<lambda>_.
       sreturn ok_json))))) (user_change_ok admin uid)" (is "maps_users ?m _")
  proof -
    have i: "user_change_ok admin uid (\<lambda>u. u)"
      by (simp add: user_change_ok_def row_kept_def role_change_ok_def)
    show ?thesis
    proof (cases "name = None \<and> role = None \<and> access = None")
      case True
      with i show ?thesis by (auto intro: maps_users_id)
    next
      case False
      have "maps_users (slift x) (\<lambda>f. f = (\<lambda>u. u))" for x :: "(app_error, string option) result"
        by (rule maps_users_id) simp_all
      from maps_users_sbind [OF this update_user_parts_rows i] False show ?thesis by auto
    qed
  qed
  have "update_user ev ip headers uid name role access s = ?m s1"
    using assms(1) True by (simp add: update_user_def sbind_def require_admin_def ensure_def)
  with body assms(2) True show ?thesis
    unfolding maps_users_def by (metis snd_conv)
qed

text \<open>The parts of an update are not atomic: when an administrator who is not the root
  sends a new name together with a role, the answer is 403 and the name is changed all the same.\<close>

lemma update_user_not_atomic:
  assumes "session ev headers s = (Inr admin, s1)" and "ui_role admin = ''admin''"
    and "required_setting ''display name'' name = Inr d" and "user_exists (ap_db s1) uid"
  shows "\<exists>s2. update_user ev ip headers uid (Some name) (Some role) access s =
            (Inl (forbidden ''root access required''), s2) \<and>
     db_users (ap_db s2) =
       update_where (\<lambda>u. u_id u = uid) (\<lambda>u. u\<lparr>u_display_name := Some d\<rparr>) (db_users (ap_db s1))"
proof -
  let ?s2 = "snd (update_user_name ev ip (ui_id admin) uid (Some d) s1)"
  have "rows_affected (\<lambda>u. u_id u = uid) (db_users (ap_db s1)) \<noteq> 0"
    using assms(4) by (auto simp: user_exists_def)
  then have n: "update_user_name ev ip (ui_id admin) uid (Some d) s1 = (Inr (), ?s2)"
    by (simp add: update_user_name_def user_step_def ensure_def write_admin_audit_def)
  have "db_users (ap_db ?s2) =
      update_where (\<lambda>u. u_id u = uid) (\<lambda>u. u\<lparr>u_display_name := Some d\<rparr>) (db_users (ap_db s1))"
    by (simp add: update_user_name_def user_step_users)
  moreover have "update_user ev ip headers uid (Some name) (Some role) access s =
      (Inl (forbidden ''root access required''), ?s2)"
  proof -
    have "require_admin admin = Inr ()" "require_root admin = Inl (forbidden ''root access required'')"
      using assms(2) by (simp_all add: require_admin_def is_admin_def require_root_def ensure_def)
    then show ?thesis
      unfolding update_user_def session_run [OF assms(1)]
      by (simp add: assms(3) sbind_run [of "update_user_name ev ip (ui_id admin) uid (Some d)" s1, OF n] update_user_role_def sbind_assoc)
  qed
  ultimately show ?thesis by blast
qed

end
