(* ===== verification/Provider_Facts.thy ===== *)
theory Provider_Facts
  imports User_Facts Balancer_Facts
begin

text \<open>
  Who may act on providers and through them: the management endpoints of \<open>src/api.rs\<close> are
  closed to everybody but the owner and administrators, grants decide who may be routed to a
  provider from the moment the handler answers, and a consumer's secret authenticates from its
  creation to its revocation.
\<close>

section \<open>Managers\<close>

lemma manager_denied:
  assumes "session ev headers s = (Inr u, s1)" and "\<not> is_admin u"
    and "\<not> provider_owned (ap_db s1) pid (ui_id u)"
  shows "manager ev headers pid f s = (Inl (not_found ''provider not found''), s1)"
proof -
  have "require_provider_manager u pid s1 = (Inl (not_found ''provider not found''), s1)"
    using assms(2,3) by (simp add: require_provider_manager_def ensure_def)
  then show ?thesis
    unfolding manager_def session_run [OF assms(1)] by (rule sbind_fail)
qed

text \<open>C35. To a caller who is neither an administrator nor the owner of a provider every endpoint
  that reads or changes it answers 404, as if there were no such provider, and leaves the
  database, the balancer and the open OAuth flows as the session left them.\<close>

theorem providers_closed_to_others:
  assumes "session ev headers s = (Inr u, s1)" and "\<not> is_admin u"
    and "\<not> provider_owned (ap_db s1) pid (ui_id u)"
  shows "update_provider ev ip headers pid name enabled refr s = (Inl (not_found ''provider not found''), s1) \<and>
    read_provider_tokens ev ip headers pid s = (Inl (not_found ''provider not found''), s1) \<and>
    replace_provider_tokens ev ip headers pid pname access rtok s = (Inl (not_found ''provider not found''), s1) \<and>
    test_provider ev ip headers pid s = (Inl (not_found ''provider not found''), s1) \<and>
    consume_provider_rate_limit_reset ev ip headers pid credit key s = (Inl (not_found ''provider not found''), s1) \<and>
    delete_provider ev ip headers pid s = (Inl (not_found ''provider not found''), s1) \<and>
    list_provider_grants ev headers pid s = (Inl (not_found ''provider not found''), s1) \<and>
    create_provider_grant ev ip headers pid user s = (Inl (not_found ''provider not found''), s1) \<and>
    delete_provider_grant ev ip headers pid user s = (Inl (not_found ''provider not found''), s1) \<and>
    list_provider_circuit_events ev headers pid s = (Inl (not_found ''provider not found''), s1)"
  unfolding update_provider_def read_provider_tokens_def replace_provider_tokens_def
    test_provider_def consume_provider_rate_limit_reset_def delete_provider_def
    list_provider_grants_def create_provider_grant_def delete_provider_grant_def
    list_provider_circuit_events_def
  by (intro conjI manager_denied [OF assms])

section \<open>Grants\<close>

text \<open>The grants the balancer holds after a reload are those of the table.\<close>

lemma grants_fold:
  "(u \<in> set (unwrap_or (dm_get (fold add_grant gs m) pid) [])) \<longleftrightarrow>
     u \<in> set (unwrap_or (dm_get m pid) []) \<or>
     (\<exists>g \<in> set gs. g_provider_id g = pid \<and> g_user_id g = u)"
proof (induction gs arbitrary: m)
  case Nil
  show ?case by simp
next
  case (Cons g gs)
  show ?case
    by (simp add: Cons.IH) (auto simp: add_grant_def dm.get_insert)
qed

lemma may_use_reload:
  "may_use (reload_providers db b) uid allp p \<longleftrightarrow>
     allp \<or> p_owner_id p = Some uid \<or> granted db (p_id p) uid"
proof -
  have "(case dm_get m k of None \<Rightarrow> False | Some us \<Rightarrow> u \<in> set us) \<longleftrightarrow>
      u \<in> set (unwrap_or (dm_get m k) [])" for m and k u :: string
    by (cases "dm_get m k") simp_all
  then show ?thesis
    by (simp add: may_use_def reload_providers_def grants_fold granted_def list_ex_iff)
qed

lemma may_use_audit [simp]:
  "ap_balancer (snd (write_admin_audit ev uid action target ip s)) = ap_balancer s"
  by (simp add: write_admin_audit_def)

lemma create_grant_Inr:
  assumes "create_provider_grant ev ip headers pid user s = (Inr v, s')"
  obtains db0 where "granted db0 pid (trim user)"
    and "ap_balancer s' = reload_providers db0 (ap_balancer s)"
    and "db_grants db0 = db_grants (ap_db s')" and "db_providers db0 = db_providers (ap_db s')"
proof -
  from assms obtain u s1 where ses: "session ev headers s = (Inr u, s1)"
    and m: "sbind (require_provider_manager u pid) (\<lambda>_.
       let target = trim user in
     if target = [] \<or> 200 < length target
     then sfail (bad_request ''user_id must be 1-200 characters'')
     else
       sbind (db_get (\<lambda>db. provider_row db pid)) (\<lambda>row.
       sbind (slift (ok_or row internal_error)) (\<lambda>p.
       if p_owner_id p = Some target
       then sfail (bad_request ''provider owner already has implicit access'')
       else
         sbind (on_db (\<lambda>db. (Inr (fst (insert_grant (ev_now ev) pid target db)),
                                 snd (insert_grant (ev_now ev) pid target db)))) (\<lambda>affected.
         if affected = 0
         then sbind (db_get (\<lambda>db. user_exists db target)) (\<lambda>known.
              sfail (if known then bad_request ''provider grant already exists''
                     else not_found ''user_id not found''))
         else
           sbind reload (\<lambda>_.
           sbind (write_admin_audit ev (ui_id u) ''provider.grant.create''
                    (Some (pid @ '':'' @ target)) ip) (\<lambda>_.
           sreturn (JObj [(''ok'', JBool True), (''user_id'', JStr target)]))))))) s1 = (Inr v, s')"
    unfolding create_provider_grant_def manager_def by (auto simp: sbind_Inr_iff)
  have b1: "ap_balancer s1 = ap_balancer s"
    using session_frame(2) [of ev headers s] ses by simp
  have man: "require_provider_manager u pid s1 = (r, t) \<Longrightarrow> t = s1" for r t
    by (auto simp: require_provider_manager_def split: if_splits)
  let ?db0 = "snd (insert_grant (ev_now ev) pid (trim user) (ap_db s1))"
  from m have ins: "fst (insert_grant (ev_now ev) pid (trim user) (ap_db s1)) \<noteq> 0"
    and s': "s' = snd (write_admin_audit ev (ui_id u) ''provider.grant.create''
         (Some (pid @ '':'' @ trim user)) ip
         (s1\<lparr>ap_db := ?db0, ap_balancer := reload_providers ?db0 (ap_balancer s1)\<rparr>))"
    by (auto simp: sbind_Inr_iff Let_def on_db_def db_get_def slift_def sgets_def sfail_def sreturn_def
        dest!: man split: if_splits)
  have "granted ?db0 pid (trim user)"
    using ins by (simp add: insert_grant_def granted_def split: if_splits)
  moreover have "ap_balancer s' = reload_providers ?db0 (ap_balancer s)" by (simp add: s' b1)
  moreover have "db_grants ?db0 = db_grants (ap_db s')" "db_providers ?db0 = db_providers (ap_db s')"
    by (simp_all add: s' write_admin_audit_def)
  ultimately show ?thesis by (rule that)
qed

text \<open>A grant counts from the moment the handler answers: the balancer then routes the user
  to the provider, whatever other access the user has.\<close>

theorem grant_takes_effect:
  assumes "create_provider_grant ev ip headers pid user s = (Inr v, s')"
  shows "granted (ap_db s') pid (trim user) \<and>
     (\<forall>p. p_id p = pid \<longrightarrow> may_use (ap_balancer s') (trim user) False p)"
proof -
  from assms obtain db0 where "granted db0 pid (trim user)"
    and "ap_balancer s' = reload_providers db0 (ap_balancer s)"
    and "db_grants db0 = db_grants (ap_db s')" and "db_providers db0 = db_providers (ap_db s')"
    by (rule create_grant_Inr)
  then show ?thesis by (auto simp: may_use_reload granted_def)
qed

lemma require_manager_state: "snd (require_provider_manager u pid s) = s"
  by (simp add: require_provider_manager_def)

lemma manager_Inr:
  assumes "manager ev headers pid f s = (Inr v, s')"
  obtains u s1 where "session ev headers s = (Inr u, s1)" and "f u s1 = (Inr v, s')"
    and "ap_balancer s1 = ap_balancer s"
proof -
  from assms obtain u s1 t where ses: "session ev headers s = (Inr u, s1)"
    and r: "require_provider_manager u pid s1 = (Inr (), t)" and f: "f u t = (Inr v, s')"
    by (auto simp: manager_def sbind_Inr_iff)
  have "t = s1" using require_manager_state [of u pid s1] r by simp
  moreover have "ap_balancer s1 = ap_balancer s" using session_frame(2) [of ev headers s] ses by simp
  ultimately show ?thesis using that ses f by blast
qed

lemma delete_grant_Inr:
  assumes "delete_provider_grant ev ip headers pid uid s = (Inr v, s')"
  obtains db0 where "\<not> granted db0 pid uid"
    and "ap_balancer s' = reload_providers db0 (ap_balancer s)"
    and "db_grants db0 = db_grants (ap_db s')" and "db_providers db0 = db_providers (ap_db s')"
proof -
  from assms obtain u s1 where "session ev headers s = (Inr u, s1)"
    and f: "(let w = (\<lambda>g. g_provider_id g = pid \<and> g_user_id g = uid) in
     sbind (db_get (\<lambda>db. rows_affected w (db_grants db))) (\<lambda>deleted.
     sbind (exec (\<lambda>db. db\<lparr>db_grants := filter (\<lambda>g. \<not> w g) (db_grants db)\<rparr>)) (\<lambda>_.
     if deleted = 0 then sfail (not_found ''provider grant not found'')
     else
       sbind reload (\<lambda>_.
       sbind (write_admin_audit ev (ui_id u) ''provider.grant.delete''
                (Some (pid @ '':'' @ uid)) ip) (\<lambda>_.
       sreturn ok_json))))) s1 = (Inr v, s')"
    and b1: "ap_balancer s1 = ap_balancer s"
    unfolding delete_provider_grant_def by (rule manager_Inr)
  let ?db0 = "(ap_db s1)\<lparr>db_grants := filter (\<lambda>g. \<not> (g_provider_id g = pid \<and> g_user_id g = uid))
      (db_grants (ap_db s1))\<rparr>"
  from f have s': "s' = snd (write_admin_audit ev (ui_id u) ''provider.grant.delete''
         (Some (pid @ '':'' @ uid)) ip
         (s1\<lparr>ap_db := ?db0, ap_balancer := reload_providers ?db0 (ap_balancer s1)\<rparr>))"
    by (auto simp: sbind_Inr_iff Let_def split: if_splits)
  have "\<not> granted ?db0 pid uid" by (auto simp: granted_def list_ex_iff)
  moreover have "ap_balancer s' = reload_providers ?db0 (ap_balancer s)" by (simp add: s' b1)
  moreover have "db_grants ?db0 = db_grants (ap_db s')" "db_providers ?db0 = db_providers (ap_db s')"
    by (simp_all add: s' write_admin_audit_def)
  ultimately show ?thesis by (rule that)
qed


section \<open>Consumers\<close>

lemma session_Inr_user:
  assumes "session ev headers s = (Inr u, s1)"
  shows "\<exists>r. user_row_of (ap_db s1) (ui_id u) = Some r" and "db_consumers (ap_db s1) = db_consumers (ap_db s)"
proof -
  from assms obtain uid r where "s1 = s\<lparr>ap_db := insert_user (ev_now ev) uid (ap_db s)\<rparr>"
    and r: "user_row_of (insert_user (ev_now ev) uid (ap_db s)) uid = Some r" and "u = identity_of r"
    by (auto simp: session_Inr)
  moreover have "u_id r = uid" using user_row_of_SomeD [OF r] by simp
  ultimately show "\<exists>r. user_row_of (ap_db s1) (ui_id u) = Some r"
    and "db_consumers (ap_db s1) = db_consumers (ap_db s)"
    by (auto simp: identity_of_def)
qed

lemma create_consumer_Inr:
  assumes "create_consumer ev headers name archive s = (Inr v, s')"
  obtains u s1 k where "session ev headers s = (Inr u, s1)"
    and "k_user_id k = ui_id u" and "k_revoked_at k = None" and "k_request_archive k = bool_i64 archive"
    and "k_secret_hash k = ev_sha ev (''sk-'' @ ev_b64 ev (ev_random ev 0))" and "k_id k = ev_uuid ev 0"
    and "\<forall>k' \<in> set (db_consumers (ap_db s1)). k_id k' \<noteq> k_id k \<and> k_secret_hash k' \<noteq> k_secret_hash k"
    and "s' = s1\<lparr>ap_db := (ap_db s1)\<lparr>db_consumers := db_consumers (ap_db s1) @ [k]\<rparr>\<rparr>"
    and "jget v ''secret'' = Some (JStr (''sk-'' @ ev_b64 ev (ev_random ev 0)))"
proof -
  from assms obtain u s1 where ses: "session ev headers s = (Inr u, s1)"
    by (auto simp: create_consumer_def sbind_Inr_iff)
  from assms obtain nm where nm: "consumer_name name = Inr nm"
    by (auto simp: create_consumer_def session_run [OF ses] sbind_Inr_iff slift_def)
  let ?secret = "''sk-'' @ ev_b64 ev (ev_random ev 0)"
  define k where "k = \<lparr>k_id = ev_uuid ev 0, k_user_id = ui_id u, k_name = nm, k_prefix = take 11 ?secret,
              k_secret_hash = consumer_secret_hash (ev_sha ev) ?secret,
              k_request_archive = bool_i64 archive, k_created_at = ev_now ev,
              k_last_used_at = None, k_revoked_at = None\<rparr>"
  from assms have run: "sbind (slift (ok_or (insert_consumer k (ap_db s1)) internal_error)) (\<lambda>db'.
        sbind (exec (\<lambda>_. db')) (\<lambda>_.
        sreturn (JObj [(''id'', JStr (ev_uuid ev 0)), (''name'', JStr nm),
          (''prefix'', JStr (take 11 ?secret)), (''secret'', JStr ?secret),
          (''request_archive'', JBool archive)]))) s1 = (Inr v, s')"
    by (simp add: create_consumer_def session_run [OF ses] nm Let_def k_def)
  then obtain db' where ins: "insert_consumer k (ap_db s1) = Some db'"
    and s': "s' = s1\<lparr>ap_db := db'\<rparr>"
    and v: "v = JObj [(''id'', JStr (ev_uuid ev 0)), (''name'', JStr nm),
          (''prefix'', JStr (take 11 ?secret)), (''secret'', JStr ?secret),
          (''request_archive'', JBool archive)]"
    by (cases "insert_consumer k (ap_db s1)") (auto simp: sbind_Inr_iff slift_def)
  from ins have "\<forall>k' \<in> set (db_consumers (ap_db s1)). k_id k' \<noteq> k_id k \<and> k_secret_hash k' \<noteq> k_secret_hash k"
    and "db' = (ap_db s1)\<lparr>db_consumers := db_consumers (ap_db s1) @ [k]\<rparr>"
    by (auto simp: insert_consumer_def split: if_splits)
  with ses s' v show ?thesis
    by (intro that [of u s1 k]) (simp_all add: k_def consumer_secret_hash_def)
qed

definition authenticates_as :: "env \<Rightarrow> app \<Rightarrow> header_map \<Rightarrow> string \<Rightarrow> string \<Rightarrow> bool \<Rightarrow> bool" where
  "authenticates_as ev s headers uid cid archive \<longleftrightarrow>
     (\<exists>i. api_identity (ev_sha ev) (ap_db s) headers = Inr i \<and> ai_user_id i = uid \<and>
        ai_consumer_id i = cid \<and> ai_request_archive i = archive)"

lemma api_identity_hit:
  assumes "distinct (map k_secret_hash (db_consumers db))" and "bearer headers = Inr secret"
    and "prefix ''sk-'' secret" and "k \<in> set (db_consumers db)" and "k_secret_hash k = sha secret"
    and "k_revoked_at k = None" and "user_row_of db (k_user_id k) = Some u"
  shows "\<exists>i. api_identity sha db headers = Inr i \<and> ai_user_id i = k_user_id k \<and>
     ai_consumer_id i = k_id k \<and> ai_request_archive i = (k_request_archive k \<noteq> 0)"
proof -
  have "find_map (consumer_match db (sha secret)) (db_consumers db) = Some (k, u)"
    using assms by (simp add: consumer_lookup)
  with assms(2,3) show ?thesis
    by (simp add: api_identity_def ensure_def starts_with_def consumer_secret_hash_def)
qed

lemma api_identity_miss:
  assumes "bearer headers = Inr secret"
    and "\<And>k. k \<in> set (db_consumers db) \<Longrightarrow> k_secret_hash k = sha secret \<Longrightarrow> k_revoked_at k \<noteq> None"
  shows "api_identity sha db headers = Inl (unauthorized ''invalid consumer credential'')"
proof -
  have "find_map (consumer_match db (sha secret)) (db_consumers db) = None"
    unfolding find_map_None_iff consumer_match_def using assms(2) by fastforce
  with assms(1) show ?thesis
    by (simp add: api_identity_def ensure_def consumer_secret_hash_def)
qed

lemma revoke_consumer_Inr:
  assumes "revoke_consumer ev headers cid s = (Inr w, s')"
  obtains u :: user_identity where "\<exists>k \<in> set (db_consumers (ap_db s)). owned_consumer cid (ui_id u) k"
    and "db_consumers (ap_db s') =
      update_where (\<lambda>k. owned_consumer cid (ui_id u) k \<and> k_revoked_at k = None)
        (\<lambda>k. k\<lparr>k_revoked_at := Some (ev_now ev)\<rparr>) (db_consumers (ap_db s))"
proof -
  from assms obtain u s1 where ses: "session ev headers s = (Inr u, s1)"
    by (auto simp: revoke_consumer_def sbind_Inr_iff)
  note c = session_Inr_user(2) [OF ses]
  from assms have "\<exists>k \<in> set (db_consumers (ap_db s)). owned_consumer cid (ui_id u) k"
    and "s' = s1\<lparr>ap_db := (ap_db s1)\<lparr>db_consumers :=
      update_where (\<lambda>k. owned_consumer cid (ui_id u) k \<and> k_revoked_at k = None)
        (\<lambda>k. k\<lparr>k_revoked_at := Some (ev_now ev)\<rparr>) (db_consumers (ap_db s1))\<rparr>\<rparr>"
    by (auto simp: revoke_consumer_def session_run [OF ses] Let_def c split: if_splits)
  with c show ?thesis by (intro that [of u]) simp_all
qed

lemma delete_consumer_Inr:
  assumes "delete_consumer ev headers cid s = (Inr w, s')"
  obtains u :: user_identity where "\<exists>k \<in> set (db_consumers (ap_db s)). owned_consumer cid (ui_id u) k"
    and "db_consumers (ap_db s') =
      filter (\<lambda>k. \<not> owned_consumer cid (ui_id u) k) (db_consumers (ap_db s))"
proof -
  from assms obtain u s1 where ses: "session ev headers s = (Inr u, s1)"
    by (auto simp: delete_consumer_def sbind_Inr_iff)
  note c = session_Inr_user(2) [OF ses]
  from assms have "\<exists>k \<in> set (db_consumers (ap_db s)). owned_consumer cid (ui_id u) k"
    and "s' = s1\<lparr>ap_db := delete_consumer_rows (owned_consumer cid (ui_id u)) (ap_db s1)\<rparr>"
    by (auto simp: delete_consumer_def session_run [OF ses] c split: if_splits)
  with c show ?thesis by (intro that [of u]) (simp_all add: delete_consumer_rows_def Let_def)
qed

text \<open>C37. The life of a consumer. The secret a successful creation returns authenticates its
  creator at once, with the archive setting asked for; once the creator has revoked or deleted
  that consumer, the same header is answered with 401.\<close>

theorem consumer_lifecycle:
  assumes "distinct (map k_secret_hash (db_consumers (ap_db s)))"
    and "create_consumer ev headers name archive s = (Inr v, s1)"
    and "jget v ''secret'' = Some (JStr secret)" and "bearer api_headers = Inr secret"
    and "session ev headers s = (Inr u, s0)"
  shows "authenticates_as ev s1 api_headers (ui_id u) (ev_uuid ev 0) archive \<and>
    (\<forall>ev2 headers2 w s2.
       revoke_consumer ev2 headers2 (ev_uuid ev 0) s1 = (Inr w, s2) \<or>
       delete_consumer ev2 headers2 (ev_uuid ev 0) s1 = (Inr w, s2) \<longrightarrow>
       api_identity (ev_sha ev) (ap_db s2) api_headers =
         Inl (unauthorized ''invalid consumer credential''))"
proof -
  let ?secret = "''sk-'' @ ev_b64 ev (ev_random ev 0)"
  let ?cid = "ev_uuid ev 0"
  from assms(2) obtain u' s1' k where ses: "session ev headers s = (Inr u', s1')"
    and k: "k_user_id k = ui_id u'" "k_revoked_at k = None" "k_request_archive k = bool_i64 archive"
    and h: "k_secret_hash k = ev_sha ev ?secret" and kid: "k_id k = ?cid"
    and new: "\<forall>k' \<in> set (db_consumers (ap_db s1')). k_id k' \<noteq> k_id k \<and> k_secret_hash k' \<noteq> k_secret_hash k"
    and s1: "s1 = s1'\<lparr>ap_db := (ap_db s1')\<lparr>db_consumers := db_consumers (ap_db s1') @ [k]\<rparr>\<rparr>"
    and sec: "jget v ''secret'' = Some (JStr ?secret)"
    by (rule create_consumer_Inr)
  have u: "u' = u" "s1' = s0" using ses assms(5) by simp_all
  have secret: "secret = ?secret" using sec assms(3) by simp
  have cs: "db_consumers (ap_db s1) = db_consumers (ap_db s) @ [k]"
    using session_Inr_user(2) [OF ses] by (simp add: s1)
  have others: "k_id k' \<noteq> ?cid \<and> k_secret_hash k' \<noteq> ev_sha ev ?secret"
    if "k' \<in> set (db_consumers (ap_db s))" for k'
    using new that session_Inr_user(2) [OF ses] h kid by simp
  have dist: "distinct (map k_secret_hash (db_consumers (ap_db s1)))"
    using assms(1) others by (simp add: cs h) (metis imageE)
  obtain r where "user_row_of (ap_db s1') (ui_id u') = Some r" using session_Inr_user(1) [OF ses] by blast
  then have row: "user_row_of (ap_db s1) (k_user_id k) = Some r" by (simp add: s1 k user_row_of_def)
  have [simp]: "(bool_i64 archive \<noteq> 0) = archive" by (simp add: bool_i64_def)
  from api_identity_hit [where sha = "ev_sha ev", OF dist assms(4) _ _ _ k(2) row]
  have live: "authenticates_as ev s1 api_headers (ui_id u) ?cid archive"
    using h by (auto simp: authenticates_as_def secret cs k kid u)
  have dead: "api_identity (ev_sha ev) (ap_db s2) api_headers =
      Inl (unauthorized ''invalid consumer credential'')"
    if "revoke_consumer ev2 headers2 ?cid s1 = (Inr w, s2) \<or>
        delete_consumer ev2 headers2 ?cid s1 = (Inr w, s2)" for ev2 headers2 w s2
    using that
  proof
    assume "revoke_consumer ev2 headers2 ?cid s1 = (Inr w, s2)"
    then obtain u2 :: user_identity where ex: "\<exists>k \<in> set (db_consumers (ap_db s1)). owned_consumer ?cid (ui_id u2) k"
      and s2: "db_consumers (ap_db s2) =
        update_where (\<lambda>k. owned_consumer ?cid (ui_id u2) k \<and> k_revoked_at k = None)
          (\<lambda>k. k\<lparr>k_revoked_at := Some (ev_now ev2)\<rparr>) (db_consumers (ap_db s1))"
      by (rule revoke_consumer_Inr)
    from ex others have "owned_consumer ?cid (ui_id u2) k" by (auto simp: cs owned_consumer_def)
    then show ?thesis
      using others
      by (intro api_identity_miss [OF assms(4)]) (auto simp: s2 cs secret in_update_where k(2))
  next
    assume "delete_consumer ev2 headers2 ?cid s1 = (Inr w, s2)"
    then obtain u2 :: user_identity where ex: "\<exists>k \<in> set (db_consumers (ap_db s1)). owned_consumer ?cid (ui_id u2) k"
      and s2: "db_consumers (ap_db s2) =
        filter (\<lambda>k. \<not> owned_consumer ?cid (ui_id u2) k) (db_consumers (ap_db s1))"
      by (rule delete_consumer_Inr)
    from ex others have "owned_consumer ?cid (ui_id u2) k" by (auto simp: cs owned_consumer_def)
    then show ?thesis
      using others by (intro api_identity_miss [OF assms(4)]) (auto simp: s2 cs secret)
  qed
  from live dead show ?thesis by blast
qed

end
