(* ===== verification/Audit_Read_Facts.thy ===== *)
theory Audit_Read_Facts
  imports Api_Audit Setup_Facts
begin

text \<open>
  What the read-only console endpoints show: the usage table adds up to the calls it
  summarises, and the audit list and the audit detail show a caller who is no administrator
  only the caller's own calls.
\<close>

section \<open>Usage\<close>

lemma sum_filter_key:
  fixes f :: "'a \<Rightarrow> int"
  assumes "finite K" and "g ` set xs \<subseteq> K"
  shows "(\<Sum>k \<in> K. sum_list (map f (filter (\<lambda>x. g x = k) xs))) = sum_list (map f xs)"
  using assms(2)
proof (induction xs)
  case Nil
  show ?case by simp
next
  case (Cons x xs)
  have "sum_list (map f (filter (\<lambda>y. g y = k) (x # xs))) =
      (if k = g x then f x else 0) + sum_list (map f (filter (\<lambda>y. g y = k) xs))" for k
    by simp
  then have "(\<Sum>k \<in> K. sum_list (map f (filter (\<lambda>y. g y = k) (x # xs)))) =
      (\<Sum>k \<in> K. if k = g x then f x else 0) + sum_list (map f xs)"
    using Cons by (simp add: sum.distrib)
  also have "(\<Sum>k \<in> K. if k = g x then f x else 0) = f x"
    using Cons.prems assms(1) by (simp add: sum.delta)
  finally show ?case by simp
qed

lemma sum_over_groups:
  fixes f :: "'a \<Rightarrow> int"
  assumes "distinct ks" and "set ks = g ` set xs"
  shows "sum_list (map (\<lambda>k. sum_list (map f (filter (\<lambda>x. g x = k) xs))) ks) = sum_list (map f xs)"
proof -
  have "sum_list (map (\<lambda>k. sum_list (map f (filter (\<lambda>x. g x = k) xs))) ks) =
      (\<Sum>k \<in> set ks. sum_list (map f (filter (\<lambda>x. g x = k) xs)))"
    using assms(1) by (rule sum_list_distinct_conv_sum_set)
  also have "\<dots> = sum_list (map f xs)" by (rule sum_filter_key) (simp_all add: assms(2))
  finally show ?thesis .
qed

lemma sum_usage_groups:
  "sum_list (map (\<lambda>(k, rows). sum_calls f rows) (usage_groups date calls)) = sum_calls f calls"
proof -
  let ?ks = "sort_key ur_date (remdups (map (usage_key date) calls))"
  have "sum_list (map (\<lambda>k. sum_calls f (filter (\<lambda>r. usage_key date r = k) calls)) ?ks) = sum_calls f calls"
    unfolding sum_calls_def by (rule sum_over_groups) simp_all
  then show ?thesis by (simp add: usage_groups_def o_def)
qed


section \<open>Scope\<close>

lemma page_subset: "set (page l ow xs) \<subseteq> set xs"
  unfolding page_def by (meson set_drop_subset set_take_subset subset_trans)

lemma page_length: "length (page l ow xs) \<le> 500 \<and> length (page l ow xs) \<le> length xs"
  by (auto simp: page_def page_limit_def)

lemma page_all:
  "length xs \<le> 500 \<Longrightarrow> page (Some 500) None xs = xs"
  by (simp add: page_def page_limit_def page_offset_def)

definition may_see :: "user_identity \<Rightarrow> api_call \<Rightarrow> bool" where
  "may_see u c \<longleftrightarrow> is_admin u \<or> c_user_id c = ui_id u"

text \<open>C39. What the audit shows. The list holds at most 500 rows, each a call of the database the
  caller may see (its own, or any for an administrator) that meets the filters; the total counts
  all such calls. The detail of a call is shown only to a caller who may see it; for anybody else
  the answer is the 404 of a call that does not exist.\<close>

theorem audit_scoped:
  assumes "session ev headers s = (Inr u, s1)"
  shows "(\<exists>rows. api_audit ev headers q s =
      (Inr (JObj [(''rows'', JArr (map (audit_row_json (ap_db s1)) rows)),
                  (''total'', JInt (int (length (audit_matches q u (ap_db s1)))))]), s1) \<and>
      length rows \<le> 500 \<and> set rows \<subseteq> set (audit_matches q u (ap_db s1)) \<and>
      (\<forall>(c, k, ch) \<in> set rows. c \<in> set (db_api_calls (ap_db s1)) \<and> may_see u c)) \<and>
    (case audit_detail ev headers cid s of
       (Inr v, s2) \<Rightarrow> s2 = s1 \<and>
         (\<exists>c k ch. v = audit_detail_json ev u (ap_db s1) (c, k, ch) \<and> c_id c = cid \<and>
            c \<in> set (db_api_calls (ap_db s1)) \<and> may_see u c)
     | (Inl e, s2) \<Rightarrow> s2 = s1 \<and> e = not_found ''audit event not found'')"
proof (rule conjI)
  have join: "c \<in> set (db_api_calls db)" if "(c, k, ch) \<in> set (audit_join db)" for c k ch db
    using that by (auto simp: audit_join_def split: option.splits)
  let ?rows = "page (aq_limit q) (aq_offset q)
      (newest_first (\<lambda>(c, _, _). c_created_at c) (audit_matches q u (ap_db s1)))"
  have sub: "set ?rows \<subseteq> set (audit_matches q u (ap_db s1))"
    using page_subset [of "aq_limit q" "aq_offset q"
        "newest_first (\<lambda>(c, _, _). c_created_at c) (audit_matches q u (ap_db s1))"]
    by (simp add: newest_first_def)
  have see: "\<forall>(c, k, ch) \<in> set ?rows. c \<in> set (db_api_calls (ap_db s1)) \<and> may_see u c"
  proof (clarify)
    fix c k ch assume "(c, k, ch) \<in> set ?rows"
    with sub have "(c, k, ch) \<in> set (audit_join (ap_db s1))" "audit_filter q u (c, k, ch)"
      by (auto simp: audit_matches_def)
    then show "c \<in> set (db_api_calls (ap_db s1)) \<and> may_see u c"
      by (auto simp: audit_filter_def may_see_def intro: join)
  qed
  have "api_audit ev headers q s =
      (Inr (JObj [(''rows'', JArr (map (audit_row_json (ap_db s1)) ?rows)),
                  (''total'', JInt (int (length (audit_matches q u (ap_db s1)))))]), s1)"
    by (simp add: api_audit_def session_run [OF assms])
  with sub see page_length show "\<exists>rows. api_audit ev headers q s =
      (Inr (JObj [(''rows'', JArr (map (audit_row_json (ap_db s1)) rows)),
                  (''total'', JInt (int (length (audit_matches q u (ap_db s1)))))]), s1) \<and>
      length rows \<le> 500 \<and> set rows \<subseteq> set (audit_matches q u (ap_db s1)) \<and>
      (\<forall>(c, k, ch) \<in> set rows. c \<in> set (db_api_calls (ap_db s1)) \<and> may_see u c)"
    by blast
  show "case audit_detail ev headers cid s of
       (Inr v, s2) \<Rightarrow> s2 = s1 \<and>
         (\<exists>c k ch. v = audit_detail_json ev u (ap_db s1) (c, k, ch) \<and> c_id c = cid \<and>
            c \<in> set (db_api_calls (ap_db s1)) \<and> may_see u c)
     | (Inl e, s2) \<Rightarrow> s2 = s1 \<and> e = not_found ''audit event not found''"
  proof (cases "audit_detail_row u cid (ap_db s1)")
    case None
    then show ?thesis by (simp add: audit_detail_def session_run [OF assms])
  next
    case (Some row)
    obtain c k ch where row: "row = (c, k, ch)" by (cases row)
    from Some have "(c, k, ch) \<in> set (audit_join (ap_db s1))" "c_id c = cid" "may_see u c"
      by (auto simp: audit_detail_row_def row may_see_def dest!: find_SomeD)
    with Some row show ?thesis
      by (auto simp: audit_detail_def session_run [OF assms] intro: join)
  qed
qed

end
