(* ===== verification/OAuth_Facts.thy ===== *)
theory OAuth_Facts
  imports OAuth
begin

text \<open>
  What the account flow promises: an authorization state works once, only for the user who
  asked for it and only for ten minutes; concurrent refreshes of one provider reach the token
  endpoint once.
\<close>

section \<open>The authorization state\<close>

lemma exchange_flows:
  "exchange ev raw code who s =
     (case opt_filter (\<lambda>f. of_created_by f = who \<and> ev_now ev < of_expires_at f)
             (dm_get (ap_oauth_flows s) (ev_sha ev raw)) of
        None \<Rightarrow> (Inl (bad_request ''invalid or expired OAuth state''), s)
      | Some flow \<Rightarrow>
          (token_request ev (ap_config s) (exchange_form (ap_config s) code flow),
           s\<lparr>ap_oauth_flows := dm_remove (ev_sha ev raw) (ap_oauth_flows s)\<rparr>))"
  by (cases "dm_get (ap_oauth_flows s) (ev_sha ev raw)")
    (auto simp: exchange_def Let_def dm_remove_if_def)

lemma oauth_start_state:
  "snd (oauth_start ev user s) =
     s\<lparr>ap_oauth_flows := dm_insert (ev_sha ev (ev_b64 ev (ev_random ev 1)))
         \<lparr>of_verifier = ev_b64 ev (ev_random ev 0), of_created_by = user,
          of_expires_at = ev_now ev + 600\<rparr>
         (dm_retain (\<lambda>_ flow. ev_now ev < of_expires_at flow) (ap_oauth_flows s))\<rparr>"
  by (simp add: oauth_start_def Let_def)

text \<open>C29. The state of an authorization is bound to the user who started it, lives for ten minutes
  and works once: exchanging it calls the token endpoint, with the code verifier of that start,
  exactly for the same user before the time is up, and is a bad request otherwise; a second
  exchange, by anybody and at any time, is a bad request as well.\<close>

theorem oauth_flow_lifecycle:
  assumes "s1 = snd (oauth_start ev user s)" and "raw = ev_b64 ev (ev_random ev 1)"
    and "exchange (ev\<lparr>ev_now := t\<rparr>) raw code who s1 = (r, s2)"
  shows "r = (if who = user \<and> t < ev_now ev + 600
              then token_request (ev\<lparr>ev_now := t\<rparr>) (ap_config s)
                     (exchange_form (ap_config s) code
                        \<lparr>of_verifier = ev_b64 ev (ev_random ev 0), of_created_by = user,
                         of_expires_at = ev_now ev + 600\<rparr>)
              else Inl (bad_request ''invalid or expired OAuth state'')) \<and>
     (who = user \<and> t < ev_now ev + 600 \<longrightarrow>
        (\<forall>t' who' code'. fst (exchange (ev\<lparr>ev_now := t'\<rparr>) raw code' who' s2) =
           Inl (bad_request ''invalid or expired OAuth state'')))"
proof -
  let ?flow = "\<lparr>of_verifier = ev_b64 ev (ev_random ev 0), of_created_by = user,
       of_expires_at = ev_now ev + 600\<rparr>"
  let ?h = "ev_sha ev raw"
  have h: "ev_sha (ev\<lparr>ev_now := x\<rparr>) raw = ?h" for x by (simp add: ev_sha_def)
  have get: "dm_get (ap_oauth_flows s1) ?h = Some ?flow" and cfg: "ap_config s1 = ap_config s"
    unfolding assms(1) oauth_start_state assms(2) by (simp_all add: dm.get_insert)
  note x = assms(3) [unfolded exchange_flows h get]
  show ?thesis
  proof (cases "who = user \<and> t < ev_now ev + 600")
    case True
    with x have r: "r = token_request (ev\<lparr>ev_now := t\<rparr>) (ap_config s1) (exchange_form (ap_config s1) code ?flow)"
      and s2: "s2 = s1\<lparr>ap_oauth_flows := dm_remove ?h (ap_oauth_flows s1)\<rparr>" by simp_all
    have "dm_get (ap_oauth_flows s2) ?h = None" by (simp add: s2 dm.get_remove)
    then have "fst (exchange (ev\<lparr>ev_now := t'\<rparr>) raw code' who' s2) =
        Inl (bad_request ''invalid or expired OAuth state'')" for t' who' code'
      by (simp add: exchange_flows h)
    with True r cfg show ?thesis by simp
  next
    case False
    with x show ?thesis by auto
  qed
qed

section \<open>Refresh\<close>

definition lease_stale :: "lease \<Rightarrow> i64 \<Rightarrow> bool" where
  "lease_stale l now \<longleftrightarrow>
     (case p_expires_at (l_provider l) of None \<Rightarrow> False | Some e \<Rightarrow> e \<le> now + 60)"

lemma lease_stale_iff:
  "(case p_expires_at (l_provider l) of None \<Rightarrow> True | Some e \<Rightarrow> now + 60 < e) \<longleftrightarrow> \<not> lease_stale l now"
  by (auto simp: lease_stale_def split: option.splits)

lemma refreshed_lease_fields [simp]:
  "l_access_token (refreshed_lease l a r c e) = a" "l_refresh_token (refreshed_lease l a r c e) = r"
  "p_account_id (l_provider (refreshed_lease l a r c e)) = c"
  "p_expires_at (l_provider (refreshed_lease l a r c e)) = e"
  "p_id (l_provider (refreshed_lease l a r c e)) = p_id (l_provider l)"
  by (simp_all add: refreshed_lease_def)

lemma store_refreshed_row:
  "provider_row (store_refreshed now pid used token acc e db) q =
     map_option (\<lambda>p. if p_id p = pid \<and> p_refresh_token p = used
         then p\<lparr>p_access_token := tk_access_token token, p_refresh_token := tk_refresh_token token,
              p_account_id := acc, p_expires_at := Some e, p_status := ''active'',
              p_last_error := None, p_updated_at := now\<rparr>
         else p) (provider_row db q)"
  unfolding store_refreshed_def by (subst provider_row_update) simp_all

text \<open>A stale lease after a successful refresh holds what the row holds.\<close>

lemma refresh_if_needed_row:
  assumes run: "refresh_if_needed ev l s = (Inr l1, s1)" and stale: "lease_stale l (ev_now ev)"
  shows "\<exists>p. provider_row (ap_db s1) (p_id (l_provider l)) = Some p \<and>
     l_access_token l1 = p_access_token p \<and> l_refresh_token l1 = p_refresh_token p \<and>
     p_account_id (l_provider l1) = p_account_id p \<and> p_expires_at (l_provider l1) = p_expires_at p"
proof -
  let ?pid = "p_id (l_provider l)" and ?now = "ev_now ev"
  obtain p where p: "provider_row (ap_db s) ?pid = Some p"
    using run stale by (cases "provider_row (ap_db s) ?pid")
      (simp_all add: refresh_if_needed_def Let_def lease_stale_iff)
  show ?thesis
  proof (cases "token_is_fresh (p_expires_at p) ?now")
    case True
    with run stale p show ?thesis by (auto simp: refresh_if_needed_def Let_def lease_stale_iff)
  next
    case False
    show ?thesis
    proof (cases "refresh ev (ap_config s) (p_refresh_token p)")
      case (Inl e)
      with run stale p False show ?thesis
        by (simp add: refresh_if_needed_def Let_def lease_stale_iff)
    next
      case (Inr token)
      define acc where "acc = (case account_id_from_jwt ev (tk_access_token token) of
          Inr a \<Rightarrow> a | Inl _ \<Rightarrow> p_account_id (l_provider l))"
      have l1: "l1 = refreshed_lease l (tk_access_token token) (tk_refresh_token token) acc
            (Some (?now + tk_expires_in token))"
        and s1: "ap_db s1 = store_refreshed ?now ?pid (p_refresh_token p) token acc
            (?now + tk_expires_in token) (ap_db s)"
        using run stale p False Inr
        by (auto simp: refresh_if_needed_def Let_def lease_stale_iff acc_def simp del: rows_affected_0_iff
            split: if_splits)
      from p have "p_id p = ?pid" by (auto dest: provider_row_SomeD)
      then show ?thesis by (simp add: s1 store_refreshed_row p l1)
    qed
  qed
qed

text \<open>C30. Refreshing is single-flight: once a refresh of a provider has succeeded, every other
  stale lease of it takes over the new credential from the table, without calling the token
  endpoint (whatever it would answer) and without changing anything, as long as that credential
  is valid for more than a minute.\<close>

theorem refresh_single_flight:
  assumes first: "refresh_if_needed ev l s = (Inr l1, s1)" and stale: "lease_stale l (ev_now ev)"
    and same: "p_id (l_provider l') = p_id (l_provider l)" and stale': "lease_stale l' (ev_now ev')"
    and fresh: "token_is_fresh (p_expires_at (l_provider l1)) (ev_now ev')"
  shows "\<exists>l2. refresh_if_needed ev' l' s1 = (Inr l2, s1) \<and>
     l_access_token l2 = l_access_token l1 \<and> l_refresh_token l2 = l_refresh_token l1 \<and>
     p_account_id (l_provider l2) = p_account_id (l_provider l1) \<and>
     p_expires_at (l_provider l2) = p_expires_at (l_provider l1)"
proof -
  obtain p where p: "provider_row (ap_db s1) (p_id (l_provider l)) = Some p"
    and l1: "l_access_token l1 = p_access_token p" "l_refresh_token l1 = p_refresh_token p"
      "p_account_id (l_provider l1) = p_account_id p" "p_expires_at (l_provider l1) = p_expires_at p"
    using refresh_if_needed_row [OF first stale] by blast
  have "refresh_if_needed ev' l' s1 =
      (Inr (refreshed_lease l' (p_access_token p) (p_refresh_token p) (p_account_id p) (p_expires_at p)), s1)"
    using p fresh stale' same l1(4) by (simp add: refresh_if_needed_def Let_def lease_stale_iff)
  then show ?thesis by (simp add: l1)
qed

end
