(* ===== verification/Api_Witness.thy ===== *)
theory Api_Witness
  imports Provider_Facts Audit_Read_Facts OAuth_Facts Balancer_Witness Header_Facts
begin

text \<open>
  Concrete runs of the console: a database before setup, one after it with a root, a plain user
  and two providers, and a world whose token endpoint, verifier and clock answer as the runs need.
\<close>

section \<open>Sample world\<close>

text \<open>The verifier takes the token for the user's name; digests and encodings are the identity.\<close>

definition sample_env :: env where
  "sample_env =
     \<lparr>ev_now = 1000, ev_uuid = (\<lambda>n. ''uuid-'' @ show_nat n), ev_random = (\<lambda>n. ''rnd-'' @ show_nat n),
      ev_digest = (\<lambda>s. s), ev_hex = (\<lambda>s. s), ev_b64 = (\<lambda>s. s), ev_unb64 = Some,
      ev_parse = (\<lambda>_. None), ev_render = (\<lambda>_. ''{}''),
      ev_url = (\<lambda>_. Some (''https'', Some ''host'')), ev_query_url = (\<lambda>u _. Some u),
      ev_header_ok = (\<lambda>_. True),
      ev_token = (\<lambda>_ _. Reply 200 (Some \<lparr>tk_access_token = ''tok-new'', tk_refresh_token = ''ref-new'',
                                        tk_expires_in = 3600\<rparr>)),
      ev_verifier = (\<lambda>_ _. Inr (\<lambda>token. Inr token)), ev_set_path = (\<lambda>b p. Some (b @ p)),
      ev_api = (\<lambda>_ _ _ _. ApiUnreachable), ev_uuid_ok = (\<lambda>_. True), ev_status_text = show_nat\<rparr>"

definition sample_meta :: "(string \<times> string) list" where
  "sample_meta =
     [(''setup_complete'', ''false''), (''auth_issuer'', ''''), (''auth_audience'', ''''),
      (''upstream_base'', ''https://up''), (''upstream_openai_beta'', ''''),
      (''image_host_model'', ''m''), (''oauth_authorize_url'', ''https://a''),
      (''oauth_token_url'', ''https://t''), (''oauth_redirect_uri'', ''http://r''),
      (''oauth_client_id'', ''client''), (''response_body_limit'', show_nat 2048),
      (''image_body_limit'', show_nat 2048), (''audio_body_limit'', show_nat 2097152),
      (''affinity_ttl_seconds'', show_i64 3600), (''request_archive_retention_days'', show_i64 7)]"

definition sample_boot :: bootstrap_config where
  "sample_boot = \<lparr>bc_listen = ''l'', bc_data_dir = ''d'', bc_database_path = ''p''\<rparr>"

definition fresh_db :: database where
  "fresh_db = empty_db\<lparr>db_providers := [pa], db_meta := sample_meta\<rparr>"

definition fresh_config :: config where
  "fresh_config = (case config_load sample_boot fresh_db of Inr c \<Rightarrow> c | Inl _ \<Rightarrow> sample_config)"

definition fresh_app :: app where
  "fresh_app = \<lparr>ap_config = fresh_config, ap_db = fresh_db, ap_balancer = balancer_default,
     ap_verifier = None, ap_oauth_flows = []\<rparr>"

definition as_user :: "string \<Rightarrow> header_map" where
  "as_user u = [(''authorization'', ''Bearer '' @ u)]"

definition setup_app :: "string \<Rightarrow> app" where
  "setup_app audience = snd (api_setup sample_env (as_user ''root'') ''https://i/'' audience fresh_app)"

text \<open>A running system: a root, an administrator, a plain user with a consumer and a call.\<close>

definition plain_user :: "string \<Rightarrow> string \<Rightarrow> user_row" where
  "plain_user uid role = \<lparr>u_id = uid, u_email = None, u_display_name = None, u_role = role,
     u_provider_access = 0, u_created_at = 1\<rparr>"

definition sample_consumer :: consumer where
  "sample_consumer = \<lparr>k_id = ''k1'', k_user_id = ''u1'', k_name = ''key'', k_prefix = ''sk-'',
     k_secret_hash = ''sk-1'', k_request_archive = 0, k_created_at = 1, k_last_used_at = None,
     k_revoked_at = None\<rparr>"

definition run_db :: database where
  "run_db = fresh_db\<lparr>db_users := [plain_user ''root'' ''root'', plain_user ''adm'' ''admin'',
        plain_user ''u1'' ''user'', plain_user ''u2'' ''user''],
     db_providers := [pa\<lparr>p_owner_id := Some ''root''\<rparr>, pb\<lparr>p_owner_id := Some ''adm'', p_status := ''active''\<rparr>],
     db_consumers := [sample_consumer],
     db_grants := [\<lparr>g_provider_id = ''pa'', g_user_id = ''u1'', g_created_at = 5\<rparr>,
                   \<lparr>g_provider_id = ''pb'', g_user_id = ''u1'', g_created_at = 5\<rparr>]\<rparr>"

definition run_app :: app where
  "run_app = \<lparr>ap_config = fresh_config, ap_db = run_db,
     ap_balancer = reload_providers run_db balancer_default,
     ap_verifier = Some (\<lambda>token. Inr token), ap_oauth_flows = []\<rparr>"

definition session_user :: "string \<Rightarrow> string \<Rightarrow> user_identity" where
  "session_user u role = \<lparr>ui_id = u, ui_email = None, ui_name = None, ui_role = role\<rparr>"

lemma bearer_as_user:
  "bearer (as_user ''u1'') = Inr ''u1''" "bearer (as_user ''u2'') = Inr ''u2''"
  "bearer (as_user ''adm'') = Inr ''adm''" "bearer (as_user ''root'') = Inr ''root''"
  "bearer (as_user ''sk-rnd-0'') = Inr ''sk-rnd-0''" "bearer (as_user ''sk-1'') = Inr ''sk-1''"
  by (simp_all add: bearer_def as_user_def hdr_str_def hdr_get_def to_str_def strip_prefix_def byte_of_def)

lemma run_app_fields [simp]:
  "ap_verifier run_app = Some (\<lambda>token. Inr token)" "ap_db run_app = run_db"
  by (simp_all add: run_app_def)

lemma run_users:
  "user_row_of run_db ''u1'' = Some (plain_user ''u1'' ''user'')"
  "user_row_of run_db ''u2'' = Some (plain_user ''u2'' ''user'')"
  "user_row_of run_db ''adm'' = Some (plain_user ''adm'' ''admin'')"
  "user_row_of run_db ''root'' = Some (plain_user ''root'' ''root'')"
  by (simp_all add: user_row_of_def run_db_def plain_user_def)

lemma run_session:
  assumes "bearer (as_user t) = Inr t" and "user_row_of run_db t = Some (plain_user t role)"
  shows "session ev (as_user t) run_app = (Inr (session_user t role), run_app)"
proof -
  have "session ev (as_user t) run_app = (Inr (identity_of (plain_user t role)), run_app)"
    by (rule session_known [where uid = t, OF assms(1)]) (simp_all add: verify_def map_err_def assms(2))
  then show ?thesis by (simp add: identity_of_def plain_user_def session_user_def)
qed

lemmas run_sessions =
  run_session [OF bearer_as_user(1) run_users(1)] run_session [OF bearer_as_user(2) run_users(2)]
  run_session [OF bearer_as_user(3) run_users(3)] run_session [OF bearer_as_user(4) run_users(4)]

section \<open>Identities\<close>

theorem api_identity_spec_witness:
  "\<exists>i. api_identity (\<lambda>s. s) run_db (as_user ''sk-1'') = Inr i \<and> ai_user_id i = ''u1'' \<and>
     \<not> ai_all_providers i"
proof -
  let ?i = "\<lparr>ai_consumer_id = ''k1'', ai_user_id = ''u1'', ai_request_archive = False, ai_all_providers = False\<rparr>"
  have d: "distinct (map k_secret_hash (db_consumers run_db))" by (simp add: run_db_def)
  have "sample_consumer \<in> set (db_consumers run_db)" by (simp add: run_db_def)
  then have "\<exists>secret k u. bearer (as_user ''sk-1'') = Inr secret \<and> prefix ''sk-'' secret \<and>
        k \<in> set (db_consumers run_db) \<and> k_secret_hash k = consumer_secret_hash (\<lambda>s. s) secret \<and>
        k_revoked_at k = None \<and> user_row_of run_db (k_user_id k) = Some u \<and>
        ai_consumer_id ?i = k_id k \<and> ai_user_id ?i = k_user_id k \<and>
        ai_request_archive ?i = (k_request_archive k \<noteq> 0) \<and>
        ai_all_providers ?i = (u_role u \<noteq> ''user'' \<or> u_provider_access u \<noteq> 0)"
    by (intro exI [of _ "''sk-1''"] exI [of _ sample_consumer] exI [of _ "plain_user ''u1'' ''user''"])
      (simp add: bearer_as_user consumer_secret_hash_def sample_consumer_def run_users plain_user_def)
  with api_identity_spec [OF d, of "\<lambda>s. s" "as_user ''sk-1''" ?i] show ?thesis by auto
qed

theorem oauth_flow_lifecycle_witness:
  "fst (exchange (sample_env\<lparr>ev_now := 1100\<rparr>) ''rnd-1'' ''c'' ''u2''
      (snd (oauth_start sample_env ''u1'' run_app))) =
     Inl (bad_request ''invalid or expired OAuth state'')"
proof -
  obtain r s2 where x: "exchange (sample_env\<lparr>ev_now := 1100\<rparr>) ''rnd-1'' ''c'' ''u2''
      (snd (oauth_start sample_env ''u1'' run_app)) = (r, s2)" by fastforce
  have "''rnd-1'' = ev_b64 sample_env (ev_random sample_env 1)" by (simp add: sample_env_def)  code_simp
  from oauth_flow_lifecycle [OF refl this x] show ?thesis by (simp add: x)
qed

definition stale_lease :: lease where
  "stale_lease = \<lparr>l_provider = pa\<lparr>p_expires_at := Some 900\<rparr>, l_access_token = ''tok-a'',
     l_refresh_token = ''ref-a''\<rparr>"

theorem refresh_single_flight_witness:
  "\<exists>l1 l2 s1. refresh_if_needed sample_env stale_lease fresh_app = (Inr l1, s1) \<and>
     refresh_if_needed (sample_env\<lparr>ev_token := \<lambda>_ _. Unreachable\<rparr>) stale_lease s1 = (Inr l2, s1) \<and>
     l_access_token l2 = l_access_token l1"
proof -
  obtain l1 s1 where x: "refresh_if_needed sample_env stale_lease fresh_app = (Inr l1, s1)"
    and f: "token_is_fresh (p_expires_at (l_provider l1)) 1000"
    by (simp add: refresh_if_needed_def stale_lease_def sample_env_def fresh_app_def fresh_db_def empty_db_def
        Let_def pa_def provider_row_def token_is_fresh_def refresh_def token_request_def is_success_def
        ensure_def account_id_from_jwt_def jwt_claims_def rows_affected_def refreshed_lease_def)
  have "lease_stale stale_lease (ev_now sample_env)"
    by (simp add: lease_stale_def stale_lease_def sample_env_def)
  moreover from this have "lease_stale stale_lease (ev_now (sample_env\<lparr>ev_token := \<lambda>_ _. Unreachable\<rparr>))" by simp
  moreover have "token_is_fresh (p_expires_at (l_provider l1)) (ev_now (sample_env\<lparr>ev_token := \<lambda>_ _. Unreachable\<rparr>))"
    using f by (simp add: sample_env_def)
  ultimately obtain l2 where
    "refresh_if_needed (sample_env\<lparr>ev_token := \<lambda>_ _. Unreachable\<rparr>) stale_lease s1 = (Inr l2, s1)"
    "l_access_token l2 = l_access_token l1"
    using refresh_single_flight [OF x _ refl] by blast
  with x show ?thesis by blast
qed

section \<open>Setup and settings\<close>

definition setup_run :: "string \<Rightarrow> (app_error, json) result \<times> app" where
  "setup_run audience = api_setup sample_env (as_user ''root'') ''https://i/'' audience fresh_app"

lemma fresh_synced: "config_synced sample_boot fresh_app"
proof -
  have "is_ok (config_load sample_boot fresh_db)"
    by (simp add: config_load_def fresh_db_def empty_db_def sample_meta_def Let_def meta_parse_def
        meta_value_def meta_optional_def parse_bool_def in_i64_def)
  then show ?thesis by (auto simp: config_synced_def fresh_app_def fresh_config_def is_ok_iff)
qed

lemma issuer_trimmed: "trim_end_matches ''/'' (trim ''https://i/'') = ''https://i''"
  by code_simp

lemma setup_run_ok:
  assumes "required_setting ''Auth Mini audience'' a = Inr t"
  shows "\<exists>v. setup_run a = (Inr v, snd (setup_run a))"
proof -
  have r: "setup_required fresh_app = (Inr True, fresh_app)"
    by (simp add: setup_required_def fresh_app_def fresh_db_def sample_meta_def meta_get_def)
  have v: "verify_candidate (ev_verifier sample_env) i t ''root'' = Inr (''root'', Inr)" for i
    by (simp add: verify_candidate_def sample_env_def map_err_def)
  obtain db' where tx: "setup_transaction (ev_now sample_env) ''root''
      (trim_end_matches ''/'' (trim ''https://i/'')) t (ap_db fresh_app) = Inr db'"
    by (simp add: setup_transaction_def fresh_app_def fresh_db_def sample_meta_def meta_get_def
        make_root_def empty_db_def)
  show ?thesis
    unfolding setup_run_def api_setup_def sbind_run [of setup_required fresh_app, OF r]
    by (simp add: assms bearer_as_user v tx Let_def)
qed

lemma audiences:
  "required_setting ''Auth Mini audience'' ''lb'' = Inr ''lb''"
  "required_setting ''Auth Mini audience'' ''https://lb/'' = Inr ''https://lb/''"
  by code_simp+

theorem setup_once_witness:
  "(\<exists>uid. user_exists (ap_db (snd (setup_run ''lb''))) uid) \<and>
   api_setup sample_env (as_user ''u1'') ''https://x'' ''y'' (snd (setup_run ''lb'')) =
     (Inl (not_found ''setup is already complete''), snd (setup_run ''lb''))"
proof -
  obtain v where "setup_run ''lb'' = (Inr v, snd (setup_run ''lb''))"
    using setup_run_ok [OF audiences(1)] by blast
  from setup_once [OF this [unfolded setup_run_def [of "''lb''"]]] show ?thesis
    unfolding setup_run_def by blast
qed

theorem setup_restart_iff_witness:
  "\<not> config_synced sample_boot (snd (setup_run ''https://lb/''))"
proof -
  obtain v where v: "setup_run ''https://lb/'' = (Inr v, snd (setup_run ''https://lb/''))"
    using setup_run_ok [OF audiences(2)] by blast
  have i: "trim (trim_end_matches ''/'' (trim ''https://i/'')) = trim_end_matches ''/'' (trim ''https://i/'')"
    "trim_end_matches ''/'' (trim ''https://i/'') \<noteq> []"
    unfolding issuer_trimmed by code_simp+
  have "suffix ''/'' (trim ''https://lb/'')" by code_simp
  with setup_restart_iff [OF fresh_synced v [unfolded setup_run_def [of "''https://lb/''"]] i]
  show ?thesis unfolding setup_run_def by simp
qed

definition sample_settings :: update_settings_t where
  "sample_settings = \<lparr>us_upstream_base = ''https://new/'', us_upstream_openai_beta = ''b'',
     us_image_host_model = ''m2'', us_oauth_authorize_url = ''https://a'', us_oauth_token_url = ''https://t'',
     us_oauth_redirect_uri = ''http://r'', us_oauth_client_id = ''c'', us_response_body_limit = 4096,
     us_image_body_limit = 4096, us_audio_body_limit = 2097152, us_affinity_ttl_seconds = 60,
     us_request_archive_retention_days = 30\<rparr>"

theorem settings_survive_restart_witness:
  "config_synced sample_boot
     (snd (update_settings sample_env ''ip'' (as_user ''root'') sample_settings run_app))"
proof -
  have "config_synced sample_boot run_app"
    using fresh_synced by (simp add: config_synced_def run_app_def fresh_app_def run_db_def config_load_def)
  then show ?thesis by (rule settings_survive_restart)
qed

section \<open>Users, providers, consumers\<close>

theorem update_user_authority_witness:
  "\<exists>r s2 f. update_user sample_env ''ip'' (as_user ''adm'') ''u1'' None (Some ''admin'') None run_app = (r, s2) \<and>
     db_users (ap_db s2) = map f (db_users run_db) \<and> user_change_ok (session_user ''adm'' ''admin'') ''u1'' f"
proof -
  obtain r s2 where x: "update_user sample_env ''ip'' (as_user ''adm'') ''u1'' None (Some ''admin'') None run_app =
      (r, s2)" by fastforce
  from update_user_authority [OF run_sessions(3) x] show ?thesis using x by auto
qed

theorem providers_closed_to_others_witness:
  "delete_provider sample_env ''ip'' (as_user ''u2'') ''pa'' run_app =
     (Inl (not_found ''provider not found''), run_app)"
proof -
  have "\<not> is_admin (session_user ''u2'' ''user'')" by (simp add: is_admin_def session_user_def)
  moreover have "\<not> provider_owned (ap_db run_app) ''pa'' (ui_id (session_user ''u2'' ''user''))"
    by (simp add: provider_owned_def run_db_def session_user_def pa_def pb_def)
  ultimately show ?thesis
    using providers_closed_to_others [OF run_sessions(2), where pid = "''pa''"] by blast
qed

definition grant_run :: "(app_error, json) result \<times> app" where
  "grant_run = create_provider_grant sample_env ''ip'' (as_user ''root'') ''pa'' ''u2'' run_app"

lemma root_manages:
  "require_provider_manager (session_user ''root'' ''root'') ''pa'' run_app = (Inr (), run_app)"
  by (simp add: require_provider_manager_def is_admin_def session_user_def run_db_def pa_def ensure_def)

lemma grant_run_ok: "\<exists>v. grant_run = (Inr v, snd grant_run)"
proof -
  have t: "trim ''u2'' = ''u2''" by code_simp
  have row: "provider_row run_db ''pa'' = Some (pa\<lparr>p_owner_id := Some ''root''\<rparr>)"
    by (simp add: provider_row_def run_db_def pa_def)
  have "user_exists run_db ''u2''" by (simp add: run_db_def user_exists_def plain_user_def)
  moreover have "\<not> granted run_db ''pa'' ''u2''" by (simp add: granted_def run_db_def)
  ultimately obtain db' where ins: "insert_grant (ev_now sample_env) ''pa'' ''u2'' run_db = (1, db')"
    by (simp add: insert_grant_def)
  show ?thesis
    unfolding grant_run_def create_provider_grant_def manager_def session_run [OF run_sessions(4)]
      sbind_run [of "require_provider_manager (session_user ''root'' ''root'') ''pa''" run_app, OF root_manages]
    by (simp add: t row Let_def on_db_def ins sbind_def write_admin_audit_def)
qed

lemma grant_takes_effect_example:
  "\<exists>v. grant_run = (Inr v, snd grant_run) \<and> may_use (ap_balancer (snd grant_run)) ''u2'' False pa"
proof -
  have t: "trim ''u2'' = ''u2''" by code_simp
  obtain v where v: "grant_run = (Inr v, snd grant_run)" using grant_run_ok by blast
  have "create_provider_grant sample_env ''ip'' (as_user ''root'') ''pa'' ''u2'' run_app = (Inr v, snd grant_run)"
    using v by (simp add: grant_run_def)
  from grant_takes_effect [OF this] have "may_use (ap_balancer (snd grant_run)) ''u2'' False pa"
    by (simp add: t pa_def)
  with v show ?thesis by (intro exI [of _ v] conjI)
qed

definition revoke_run :: "(app_error, json) result \<times> app" where
  "revoke_run = delete_provider_grant sample_env ''ip'' (as_user ''root'') ''pa'' ''u1'' run_app"

lemma revoke_run_ok:
  "revoke_run = (Inr ok_json, snd revoke_run)"
  "b_providers (ap_balancer (snd revoke_run)) = provider_order (db_providers run_db)"
  "b_provider_grants (ap_balancer (snd revoke_run)) = [(''pb'', [''u1''])]"
  "db_providers (ap_db (snd revoke_run)) = db_providers run_db"
  unfolding revoke_run_def delete_provider_grant_def manager_def session_run [OF run_sessions(4)]
      sbind_run [of "require_provider_manager (session_user ''root'' ''root'') ''pa''" run_app, OF root_manages]
  by (simp_all add: Let_def sbind_def write_admin_audit_def run_db_def rows_affected_def
      reload_providers_def add_grant_def dm_insert_def)


theorem consumer_lifecycle_witness:
  "\<exists>v s1. create_consumer sample_env (as_user ''u2'') ''mine'' True run_app = (Inr v, s1) \<and>
     authenticates_as sample_env s1 (as_user ''sk-rnd-0'') ''u2'' ''uuid-0'' True"
proof -
  have n: "consumer_name ''mine'' = Inr ''mine''" by code_simp
  have z: "show_nat 0 = ''0''" by code_simp
  have sec: "''sk-'' @ ev_b64 sample_env (ev_random sample_env 0) = ''sk-rnd-0''" "ev_uuid sample_env 0 = ''uuid-0''"
    by (simp_all add: sample_env_def z)
  obtain v s1 where c: "create_consumer sample_env (as_user ''u2'') ''mine'' True run_app = (Inr v, s1)"
    and v: "jget v ''secret'' = Some (JStr ''sk-rnd-0'')"
    by (simp add: create_consumer_def session_run [OF run_sessions(2)] n Let_def insert_consumer_def
        run_db_def sample_consumer_def consumer_secret_hash_def ev_sha_def sample_env_def z
        user_exists_def plain_user_def session_user_def)
  have d: "distinct (map k_secret_hash (db_consumers (ap_db run_app)))" by (simp add: run_db_def)
  have "authenticates_as sample_env s1 (as_user ''sk-rnd-0'') (ui_id (session_user ''u2'' ''user''))
      (ev_uuid sample_env 0) True"
    using consumer_lifecycle [OF d c v bearer_as_user(5) run_sessions(2)] by blast
  with c show ?thesis by (auto simp: sec session_user_def)
qed

section \<open>The audit\<close>

definition no_filter :: audit_query where
  "no_filter = \<lparr>aq_limit = None, aq_offset = None, aq_user_id = None, aq_consumer = None,
     aq_provider = None, aq_model = None, aq_status = None\<rparr>"

theorem audit_scoped_witness:
  "\<exists>rows. fst (api_audit sample_env (as_user ''u1'') no_filter run_app) =
      Inr (JObj [(''rows'', JArr (map (audit_row_json run_db) rows)), (''total'', JInt 0)])"
proof -
  have "audit_matches no_filter (session_user ''u1'' ''user'') run_db = []"
    by (simp add: audit_matches_def audit_join_def run_db_def fresh_db_def empty_db_def)
  with audit_scoped [OF run_sessions(1), where q = no_filter] show ?thesis by auto
qed

end
