(* ===== verification/Audit_Writer.thy ===== *)
theory Audit_Writer
  imports Config
begin

text \<open>
  The audit writer of \<open>src/audit.rs\<close>: a bounded queue with reservations, a budget of bytes for
  archived bodies, batches written in one transaction and retried until they are, the clean-up
  of old archives. An \<open>AuditEvent\<close> is the row of \<open>api_calls\<close> it becomes (\<open>au_call\<close>) and the parts
  of the archive. A permit of the budget travels with its event and returns when the event's
  batch is dropped.
\<close>

section \<open>Data\<close>

definition QUEUE_CAPACITY :: nat where "QUEUE_CAPACITY = 4096"
definition BATCH_CAPACITY :: nat where "BATCH_CAPACITY = 128"
definition QUEUE_BYTE_CAPACITY :: nat where "QUEUE_BYTE_CAPACITY = 64 * 1024 * 1024"
definition ARCHIVE_BODY_LIMIT :: nat where "ARCHIVE_BODY_LIMIT = 1024 * 1024"

definition ARCHIVE_RESERVATION_BYTES :: nat where
  "ARCHIVE_RESERVATION_BYTES = ARCHIVE_BODY_LIMIT * 2 + 16 * 1024"

lemmas audit_capacities = QUEUE_CAPACITY_def BATCH_CAPACITY_def QUEUE_BYTE_CAPACITY_def
  ARCHIVE_BODY_LIMIT_def ARCHIVE_RESERVATION_BYTES_def

record audit_event =
  au_call :: api_call
  au_request_archive :: bool
  au_request_headers_json :: string
  au_request_body :: string
  au_request_body_truncated :: bool
  au_upstream_request_headers_json :: "string option"
  au_response_headers_json :: "string option"
  au_response_body :: "string option"
  au_response_body_truncated :: bool

datatype queued_audit =
    Event audit_event bool
  | ResponseTransport string i64 "string option" "string option"

text \<open>The writer's shared part: the channel with its reserved places, the free budget, and the
  two counters of what was dropped.\<close>

record audit_writer =
  aw_queue :: "queued_audit list"
  aw_reserved :: nat
  aw_budget :: nat
  aw_dropped :: nat
  aw_dropped_archives :: nat

definition audit_writer_new :: audit_writer where
  "audit_writer_new =
     \<lparr>aw_queue = [], aw_reserved = 0, aw_budget = QUEUE_BYTE_CAPACITY, aw_dropped = 0,
      aw_dropped_archives = 0\<rparr>"

section \<open>Producers\<close>

definition has_room :: "audit_writer \<Rightarrow> bool" where
  "has_room w \<longleftrightarrow> length (aw_queue w) + aw_reserved w < QUEUE_CAPACITY"

definition dropped :: "audit_writer \<Rightarrow> audit_writer" where
  "dropped w = w\<lparr>aw_dropped := aw_dropped w + 1\<rparr>"

definition dropped_archive :: "audit_writer \<Rightarrow> audit_writer" where
  "dropped_archive w = w\<lparr>aw_dropped_archives := aw_dropped_archives w + 1\<rparr>"

definition try_reserve :: "audit_writer \<Rightarrow> bool \<times> audit_writer" where
  "try_reserve w =
     (if has_room w then (True, w\<lparr>aw_reserved := aw_reserved w + 1\<rparr>) else (False, dropped w))"

definition try_reserve_archive :: "audit_writer \<Rightarrow> bool \<times> audit_writer" where
  "try_reserve_archive w =
     (if ARCHIVE_RESERVATION_BYTES \<le> aw_budget w
      then (True, w\<lparr>aw_budget := aw_budget w - ARCHIVE_RESERVATION_BYTES\<rparr>)
      else (False, dropped_archive w))"

text \<open>\<open>AuditReservation::send\<close> fills the reserved place, so it cannot fail.\<close>

definition send :: "audit_event \<Rightarrow> bool \<Rightarrow> audit_writer \<Rightarrow> audit_writer" where
  "send e archive_budget w =
     w\<lparr>aw_reserved := aw_reserved w - 1, aw_queue := aw_queue w @ [Event e archive_budget]\<rparr>"

definition record_response_transport ::
  "string \<Rightarrow> i64 \<Rightarrow> string option \<Rightarrow> string option \<Rightarrow> audit_writer \<Rightarrow> audit_writer" where
  "record_response_transport cid bytes encoding headers w =
     (if has_room w then w\<lparr>aw_queue := aw_queue w @ [ResponseTransport cid bytes encoding headers]\<rparr>
      else dropped w)"

section \<open>The database\<close>

text \<open>One event: the insert fails on a missing consumer or user (foreign keys) and on an
  identifier that is taken (primary keys); a provider that is gone becomes \<open>NULL\<close>.\<close>

definition insert_event :: "audit_event \<Rightarrow> database \<Rightarrow> database option" where
  "insert_event e db =
     (let c = au_call e
      in if c_id c \<in> c_id ` set (db_api_calls db) \<or> \<not> consumer_exists db (c_consumer_id c) \<or>
            \<not> user_exists db (c_user_id c) \<or>
            (au_request_archive e \<and> c_id c \<in> ra_api_call_id ` set (db_archives db))
         then None
         else Some (db\<lparr>db_api_calls := db_api_calls db @
                [c\<lparr>c_provider_id := opt_filter (provider_exists db) (c_provider_id c)\<rparr>],
              db_archives := db_archives db @
                (if au_request_archive e
                 then [\<lparr>ra_api_call_id = c_id c, ra_request_headers_json = au_request_headers_json e,
                        ra_upstream_request_headers_json = au_upstream_request_headers_json e,
                        ra_request_body = au_request_body e,
                        ra_request_body_truncated = au_request_body_truncated e,
                        ra_response_headers_json = au_response_headers_json e,
                        ra_downstream_response_headers_json = None,
                        ra_response_body = au_response_body e,
                        ra_response_body_truncated = au_response_body_truncated e,
                        ra_created_at = c_created_at c\<rparr>]
                 else [])\<rparr>))"

definition update_transport ::
  "string \<Rightarrow> i64 \<Rightarrow> string option \<Rightarrow> string option \<Rightarrow> database \<Rightarrow> database" where
  "update_transport cid bytes encoding headers db =
     (let db1 = db\<lparr>db_api_calls := update_where (\<lambda>c. c_id c = cid)
           (\<lambda>c. c\<lparr>c_response_transport_bytes := bytes, c_downstream_content_encoding := encoding\<rparr>)
           (db_api_calls db)\<rparr>
      in case headers of
           None \<Rightarrow> db1
         | Some h \<Rightarrow> db1\<lparr>db_archives := update_where (\<lambda>a. ra_api_call_id a = cid)
               (\<lambda>a. a\<lparr>ra_downstream_response_headers_json := Some h\<rparr>) (db_archives db1)\<rparr>)"

fun persist_one :: "queued_audit \<Rightarrow> database \<Rightarrow> database option" where
  "persist_one (Event e _) db = insert_event e db"
| "persist_one (ResponseTransport cid bytes encoding headers) db =
     Some (update_transport cid bytes encoding headers db)"

fun persist_all :: "queued_audit list \<Rightarrow> database \<Rightarrow> database option" where
  "persist_all [] db = Some db"
| "persist_all (q # qs) db = Option.bind (persist_one q db) (persist_all qs)"

fun touched_keys :: "queued_audit list \<Rightarrow> string list" where
  "touched_keys [] = []"
| "touched_keys (Event e _ # qs) = List.insert (c_consumer_id (au_call e)) (touched_keys qs)"
| "touched_keys (ResponseTransport _ _ _ _ # qs) = touched_keys qs"

text \<open>\<open>persist\<close>: one transaction, \<open>None\<close> when a statement fails and nothing is written.\<close>

definition persist :: "i64 \<Rightarrow> queued_audit list \<Rightarrow> database \<Rightarrow> database option" where
  "persist used_at batch db =
     Option.bind (persist_all batch db) (\<lambda>db1.
     Some (db1\<lparr>db_consumers := update_where (\<lambda>k. k_id k \<in> set (touched_keys batch))
                 (\<lambda>k. k\<lparr>k_last_used_at := Some used_at\<rparr>) (db_consumers db1)\<rparr>))"

definition delete_expired :: "i64 \<Rightarrow> i64 \<Rightarrow> database \<Rightarrow> nat \<times> database" where
  "delete_expired retention_days now db =
     (let cutoff = now - retention_days * 24 * 60 * 60
      in (rows_affected (\<lambda>a. ra_created_at a < cutoff) (db_archives db),
          db\<lparr>db_archives := filter (\<lambda>a. \<not> ra_created_at a < cutoff) (db_archives db)\<rparr>))"

section \<open>The writer task\<close>

text \<open>The delays between attempts, in milliseconds.\<close>

definition RETRY_INITIAL_DELAY :: nat where "RETRY_INITIAL_DELAY = 100"
definition RETRY_MAX_DELAY :: nat where "RETRY_MAX_DELAY = 5000"

definition next_delay :: "nat \<Rightarrow> nat" where
  "next_delay d = min (d * 2) RETRY_MAX_DELAY"

fun delay_after :: "nat \<Rightarrow> nat" where
  "delay_after 0 = RETRY_INITIAL_DELAY"
| "delay_after (Suc n) = next_delay (delay_after n)"

lemma delay_after_eq: "delay_after n = min (100 * 2 ^ n) 5000"
proof (induction n)
  case 0
  show ?case by (simp add: RETRY_INITIAL_DELAY_def)
next
  case (Suc n)
  then show ?case by (simp add: next_delay_def RETRY_MAX_DELAY_def min_def)
qed

fun permits :: "queued_audit list \<Rightarrow> nat" where
  "permits [] = 0"
| "permits (Event _ b # qs) = of_bool b + permits qs"
| "permits (ResponseTransport _ _ _ _ # qs) = permits qs"

lemma permits_append [simp]: "permits (xs @ ys) = permits xs + permits ys"
  by (induction xs rule: permits.induct) simp_all

text \<open>The whole pipeline: the shared part, the permits requests in progress hold, the batch the
  task is writing, the database, and, as history, everything that was ever accepted into the
  queue and everything that was written.\<close>

record audit_machine =
  am_writer :: audit_writer
  am_held :: nat
  am_batch :: "queued_audit list"
  am_db :: database
  am_accepted :: "queued_audit list"
  am_written :: "queued_audit list"

definition machine_start :: "database \<Rightarrow> audit_machine" where
  "machine_start db = \<lparr>am_writer = audit_writer_new, am_held = 0, am_batch = [], am_db = db,
     am_accepted = [], am_written = []\<rparr>"

text \<open>One step of a request or of the task. A request may give up its place or its permit; the
  task takes one message at a time into a batch that is not full and writes the batch at any
  moment, which covers the source's choice of the moment; a failed attempt changes nothing;
  other components may change the database.\<close>

inductive audit_step :: "audit_machine \<Rightarrow> audit_machine \<Rightarrow> bool" where
  reserve: "audit_step m (m\<lparr>am_writer := snd (try_reserve (am_writer m))\<rparr>)"
| abandon: "0 < aw_reserved (am_writer m) \<Longrightarrow>
    audit_step m (m\<lparr>am_writer := (am_writer m)\<lparr>aw_reserved := aw_reserved (am_writer m) - 1\<rparr>\<rparr>)"
| archive: "try_reserve_archive (am_writer m) = (ok, w) \<Longrightarrow>
    audit_step m (m\<lparr>am_writer := w, am_held := am_held m + of_bool ok\<rparr>)"
| release: "0 < am_held m \<Longrightarrow>
    audit_step m (m\<lparr>am_held := am_held m - 1,
      am_writer := (am_writer m)\<lparr>aw_budget := aw_budget (am_writer m) + ARCHIVE_RESERVATION_BYTES\<rparr>\<rparr>)"
| sent: "0 < aw_reserved (am_writer m) \<Longrightarrow> of_bool b \<le> am_held m \<Longrightarrow>
    audit_step m (m\<lparr>am_writer := send e b (am_writer m), am_held := am_held m - of_bool b,
      am_accepted := am_accepted m @ [Event e b]\<rparr>)"
| transport: "audit_step m (m\<lparr>am_writer := record_response_transport cid n enc h (am_writer m),
      am_accepted := (if has_room (am_writer m)
        then am_accepted m @ [ResponseTransport cid n enc h] else am_accepted m)\<rparr>)"
| take: "aw_queue (am_writer m) = q # qs \<Longrightarrow> length (am_batch m) < BATCH_CAPACITY \<Longrightarrow>
    audit_step m (m\<lparr>am_writer := (am_writer m)\<lparr>aw_queue := qs\<rparr>, am_batch := am_batch m @ [q]\<rparr>)"
| written: "am_batch m \<noteq> [] \<Longrightarrow> persist now (am_batch m) (am_db m) = Some db \<Longrightarrow>
    audit_step m (m\<lparr>am_db := db, am_batch := [], am_written := am_written m @ am_batch m,
      am_writer := (am_writer m)\<lparr>aw_budget :=
        aw_budget (am_writer m) + ARCHIVE_RESERVATION_BYTES * permits (am_batch m)\<rparr>\<rparr>)"
| failed: "am_batch m \<noteq> [] \<Longrightarrow> audit_step m m"
| elsewhere: "audit_step m (m\<lparr>am_db := db\<rparr>)"

inductive_cases audit_stepE: "audit_step m m'"

end
