(* ===== verification/Tracker.thy ===== *)
theory Tracker
  imports Audit_Writer App Usage_Cost Chunks
begin

text \<open>
  The audit of one call (\<open>src/proxy.rs\<close>): the tracker that holds the reserved place of the queue,
  the permit of the archive budget and the event while the call is handled; the preview of a
  body; the completion that takes all of it over when the answer is streamed. Both send their
  event when they finish and, through \<open>Drop\<close>, when they are abandoned. \<open>Instant::elapsed\<close> is a
  number of milliseconds, the parameter \<open>elapsed\<close>.
\<close>

section \<open>Previews\<close>

record preview =
  pv_body :: string
  pv_truncated :: bool
  pv_bytes :: i64

definition preview_default :: preview where
  "preview_default = \<lparr>pv_body = [], pv_truncated = False, pv_bytes = 0\<rparr>"

text \<open>\<open>StreamingPreview::capture\<close> with the limit \<open>ARCHIVE_BODY_LIMIT\<close>, the loop body of
  \<open>AudioSpool::create\<close> with its \<open>preview_limit\<close>.\<close>

definition preview_capture :: "nat \<Rightarrow> string \<Rightarrow> preview \<Rightarrow> preview" where
  "preview_capture limit bytes p =
     (let remaining = limit - length (pv_body p);
          copied = min remaining (length bytes)
      in \<lparr>pv_body = pv_body p @ take copied bytes,
          pv_truncated = (pv_truncated p \<or> copied < length bytes),
          pv_bytes = pv_bytes p + int (length bytes)\<rparr>)"

definition body_preview :: "string \<Rightarrow> string \<times> bool" where
  "body_preview bd =
     (let n = min (length bd) ARCHIVE_BODY_LIMIT in (take n bd, n < length bd))"

section \<open>The tracker\<close>

datatype http_version = HTTP_09 | HTTP_10 | HTTP_11 | HTTP_2 | HTTP_3 | OtherVersion

fun version_text :: "http_version \<Rightarrow> string" where
  "version_text HTTP_09 = ''HTTP/0.9''"
| "version_text HTTP_10 = ''HTTP/1.0''"
| "version_text HTTP_11 = ''HTTP/1.1''"
| "version_text HTTP_2 = ''HTTP/2''"
| "version_text HTTP_3 = ''HTTP/3''"
| "version_text OtherVersion = ''unknown''"

record tracker =
  at_permit :: bool
  at_budget :: bool
  at_event :: "audit_event option"

definition no_tracker :: tracker where
  "no_tracker = \<lparr>at_permit = False, at_budget = False, at_event = None\<rparr>"

definition new_event ::
  "env \<Rightarrow> api_identity_t \<Rightarrow> string \<Rightarrow> string option \<Rightarrow> string \<Rightarrow> string \<Rightarrow> string \<Rightarrow> bool \<Rightarrow> audit_event" where
  "new_event ev identity audit_id thread mth path client_ip archive =
     \<lparr>au_call = \<lparr>c_id = ev_uuid ev 1, c_request_id = audit_id, c_thread_id = thread,
        c_consumer_id = ai_consumer_id identity, c_user_id = ai_user_id identity,
        c_provider_id = None, c_affinity_hash = None, c_affinity_source = None, c_method = mth,
        c_path = path, c_model = None, c_reasoning_effort = None, c_status = 0,
        c_first_byte_latency_ms = None, c_request_bytes = 0, c_response_bytes = 0,
        c_request_transport_bytes = 0, c_response_transport_bytes = 0,
        c_downstream_accept_encoding = None, c_downstream_content_encoding = None,
        c_upstream_accept_encoding = None, c_upstream_content_encoding = None, c_latency_ms = 0,
        c_input_tokens = 0, c_output_tokens = 0, c_cached_tokens = 0, c_cost_usd_nanos = None,
        c_error = None, c_client_ip = client_ip, c_created_at = ev_now ev,
        c_upstream_http_version = None\<rparr>,
      au_request_archive = archive, au_request_headers_json = ''[]'', au_request_body = [],
      au_request_body_truncated = False, au_upstream_request_headers_json = None,
      au_response_headers_json = None, au_response_body = None, au_response_body_truncated = False\<rparr>"

text \<open>\<open>AuditTracker::begin\<close>: no place, no event; no budget, no archive.\<close>

definition begin_audit ::
  "env \<Rightarrow> api_identity_t \<Rightarrow> string \<Rightarrow> string option \<Rightarrow> string \<Rightarrow> string \<Rightarrow> string \<Rightarrow> audit_writer \<Rightarrow>
     tracker \<times> audit_writer" where
  "begin_audit ev identity audit_id thread mth path client_ip w =
     (let (permit, w1) = try_reserve w;
          (archive, w2) = (if permit \<and> ai_request_archive identity
                           then try_reserve_archive w1 else (False, w1))
      in (\<lparr>at_permit = permit, at_budget = archive,
           at_event = (if permit
             then Some (new_event ev identity audit_id thread mth path client_ip archive)
             else None)\<rparr>, w2))"

definition on_event :: "(audit_event \<Rightarrow> audit_event) \<Rightarrow> tracker \<Rightarrow> tracker" where
  "on_event f t = t\<lparr>at_event := map_option f (at_event t)\<rparr>"

definition on_call :: "(api_call \<Rightarrow> api_call) \<Rightarrow> tracker \<Rightarrow> tracker" where
  "on_call f = on_event (\<lambda>e. e\<lparr>au_call := f (au_call e)\<rparr>)"

definition on_archive :: "(audit_event \<Rightarrow> audit_event) \<Rightarrow> tracker \<Rightarrow> tracker" where
  "on_archive f = on_event (\<lambda>e. if au_request_archive e then f e else e)"

definition archived :: "env \<Rightarrow> header_map \<Rightarrow> string" where
  "archived ev headers = archive_headers (\<lambda>ps. ev_render ev
     (JArr (map (\<lambda>(n, v). JArr [JStr n, JStr v]) ps))) headers"

definition set_provider :: "string \<Rightarrow> tracker \<Rightarrow> tracker" where
  "set_provider pid = on_call (\<lambda>c. c\<lparr>c_provider_id := Some pid\<rparr>)"

definition set_affinity :: "env \<Rightarrow> string option \<Rightarrow> string option \<Rightarrow> tracker \<Rightarrow> tracker" where
  "set_affinity ev key src = on_call (\<lambda>c. c\<lparr>c_affinity_hash := map_option (affinity_hash (ev_sha ev)) key,
     c_affinity_source := src\<rparr>)"

definition set_reasoning_effort :: "string option \<Rightarrow> tracker \<Rightarrow> tracker" where
  "set_reasoning_effort effort = on_call (\<lambda>c. c\<lparr>c_reasoning_effort := effort\<rparr>)"

definition set_request :: "env \<Rightarrow> header_map \<Rightarrow> string \<Rightarrow> bool \<Rightarrow> tracker \<Rightarrow> tracker" where
  "set_request ev headers bd truncated = on_archive (\<lambda>e.
     let (b, limit_truncated) = body_preview bd
     in e\<lparr>au_request_headers_json := archived ev headers, au_request_body := b,
          au_request_body_truncated := truncated \<or> limit_truncated\<rparr>)"

definition set_compression_headers :: "header_map \<Rightarrow> header_map option \<Rightarrow> tracker \<Rightarrow> tracker" where
  "set_compression_headers downstream upstream_headers = on_call (\<lambda>c.
     let c1 = (if downstream \<noteq> []
               then c\<lparr>c_downstream_accept_encoding := header_value downstream ''accept-encoding''\<rparr>
               else c)
     in case upstream_headers of
          Some h \<Rightarrow> c1\<lparr>c_upstream_content_encoding := header_value h ''content-encoding''\<rparr>
        | None \<Rightarrow> c1)"

definition set_upstream_accept_encoding :: "header_map \<Rightarrow> tracker \<Rightarrow> tracker" where
  "set_upstream_accept_encoding headers = on_call (\<lambda>c. c\<lparr>c_upstream_accept_encoding :=
     opt_or (header_value headers ''accept-encoding'') (Some ''auto (gzip, br, zstd, deflate)'')\<rparr>)"

definition set_response_headers :: "env \<Rightarrow> header_map \<Rightarrow> tracker \<Rightarrow> tracker" where
  "set_response_headers ev headers =
     on_archive (\<lambda>e. e\<lparr>au_response_headers_json := Some (archived ev headers)\<rparr>)"

definition set_upstream_http_version :: "http_version \<Rightarrow> tracker \<Rightarrow> tracker" where
  "set_upstream_http_version v = on_call (\<lambda>c. c\<lparr>c_upstream_http_version := Some (version_text v)\<rparr>)"

definition set_upstream_request_headers :: "env \<Rightarrow> header_map \<Rightarrow> tracker \<Rightarrow> tracker" where
  "set_upstream_request_headers ev headers =
     on_archive (\<lambda>e. e\<lparr>au_upstream_request_headers_json := Some (archived ev headers)\<rparr>)"

definition mark_first_byte :: "i64 \<Rightarrow> tracker \<Rightarrow> tracker" where
  "mark_first_byte elapsed = on_call (\<lambda>c. c\<lparr>c_first_byte_latency_ms :=
     opt_or (c_first_byte_latency_ms c) (Some (max elapsed 1))\<rparr>)"

definition set_request_size :: "i64 \<Rightarrow> tracker \<Rightarrow> tracker" where
  "set_request_size n = on_call (\<lambda>c. c\<lparr>c_request_bytes := n, c_request_transport_bytes := n\<rparr>)"

definition set_response_size :: "i64 \<Rightarrow> tracker \<Rightarrow> tracker" where
  "set_response_size n = on_call (\<lambda>c. c\<lparr>c_response_bytes := n, c_response_transport_bytes := n\<rparr>)"

definition set_response_body :: "string \<Rightarrow> bool \<Rightarrow> tracker \<Rightarrow> tracker" where
  "set_response_body bd truncated = on_archive (\<lambda>e.
     let (b, limit_truncated) = body_preview bd
     in e\<lparr>au_response_body := Some b, au_response_body_truncated := truncated \<or> limit_truncated\<rparr>)"

definition set_error_response :: "env \<Rightarrow> app_error \<Rightarrow> tracker \<Rightarrow> tracker" where
  "set_error_response ev e t =
     (let bd = ev_render ev (error_json e)
      in set_response_body bd False
           (set_response_headers ev [(''content-type'', ''application/json'')]
             (set_response_size (int (length bd)) t)))"

section \<open>Settling\<close>

text \<open>How a call stops without an answer: an error the router renders, the client leaving (its
  future is dropped), or a panic.\<close>

datatype stop = Failed app_error | ClientGone | Panicked

definition settle ::
  "i64 \<Rightarrow> i64 \<Rightarrow> string option \<Rightarrow> usage \<Rightarrow> string option \<Rightarrow> audit_event \<Rightarrow> audit_event may_panic" where
  "settle elapsed status model u err e =
     Option.bind (case model of None \<Rightarrow> Some None | Some m \<Rightarrow> cost_usd_nanos m u) (\<lambda>cost.
     Some (e\<lparr>au_call := (au_call e)\<lparr>c_status := status, c_model := model,
        c_latency_ms := max elapsed 1, c_input_tokens := us_input_tokens u,
        c_output_tokens := us_output_tokens u, c_cached_tokens := us_cached_tokens u,
        c_cost_usd_nanos := cost, c_error := err\<rparr>\<rparr>))"

text \<open>Dropping the reserved place and the permit without sending.\<close>

definition give_back :: "bool \<Rightarrow> bool \<Rightarrow> audit_writer \<Rightarrow> audit_writer" where
  "give_back permit budget w =
     w\<lparr>aw_reserved := aw_reserved w - of_bool permit,
       aw_budget := aw_budget w + ARCHIVE_RESERVATION_BYTES * of_bool budget\<rparr>"

text \<open>\<open>AuditTracker::finish\<close>. A panic in \<open>settle\<close> has taken the event already.\<close>

definition finish_audit ::
  "i64 \<Rightarrow> nat \<Rightarrow> string option \<Rightarrow> usage \<Rightarrow> string option \<Rightarrow> tracker \<times> audit_writer \<Rightarrow>
     (stop, transport_id option) result \<times> tracker \<times> audit_writer" where
  "finish_audit elapsed status model u err tw =
     (let (t, w) = tw
      in case at_event t of
           None \<Rightarrow> (Inr None, t, w)
         | Some e \<Rightarrow>
             (case settle elapsed (int status) model u err e of
                None \<Rightarrow> (Inl Panicked, t\<lparr>at_event := None\<rparr>, w)
              | Some e' \<Rightarrow>
                  if at_permit t
                  then (Inr (Some \<lparr>ti_id = c_id (au_call e'), ti_diagnostics_enabled = au_request_archive e'\<rparr>),
                        no_tracker, send e' (at_budget t) w)
                  else (Inl Panicked, t\<lparr>at_event := None\<rparr>, w)))"

text \<open>\<open>Drop for AuditTracker\<close>; without a model there is no cost and no panic.\<close>

definition drop_audit :: "i64 \<Rightarrow> tracker \<times> audit_writer \<Rightarrow> audit_writer" where
  "drop_audit elapsed tw =
     (let (t, w) = tw
      in case Option.bind (at_event t) (\<lambda>e. settle elapsed 499 None usage_default
                (Some ''client_cancelled'') (e\<lparr>au_response_body_truncated := True\<rparr>)) of
           None \<Rightarrow> give_back (at_permit t) (at_budget t) w
         | Some e \<Rightarrow> if at_permit t then send e (at_budget t) w
                     else give_back (at_permit t) (at_budget t) w)"

section \<open>The completion of a stream\<close>

record stream_completion =
  sc_permit :: bool
  sc_budget :: bool
  sc_event :: "audit_event option"
  sc_usage :: usage
  sc_preview :: preview
  sc_response_bytes :: i64

definition stream_completion_new :: "tracker \<Rightarrow> stream_completion" where
  "stream_completion_new t =
     \<lparr>sc_permit = at_permit t, sc_budget = at_budget t, sc_event = at_event t,
      sc_usage = usage_default, sc_preview = preview_default, sc_response_bytes = 0\<rparr>"

definition take_stream :: "nat \<Rightarrow> string option \<Rightarrow> tracker \<Rightarrow> stream_completion \<times> tracker" where
  "take_stream status model t =
     (stream_completion_new (on_call (\<lambda>c. c\<lparr>c_status := int status, c_model := model\<rparr>) t), no_tracker)"

definition capture_sse ::
  "(string \<Rightarrow> json option) \<Rightarrow> string \<Rightarrow> string \<times> stream_completion \<Rightarrow> string \<times> stream_completion" where
  "capture_sse parse bytes st =
     (let (pending, c) = st
      in case sc_event c of
           None \<Rightarrow> st
         | Some e \<Rightarrow>
             let (pending', u) = update_sse_usage parse (pending, sc_usage c) bytes
             in (pending', c\<lparr>sc_response_bytes := sc_response_bytes c + int (length bytes),
                   sc_usage := u,
                   sc_preview := (if au_request_archive e
                     then preview_capture ARCHIVE_BODY_LIMIT bytes (sc_preview c)
                     else sc_preview c)\<rparr>))"

text \<open>What \<open>finish\<close> and \<open>Drop\<close> have in common; a panic in \<open>settle\<close> unwinds, which drops the place
  and the permit.\<close>

definition complete_stream ::
  "i64 \<Rightarrow> (audit_event \<Rightarrow> i64) \<Rightarrow> bool \<Rightarrow> string option \<Rightarrow> stream_completion \<Rightarrow> audit_writer \<Rightarrow>
     (stop, unit) result \<times> audit_writer" where
  "complete_stream elapsed status truncated err c w =
     (case sc_event c of
        None \<Rightarrow> (Inr (), give_back (sc_permit c) (sc_budget c) w)
      | Some e \<Rightarrow>
          (case settle elapsed (status e) (c_model (au_call e)) (sc_usage c) err
                  (e\<lparr>au_response_body := Some (pv_body (sc_preview c)),
                     au_response_body_truncated := truncated,
                     au_call := (au_call e)\<lparr>c_response_bytes := sc_response_bytes c\<rparr>\<rparr>) of
             Some e' \<Rightarrow> if sc_permit c then (Inr (), send e' (sc_budget c) w)
                        else (Inl Panicked, give_back (sc_permit c) (sc_budget c) w)
           | None \<Rightarrow> (Inl Panicked, give_back (sc_permit c) (sc_budget c) w)))"

definition finish_stream ::
  "i64 \<Rightarrow> bool \<Rightarrow> stream_completion \<Rightarrow> audit_writer \<Rightarrow> (stop, unit) result \<times> audit_writer" where
  "finish_stream elapsed stream_failed c w =
     complete_stream elapsed (\<lambda>e. if stream_failed then 502 else c_status (au_call e))
       (pv_truncated (sc_preview c) \<or> stream_failed)
       (if stream_failed then Some ''upstream_stream_error'' else None) c w"

definition drop_stream :: "i64 \<Rightarrow> stream_completion \<Rightarrow> audit_writer \<Rightarrow> (stop, unit) result \<times> audit_writer" where
  "drop_stream elapsed c w =
     complete_stream elapsed (\<lambda>_. 499) True (Some ''client_cancelled'') c w"

section \<open>Previews do not depend on the cut\<close>

definition preview_ok :: "nat \<Rightarrow> preview \<Rightarrow> bool" where
  "preview_ok limit p \<longleftrightarrow>
     length (pv_body p) \<le> limit \<and> (pv_truncated p \<longrightarrow> length (pv_body p) = limit)"

lemma preview_capture_append:
  assumes "preview_ok limit p"
  shows "preview_capture limit ys (preview_capture limit xs p) = preview_capture limit (xs @ ys) p"
proof -
  obtain k where k: "limit = length (pv_body p) + k"
    using assms le_Suc_ex unfolding preview_ok_def by blast
  show ?thesis
  proof (cases "length xs \<le> k")
    case True
    then obtain j where "k = length xs + j" using le_Suc_ex by blast
    then show ?thesis by (cases "j \<le> length ys") (simp_all add: preview_capture_def Let_def k min_def)
  next
    case False
    then show ?thesis by (simp add: preview_capture_def Let_def k)
  qed
qed

interpretation preview: unbounded_reader "\<lambda>p bytes. preview_capture limit bytes p" "preview_ok limit"
  for limit
proof unfold_locales
  fix p :: preview and xs ys :: string
  assume ok: "preview_ok limit p"
  then show "preview_capture limit ys (preview_capture limit xs p) = preview_capture limit (xs @ ys) p"
    by (rule preview_capture_append)
  show "preview_ok limit (preview_capture limit xs p)"
    using ok by (auto simp: preview_ok_def preview_capture_def Let_def min_def)
  show "preview_capture limit [] p = p" by (simp add: preview_capture_def)
qed

lemma preview_start: "preview_ok limit preview_default"
  by (simp add: preview_ok_def preview_default_def)

lemma preview_all_fit [simp]: "preview.all_fit p chunks"
  by (simp add: preview.all_fit_def)

text \<open>Whatever the chunks, the preview is the start of the body.\<close>

lemma preview_spec:
  "fold (preview_capture limit) chunks preview_default =
     \<lparr>pv_body = take limit (concat chunks), pv_truncated = (limit < length (concat chunks)),
      pv_bytes = int (length (concat chunks))\<rparr>"
proof -
  have "fold (preview_capture limit) chunks preview_default =
      preview_capture limit (concat chunks) preview_default"
    by (rule preview.fold_feed_concat [OF preview_start]) simp
  moreover have "preview_capture limit bytes preview_default =
      \<lparr>pv_body = take limit bytes, pv_truncated = (limit < length bytes), pv_bytes = int (length bytes)\<rparr>"
    for bytes
    by (simp add: preview_capture_def preview_default_def Let_def min_def)
  ultimately show ?thesis by simp
qed

end
