(* ===== verification/Dispatch.thy ===== *)
theory Dispatch
  imports Tracker OAuth Image_Request
begin

text \<open>
  The life of a call (\<open>src/proxy.rs\<close>, \<open>src/audio_spool.rs\<close>): the choice of a provider, the call of
  the upstream, one more attempt elsewhere after a failure, the answer, complete or as a stream.
  A handler runs on the state \<open>call_state\<close>; everything the source leaves to \<open>Drop\<close> (leases, the
  tracker, the spooled upload) is released where its scope ends, on every way out of it. The
  upstream is the parameter \<open>nt_reply\<close>, its answer to the n-th request of the call; a client that
  leaves while the handler waits ends the call at that point.
\<close>

section \<open>The network\<close>

text \<open>A body arrives in chunks; the connection may break, the client may leave.\<close>

datatype chunk = Data string | Broken | Hangup

record http_reply =
  hr_status :: nat
  hr_version :: http_version
  hr_headers :: header_map
  hr_chunks :: "chunk list"

datatype net_reply = Refused | Abandoned | Answered http_reply

record net =
  nt_env :: env
  nt_valid_url :: "string \<Rightarrow> bool"
  nt_reply :: "nat \<Rightarrow> upstream_request \<Rightarrow> net_reply"
  nt_first_byte :: i64
  nt_elapsed :: i64
  nt_create_ok :: bool
  nt_write_ok :: "nat \<Rightarrow> bool"
  nt_open_ok :: "nat \<Rightarrow> bool"

record call_state =
  cs_app :: app
  cs_audit :: audit_writer
  cs_tracker :: tracker
  cs_requests :: "(string \<times> upstream_request) list"
  cs_files :: "string list"

type_synonym 'a call = "(call_state, stop, 'a) handler"

definition on_app :: "'a app_handler \<Rightarrow> 'a call" where
  "on_app m s = (let (r, a) = m (cs_app s) in (map_err Failed r, s\<lparr>cs_app := a\<rparr>))"

definition fallible :: "(app_error, 'a) result \<Rightarrow> 'a call" where
  "fallible r = slift (map_err Failed r)"

definition on_tracker :: "(tracker \<Rightarrow> tracker) \<Rightarrow> unit call" where
  "on_tracker f = smodify (\<lambda>s. s\<lparr>cs_tracker := f (cs_tracker s)\<rparr>)"

definition on_balancer :: "(balancer \<Rightarrow> balancer) \<Rightarrow> call_state \<Rightarrow> call_state" where
  "on_balancer f s = s\<lparr>cs_app := (cs_app s)\<lparr>ap_balancer := f (ap_balancer (cs_app s))\<rparr>\<rparr>"

section \<open>Leases\<close>

definition pick ::
  "net \<Rightarrow> string \<Rightarrow> bool \<Rightarrow> string option \<Rightarrow> string option \<Rightarrow> lease call" where
  "pick n user all_providers affinity excluded s =
     (let a = cs_app s;
          (r, b) = select (ev_sha (nt_env n)) (cf_affinity_ttl_seconds (ap_config a)) (ev_now (nt_env n))
                     user all_providers affinity excluded (ap_balancer a)
      in (map_err Failed r, s\<lparr>cs_app := a\<lparr>ap_balancer := b\<rparr>\<rparr>))"

definition release :: "lease \<Rightarrow> call_state \<Rightarrow> call_state" where
  "release l = on_balancer (drop_lease l)"

definition lease_id :: "lease \<Rightarrow> string" where
  "lease_id l = p_id (l_provider l)"

definition select_ready_provider :: "net \<Rightarrow> string \<Rightarrow> bool \<Rightarrow> string option \<Rightarrow> lease call" where
  "select_ready_provider n user all_providers affinity =
     sbind (pick n user all_providers affinity None) (\<lambda>first.
     handling (on_app (refresh_if_needed (nt_env n) first)) sreturn (\<lambda>_.
       sbind (smodify (release first)) (\<lambda>_.
       sbind (pick n user all_providers affinity (Some (lease_id first))) (\<lambda>second.
       scoped (release second) (on_app (refresh_if_needed (nt_env n) second))))))"

definition retry_provider ::
  "net \<Rightarrow> string \<Rightarrow> bool \<Rightarrow> string option \<Rightarrow> string \<Rightarrow> lease option call" where
  "retry_provider n user all_providers affinity first_id =
     handling (pick n user all_providers affinity (Some first_id))
       (\<lambda>second. handling (on_app (refresh_if_needed (nt_env n) second))
          (\<lambda>l. sreturn (Some l))
          (\<lambda>_. sbind (smodify (release second)) (\<lambda>_. sreturn None)))
       (\<lambda>_. sreturn None)"

section \<open>Upstream calls\<close>

record buffered_upstream =
  bu_status :: nat
  bu_version :: http_version
  bu_headers :: header_map
  bu_body :: string

datatype upstream_response = Live http_reply | Buffered buffered_upstream

fun up_status :: "upstream_response \<Rightarrow> nat" where
  "up_status (Live r) = hr_status r"
| "up_status (Buffered r) = bu_status r"

fun up_version :: "upstream_response \<Rightarrow> http_version" where
  "up_version (Live r) = hr_version r"
| "up_version (Buffered r) = bu_version r"

fun up_headers :: "upstream_response \<Rightarrow> header_map" where
  "up_headers (Live r) = hr_headers r"
| "up_headers (Buffered r) = bu_headers r"

text \<open>\<open>Response::bytes\<close>: the whole body, or how waiting for it ends.\<close>

fun read_body :: "chunk list \<Rightarrow> (stop, string) result" where
  "read_body [] = Inr []"
| "read_body (Data b # cs) = rbind (read_body cs) (\<lambda>rest. Inr (b @ rest))"
| "read_body (Broken # _) = Inl (Failed internal_error)"
| "read_body (Hangup # _) = Inl ClientGone"

fun into_bytes :: "upstream_response \<Rightarrow> (stop, string) result" where
  "into_bytes (Live r) = read_body (hr_chunks r)"
| "into_bytes (Buffered r) = Inr (bu_body r)"

definition execute :: "net \<Rightarrow> lease \<Rightarrow> upstream_request \<Rightarrow> http_reply call" where
  "execute n l rq s =
     (let s' = s\<lparr>cs_requests := cs_requests s @ [(lease_id l, rq)]\<rparr>
      in case nt_reply n (length (cs_requests s)) rq of
           Refused \<Rightarrow> (Inl (Failed internal_error), s')
         | Abandoned \<Rightarrow> (Inl ClientGone, s')
         | Answered r \<Rightarrow> (Inr r, s'))"

definition send_upstream :: "net \<Rightarrow> lease \<Rightarrow> string \<Rightarrow> header_map \<Rightarrow> string \<Rightarrow> http_reply call" where
  "send_upstream n l path inbound bd =
     sbind (sgets (\<lambda>s. ap_config (cs_app s))) (\<lambda>cfg.
     sbind (if path = ''/v1/audio/transcriptions'' then sreturn ()
            else on_tracker (set_upstream_accept_encoding inbound)) (\<lambda>_.
     sbind (fallible (upstream_request_for (nt_valid_url n) (ev_header_ok (nt_env n)) cfg l path inbound bd))
       (\<lambda>rq.
     sbind (on_tracker (set_upstream_request_headers (nt_env n) (rq_headers rq))) (\<lambda>_.
     execute n l rq))))"

definition send_transcription_upstream :: "net \<Rightarrow> lease \<Rightarrow> header_map \<Rightarrow> string \<Rightarrow> http_reply call" where
  "send_transcription_upstream n l inbound bd =
     sbind (sgets (\<lambda>s. ap_config (cs_app s))) (\<lambda>cfg.
     sbind (fallible (transcription_request (nt_valid_url n) (ev_header_ok (nt_env n)) cfg l inbound bd))
       (execute n l))"

definition send_console_image_upstream :: "net \<Rightarrow> lease \<Rightarrow> header_map \<Rightarrow> string \<Rightarrow> http_reply call" where
  "send_console_image_upstream n l inbound bd =
     sbind (sgets (\<lambda>s. ap_config (cs_app s))) (\<lambda>cfg.
     sbind (fallible (console_image_request (nt_valid_url n) (ev_header_ok (nt_env n)) cfg l inbound bd))
       (execute n l))"

definition retryable :: "nat \<Rightarrow> bool" where
  "retryable status \<longleftrightarrow> status \<in> {401, 403, 429} \<or> is_server_error status"

text \<open>\<open>track_response\<close> of the balancer, at this point of the call.\<close>

definition observe_reply :: "net \<Rightarrow> string \<Rightarrow> nat \<Rightarrow> string \<Rightarrow> unit call" where
  "observe_reply n pid status bd =
     smodify (\<lambda>s. on_balancer (track_response (ev_parse (nt_env n)) (ev_render (nt_env n))
       (ev_uuid (nt_env n) (3 + length (cs_requests s))) (ev_now (nt_env n)) pid status bd) s)"

definition track_upstream :: "net \<Rightarrow> string \<Rightarrow> upstream_response \<Rightarrow> upstream_response call" where
  "track_upstream n pid up =
     (if up_status up \<noteq> 429
      then sbind (observe_reply n pid (up_status up) []) (\<lambda>_. sreturn up)
      else
        sbind (slift (case up of
                 Live r \<Rightarrow> rbind (read_body (hr_chunks r)) (\<lambda>bd.
                   Inr \<lparr>bu_status = hr_status r, bu_version = hr_version r, bu_headers = hr_headers r,
                        bu_body = bd\<rparr>)
               | Buffered r \<Rightarrow> Inr r)) (\<lambda>buffered.
        sbind (observe_reply n pid (bu_status buffered) (bu_body buffered)) (\<lambda>_.
        sreturn (Buffered buffered))))"

text \<open>The part \<open>dispatch\<close>, \<open>dispatch_audio\<close> and the two console handlers share: a first attempt, and
  a second one with another provider when the first answer is worth it. The first lease is held
  until the second attempt starts.\<close>

definition attempt_twice ::
  "net \<Rightarrow> string \<Rightarrow> bool \<Rightarrow> string option \<Rightarrow> (lease \<Rightarrow> http_reply call) \<Rightarrow> (lease \<Rightarrow> http_reply call) \<Rightarrow>
     lease \<Rightarrow> (lease \<times> upstream_response) call" where
  "attempt_twice n user all_providers affinity send1 send2 first =
     sbind
       (scoped (release first)
         (sbind (send1 first) (\<lambda>r.
          sbind (track_upstream n (lease_id first) (Live r)) (\<lambda>up.
          if retryable (up_status up)
          then sbind (retry_provider n user all_providers affinity (lease_id first)) (\<lambda>second.
               sreturn (up, second))
          else sreturn (up, None)))))
       (\<lambda>(up, second). case second of
          None \<Rightarrow> sreturn (first, up)
        | Some l \<Rightarrow>
            sbind (smodify (release first)) (\<lambda>_.
            scoped (release l)
              (sbind (send2 l) (\<lambda>r.
               sbind (track_upstream n (lease_id l) (Live r)) (\<lambda>up2.
               sreturn (l, up2))))))"

section \<open>Answers\<close>

record call_context =
  cc_model :: "string option"
  cc_stream :: bool

text \<open>A streamed body: the generator of \<open>relay_response\<close>, which owns the lease and the completion.\<close>

record body_stream =
  bs_lease :: lease
  bs_completion :: stream_completion
  bs_chunks :: "chunk list"

datatype reply_body = Complete string | Streaming body_stream

definition finish :: "net \<Rightarrow> nat \<Rightarrow> string option \<Rightarrow> usage \<Rightarrow> string option \<Rightarrow> transport_id option call" where
  "finish n status model u err s =
     (let (r, t, w) = finish_audit (nt_elapsed n) status model u err (cs_tracker s, cs_audit s)
      in (r, s\<lparr>cs_tracker := t, cs_audit := w\<rparr>))"

definition drop_tracker :: "net \<Rightarrow> call_state \<Rightarrow> call_state" where
  "drop_tracker n s =
     s\<lparr>cs_tracker := no_tracker, cs_audit := drop_audit (nt_elapsed n) (cs_tracker s, cs_audit s)\<rparr>"

definition with_content_type :: "header_map \<Rightarrow> header_map" where
  "with_content_type headers =
     (if list_ex (\<lambda>(name, _). name = ''content-type'') headers then headers
      else headers @ [(''content-type'', ''text/event-stream'')])"

definition relay_complete ::
  "net \<Rightarrow> call_context \<Rightarrow> upstream_response \<Rightarrow> reply_body response call" where
  "relay_complete n context up =
     sbind (slift (into_bytes up)) (\<lambda>bytes.
     sbind (on_tracker (\<lambda>t. set_response_body bytes False (set_response_size (int (length bytes)) t))) (\<lambda>_.
     sbind (finish n (up_status up) (cc_model context) (usage_from_bytes (ev_parse (nt_env n)) bytes)
              (error_from (ev_parse (nt_env n)) (up_status up) bytes)) (\<lambda>audit_id.
     sbind (fallible (build_response (up_status up) (filtered_response_headers (up_headers up))
              (Complete bytes))) (\<lambda>resp.
     sreturn (resp\<lparr>rs_transport := audit_id\<rparr>)))))"

definition relay_stream ::
  "call_context \<Rightarrow> lease \<Rightarrow> http_reply \<Rightarrow> reply_body response call" where
  "relay_stream context l r =
     sbind (sgets (\<lambda>s. map_option (\<lambda>e. \<lparr>ti_id = c_id (au_call e), ti_diagnostics_enabled = au_request_archive e\<rparr>)
              (at_event (cs_tracker s)))) (\<lambda>audit_id.
     sbind (sgets (\<lambda>s. fst (take_stream (hr_status r) (cc_model context) (cs_tracker s)))) (\<lambda>completion.
     sbind (on_tracker (\<lambda>t. snd (take_stream (hr_status r) (cc_model context) t))) (\<lambda>_.
     sbind (fallible (build_response (hr_status r)
              (with_content_type (filtered_response_headers (hr_headers r)))
              (Streaming \<lparr>bs_lease = l, bs_completion = completion, bs_chunks = hr_chunks r\<rparr>))) (\<lambda>resp.
     sreturn (resp\<lparr>rs_transport := audit_id\<rparr>)))))"

definition relay_response ::
  "net \<Rightarrow> call_context \<Rightarrow> lease \<Rightarrow> upstream_response \<Rightarrow> reply_body response call" where
  "relay_response n context l up =
     sbind (on_tracker (\<lambda>t. set_response_headers (nt_env n) (up_headers up)
              (set_compression_headers [] (Some (up_headers up))
                (set_upstream_http_version (up_version up) (mark_first_byte (nt_first_byte n) t))))) (\<lambda>_.
     case up of
       Live r \<Rightarrow>
         if cc_stream context \<and> is_success (hr_status r) then relay_stream context l r
         else ensuring (release l) (relay_complete n context up)
     | Buffered _ \<Rightarrow> ensuring (release l) (relay_complete n context up))"

definition usage_json :: "usage \<Rightarrow> json" where
  "usage_json u = JObj [(''input_tokens'', JInt (us_input_tokens u)), (''output_tokens'', JInt (us_output_tokens u)),
     (''cached_tokens'', JInt (us_cached_tokens u)), (''cache_write_tokens'', JInt (us_cache_write_tokens u))]"

definition image_reply ::
  "net \<Rightarrow> call_context \<Rightarrow> upstream_response \<Rightarrow> reply_body response call" where
  "image_reply n context up =
     sbind (on_tracker (set_response_headers (nt_env n) (up_headers up))) (\<lambda>_.
     sbind (slift (into_bytes up)) (\<lambda>bytes.
     sbind (fallible (images_from_sse (ev_parse (nt_env n)) bytes)) (\<lambda>(images, u).
     let envelope = ev_render (nt_env n) (JObj [(''created'', JInt (ev_now (nt_env n))), (''data'', JArr images),
                      (''usage'', usage_json u)])
     in sbind (on_tracker (\<lambda>t. set_response_body envelope False
                (set_response_headers (nt_env n) [(''content-type'', ''application/json'')]
                  (set_response_size (int (length envelope)) t)))) (\<lambda>_.
        sbind (finish n (up_status up) (cc_model context) u None) (\<lambda>audit_id.
        sbind (fallible (build_response 200 [(''content-type'', ''application/json'')] (Complete envelope)))
          (\<lambda>resp.
        sreturn (resp\<lparr>rs_transport := audit_id\<rparr>)))))))"

definition image_response ::
  "net \<Rightarrow> call_context \<Rightarrow> lease \<Rightarrow> upstream_response \<Rightarrow> reply_body response call" where
  "image_response n context l up =
     sbind (on_tracker (\<lambda>t. set_upstream_http_version (up_version up) (mark_first_byte (nt_first_byte n) t))) (\<lambda>_.
     if \<not> is_success (up_status up) then relay_response n context l up
     else ensuring (release l) (image_reply n context up))"

text \<open>The generator, polled by the client until the upstream ends, breaks, or the client leaves;
  with what was delivered. The lease goes with the generator.\<close>

datatype stream_end = Finished bool | Dropped

fun stream_loop ::
  "(string \<Rightarrow> json option) \<Rightarrow> chunk list \<Rightarrow> string \<times> stream_completion \<Rightarrow>
     string list \<times> stream_end \<times> stream_completion" where
  "stream_loop parse [] st = ([], Finished False, snd st)"
| "stream_loop parse (Data bytes # cs) st =
     (let (outs, rest) = stream_loop parse cs (capture_sse parse bytes st) in (bytes # outs, rest))"
| "stream_loop parse (Broken # _) st = ([], Finished True, snd st)"
| "stream_loop parse (Hangup # _) st = ([], Dropped, snd st)"

definition run_stream :: "net \<Rightarrow> body_stream \<Rightarrow> string list call" where
  "run_stream n bs s =
     (let (outs, ending, c) = stream_loop (ev_parse (nt_env n)) (bs_chunks bs) ([], bs_completion bs);
          (r, w) = (case ending of
             Finished stream_failed \<Rightarrow> finish_stream (nt_elapsed n) stream_failed c (cs_audit s)
           | Dropped \<Rightarrow> drop_stream (nt_elapsed n) c (cs_audit s))
      in (rbind r (\<lambda>_. Inr outs), release (bs_lease bs) (s\<lparr>cs_audit := w\<rparr>)))"

end
