(* ===== verification/Proxy.thy ===== *)
theory Proxy
  imports Dispatch
begin

text \<open>
  The handlers of the proxied API and of the console's own calls (\<open>src/proxy.rs\<close>), the upload they
  spool (\<open>src/audio_spool.rs\<close>), the middleware that counts what leaves the server and the files of
  the web console (\<open>src/lib.rs\<close>).
\<close>

section \<open>JSON calls\<close>

record http_request =
  hq_method :: string
  hq_path :: string
  hq_headers :: header_map
  hq_client_ip :: string

definition affinity_of_call :: "api_identity_t \<Rightarrow> affinity_key_t option \<Rightarrow> string option" where
  "affinity_of_call identity = map_option (\<lambda>key. ai_consumer_id identity @ '':'' @ ak_value key)"

definition json_payload :: "net \<Rightarrow> string \<Rightarrow> string \<Rightarrow> string call" where
  "json_payload n path bd =
     sbind (sgets (\<lambda>s. cf_image_host_model (ap_config (cs_app s)))) (\<lambda>host.
     fallible (transform_request (ev_render (nt_env n)) path (ev_parse (nt_env n) bd) host))"

definition dispatch ::
  "net \<Rightarrow> api_identity_t \<Rightarrow> string \<Rightarrow> header_map \<Rightarrow> string \<Rightarrow> reply_body response call" where
  "dispatch n identity path headers bd =
     (let parsed = ev_parse (nt_env n) bd;
          model = Option.bind (Option.bind parsed (\<lambda>v. jget v ''model'')) as_str;
          stream = unwrap_or (Option.bind (Option.bind parsed (\<lambda>v. jget v ''stream'')) as_bool) False;
          key = affinity_key headers parsed;
          affinity = affinity_of_call identity key;
          user = ai_user_id identity; allp = ai_all_providers identity;
          context = \<lparr>cc_model = model, cc_stream = stream\<rparr>
      in sbind (on_tracker (\<lambda>t. set_affinity (nt_env n) affinity (map_option ak_source key)
                  (set_reasoning_effort (Option.bind parsed reasoning_effort) t))) (\<lambda>_.
         sbind (json_payload n path bd) (\<lambda>payload.
         sbind (select_ready_provider n user allp affinity) (\<lambda>first.
         sbind (attempt_twice n user allp affinity
                  (\<lambda>l. sbind (on_tracker (set_provider (lease_id l))) (\<lambda>_.
                       send_upstream n l path headers payload))
                  (\<lambda>l. sbind (on_tracker (set_provider (lease_id l))) (\<lambda>_.
                       sbind (json_payload n path bd) (\<lambda>payload2.
                       send_upstream n l path headers payload2)))
                  first) (\<lambda>(l, up).
         if path = ''/v1/images/generations'' then image_response n context l up
         else relay_response n context l up)))))"

section \<open>Audio calls\<close>

record audio_spool =
  sp_path :: string
  sp_preview :: preview
  sp_content :: string

definition spool_path :: "net \<Rightarrow> config \<Rightarrow> string" where
  "spool_path n cfg = cf_data_dir cfg @ ''/audio-retry/'' @ ev_uuid (nt_env n) 2 @ ''.upload''"

fun spool_write :: "net \<Rightarrow> nat \<Rightarrow> audio_spool \<Rightarrow> chunk list \<Rightarrow> (stop, audio_spool) result" where
  "spool_write n limit sp [] =
     rbind (ensure (nt_write_ok n (length (sp_content sp))) (Failed internal_error)) (\<lambda>_. Inr sp)"
| "spool_write n limit sp (Data bytes # cs) =
     rbind (ensure (nt_write_ok n (length (sp_content sp @ bytes))) (Failed internal_error)) (\<lambda>_.
     spool_write n limit
       (sp\<lparr>sp_content := sp_content sp @ bytes, sp_preview := preview_capture limit bytes (sp_preview sp)\<rparr>) cs)"
| "spool_write n limit sp (Broken # _) = Inl (Failed (bad_request ''failed to read audio request body''))"
| "spool_write n limit sp (Hangup # _) = Inl ClientGone"

definition remove_file :: "string \<Rightarrow> call_state \<Rightarrow> call_state" where
  "remove_file path s = s\<lparr>cs_files := remove1 path (cs_files s)\<rparr>"

definition spool_create :: "net \<Rightarrow> nat \<Rightarrow> chunk list \<Rightarrow> audio_spool call" where
  "spool_create n limit bd =
     sbind (sgets (\<lambda>s. spool_path n (ap_config (cs_app s)))) (\<lambda>path.
     sbind (slift (ensure (nt_create_ok n) (Failed internal_error))) (\<lambda>_.
     sbind (smodify (\<lambda>s. s\<lparr>cs_files := path # cs_files s\<rparr>)) (\<lambda>_.
     scoped (remove_file path)
       (slift (spool_write n limit
          \<lparr>sp_path = path, sp_preview = preview_default, sp_content = []\<rparr> bd)))))"

definition spool_body :: "net \<Rightarrow> audio_spool \<Rightarrow> string call" where
  "spool_body n sp =
     sbind (sgets (\<lambda>s. length (cs_requests s))) (\<lambda>k.
     sbind (slift (ensure (nt_open_ok n k) (Failed internal_error))) (\<lambda>_.
     sreturn (sp_content sp)))"

definition dispatch_audio ::
  "net \<Rightarrow> api_identity_t \<Rightarrow> string \<Rightarrow> header_map \<Rightarrow> chunk list \<Rightarrow> reply_body response call" where
  "dispatch_audio n identity path headers bd =
     (let key = affinity_key headers None;
          affinity = affinity_of_call identity key;
          user = ai_user_id identity; allp = ai_all_providers identity;
          send = (\<lambda>sp l. sbind (on_tracker (set_provider (lease_id l))) (\<lambda>_.
                    sbind (spool_body n sp) (send_upstream n l path headers)))
      in sbind (on_tracker (set_affinity (nt_env n) affinity (map_option ak_source key))) (\<lambda>_.
         sbind (spool_create n ARCHIVE_BODY_LIMIT bd) (\<lambda>sp.
         sbind (ensuring (remove_file (sp_path sp))
           (sbind (on_tracker (\<lambda>t. set_request_size (pv_bytes (sp_preview sp))
                     (set_request (nt_env n) headers (pv_body (sp_preview sp)) (pv_truncated (sp_preview sp)) t))) (\<lambda>_.
            sbind (select_ready_provider n user allp affinity) (\<lambda>first.
            attempt_twice n user allp affinity (send sp) (send sp) first)))) (\<lambda>(l, up).
         relay_response n \<lparr>cc_model = None, cc_stream = False\<rparr> l up))))"

section \<open>The proxied endpoints\<close>

definition begin_call ::
  "net \<Rightarrow> api_identity_t \<Rightarrow> http_request \<Rightarrow> unit call" where
  "begin_call n identity rq =
     smodify (\<lambda>s.
       let (t, w) = begin_audit (nt_env n) identity (ev_uuid (nt_env n) 0) (thread_id (hq_headers rq))
                      (hq_method rq) (hq_path rq) (hq_client_ip rq) (cs_audit s)
       in s\<lparr>cs_tracker := t, cs_audit := w\<rparr>)"

text \<open>What both handlers do with the result: an error that was not audited yet is, then the tracker
  goes out of scope, also when the client has left or the task panicked.\<close>

definition conclude :: "net \<Rightarrow> 'a call \<Rightarrow> 'a call" where
  "conclude n m =
     ensuring (drop_tracker n)
       (handling m sreturn (\<lambda>e.
          case e of
            Failed err \<Rightarrow>
              sbind (sgets (\<lambda>s. at_event (cs_tracker s))) (\<lambda>event.
              if event = None then sfail e
              else sbind (on_tracker (set_error_response (nt_env n) err)) (\<lambda>_.
                   sbind (finish n (ae_status err) None usage_default (Some (ae_message err))) (\<lambda>_.
                   sfail e)))
          | _ \<Rightarrow> sfail e))"

definition api_caller :: "net \<Rightarrow> header_map \<Rightarrow> api_identity_t call" where
  "api_caller n headers =
     sbind (sgets (\<lambda>s. api_identity (ev_sha (nt_env n)) (ap_db (cs_app s)) headers)) fallible"

definition handle_json :: "net \<Rightarrow> http_request \<Rightarrow> string \<Rightarrow> reply_body response call" where
  "handle_json n rq bd =
     sbind (api_caller n (hq_headers rq)) (\<lambda>identity.
     sbind (begin_call n identity rq) (\<lambda>_.
     conclude n
       (sbind (on_tracker (\<lambda>t. set_request_size (int (length bd))
          (set_compression_headers (hq_headers rq) None
            (set_request (nt_env n) (hq_headers rq) bd False t)))) (\<lambda>_.
        dispatch n identity (hq_path rq) (hq_headers rq) bd))))"

definition handle_audio :: "net \<Rightarrow> http_request \<Rightarrow> chunk list \<Rightarrow> reply_body response call" where
  "handle_audio n rq bd =
     sbind (api_caller n (hq_headers rq)) (\<lambda>identity.
     sbind (begin_call n identity rq) (\<lambda>_.
     conclude n
       (sbind (on_tracker (\<lambda>t. set_compression_headers (hq_headers rq) None
          (set_request (nt_env n) (hq_headers rq) [] True t))) (\<lambda>_.
        dispatch_audio n identity (hq_path rq) (hq_headers rq) bd))))"

definition handle_models :: "net \<Rightarrow> header_map \<Rightarrow> string response call" where
  "handle_models n headers =
     sbind (api_caller n headers) (\<lambda>_. fallible (models_response (ev_render (nt_env n))))"

text \<open>The whole life of a call: the handler, then its body, which the server polls when it streams.\<close>

definition serve :: "net \<Rightarrow> reply_body response call \<Rightarrow> string list call" where
  "serve n m =
     sbind m (\<lambda>resp. case rs_body resp of
        Complete bd \<Rightarrow> sreturn [bd]
      | Streaming bs \<Rightarrow> run_stream n bs)"

section \<open>The console's calls\<close>

definition console_user :: "net \<Rightarrow> header_map \<Rightarrow> (user_identity \<times> bool) call" where
  "console_user n headers =
     sbind (on_app (session (nt_env n) headers)) (\<lambda>user.
     if is_admin user then sreturn (user, True)
     else sbind (sgets (\<lambda>s. user_row_of (ap_db (cs_app s)) (ui_id user))) (\<lambda>row.
          sbind (fallible (ok_or row internal_error)) (\<lambda>r.
          sreturn (user, u_provider_access r \<noteq> 0))))"

text \<open>The text of an answer of the transcription endpoint.\<close>

definition transcription_text :: "(string \<Rightarrow> json option) \<Rightarrow> nat \<Rightarrow> string \<Rightarrow> (app_error, string) result" where
  "transcription_text parse status bd =
     rbind (ensure (is_success status)
       (upstream status (unwrap_or (error_from parse status bd) ''transcription failed''))) (\<lambda>_.
     rbind (ok_or (parse bd) internal_error) (\<lambda>response.
     ok_or (opt_filter (\<lambda>text. text \<noteq> []) (Option.bind (jget response ''text'') as_str))
       (upstream status ''transcription response is missing text'')))"

definition handle_console_transcription :: "net \<Rightarrow> header_map \<Rightarrow> chunk list \<Rightarrow> json call" where
  "handle_console_transcription n headers bd =
     sbind (console_user n headers) (\<lambda>(user, allp).
     sbind (spool_create n 0 bd) (\<lambda>sp.
     let send = (\<lambda>l. sbind (spool_body n sp) (send_transcription_upstream n l headers))
     in sbind (ensuring (remove_file (sp_path sp))
          (sbind (select_ready_provider n (ui_id user) allp None)
            (attempt_twice n (ui_id user) allp None send send))) (\<lambda>(l, up).
        ensuring (release l)
          (sbind (slift (into_bytes up)) (\<lambda>bytes.
           sbind (fallible (transcription_text (ev_parse (nt_env n)) (up_status up) bytes)) (\<lambda>text.
           sreturn (JObj [(''text'', JStr text)])))))))"

definition handle_console_image_generation :: "net \<Rightarrow> header_map \<Rightarrow> string \<Rightarrow> json call" where
  "handle_console_image_generation n headers bd =
     sbind (console_user n headers) (\<lambda>(user, allp).
     sbind (fallible (ok_or (ev_parse (nt_env n) bd) (bad_request ''JSON request body required''))) (\<lambda>payload.
     sbind (sgets (\<lambda>s. cf_image_host_model (ap_config (cs_app s)))) (\<lambda>host.
     sbind (fallible (transform_request (ev_render (nt_env n)) ''/v1/images/generations'' (Some payload) host)) (\<lambda>request.
     let send = (\<lambda>l. send_console_image_upstream n l headers request)
     in sbind (select_ready_provider n (ui_id user) allp None) (\<lambda>first.
        sbind (attempt_twice n (ui_id user) allp None send send first) (\<lambda>(l, up).
        ensuring (release l)
          (sbind (slift (into_bytes up)) (\<lambda>bytes.
           sbind (fallible (ensure (is_success (up_status up)) (upstream (up_status up)
               (unwrap_or (error_from (ev_parse (nt_env n)) (up_status up) bytes) ''image generation failed'')))) (\<lambda>_.
           sbind (fallible (images_from_sse (ev_parse (nt_env n)) bytes)) (\<lambda>(images, _).
           sreturn (JObj [(''data'', JArr images)])))))))))))"

section \<open>What leaves the server\<close>

text \<open>\<open>record_response_transport\<close> of \<open>src/lib.rs\<close>: the body passes through, its bytes are counted, and
  the count is recorded when it ends; a client that leaves before leaves no record.\<close>

fun transport_bytes :: "chunk list \<Rightarrow> i64 \<Rightarrow> i64 option" where
  "transport_bytes [] n = Some n"
| "transport_bytes (Data b # cs) n = transport_bytes cs (n + int (length b))"
| "transport_bytes (Broken # cs) n = transport_bytes cs n"
| "transport_bytes (Hangup # _) n = None"

definition response_transport ::
  "env \<Rightarrow> transport_id option \<Rightarrow> header_map \<Rightarrow> chunk list \<Rightarrow> audit_writer \<Rightarrow> audit_writer" where
  "response_transport ev transport headers bd w =
     (case transport of
        None \<Rightarrow> w
      | Some tid \<Rightarrow>
          (case transport_bytes bd 0 of
             None \<Rightarrow> w
           | Some bytes \<Rightarrow>
               record_response_transport (ti_id tid) bytes
                 (opt_or (hdr_str headers ''content-encoding'') (Some ''identity''))
                 (if ti_diagnostics_enabled tid then Some (archived ev headers) else None) w))"

section \<open>Clean-up of uploads\<close>

text \<open>Times are in nanoseconds; an extension is what the path library says it is.\<close>

record spool_entry =
  en_path :: string
  en_extension :: "string option"
  en_is_file :: bool
  en_modified :: int

definition RETENTION :: int where
  "RETENTION = (24 * 60 * 60 - 60) * 10 ^ 9"

definition expired_upload :: "int \<Rightarrow> spool_entry \<Rightarrow> bool" where
  "expired_upload now e \<longleftrightarrow>
     en_extension e = Some ''upload'' \<and> en_is_file e \<and> RETENTION \<le> max 0 (now - en_modified e)"

definition cleanup_uploads :: "int \<Rightarrow> spool_entry list \<Rightarrow> spool_entry list" where
  "cleanup_uploads now entries = filter (\<lambda>e. \<not> expired_upload now e) entries"

section \<open>The web console\<close>

definition api_prefixes :: "string list" where
  "api_prefixes = [''/api'', ''/v1'', ''/backend-api'']"

definition asset_mime :: "string \<Rightarrow> string" where
  "asset_mime path =
     (let suffix = last (split_on (CHR ''.'') path)
      in if suffix = ''js'' then ''text/javascript''
         else if suffix = ''css'' then ''text/css''
         else if suffix = ''svg'' then ''image/svg+xml''
         else if suffix = ''woff2'' then ''font/woff2''
         else ''text/html; charset=utf-8'')"

definition static_asset ::
  "(json \<Rightarrow> string) \<Rightarrow> (string \<Rightarrow> string option) \<Rightarrow> string \<Rightarrow> string response" where
  "static_asset render assets uri_path =
     (let plain = (\<lambda>status headers bd.
        \<lparr>rs_status = status, rs_headers = headers, rs_body = bd, rs_transport = None\<rparr>)
      in if list_ex (\<lambda>prefix. uri_path = prefix \<or> starts_with uri_path (prefix @ ''/'')) api_prefixes
         then plain 404 [(''content-type'', ''application/json'')]
                (render (JObj [(''error'', JObj [(''message'', JStr ''API route not found''),
                   (''type'', JStr ''not_found''), (''code'', JInt 404)])]))
         else
           let requested = dropWhile (\<lambda>c. c = CHR ''/'') uri_path;
               path = (if requested = [] then ''index.html'' else requested)
           in case assets path of
                Some data \<Rightarrow> plain 200 [(''content-type'', asset_mime path)] data
              | None \<Rightarrow>
                  (case assets ''index.html'' of
                     Some data \<Rightarrow> plain 200 [(''content-type'', ''text/html; charset=utf-8'')] data
                   | None \<Rightarrow> plain 404 [] []))"

end
