(* ===== verification/Scopes.thy ===== *)
theory Scopes
  imports Proxy Balancer_Machine "HOL-Library.Multiset"
begin

text \<open>
  Resources a call holds and gives back: what the source leaves to \<open>Drop\<close>. The locale states what
  a counted resource is; its rules follow the shape of a handler and prove that every way out of
  it has given back what it took. Leases of the balancer and spooled uploads are its instances.
\<close>

section \<open>Counted resources\<close>

text \<open>\<open>holds b L s\<close>: in the state \<open>s\<close> the call holds the resources \<open>L\<close>, the rest of the program \<open>b\<close>.\<close>

locale resource =
  fixes holds :: "'b \<Rightarrow> 'r list \<Rightarrow> 's \<Rightarrow> bool"
    and shift :: "'r \<Rightarrow> 'b \<Rightarrow> 'b"
    and free :: "'r \<Rightarrow> 's \<Rightarrow> 's"
  assumes holds_shift: "holds b (r # L) s \<longleftrightarrow> holds (shift r b) L s"
    and holds_free: "holds b (r # L) s \<Longrightarrow> holds b L (free r s)"
begin

text \<open>\<open>owns L m g\<close>: started with \<open>L\<close>, the computation ends early with nothing or with a value \<open>x\<close>
  holding \<open>g x\<close>.\<close>

definition owns :: "'r list \<Rightarrow> ('s, 'e, 'a) handler \<Rightarrow> ('a \<Rightarrow> 'r list) \<Rightarrow> bool" where
  "owns L m g \<longleftrightarrow>
     (\<forall>b s. holds b L s \<longrightarrow> holds b (case fst (m s) of Inl _ \<Rightarrow> [] | Inr x \<Rightarrow> g x) (snd (m s)))"

definition frame :: "('s \<Rightarrow> 's) \<Rightarrow> bool" where
  "frame f \<longleftrightarrow> (\<forall>b L s. holds b L s \<longrightarrow> holds b L (f s))"

abbreviation neutral :: "('s, 'e, 'a) handler \<Rightarrow> bool" where
  "neutral m \<equiv> owns [] m (\<lambda>_. [])"

lemma ownsI:
  "(\<And>b s r s'. holds b L s \<Longrightarrow> m s = (r, s') \<Longrightarrow>
      holds b (case r of Inl _ \<Rightarrow> [] | Inr x \<Rightarrow> g x) s') \<Longrightarrow> owns L m g"
  unfolding owns_def by (metis prod.collapse)

lemma ownsD:
  "owns L m g \<Longrightarrow> holds b L s \<Longrightarrow> m s = (r, s') \<Longrightarrow>
     holds b (case r of Inl _ \<Rightarrow> [] | Inr x \<Rightarrow> g x) s'"
  unfolding owns_def by (metis fst_conv snd_conv)

lemma neutralD:
  assumes "neutral m" and "holds b L s" shows "holds b L (snd (m s))"
proof -
  have "neutral m \<Longrightarrow> holds b L s \<Longrightarrow> holds b L (snd (m s))" for b
  proof (induction L arbitrary: b)
    case Nil
    then show ?case unfolding owns_def by (metis (mono_tags, lifting) old.sum.simps(5,6) sum.exhaust)
  next
    case (Cons r L)
    then show ?case by (simp add: holds_shift)
  qed
  with assms show ?thesis by blast
qed

lemma owns_sreturn: "owns (g x) (sreturn x) g" by (simp add: owns_def)
lemma owns_value: "g x = L \<Longrightarrow> owns L (sreturn x) g" by (auto simp: owns_def)
lemma owns_sfail: "owns [] (sfail e) g" by (simp add: owns_def)

lemma owns_sbind:
  assumes m: "owns L m g" and k: "\<And>x. owns (g x) (k x) h"
  shows "owns L (sbind m k) h"
proof (rule ownsI)
  fix b s r s' assume L: "holds b L s" and run: "sbind m k s = (r, s')"
  obtain r1 s1 where 1: "m s = (r1, s1)" by fastforce
  show "holds b (case r of Inl _ \<Rightarrow> [] | Inr x \<Rightarrow> h x) s'"
  proof (cases r1)
    case (Inl e)
    then show ?thesis using ownsD [OF m L 1] run 1 by (auto simp: sbind_def)
  next
    case (Inr x)
    then have "holds b (g x) s1" using ownsD [OF m L 1] by simp
    moreover have "k x s1 = (r, s')" using run 1 Inr by (simp add: sbind_def)
    ultimately show ?thesis using ownsD [OF k] by blast
  qed
qed

lemma owns_scoped:
  assumes m: "owns L m g" shows "owns (r # L) (scoped (free r) m) (\<lambda>x. r # g x)"
proof (rule ownsI)
  fix b s v s' assume L: "holds b (r # L) s" and run: "scoped (free r) m s = (v, s')"
  obtain v1 s1 where 1: "m s = (v1, s1)" by fastforce
  have "holds (shift r b) (case v1 of Inl _ \<Rightarrow> [] | Inr x \<Rightarrow> g x) s1"
    using ownsD [OF m _ 1] L by (simp add: holds_shift)
  then show "holds b (case v of Inl _ \<Rightarrow> [] | Inr x \<Rightarrow> r # g x) s'"
    using run 1 by (cases v1) (auto simp: scoped_def holds_shift [symmetric] intro: holds_free)
qed

lemma owns_ensuring:
  assumes m: "owns L m g" shows "owns (r # L) (ensuring (free r) m) g"
proof (rule ownsI)
  fix b s v s' assume L: "holds b (r # L) s" and run: "ensuring (free r) m s = (v, s')"
  obtain v1 s1 where 1: "m s = (v1, s1)" by fastforce
  have "holds b (r # (case v1 of Inl _ \<Rightarrow> [] | Inr x \<Rightarrow> g x)) s1"
    using ownsD [OF m _ 1] L by (simp add: holds_shift)
  then show "holds b (case v of Inl _ \<Rightarrow> [] | Inr x \<Rightarrow> g x) s'"
    using run 1 by (auto simp: ensuring_def intro: holds_free)
qed

lemma owns_free: "owns (r # L) (smodify (free r)) (\<lambda>_. L)"
  by (auto simp: owns_def intro: holds_free)

lemma owns_frame: "frame f \<Longrightarrow> owns [] (smodify f) (\<lambda>_. [])"
  by (simp add: owns_def frame_def)

lemma owns_scoped_frame: "frame f \<Longrightarrow> owns L m g \<Longrightarrow> owns L (scoped f m) g"
  by (fastforce simp: owns_def frame_def scoped_def split: prod.splits sum.splits)

lemma owns_ensuring_frame: "frame f \<Longrightarrow> owns L m g \<Longrightarrow> owns L (ensuring f m) g"
  by (fastforce simp: owns_def frame_def ensuring_def split: prod.splits)

text \<open>After a step that holds nothing itself, an error leaves what was held before it.\<close>

lemma owns_handling:
  assumes m: "neutral m" and f: "\<And>x. owns L (f x) h" and g: "\<And>e. owns L (g e) h"
  shows "owns L (handling m f g) h"
proof (rule ownsI)
  fix b s r s' assume L: "holds b L s" and run: "handling m f g s = (r, s')"
  obtain r1 s1 where 1: "m s = (r1, s1)" by fastforce
  then have "holds b L s1" using neutralD [OF m L] by simp
  then show "holds b (case r of Inl _ \<Rightarrow> [] | Inr x \<Rightarrow> h x) s'"
    using run 1 by (cases r1) (auto simp: handling_def intro: ownsD [OF f] ownsD [OF g])
qed

lemma owns_taking:
  assumes m: "owns [] m g" and f: "\<And>x. owns (g x) (f x) h" and k: "\<And>e. owns [] (k e) h"
  shows "owns [] (handling m f k) h"
proof (rule ownsI)
  fix b s r s' assume L: "holds b [] s" and run: "handling m f k s = (r, s')"
  obtain r1 s1 where 1: "m s = (r1, s1)" by fastforce
  show "holds b (case r of Inl _ \<Rightarrow> [] | Inr x \<Rightarrow> h x) s'"
    using ownsD [OF m L 1] run 1
    by (cases r1) (auto simp: handling_def intro: ownsD [OF f] ownsD [OF k])
qed

lemma owns_if: "owns L m g \<Longrightarrow> owns L k g \<Longrightarrow> owns L (if c then m else k) g" by simp

lemma owns_slift: "owns [] (slift r) (\<lambda>_. [])" by (cases r) (simp_all add: owns_def)
lemma owns_sgets: "owns [] (sgets f) (\<lambda>_. [])" by (simp add: owns_def)

text \<open>Only the values a computation can return count.\<close>

lemma owns_result:
  "owns L m g \<Longrightarrow> (\<And>s x s'. m s = (Inr x, s') \<Longrightarrow> g x = h x) \<Longrightarrow> owns L m h"
  unfolding owns_def by (smt (verit) prod.collapse sum.case_eq_if sum.collapse(2))

end

section \<open>Leases\<close>

definition lease_level :: "(string \<Rightarrow> 64 word) \<times> string set \<Rightarrow> string list \<Rightarrow> call_state \<Rightarrow> bool" where
  "lease_level bd L s \<longleftrightarrow>
     (\<forall>q. inflight (ap_balancer (cs_app s)) q = fst bd q + of_nat (count_list L q)) \<and>
     (\<forall>q \<in> snd bd \<union> set L. dm_contains (b_inflight (ap_balancer (cs_app s))) q)"

definition drop_id :: "string \<Rightarrow> call_state \<Rightarrow> call_state" where
  "drop_id pid = on_balancer (\<lambda>b. case dm_get (b_inflight b) pid of
        None \<Rightarrow> b
      | Some k \<Rightarrow> b\<lparr>b_inflight := dm_insert pid (k - 1) (b_inflight b)\<rparr>)"

lemma release_drop_id: "release l = drop_id (lease_id l)"
  by (simp add: release_def drop_id_def lease_id_def drop_lease_def fun_eq_iff on_balancer_def)

lemma on_balancer_fields [simp]:
  "ap_balancer (cs_app (on_balancer f s)) = f (ap_balancer (cs_app s))"
  "cs_files (on_balancer f s) = cs_files s" "cs_requests (on_balancer f s) = cs_requests s"
  "cs_tracker (on_balancer f s) = cs_tracker s" "cs_audit (on_balancer f s) = cs_audit s"
  by (simp_all add: on_balancer_def)

interpretation lease: resource lease_level "\<lambda>r (f, D). (f(r := f r + 1), insert r D)" drop_id
proof unfold_locales
  fix b :: "(string \<Rightarrow> 64 word) \<times> string set" and r L s
  show "lease_level b (r # L) s \<longleftrightarrow> lease_level ((\<lambda>(f, D). (f(r := f r + 1), insert r D)) b) L s"
    by (cases b) (auto simp: lease_level_def algebra_simps)
  assume h: "lease_level b (r # L) s"
  then obtain k where k: "dm_get (b_inflight (ap_balancer (cs_app s))) r = Some k"
    by (auto simp: lease_level_def dm_contains_def)
  have i: "inflight (ap_balancer (cs_app (drop_id r s))) q =
      inflight (ap_balancer (cs_app s)) q - (if q = r then 1 else 0)" for q
    using k by (simp add: drop_id_def inflight_def dm.get_insert)
  have "dm_contains (b_inflight (ap_balancer (cs_app (drop_id r s)))) q =
      dm_contains (b_inflight (ap_balancer (cs_app s))) q" for q
    using k by (simp add: drop_id_def dm_contains_def dm.get_insert)
  with h i show "lease_level b L (drop_id r s)" by (auto simp: lease_level_def)
qed

text \<open>A step that leaves the counters alone.\<close>

lemma lease_frame:
  "(\<And>s. b_inflight (ap_balancer (cs_app (f s))) = b_inflight (ap_balancer (cs_app s))) \<Longrightarrow> lease.frame f"
  by (auto simp: lease.frame_def lease_level_def inflight_def)

lemma lease_neutral:
  assumes "\<And>s. b_inflight (ap_balancer (cs_app (snd (m s)))) = b_inflight (ap_balancer (cs_app s))"
  shows "lease.neutral m"
  using assms by (auto simp: lease.owns_def lease_level_def inflight_def split: sum.splits)

section \<open>Spooled uploads\<close>

definition file_level :: "string multiset \<Rightarrow> string list \<Rightarrow> call_state \<Rightarrow> bool" where
  "file_level b L s \<longleftrightarrow> mset (cs_files s) = b + mset L"

interpretation upload: resource file_level add_mset remove_file
proof unfold_locales
  fix b :: "string multiset" and r L s
  show "file_level b (r # L) s \<longleftrightarrow> file_level (add_mset r b) L s" by (simp add: file_level_def)
  assume "file_level b (r # L) s"
  then show "file_level b L (remove_file r s)" by (simp add: file_level_def remove_file_def)
qed

lemma upload_frame: "(\<And>s. cs_files (f s) = cs_files s) \<Longrightarrow> upload.frame f"
  by (simp add: upload.frame_def file_level_def)

lemma upload_neutral: "(\<And>s. cs_files (snd (m s)) = cs_files s) \<Longrightarrow> upload.neutral m"
  by (auto simp: upload.owns_def file_level_def split: sum.splits)

end
