(* ===== verification/Lease_Facts.thy ===== *)
theory Lease_Facts
  imports Scopes OAuth_Facts
begin

text \<open>
  A call gives back every lease it took, whatever happens: the in-flight counters after a call,
  its stream included, are those before it; and no uploaded file survives its call.
\<close>

section \<open>Steps that hold nothing\<close>

named_theorems calm_rules

text \<open>A property of states that only looks at the in-flight counters, or only at the files, is kept
  by a calm step.\<close>

definition calm :: "'a call \<Rightarrow> bool" where
  "calm m \<longleftrightarrow> (\<forall>s. b_inflight (ap_balancer (cs_app (snd (m s)))) = b_inflight (ap_balancer (cs_app s)) \<and>
     cs_files (snd (m s)) = cs_files s)"

lemma calm_lease: "calm m \<Longrightarrow> lease.neutral m"
  by (rule lease_neutral) (simp add: calm_def)

lemma calm_upload: "calm m \<Longrightarrow> upload.neutral m"
  by (rule upload_neutral) (simp add: calm_def)

lemma calm_sbind [calm_rules]:
  assumes m: "calm m" and k: "\<And>x. calm (k x)" shows "calm (sbind m k)"
  unfolding calm_def
proof
  fix s
  obtain r s1 where 1: "m s = (r, s1)" by fastforce
  then show "b_inflight (ap_balancer (cs_app (snd (sbind m k s)))) = b_inflight (ap_balancer (cs_app s)) \<and>
     cs_files (snd (sbind m k s)) = cs_files s"
    using m [unfolded calm_def, rule_format, of s] k [unfolded calm_def, rule_format, of _ s1]
    by (cases r) (simp_all add: sbind_def)
qed

lemma calm_simple [calm_rules]:
  "calm (sreturn x)" "calm (sfail e)" "calm (slift r)" "calm (sgets g)" "calm (fallible q)"
  "calm (on_tracker h)" "calm (execute n l rq)" "calm (observe_reply n pid status bd)"
  "calm (finish n status2 model u err)"
  by (simp_all add: calm_def fallible_def on_tracker_def execute_def observe_reply_def finish_def
      track_response_def Let_def split: net_reply.splits prod.splits)

lemma calm_if [calm_rules]: "calm m \<Longrightarrow> calm k \<Longrightarrow> calm (if c then m else k)" by simp

lemma calm_let [calm_rules]: "(\<And>x. calm (f x)) \<Longrightarrow> calm (Let y f)" by simp

lemma calm_prod [calm_rules]: "(\<And>x y. calm (f x y)) \<Longrightarrow> calm (case p of (x, y) \<Rightarrow> f x y)"
  by (cases p) simp

lemma refresh_frame:
  "b_inflight (ap_balancer (snd (refresh_if_needed ev l a))) = b_inflight (ap_balancer a)"
  by (auto simp: refresh_if_needed_def Let_def sbind_def slift_def
      split: sum.splits prod.splits option.splits)

lemma calm_refresh [calm_rules]: "calm (on_app (refresh_if_needed ev l))"
  using refresh_frame [of ev l] by (simp add: calm_def on_app_def Let_def case_prod_unfold)

lemma refresh_same_id:
  assumes "refresh_if_needed ev l a = (Inr l', a')" shows "lease_id l' = lease_id l"
  using assms
  by (auto simp: refresh_if_needed_def Let_def sbind_def slift_def lease_id_def refreshed_lease_def
      split: sum.splits prod.splits option.splits if_splits)

lemma calm_session [calm_rules]: "calm (on_app (session ev headers))"
proof -
  have "\<exists>db. snd (session ev headers a) = a\<lparr>ap_db := db\<rparr>" for a
    using session_state by blast
  then have "ap_balancer (snd (session ev headers a)) = ap_balancer a" for a
    by (metis app.select_convs(3) app.surjective app.update_convs(2))
  then show ?thesis by (auto simp: calm_def on_app_def Let_def split: prod.splits) (metis snd_conv)+
qed

lemma calm_track [calm_rules]: "calm (track_upstream n pid up)"
  unfolding track_upstream_def by (intro calm_rules)

lemma calm_send [calm_rules]:
  "calm (send_upstream n l path inbound bd)" "calm (send_transcription_upstream n l inbound bd)"
  "calm (send_console_image_upstream n l inbound bd)"
  unfolding send_upstream_def send_transcription_upstream_def send_console_image_upstream_def
  by (intro calm_rules)+

lemma calm_caller [calm_rules]: "calm (api_caller n headers)" "calm (console_user n headers)"
  unfolding api_caller_def console_user_def by (intro calm_rules)+

lemma calm_begin [calm_rules]: "calm (begin_call n identity rq)"
  by (simp add: calm_def begin_call_def Let_def split: prod.splits)

lemma calm_spool_body [calm_rules]: "calm (spool_body n sp)"
  unfolding spool_body_def by (intro calm_rules)

lemma calm_payload [calm_rules]: "calm (json_payload n path bd)"
  unfolding json_payload_def by (intro calm_rules)

section \<open>Leases\<close>

lemma owns_pick: "lease.owns [] (pick n user allp aff ex) (\<lambda>l. [lease_id l])"
proof (rule lease.ownsI)
  fix bd s r s' assume h: "lease_level bd [] s" and run: "pick n user allp aff ex s = (r, s')"
  let ?b = "ap_balancer (cs_app s)"
  obtain v b' where sel: "select (ev_sha (nt_env n)) (cf_affinity_ttl_seconds (ap_config (cs_app s)))
      (ev_now (nt_env n)) user allp aff ex ?b = (v, b')" by fastforce
  with run have r: "r = map_err Failed v" and s': "ap_balancer (cs_app s') = b'"
    by (auto simp: pick_def Let_def)
  show "lease_level bd (case r of Inl _ \<Rightarrow> [] | Inr l \<Rightarrow> [lease_id l]) s'"
  proof (cases v)
    case (Inl e)
    then have "b' = ?b" using sel by (auto simp: select_def Let_def split: if_splits prod.splits)
    then show ?thesis using h r Inl by (simp add: map_err_def lease_level_def s')
  next
    case (Inr l)
    show ?thesis
      using h select_inflight [OF sel [unfolded Inr]] r
      by (auto simp: Inr map_err_def lease_level_def s' lease_id_def)
  qed
qed

lemma owns_relabel: "lease.owns L m g \<Longrightarrow> (\<And>x. g x = h x) \<Longrightarrow> lease.owns L m h"
  by (metis ext)

lemma owns_release: "lease.owns (lease_id l # L) (smodify (release l)) (\<lambda>_. L)"
  unfolding release_drop_id by (rule lease.owns_free)

lemma owns_refreshing:
  assumes "\<And>e. lease.owns [lease_id l] (k e) h" and "\<And>l'. lease_id l' = lease_id l \<Longrightarrow> lease.owns [lease_id l] (f l') h"
  shows "lease.owns [lease_id l] (handling (on_app (refresh_if_needed ev l)) f k) h"
proof (rule lease.ownsI)
  fix b s r s' assume L: "lease_level b [lease_id l] s"
    and run: "handling (on_app (refresh_if_needed ev l)) f k s = (r, s')"
  obtain r1 s1 where 1: "on_app (refresh_if_needed ev l) s = (r1, s1)" by fastforce
  then have h: "lease_level b [lease_id l] s1"
    using lease.neutralD [OF calm_lease [OF calm_refresh] L, of ev l] by simp
  show "lease_level b (case r of Inl _ \<Rightarrow> [] | Inr x \<Rightarrow> h x) s'"
  proof (cases r1)
    case (Inl e)
    then have "k e s1 = (r, s')" using run 1 by (simp add: handling_def)
    then show ?thesis by (rule lease.ownsD [OF assms(1) h])
  next
    case (Inr l')
    then have "lease_id l' = lease_id l" using 1 refresh_same_id
      by (auto simp: on_app_def Let_def map_err_Inr split: prod.splits)
    moreover have "f l' s1 = (r, s')" using run 1 Inr by (simp add: handling_def)
    ultimately show ?thesis by (rule lease.ownsD [OF assms(2) h])
  qed
qed

lemma scoped_handling: "scoped f m = handling m sreturn (\<lambda>e. sbind (smodify f) (\<lambda>_. sfail e))"
  by (auto simp: scoped_def handling_def fun_eq_iff split: sum.splits prod.splits)

lemma owns_ready: "lease.owns [] (select_ready_provider n user allp aff) (\<lambda>l. [lease_id l])"
proof -
  have second: "lease.owns [lease_id l]
      (scoped (release l) (on_app (refresh_if_needed (nt_env n) l))) (\<lambda>l. [lease_id l])" for l
    unfolding scoped_handling
    by (rule owns_refreshing)
      (auto intro: lease.owns_sbind owns_release lease.owns_sfail
        lease.owns_sreturn [where g = "\<lambda>l. [lease_id l]"] simp del: fun_upd_apply,
       metis lease.owns_sreturn [where g = "\<lambda>l. [lease_id l]"])
  show ?thesis
    unfolding select_ready_provider_def
    by (rule lease.owns_sbind [OF owns_pick], rule owns_refreshing)
      (rule lease.owns_sbind [OF owns_release], rule lease.owns_sbind [OF owns_pick], rule second,
       metis lease.owns_sreturn [where g = "\<lambda>l. [lease_id l]"])
qed

abbreviation maybe_lease :: "lease option \<Rightarrow> string list" where
  "maybe_lease x \<equiv> (case x of None \<Rightarrow> [] | Some l \<Rightarrow> [lease_id l])"

lemma owns_retry: "lease.owns [] (retry_provider n user allp aff pid) maybe_lease"
proof -
  have none: "lease.owns [] (sreturn None) maybe_lease"
    using lease.owns_sreturn [where g = maybe_lease and x = None] by simp
  have some: "lease.owns [lease_id l] (sreturn (Some l')) maybe_lease" if "lease_id l' = lease_id l" for l l'
    using lease.owns_sreturn [where g = maybe_lease and x = "Some l'"] that by simp
  show ?thesis
    unfolding retry_provider_def
    by (rule lease.owns_taking [OF owns_pick], rule owns_refreshing)
      (rule lease.owns_sbind [OF owns_release none], erule some, rule none)
qed

abbreviation answer_lease :: "lease \<times> 'x \<Rightarrow> string list" where
  "answer_lease x \<equiv> [lease_id (fst x)]"

lemma owns_attempt:
  assumes "\<And>l. calm (send1 l)" and "\<And>l. calm (send2 l)"
  shows "lease.owns [lease_id first] (attempt_twice n user allp aff send1 send2 first) answer_lease"
proof -
  let ?mid = "\<lambda>(up :: upstream_response, second). lease_id first # maybe_lease second"
  have inner: "lease.owns [] (sbind (send1 first) (\<lambda>r. sbind (track_upstream n (lease_id first) (Live r)) (\<lambda>up.
          if retryable (up_status up)
          then sbind (retry_provider n user allp aff (lease_id first)) (\<lambda>second. sreturn (up, second))
          else sreturn (up, None)))) (\<lambda>(up, second). maybe_lease second)"
  proof (rule lease.owns_sbind [OF calm_lease [OF assms(1)]],
      rule lease.owns_sbind [OF calm_lease [OF calm_track]], rule lease.owns_if)
    fix up
    show "lease.owns [] (sbind (retry_provider n user allp aff (lease_id first)) (\<lambda>second. sreturn (up, second)))
        (\<lambda>(up, second). maybe_lease second)"
      by (rule lease.owns_sbind [OF owns_retry])
        (metis lease.owns_sreturn [where g = "\<lambda>(up, second). maybe_lease second"] case_prod_conv)
    show "lease.owns [] (sreturn (up, None)) (\<lambda>(up, second). maybe_lease second)"
      using lease.owns_sreturn [where g = "\<lambda>(up, second). maybe_lease second" and x = "(up, None)"] by simp
  qed
  have outer: "lease.owns [lease_id first] (scoped (release first) (sbind (send1 first) (\<lambda>r.
        sbind (track_upstream n (lease_id first) (Live r)) (\<lambda>up.
          if retryable (up_status up)
          then sbind (retry_provider n user allp aff (lease_id first)) (\<lambda>second. sreturn (up, second))
          else sreturn (up, None))))) ?mid"
    using lease.owns_scoped [OF inner, of "lease_id first"]
    unfolding release_drop_id by (rule owns_relabel) (simp add: case_prod_unfold)
  have second: "lease.owns [lease_id l] (scoped (release l) (sbind (send2 l) (\<lambda>r.
        sbind (track_upstream n (lease_id l) (Live r)) (\<lambda>up2. sreturn (l, up2))))) answer_lease" for l
  proof -
    have "calm (sbind (send2 l) (\<lambda>r. sbind (track_upstream n (lease_id l) (Live r)) (\<lambda>up2.
        sreturn (l, up2))))"
      by (intro calm_rules assms(2))
    from lease.owns_scoped [OF calm_lease [OF this]] show ?thesis
      unfolding release_drop_id
      by (rule lease.owns_result) (auto simp: scoped_def sbind_Inr_iff split: prod.splits sum.splits)
  qed
  show ?thesis
    unfolding attempt_twice_def
  proof (rule lease.owns_sbind [OF outer])
    fix x :: "upstream_response \<times> lease option"
    obtain up l where x: "x = (up, l)" by (cases x)
    show "lease.owns (?mid x) (case x of (up, second) \<Rightarrow> case second of
          None \<Rightarrow> sreturn (first, up)
        | Some l \<Rightarrow> sbind (smodify (release first)) (\<lambda>_. scoped (release l)
              (sbind (send2 l) (\<lambda>r. sbind (track_upstream n (lease_id l) (Live r)) (\<lambda>up2.
               sreturn (l, up2)))))) answer_lease"
      by (cases l) (simp_all add: x lease.owns_value lease.owns_sbind [OF owns_release second])
  qed
qed

text \<open>An answer holds its lease as long as its body streams.\<close>

abbreviation body_lease :: "reply_body response \<Rightarrow> string list" where
  "body_lease resp \<equiv> (case rs_body resp of Complete _ \<Rightarrow> [] | Streaming bs \<Rightarrow> [lease_id (bs_lease bs)])"

lemma build_response_body: "build_response status headers bd = Inr resp \<Longrightarrow> rs_body resp = bd"
  by (auto simp: build_response_def)

lemma calm_relay_complete: "calm (relay_complete n context up)"
  unfolding relay_complete_def by (intro calm_rules)

lemma calm_image_reply: "calm (image_reply n context up)"
  unfolding image_reply_def by (intro calm_rules)

lemma relay_complete_body:
  "relay_complete n context up s = (Inr resp, s') \<Longrightarrow> \<exists>bd. rs_body resp = Complete bd"
  by (auto simp: relay_complete_def sbind_Inr_iff fallible_def map_err_Inr build_response_def)

lemma image_reply_body: "image_reply n context up s = (Inr resp, s') \<Longrightarrow> \<exists>bd. rs_body resp = Complete bd"
  by (auto simp: image_reply_def sbind_Inr_iff fallible_def map_err_Inr build_response_def Let_def
      split: prod.splits)

lemma owns_complete:
  assumes "calm m" and "\<And>s resp s'. m s = (Inr resp, s') \<Longrightarrow> \<exists>bd. rs_body resp = Complete bd"
  shows "lease.owns [lease_id l] (ensuring (release l) m) body_lease"
proof -
  have "lease.owns [lease_id l] (ensuring (release l) m) (\<lambda>_. [])"
    unfolding release_drop_id by (rule lease.owns_ensuring [OF calm_lease [OF assms(1)]])
  then show ?thesis
    by (rule lease.owns_result) (auto simp: ensuring_def split: prod.splits dest!: assms(2))
qed

lemma relay_stream_body:
  "relay_stream context l r s = (Inr resp, s') \<Longrightarrow> \<exists>bs. rs_body resp = Streaming bs \<and> bs_lease bs = l"
  by (auto simp: relay_stream_def sbind_Inr_iff fallible_def map_err_Inr build_response_def)

lemma relay_stream_total: "\<exists>resp s'. relay_stream context l r s = (Inr resp, s')"
  by (simp add: relay_stream_def fallible_def build_response_def map_err_def on_tracker_def)

lemma calm_relay_stream: "calm (relay_stream context l r)"
  unfolding relay_stream_def by (intro calm_rules)

lemma owns_relay_stream: "lease.owns [lease_id l] (relay_stream context l r) body_lease"
proof (rule lease.ownsI)
  fix b s v s' assume h: "lease_level b [lease_id l] s" and run: "relay_stream context l r s = (v, s')"
  obtain resp where v: "v = Inr resp" using relay_stream_total run by (metis prod.inject)
  have "lease_level b [lease_id l] s'"
    using lease.neutralD [OF calm_lease [OF calm_relay_stream] h] run by (metis snd_conv)
  then show "lease_level b (case v of Inl _ \<Rightarrow> [] | Inr x \<Rightarrow> body_lease x) s'"
    using relay_stream_body [OF run [unfolded v]] by (auto simp: v)
qed

lemma owns_after_calm:
  assumes "calm m" and total: "\<And>s. \<exists>x s'. m s = (Inr x, s')" and k: "\<And>x. lease.owns L (k x) h"
  shows "lease.owns L (sbind m k) h"
proof (rule lease.owns_sbind [where g = "\<lambda>_. L"])
  show "lease.owns L m (\<lambda>_. L)"
  proof (rule lease.ownsI)
    fix b s r s' assume "lease_level b L s" and run: "m s = (r, s')"
    then have "lease_level b L s'" using lease.neutralD [OF calm_lease [OF assms(1)]] by (metis snd_conv)
    then show "lease_level b (case r of Inl _ \<Rightarrow> [] | Inr _ \<Rightarrow> L) s'"
      using total [of s] run by auto
  qed
qed (rule k)

lemma owns_on_tracker: "(\<And>x. lease.owns L (k x) h) \<Longrightarrow> lease.owns L (sbind (on_tracker f) k) h"
  by (rule owns_after_calm [OF calm_simple(6)]) (simp_all add: on_tracker_def)

lemma owns_relay: "lease.owns [lease_id l] (relay_response n context l up) body_lease"
  unfolding relay_response_def
  by (rule owns_on_tracker)
    (auto split: upstream_response.splits intro: lease.owns_if owns_relay_stream
      owns_complete [OF calm_relay_complete relay_complete_body])

lemma owns_image: "lease.owns [lease_id l] (image_response n context l up) body_lease"
  unfolding image_response_def
  by (rule owns_on_tracker) (intro lease.owns_if owns_relay owns_complete [OF calm_image_reply image_reply_body])

lemma owns_dispatch: "lease.owns [] (dispatch n identity path headers bd) body_lease"
  unfolding dispatch_def Let_def
  by (rule lease.owns_sbind [OF calm_lease] lease.owns_sbind [OF owns_ready]
      lease.owns_sbind [OF owns_attempt] calm_rules lease.owns_if | simp add: case_prod_unfold owns_relay owns_image)+

lemma run_stream_lease: "lease.owns [lease_id (bs_lease bs)] (run_stream n bs) (\<lambda>_. [])"
proof (rule lease.ownsI)
  fix b s r s' assume h: "lease_level b [lease_id (bs_lease bs)] s" and run: "run_stream n bs s = (r, s')"
  from run obtain w where s': "s' = drop_id (lease_id (bs_lease bs)) (s\<lparr>cs_audit := w\<rparr>)"
    by (auto simp: run_stream_def Let_def release_drop_id split: prod.splits)
  have "lease_level b [lease_id (bs_lease bs)] (s\<lparr>cs_audit := w\<rparr>)"
    using h by (simp add: lease_level_def)
  then have "lease_level b [] s'" unfolding s' by (rule lease.holds_free)
  then show "lease_level b (case r of Inl _ \<Rightarrow> [] | Inr _ \<Rightarrow> []) s'" by (cases r) simp_all
qed

lemma owns_serve:
  assumes "lease.owns [] m body_lease" shows "lease.neutral (serve n m)"
  unfolding serve_def
proof (rule lease.owns_sbind [OF assms])
  fix resp :: "reply_body response"
  show "lease.owns (body_lease resp) (case rs_body resp of Complete bd \<Rightarrow> sreturn [bd]
      | Streaming bs \<Rightarrow> run_stream n bs) (\<lambda>_. [])"
    by (cases "rs_body resp") (simp_all add: lease.owns_value run_stream_lease)
qed

lemma conclude_frame: "lease.frame (drop_tracker n)"
  by (rule lease_frame) (simp add: drop_tracker_def)

lemma owns_conclude: "lease.owns [] m g \<Longrightarrow> lease.owns [] (conclude n m) g"
  unfolding conclude_def
  by (rule lease.owns_ensuring_frame [OF conclude_frame], rule lease.owns_taking)
    (auto split: stop.splits intro!: lease.owns_sreturn lease.owns_sfail lease.owns_if calm_simple
      lease.owns_sbind [OF calm_lease])

lemma owns_handle_json: "lease.owns [] (handle_json n rq bd) body_lease"
  unfolding handle_json_def
  by (rule lease.owns_sbind [OF calm_lease [OF calm_caller(1)]],
      rule lease.owns_sbind [OF calm_lease [OF calm_begin]], rule owns_conclude,
      rule owns_on_tracker, rule owns_dispatch)

lemma file_frame: "lease.frame (remove_file path)"
  by (rule lease_frame) (simp add: remove_file_def)

lemma owns_spool: "lease.neutral (spool_create n limit bd)"
  unfolding spool_create_def
  by (intro lease.owns_sbind [where g = "\<lambda>_. []"] calm_lease calm_simple lease.owns_scoped_frame
      file_frame lease.owns_frame lease_frame) simp

lemma owns_dispatch_audio: "lease.owns [] (dispatch_audio n identity path headers bd) body_lease"
  unfolding dispatch_audio_def Let_def
  by (rule owns_on_tracker lease.owns_sbind [OF owns_spool] lease.owns_sbind [OF lease.owns_ensuring_frame]
      file_frame lease.owns_sbind [OF owns_ready] owns_attempt calm_rules
    | simp add: case_prod_unfold owns_relay)+

lemma owns_handle_audio: "lease.owns [] (handle_audio n rq bd) body_lease"
  unfolding handle_audio_def
  by (rule lease.owns_sbind [OF calm_lease [OF calm_caller(1)]],
      rule lease.owns_sbind [OF calm_lease [OF calm_begin]], rule owns_conclude,
      rule owns_on_tracker, rule owns_dispatch_audio)

lemma owns_ending:
  assumes "calm m" shows "lease.owns [lease_id l] (ensuring (release l) m) (\<lambda>_. [])"
  unfolding release_drop_id by (rule lease.owns_ensuring [OF calm_lease [OF assms]])

lemma owns_console_transcription: "lease.neutral (handle_console_transcription n headers bd)"
  unfolding handle_console_transcription_def Let_def
  by (rule lease.owns_sbind [OF calm_lease [OF calm_caller(2)]] lease.owns_sbind [OF owns_spool]
      lease.owns_sbind [OF lease.owns_ensuring_frame] owns_ending
      file_frame lease.owns_sbind [OF owns_ready] owns_attempt calm_rules
    | simp add: case_prod_unfold)+

lemma owns_console_image: "lease.neutral (handle_console_image_generation n headers bd)"
  unfolding handle_console_image_generation_def Let_def
  by (rule lease.owns_sbind [OF calm_lease [OF calm_caller(2)]]
      lease.owns_sbind [OF calm_lease [OF calm_simple(5)]] lease.owns_sbind [OF calm_lease [OF calm_simple(4)]]
      lease.owns_sbind [OF owns_attempt] owns_ending lease.owns_sbind [OF owns_ready] calm_rules
    | simp add: case_prod_unfold)+

lemma neutral_inflight:
  assumes "lease.neutral m"
  shows "inflight (ap_balancer (cs_app (snd (m s)))) q = inflight (ap_balancer (cs_app s)) q"
proof -
  have "lease_level (inflight (ap_balancer (cs_app s)), {}) [] s" by (simp add: lease_level_def)
  from lease.neutralD [OF assms this] show ?thesis by (simp add: lease_level_def)
qed

text \<open>C4. Every call gives back the leases it took: when a call of a proxied endpoint has ended, its
  stream included, or a call of the console, every provider has exactly the requests in flight it
  had before, whether the call succeeded, failed, lost its client or panicked.\<close>

theorem calls_return_leases:
  "inflight (ap_balancer (cs_app (snd (serve n (handle_json n rq bd) s)))) q =
     inflight (ap_balancer (cs_app s)) q \<and>
   inflight (ap_balancer (cs_app (snd (serve n (handle_audio n rq chunks) s)))) q =
     inflight (ap_balancer (cs_app s)) q \<and>
   inflight (ap_balancer (cs_app (snd (handle_console_transcription n headers chunks s)))) q =
     inflight (ap_balancer (cs_app s)) q \<and>
   inflight (ap_balancer (cs_app (snd (handle_console_image_generation n headers bd s)))) q =
     inflight (ap_balancer (cs_app s)) q"
  by (intro conjI neutral_inflight owns_serve owns_handle_json owns_handle_audio
      owns_console_transcription owns_console_image)

end
