(* ===== verification/Call_Facts.thy ===== *)
theory Call_Facts
  imports Lease_Facts
begin

text \<open>
  What a call does besides its leases: the uploads it spools are gone when it ends, and it asks the
  upstream at most twice, the second time another provider.
\<close>

section \<open>Properties a step keeps\<close>

text \<open>A property of the state of a call that does not look at the program's state, or at the
  requests sent.\<close>

definition app_free :: "(call_state \<Rightarrow> bool) \<Rightarrow> bool" where
  "app_free P \<longleftrightarrow> (\<forall>s a. P s \<longrightarrow> P (s\<lparr>cs_app := a\<rparr>))"

definition sent_free :: "(call_state \<Rightarrow> bool) \<Rightarrow> bool" where
  "sent_free P \<longleftrightarrow> (\<forall>s r. P s \<longrightarrow> P (s\<lparr>cs_requests := r\<rparr>))"

lemma keeps_app [keeps_rules]:
  assumes "app_free P"
  shows "keeps P (pick n user allp aff ex)" and "keeps P (on_app m)"
    and "keeps P (smodify (release l))" and "keeps P (observe_reply n pid status bd)"
  using assms
  by (simp_all add: keeps_def app_free_def pick_def on_app_def release_def on_balancer_def
      observe_reply_def Let_def split: prod.splits)

lemma release_keeps: "app_free P \<Longrightarrow> P s \<Longrightarrow> P (release l s)"
  by (simp add: app_free_def release_def on_balancer_def)

lemma keeps_fallible [keeps_rules]: "keeps P (fallible r)"
  by (simp add: fallible_def keeps_slift)

lemma keeps_execute [keeps_rules]: "sent_free P \<Longrightarrow> keeps P (execute n l rq)"
  by (simp add: keeps_def sent_free_def execute_def Let_def split: net_reply.splits)

lemma keeps_on_tracker [keeps_rules]:
  "(\<And>s. P s \<Longrightarrow> P (s\<lparr>cs_tracker := f (cs_tracker s)\<rparr>)) \<Longrightarrow> keeps P (on_tracker f)"
  unfolding on_tracker_def by (rule keeps_smodify)

lemma keeps_ready:
  assumes "app_free P" shows "keeps P (select_ready_provider n user allp aff)"
  unfolding select_ready_provider_def
  by (intro keeps_rules assms release_keeps [OF assms])

lemma keeps_retry:
  assumes "app_free P" shows "keeps P (retry_provider n user allp aff pid)"
  unfolding retry_provider_def by (intro keeps_rules assms)

lemma keeps_track:
  assumes "app_free P" shows "keeps P (track_upstream n pid up)"
  unfolding track_upstream_def by (intro keeps_rules assms)

lemma keeps_attempt:
  assumes P: "app_free P" and "\<And>l. keeps P (send1 l)" and "\<And>l. keeps P (send2 l)"
  shows "keeps P (attempt_twice n user allp aff send1 send2 first)"
  unfolding attempt_twice_def
  by (intro keeps_rules P assms(2,3) keeps_retry keeps_track release_keeps [OF P])

lemma keeps_spool_body [keeps_rules]: "keeps P (spool_body n sp)"
  unfolding spool_body_def by (intro keeps_rules)

lemma keeps_caller [keeps_rules]:
  "keeps P (api_caller n headers)" "app_free P \<Longrightarrow> keeps P (console_user n headers)"
  unfolding api_caller_def console_user_def by (intro keeps_rules)+

lemma keeps_ensuring [keeps_rules]:
  "keeps P m \<Longrightarrow> (\<And>s. P s \<Longrightarrow> P (f s)) \<Longrightarrow> keeps P (ensuring f m)"
  by (simp add: keeps_def ensuring_def case_prod_unfold)

lemma keeps_payload [keeps_rules]: "keeps P (json_payload n path bd)"
  unfolding json_payload_def by (intro keeps_rules)

section \<open>Uploads\<close>

definition files_are :: "string list \<Rightarrow> call_state \<Rightarrow> bool" where
  "files_are F s \<longleftrightarrow> cs_files s = F"

lemma files_free: "app_free (files_are F)" "sent_free (files_are F)"
  by (simp_all add: app_free_def sent_free_def files_are_def)

lemma files_neutral: "(\<And>F. keeps (files_are F) m) \<Longrightarrow> upload.neutral m"
  by (rule upload_neutral) (simp add: keeps_def files_are_def)

lemma files_tracker: "files_are F s \<Longrightarrow> files_are F (s\<lparr>cs_tracker := t\<rparr>)"
  by (simp add: files_are_def)

lemma files_send: "keeps (files_are F) (send_upstream n l path inbound bd)"
  "keeps (files_are F) (send_transcription_upstream n l inbound bd)"
proof -
  show "keeps (files_are F) (send_upstream n l path inbound bd)"
    unfolding send_upstream_def by (intro keeps_rules files_free files_tracker)
  show "keeps (files_are F) (send_transcription_upstream n l inbound bd)"
    unfolding send_transcription_upstream_def by (intro keeps_rules files_free)
qed

lemma files_finish: "keeps (files_are F) (finish n status model u err)"
  by (simp add: keeps_def finish_def files_are_def Let_def split: prod.splits)

lemma files_relay_complete: "keeps (files_are F) (relay_complete n context up)"
  unfolding relay_complete_def by (intro keeps_rules files_finish files_tracker)

lemma files_relay_stream: "keeps (files_are F) (relay_stream context l r)"
  unfolding relay_stream_def by (intro keeps_rules files_tracker)

lemma files_release: "files_are F s \<Longrightarrow> files_are F (release l s)"
  by (rule release_keeps [OF files_free(1)])

lemma files_relay: "keeps (files_are F) (relay_response n context l up)"
proof -
  have "keeps (files_are F) (ensuring (release l) (relay_complete n context up))" for up
    by (intro keeps_rules files_relay_complete files_release)
  then have "keeps (files_are F) (case up of
       Live r \<Rightarrow> if cc_stream context \<and> is_success (hr_status r) then relay_stream context l r
         else ensuring (release l) (relay_complete n context up)
     | Buffered _ \<Rightarrow> ensuring (release l) (relay_complete n context up))"
    by (cases up) (simp_all add: files_relay_stream)
  then show ?thesis
    unfolding relay_response_def by (intro keeps_rules files_tracker)
qed

lemma upload_create: "upload.owns [] (spool_create n limit bd) (\<lambda>sp. [sp_path sp])"
proof -
  have path: "spool_write n limit sp cs = Inr sp' \<Longrightarrow> sp_path sp' = sp_path sp" for sp sp' cs
    by (induction n limit sp cs rule: spool_write.induct) (auto simp: rbind_Inr_iff)
  have stored: "upload.owns [p] (scoped (remove_file p) (slift (spool_write n limit
      \<lparr>sp_path = p, sp_preview = preview_default, sp_content = []\<rparr> bd))) (\<lambda>sp. [sp_path sp])" for p
    using upload.owns_scoped [OF upload.owns_slift]
    by (rule upload.owns_result) (auto simp: scoped_def dest: path split: prod.splits sum.splits)
  have add: "upload.owns [] (smodify (\<lambda>s. s\<lparr>cs_files := p # cs_files s\<rparr>)) (\<lambda>_. [p])" for p
    by (simp add: upload.owns_def file_level_def)
  show ?thesis
    unfolding spool_create_def
    by (rule upload.owns_sbind [OF upload.owns_sgets], rule upload.owns_sbind [OF upload.owns_slift],
        rule upload.owns_sbind [OF add], rule stored)
qed

lemma upload_within:
  "(\<And>F. keeps (files_are F) m) \<Longrightarrow> upload.owns [p] (ensuring (remove_file p) m) (\<lambda>_. [])"
  by (rule upload.owns_ensuring [OF files_neutral])

lemma upload_dispatch_audio: "upload.neutral (dispatch_audio n identity path headers bd)"
  unfolding dispatch_audio_def Let_def
proof (rule upload.owns_sbind [OF files_neutral], (intro keeps_rules files_tracker), assumption,
    rule upload.owns_sbind [OF upload_create], rule upload.owns_sbind [OF upload_within])
  fix x :: "lease \<times> upstream_response"
  show "upload.neutral (case x of (l, up) \<Rightarrow> relay_response n \<lparr>cc_model = None, cc_stream = False\<rparr> l up)"
    by (cases x) (simp add: files_neutral files_relay)
qed (intro keeps_rules keeps_ready keeps_attempt files_free files_tracker files_send, assumption+)

lemma upload_conclude: "upload.neutral m \<Longrightarrow> upload.neutral (conclude n m)"
  unfolding conclude_def
  by (rule upload.owns_ensuring_frame [OF upload_frame], simp add: drop_tracker_def,
      rule upload.owns_taking)
    (auto split: stop.splits simp: upload.owns_value upload.owns_sfail
      intro!: files_neutral keeps_rules files_finish files_tracker)

lemma files_begin: "keeps (files_are F) (begin_call n identity rq)"
  by (simp add: keeps_def begin_call_def files_are_def Let_def split: prod.splits)

lemma upload_handle_audio: "upload.neutral (handle_audio n rq bd)"
  unfolding handle_audio_def
  by (rule upload.owns_sbind [OF files_neutral [OF keeps_caller(1)]],
      rule upload.owns_sbind [OF files_neutral [OF files_begin]], rule upload_conclude,
      rule upload.owns_sbind [OF files_neutral [OF keeps_on_tracker]], erule files_tracker,
      rule upload_dispatch_audio)

lemma files_run_stream: "keeps (files_are F) (run_stream n bs)"
  by (auto simp: keeps_def run_stream_def release_def files_are_def Let_def split: prod.splits)

lemma upload_serve: "upload.neutral m \<Longrightarrow> upload.neutral (serve n m)"
  unfolding serve_def
  by (rule upload.owns_sbind)
    (auto split: reply_body.splits simp: upload.owns_value intro: files_neutral files_run_stream)

lemma upload_console: "upload.neutral (handle_console_transcription n headers bd)"
  unfolding handle_console_transcription_def Let_def
proof (rule upload.owns_sbind [OF files_neutral [OF keeps_caller(2)]], rule files_free)
  fix x :: "user_identity \<times> bool"
  obtain user allp where x: "x = (user, allp)" by (cases x)
  have "upload.neutral (sbind (spool_create n 0 bd) (\<lambda>sp.
     sbind (ensuring (remove_file (sp_path sp))
          (sbind (select_ready_provider n (ui_id user) allp None)
            (attempt_twice n (ui_id user) allp None
              (\<lambda>l. sbind (spool_body n sp) (send_transcription_upstream n l headers))
              (\<lambda>l. sbind (spool_body n sp) (send_transcription_upstream n l headers))))) (\<lambda>(l, up).
        ensuring (release l)
          (sbind (slift (into_bytes up)) (\<lambda>bytes.
           sbind (fallible (transcription_text (ev_parse (nt_env n)) (up_status up) bytes)) (\<lambda>text.
           sreturn (JObj [(''text'', JStr text)])))))))"
  proof (rule upload.owns_sbind [OF upload_create], rule upload.owns_sbind [OF upload_within])
    fix F sp
    show "keeps (files_are F) (sbind (select_ready_provider n (ui_id user) allp None)
            (attempt_twice n (ui_id user) allp None
              (\<lambda>l. sbind (spool_body n sp) (send_transcription_upstream n l headers))
              (\<lambda>l. sbind (spool_body n sp) (send_transcription_upstream n l headers))))"
      by (intro keeps_rules keeps_ready keeps_attempt files_free files_send)
  next
    fix y :: "lease \<times> upstream_response"
    show "upload.neutral (case y of (l, up) \<Rightarrow> ensuring (release l)
          (sbind (slift (into_bytes up)) (\<lambda>bytes.
           sbind (fallible (transcription_text (ev_parse (nt_env n)) (up_status up) bytes)) (\<lambda>text.
           sreturn (JObj [(''text'', JStr text)])))))"
      by (rule files_neutral) (intro keeps_rules files_release)
  qed
  then show "upload.neutral (case x of (user, allp) \<Rightarrow> sbind (spool_create n 0 bd) (\<lambda>sp.
     sbind (ensuring (remove_file (sp_path sp))
          (sbind (select_ready_provider n (ui_id user) allp None)
            (attempt_twice n (ui_id user) allp None
              (\<lambda>l. sbind (spool_body n sp) (send_transcription_upstream n l headers))
              (\<lambda>l. sbind (spool_body n sp) (send_transcription_upstream n l headers))))) (\<lambda>(l, up).
        ensuring (release l)
          (sbind (slift (into_bytes up)) (\<lambda>bytes.
           sbind (fallible (transcription_text (ev_parse (nt_env n)) (up_status up) bytes)) (\<lambda>text.
           sreturn (JObj [(''text'', JStr text)])))))))"
    by (simp add: x)
qed

lemma neutral_files:
  assumes "upload.neutral m" shows "mset (cs_files (snd (m s))) = mset (cs_files s)"
proof -
  have "file_level (mset (cs_files s)) [] s" by (simp add: file_level_def)
  from upload.neutralD [OF assms this] show ?thesis by (simp add: file_level_def)
qed


section \<open>Two attempts at most\<close>

text \<open>A step after which the requests sent are those before and possibly one to a given provider.\<close>

definition sends_to :: "net \<Rightarrow> lease \<Rightarrow> http_reply call \<Rightarrow> bool" where
  "sends_to n l m \<longleftrightarrow> (\<forall>s r s'. m s = (r, s') \<longrightarrow>
     cs_requests s' = cs_requests s \<and> (\<forall>x. r \<noteq> Inr x) \<or>
     (\<exists>rq. cs_requests s' = cs_requests s @ [(lease_id l, rq)] \<and>
        (\<forall>x. r = Inr x \<longrightarrow> nt_reply n (length (cs_requests s)) rq = Answered x)))"

definition sent_are :: "(string \<times> upstream_request) list \<Rightarrow> call_state \<Rightarrow> bool" where
  "sent_are R s \<longleftrightarrow> cs_requests s = R"

lemma sent_app: "app_free (sent_are R)"
  by (simp add: app_free_def sent_are_def)

lemma sent_tracker: "sent_are R s \<Longrightarrow> sent_are R (s\<lparr>cs_tracker := t\<rparr>)"
  by (simp add: sent_are_def)

lemma quiet_requests: "(\<And>R. keeps (sent_are R) m) \<Longrightarrow> m s = (r, s') \<Longrightarrow> cs_requests s' = cs_requests s"
  unfolding keeps_def sent_are_def by (metis snd_conv)

lemma sends_execute: "sends_to n l (execute n l rq)"
  by (auto simp: sends_to_def execute_def Let_def split: net_reply.splits)

lemma sends_after:
  assumes m: "\<And>R. keeps (sent_are R) m" and k: "\<And>x. sends_to n l (k x)"
  shows "sends_to n l (sbind m k)"
  unfolding sends_to_def
proof (intro allI impI)
  fix s r s' assume run: "sbind m k s = (r, s')"
  obtain v s1 where 1: "m s = (v, s1)" by fastforce
  have q: "cs_requests s1 = cs_requests s" by (rule quiet_requests [OF m 1])
  show "cs_requests s' = cs_requests s \<and> (\<forall>x. r \<noteq> Inr x) \<or>
     (\<exists>rq. cs_requests s' = cs_requests s @ [(lease_id l, rq)] \<and>
        (\<forall>x. r = Inr x \<longrightarrow> nt_reply n (length (cs_requests s)) rq = Answered x))"
  proof (cases v)
    case (Inl e)
    then show ?thesis using run 1 q by (auto simp: sbind_def)
  next
    case (Inr x)
    then have "k x s1 = (r, s')" using run 1 by (simp add: sbind_def)
    then show ?thesis using k [of x] q unfolding sends_to_def by metis
  qed
qed

lemma sends_upstream:
  "sends_to n l (send_upstream n l path inbound bd)"
  "sends_to n l (send_transcription_upstream n l inbound bd)"
  "sends_to n l (send_console_image_upstream n l inbound bd)"
proof -
  show "sends_to n l (send_upstream n l path inbound bd)"
    unfolding send_upstream_def by (intro sends_after sends_execute keeps_rules sent_tracker)
  show "sends_to n l (send_transcription_upstream n l inbound bd)"
    unfolding send_transcription_upstream_def by (intro sends_after sends_execute keeps_rules)
  show "sends_to n l (send_console_image_upstream n l inbound bd)"
    unfolding send_console_image_upstream_def by (intro sends_after sends_execute keeps_rules)
qed

lemma track_status:
  "track_upstream n pid up s = (Inr up', s') \<Longrightarrow> up_status up' = up_status up"
  by (cases up) (auto simp: track_upstream_def sbind_Inr_iff rbind_Inr_iff observe_reply_def split: if_splits)

lemma pick_other:
  assumes "pick n user allp aff (Some pid) s = (Inr l, s')" shows "lease_id l \<noteq> pid"
proof -
  obtain b' where "select (ev_sha (nt_env n)) (cf_affinity_ttl_seconds (ap_config (cs_app s)))
      (ev_now (nt_env n)) user allp aff (Some pid) (ap_balancer (cs_app s)) = (Inr l, b')"
    using assms by (auto simp: pick_def Let_def map_err_Inr split: prod.splits)
  from select_sound_fields [OF this] show ?thesis by (auto simp: lease_id_def eligible_iff)
qed

lemma retry_other:
  assumes "retry_provider n user allp aff pid s = (Inr (Some l), s')" shows "lease_id l \<noteq> pid"
proof -
  obtain v s1 where 1: "pick n user allp aff (Some pid) s = (v, s1)" by fastforce
  show ?thesis
  proof (cases v)
    case (Inl e)
    then show ?thesis using assms 1 by (simp add: retry_provider_def handling_def)
  next
    case (Inr l0)
    with assms 1 have "on_app (refresh_if_needed (nt_env n) l0) s1 = (Inr l, s')"
      by (auto simp: retry_provider_def handling_def split: sum.splits prod.splits)
    then have "lease_id l = lease_id l0"
      using refresh_same_id by (auto simp: on_app_def Let_def map_err_Inr split: prod.splits)
    then show ?thesis using pick_other 1 Inr by simp
  qed
qed

definition at_most_two :: "net \<Rightarrow> nat \<Rightarrow> (string \<times> upstream_request) list \<Rightarrow> bool" where
  "at_most_two n k rs \<longleftrightarrow>
     rs = [] \<or> (\<exists>a. rs = [a]) \<or>
     (\<exists>a b x. rs = [a, b] \<and> fst a \<noteq> fst b \<and> nt_reply n k (snd a) = Answered x \<and>
        (hr_status x \<in> {401, 403, 429} \<or> 500 \<le> hr_status x \<and> hr_status x < 600))"

definition asks :: "net \<Rightarrow> 'a call \<Rightarrow> bool" where
  "asks n m \<longleftrightarrow> (\<forall>s r s'. m s = (r, s') \<longrightarrow>
     (\<exists>rs. cs_requests s' = cs_requests s @ rs \<and> at_most_two n (length (cs_requests s)) rs))"

abbreviation silent :: "'a call \<Rightarrow> bool" where
  "silent m \<equiv> (\<forall>R. keeps (sent_are R) m)"

lemma silentD: "silent m \<Longrightarrow> m s = (r, s') \<Longrightarrow> cs_requests s' = cs_requests s"
  using quiet_requests [of m s r s'] by blast

lemma silentI: "(\<And>R. keeps (sent_are R) m) \<Longrightarrow> silent m" by simp

lemma asks_silent: "silent m \<Longrightarrow> asks n m"
  by (auto simp: asks_def at_most_two_def dest: silentD)

lemma asks_after:
  assumes m: "silent m" and k: "\<And>x. asks n (k x)" shows "asks n (sbind m k)"
  unfolding asks_def
proof (intro allI impI)
  fix s r s' assume run: "sbind m k s = (r, s')"
  obtain v s1 where 1: "m s = (v, s1)" by fastforce
  note q = silentD [OF m 1]
  show "\<exists>rs. cs_requests s' = cs_requests s @ rs \<and> at_most_two n (length (cs_requests s)) rs"
  proof (cases v)
    case (Inl e)
    then show ?thesis using run 1 q by (auto simp: sbind_def at_most_two_def)
  next
    case (Inr x)
    then have "k x s1 = (r, s')" using run 1 by (simp add: sbind_def)
    then show ?thesis using k [of x] q unfolding asks_def by metis
  qed
qed

lemma asks_before:
  assumes m: "asks n m" and k: "\<And>x. silent (k x)" shows "asks n (sbind m k)"
  unfolding asks_def
proof (intro allI impI)
  fix s r s' assume run: "sbind m k s = (r, s')"
  obtain v s1 where 1: "m s = (v, s1)" by fastforce
  from m 1 obtain rs where rs: "cs_requests s1 = cs_requests s @ rs" "at_most_two n (length (cs_requests s)) rs"
    unfolding asks_def by blast
  have "cs_requests s' = cs_requests s1"
  proof (cases v)
    case (Inl e)
    then show ?thesis using run 1 by (simp add: sbind_def)
  next
    case (Inr x)
    then have "k x s1 = (r, s')" using run 1 by (simp add: sbind_def)
    then show ?thesis by (rule silentD [OF k])
  qed
  with rs show "\<exists>rs. cs_requests s' = cs_requests s @ rs \<and> at_most_two n (length (cs_requests s)) rs" by auto
qed

lemma asks_handling:
  assumes m: "asks n m" and "\<And>e. silent (g e)" shows "asks n (handling m sreturn g)"
  unfolding asks_def
proof (intro allI impI)
  fix s r s' assume run: "handling m sreturn g s = (r, s')"
  obtain v s1 where 1: "m s = (v, s1)" by fastforce
  from m 1 obtain rs where rs: "cs_requests s1 = cs_requests s @ rs" "at_most_two n (length (cs_requests s)) rs"
    unfolding asks_def by blast
  have "cs_requests s' = cs_requests s1"
    using run 1 silentD [OF assms(2), of _ s1 r s'] by (cases v) (auto simp: handling_def)
  with rs show "\<exists>rs. cs_requests s' = cs_requests s @ rs \<and> at_most_two n (length (cs_requests s)) rs" by auto
qed

lemma asks_ensuring:
  "asks n m \<Longrightarrow> (\<And>s. cs_requests (f s) = cs_requests s) \<Longrightarrow> asks n (ensuring f m)"
  by (fastforce simp: asks_def ensuring_def split: prod.splits)

lemma silent_retry: "silent (retry_provider n user allp aff pid)"
  by (rule silentI [OF keeps_retry [OF sent_app]])

lemma silent_track: "silent (track_upstream n pid up)"
  by (rule silentI [OF keeps_track [OF sent_app]])

lemma first_attempt:
  assumes asm: "sends_to n l (send1 l)"
    and run: "scoped (release l) (sbind (send1 l) (\<lambda>r. sbind (track_upstream n (lease_id l) (Live r)) (\<lambda>up.
          if retryable (up_status up)
          then sbind (retry_provider n user allp aff (lease_id l)) (\<lambda>second. sreturn (up, second))
          else sreturn (up, None)))) s = (v, s1)"
  shows "(cs_requests s1 = cs_requests s \<and> (\<forall>x. v \<noteq> Inr x)) \<or>
     (\<exists>rq. cs_requests s1 = cs_requests s @ [(lease_id l, rq)] \<and>
        (\<forall>up l'. v = Inr (up, Some l') \<longrightarrow> lease_id l' \<noteq> lease_id l \<and>
           (\<exists>x. nt_reply n (length (cs_requests s)) rq = Answered x \<and> retryable (hr_status x))))"
proof -
  let ?k = "\<lambda>r. sbind (track_upstream n (lease_id l) (Live r)) (\<lambda>up.
          if retryable (up_status up)
          then sbind (retry_provider n user allp aff (lease_id l)) (\<lambda>second. sreturn (up, second))
          else sreturn (up, None))"
  have quiet: "silent (?k r)" for r
    by (intro silentI keeps_rules keeps_retry keeps_track sent_app)
  from run obtain t where body: "sbind (send1 l) ?k s = (v, t)" and t: "cs_requests s1 = cs_requests t"
    by (auto simp: scoped_def release_def split: prod.splits sum.splits)
  obtain w s0 where 0: "send1 l s = (w, s0)" by fastforce
  show ?thesis
  proof (cases w)
    case (Inl e)
    then show ?thesis using body 0 t asm unfolding sends_to_def sbind_def by fastforce
  next
    case (Inr x)
    then have k: "?k x s0 = (v, t)" using body 0 by (simp add: sbind_def)
    have "cs_requests t = cs_requests s0" by (rule silentD [OF quiet k])
    moreover obtain rq where "cs_requests s0 = cs_requests s @ [(lease_id l, rq)]"
      "nt_reply n (length (cs_requests s)) rq = Answered x"
      using asm 0 Inr unfolding sends_to_def by fastforce
    moreover have "retryable (hr_status x) \<and> lease_id l' \<noteq> lease_id l" if "v = Inr (up, Some l')" for up l'
      using k that track_status retry_other
      by (auto simp: sbind_Inr_iff split: if_splits)
    ultimately show ?thesis using t by fastforce
  qed
qed

lemma asks_attempt:
  assumes s1: "\<And>l. sends_to n l (send1 l)" and s2: "\<And>l. sends_to n l (send2 l)"
  shows "asks n (attempt_twice n user allp aff send1 send2 first)"
  unfolding asks_def
proof (intro allI impI)
  fix s r s' assume run: "attempt_twice n user allp aff send1 send2 first s = (r, s')"
  let ?one = "scoped (release first) (sbind (send1 first) (\<lambda>r. sbind (track_upstream n (lease_id first) (Live r)) (\<lambda>up.
          if retryable (up_status up)
          then sbind (retry_provider n user allp aff (lease_id first)) (\<lambda>second. sreturn (up, second))
          else sreturn (up, None))))"
  obtain v t where 1: "?one s = (v, t)" by fastforce
  note f = first_attempt [of n first send1, OF s1 1]
  show "\<exists>rs. cs_requests s' = cs_requests s @ rs \<and> at_most_two n (length (cs_requests s)) rs"
  proof (cases "\<exists>up l. v = Inr (up, Some l)")
    case False
    then have "s' = t"
      using run 1 by (auto simp: attempt_twice_def sbind_def split: sum.splits prod.splits option.splits)
    then show ?thesis using f by (auto simp: at_most_two_def)
  next
    case True
    then obtain up l where v: "v = Inr (up, Some l)" by blast
    then obtain rq where rq: "cs_requests t = cs_requests s @ [(lease_id first, rq)]"
      "\<exists>x. nt_reply n (length (cs_requests s)) rq = Answered x \<and> retryable (hr_status x)"
      "lease_id l \<noteq> lease_id first"
      using f by auto
    let ?k = "\<lambda>r. sbind (track_upstream n (lease_id l) (Live r)) (\<lambda>up2. sreturn (l, up2))"
    have "scoped (release l) (sbind (send2 l) ?k) (release first t) = (r, s')"
      using run 1 v by (simp add: attempt_twice_def sbind_def)
    then obtain t2 where body: "sbind (send2 l) ?k (release first t) = (r, t2)"
      and t2: "cs_requests s' = cs_requests t2"
      by (auto simp: scoped_def release_def split: prod.splits sum.splits)
    obtain w s3 where 3: "send2 l (release first t) = (w, s3)" by fastforce
    have q: "silent (?k x)" for x
      by (intro silentI keeps_rules keeps_track sent_app)
    have "cs_requests t2 = cs_requests s3"
    proof (cases w)
      case (Inl e)
      then show ?thesis using body 3 by (simp add: sbind_def)
    next
      case (Inr x)
      then have "?k x s3 = (r, t2)" using body 3 by (simp add: sbind_def)
      then show ?thesis by (rule silentD [OF q])
    qed
    moreover have "cs_requests s3 = cs_requests t \<or> (\<exists>rq2. cs_requests s3 = cs_requests t @ [(lease_id l, rq2)])"
      using s2 [of l] 3 unfolding sends_to_def by (fastforce simp: release_def)
    ultimately show ?thesis using rq t2 by (auto simp: at_most_two_def retryable_def is_server_error_def)
  qed
qed

lemma silent_finish: "keeps (sent_are R) (finish n status model u err)"
  by (simp add: keeps_def finish_def sent_are_def Let_def split: prod.splits)

lemma sent_release: "sent_are R s \<Longrightarrow> sent_are R (release l s)"
  by (rule release_keeps [OF sent_app])

lemma silent_complete: "keeps (sent_are R) (relay_complete n context up)"
  unfolding relay_complete_def by (intro keeps_rules silent_finish sent_tracker)

lemma silent_relay: "keeps (sent_are R) (relay_response n context l up)"
proof -
  have c: "keeps (sent_are R) (ensuring (release l) (relay_complete n context up))" for up
    by (intro keeps_rules silent_complete sent_release)
  have "keeps (sent_are R) (relay_stream context l r)" for r
    unfolding relay_stream_def by (intro keeps_rules sent_tracker)
  with c have "keeps (sent_are R) (case up of
       Live r \<Rightarrow> if cc_stream context \<and> is_success (hr_status r) then relay_stream context l r
         else ensuring (release l) (relay_complete n context up)
     | Buffered _ \<Rightarrow> ensuring (release l) (relay_complete n context up))"
    by (cases up) simp_all
  then show ?thesis
    unfolding relay_response_def by (intro keeps_rules sent_tracker)
qed

lemma silent_image: "keeps (sent_are R) (image_response n context l up)"
proof -
  have "keeps (sent_are R) (image_reply n context up)"
    unfolding image_reply_def by (intro keeps_rules silent_finish sent_tracker)
  then show ?thesis
    unfolding image_response_def by (intro keeps_rules sent_tracker silent_relay sent_release)
qed

lemma silent_tracker: "keeps (sent_are R) (on_tracker f)"
  by (intro keeps_rules sent_tracker)

lemma sends_set_provider: "sends_to n l m \<Longrightarrow> sends_to n l (sbind (on_tracker f) (\<lambda>_. m))"
  by (rule sends_after [OF silent_tracker])

lemma asks_dispatch: "asks n (dispatch n identity path headers bd)"
  unfolding dispatch_def Let_def
  by (intro asks_after asks_before asks_attempt silentI sends_set_provider sends_upstream sends_after
      silent_tracker keeps_payload keeps_ready sent_app keeps_prod keeps_if silent_image silent_relay)

lemma asks_conclude: "asks n m \<Longrightarrow> asks n (conclude n m)"
  unfolding conclude_def
  by (rule asks_ensuring, rule asks_handling)
    (auto simp: drop_tracker_def split: stop.splits intro!: keeps_rules silent_finish silent_tracker)

lemma silent_begin: "keeps (sent_are R) (begin_call n identity rq)"
  by (simp add: keeps_def begin_call_def sent_are_def Let_def split: prod.splits)

lemma silent_run_stream: "keeps (sent_are R) (run_stream n bs)"
  by (auto simp: keeps_def run_stream_def release_def sent_are_def Let_def split: prod.splits)

lemma asks_serve: "asks n m \<Longrightarrow> asks n (serve n m)"
  unfolding serve_def
  by (rule asks_before) (auto split: reply_body.splits intro!: silent_run_stream keeps_rules)

lemma silent_spool: "keeps (sent_are R) (spool_create n limit bd)"
  unfolding spool_create_def by (intro keeps_rules) (simp_all add: sent_are_def remove_file_def)

lemma asks_handlers: "asks n (handle_json n rq bd)" "asks n (handle_audio n rq chunks)"
proof -
  show "asks n (handle_json n rq bd)"
    unfolding handle_json_def
    by (intro asks_after asks_conclude asks_dispatch silentI silent_tracker silent_begin keeps_caller(1))
  have "asks n (dispatch_audio n identity path headers bd)" for identity path headers bd
    unfolding dispatch_audio_def Let_def
    by (intro asks_after asks_before asks_attempt asks_ensuring silentI sends_set_provider sends_upstream sends_after
        silent_tracker silent_spool keeps_spool_body keeps_ready sent_app keeps_prod silent_relay)
      (simp add: remove_file_def)
  then show "asks n (handle_audio n rq chunks)"
    unfolding handle_audio_def
    by (intro asks_after asks_conclude silentI silent_tracker silent_begin keeps_caller(1))
qed

text \<open>C5. A call asks the upstream at most twice. The second request goes to another provider than
  the first, and only after an answer worth another attempt: 401, 403, 429 or a server error.\<close>

theorem at_most_two_attempts:
  "(\<exists>rs. cs_requests (snd (serve n (handle_json n rq bd) s)) = cs_requests s @ rs \<and>
      at_most_two n (length (cs_requests s)) rs) \<and>
   (\<exists>rs. cs_requests (snd (serve n (handle_audio n rq chunks) s)) = cs_requests s @ rs \<and>
      at_most_two n (length (cs_requests s)) rs)"
proof -
  have "\<exists>rs. cs_requests (snd (serve n m s)) = cs_requests s @ rs \<and>
      at_most_two n (length (cs_requests s)) rs" if "asks n m" for m
    using asks_serve [OF that] unfolding asks_def by (metis prod.collapse)
  from this [OF asks_handlers(1)] this [OF asks_handlers(2)] show ?thesis by (rule conjI)
qed

end
