(* ===== verification/Tracker_Facts.thy ===== *)
theory Tracker_Facts
  imports Call_Facts
begin

text \<open>
  The audit of a call: whatever happens to it, a call that found a place in the queue leaves exactly
  one event there, and the place and the permit of the archive budget are accounted for.
\<close>

section \<open>Events of one call\<close>

definition same_call :: "audit_event \<Rightarrow> audit_event \<Rightarrow> bool" where
  "same_call e f \<longleftrightarrow>
     c_id (au_call f) = c_id (au_call e) \<and> c_request_id (au_call f) = c_request_id (au_call e) \<and>
     c_consumer_id (au_call f) = c_consumer_id (au_call e) \<and> c_user_id (au_call f) = c_user_id (au_call e) \<and>
     c_path (au_call f) = c_path (au_call e) \<and> au_request_archive f = au_request_archive e"

lemma same_call_refl: "same_call e e" by (simp add: same_call_def)
lemma same_call_trans: "same_call e f \<Longrightarrow> same_call f g \<Longrightarrow> same_call e g" by (simp add: same_call_def)

definition same_events :: "audit_event option \<Rightarrow> audit_event option \<Rightarrow> bool" where
  "same_events x y \<longleftrightarrow> (case x of None \<Rightarrow> y = None | Some e \<Rightarrow> \<exists>f. y = Some f \<and> same_call e f)"

lemma same_events_refl: "same_events x x"
  by (simp add: same_events_def same_call_refl split: option.splits)

text \<open>What a setter may do to a tracker.\<close>

definition gentle :: "(tracker \<Rightarrow> tracker) \<Rightarrow> bool" where
  "gentle f \<longleftrightarrow> (\<forall>t. at_permit (f t) = at_permit t \<and> at_budget (f t) = at_budget t \<and>
     same_events (at_event t) (at_event (f t)))"

lemma gentle_on_event: "(\<And>e. same_call e (f e)) \<Longrightarrow> gentle (on_event f)"
  by (simp add: gentle_def on_event_def same_events_def split: option.splits)

named_theorems gentle_rules

lemma same_events_trans:
  assumes "same_events x y" and "same_events y z" shows "same_events x z"
  using assms by (cases x; cases y) (auto simp: same_events_def intro: same_call_trans)

lemma gentle_comp:
  assumes "gentle f" and "gentle g" shows "gentle (\<lambda>t. f (g t))"
proof -
  have "same_events (at_event t) (at_event (f (g t)))" for t
    using assms same_events_trans [of "at_event t" "at_event (g t)" "at_event (f (g t))"]
    by (simp add: gentle_def)
  with assms show ?thesis by (simp add: gentle_def)
qed

lemma gentle_id [gentle_rules]: "gentle (\<lambda>t. t)"
  by (simp add: gentle_def same_events_refl)

lemma gentle_setters:
  "gentle (set_provider pid)" "gentle (set_affinity ev key src)" "gentle (set_reasoning_effort effort)"
  "gentle (set_request ev headers bd b)" "gentle (set_compression_headers h1 h2)"
  "gentle (set_upstream_accept_encoding headers)" "gentle (set_response_headers ev headers)"
  "gentle (set_upstream_http_version v)" "gentle (set_upstream_request_headers ev headers)"
  "gentle (mark_first_byte i)" "gentle (set_request_size j)" "gentle (set_response_size k)"
  "gentle (set_response_body bd b)"
  unfolding set_provider_def set_affinity_def set_reasoning_effort_def set_request_def
    set_compression_headers_def set_upstream_accept_encoding_def set_response_headers_def
    set_upstream_http_version_def set_upstream_request_headers_def mark_first_byte_def
    set_request_size_def set_response_size_def set_response_body_def on_call_def on_archive_def
  by (rule gentle_on_event; simp add: same_call_def Let_def split: option.splits prod.splits)+

lemma gentle_error [gentle_rules]: "gentle (set_error_response ev e)"
  unfolding set_error_response_def Let_def
  by (rule gentle_comp [OF gentle_setters(13) gentle_comp [OF gentle_setters(7,12)]])

lemmas gentle_of [gentle_rules] = gentle_setters [THEN gentle_comp]

section \<open>Tracking\<close>

text \<open>The call has changed nothing of the writer \<open>w\<close> since its tracker was \<open>t0\<close>.\<close>

definition tracking :: "tracker \<Rightarrow> audit_writer \<Rightarrow> call_state \<Rightarrow> bool" where
  "tracking t0 w s \<longleftrightarrow>
     cs_audit s = w \<and> at_permit (cs_tracker s) = at_permit t0 \<and> at_budget (cs_tracker s) = at_budget t0 \<and>
     same_events (at_event t0) (at_event (cs_tracker s))"

lemma tracking_free: "app_free (tracking t0 w)" "sent_free (tracking t0 w)"
  by (simp_all add: app_free_def sent_free_def tracking_def)

lemma tracking_gentle:
  assumes "gentle f" and "tracking t0 w s" shows "tracking t0 w (s\<lparr>cs_tracker := f (cs_tracker s)\<rparr>)"
proof -
  have "same_events (at_event t0) (at_event (f (cs_tracker s)))"
    using assms same_events_trans [of "at_event t0" "at_event (cs_tracker s)" "at_event (f (cs_tracker s))"]
    by (simp add: gentle_def tracking_def)
  with assms show ?thesis by (simp add: gentle_def tracking_def)
qed

lemma tracking_on_tracker: "gentle f \<Longrightarrow> keeps (tracking t0 w) (on_tracker f)"
  by (rule keeps_on_tracker) (rule tracking_gentle)

lemma tracking_send: "keeps (tracking t0 w) (send_upstream n l path inbound bd)"
  unfolding send_upstream_def
  by (intro keeps_rules tracking_free tracking_on_tracker gentle_setters)

lemma tracking_files: "tracking t0 w s \<Longrightarrow> tracking t0 w (s\<lparr>cs_files := F\<rparr>)"
  by (simp add: tracking_def)

lemma tracking_spool: "keeps (tracking t0 w) (spool_create n limit bd)"
  unfolding spool_create_def by (intro keeps_rules) (simp_all add: tracking_files remove_file_def)

lemma tracking_release: "tracking t0 w s \<Longrightarrow> tracking t0 w (release l s)"
  by (rule release_keeps [OF tracking_free(1)])

text \<open>The tracker is used up: no event without a place, else exactly one, of this call.\<close>

definition settled_as :: "tracker \<Rightarrow> audit_writer \<Rightarrow> (api_call \<Rightarrow> bool) \<Rightarrow> call_state \<Rightarrow> bool" where
  "settled_as t0 w P s \<longleftrightarrow>
     cs_tracker s = no_tracker \<and>
     (case at_event t0 of
        None \<Rightarrow> cs_audit s = w
      | Some e0 \<Rightarrow> \<exists>e. same_call e0 e \<and> P (au_call e) \<and> cs_audit s = send e (at_budget t0) w)"

definition proper :: "tracker \<Rightarrow> bool" where
  "proper t \<longleftrightarrow> (if at_event t = None then t = no_tracker else at_permit t)"

text \<open>The panic of \<open>settle\<close>: the event is lost, the place and the permit are still held.\<close>

definition event_lost :: "tracker \<Rightarrow> audit_writer \<Rightarrow> call_state \<Rightarrow> bool" where
  "event_lost t0 w s \<longleftrightarrow> cs_audit s = w \<and> cs_tracker s = t0\<lparr>at_event := None\<rparr>"

lemma settle_same:
  "settle elapsed status model u err e = Some e' \<Longrightarrow> same_call e e' \<and> c_status (au_call e') = status \<and>
     c_error (au_call e') = err \<and> c_response_bytes (au_call e') = c_response_bytes (au_call e)"
  by (auto simp: settle_def same_call_def bind_eq_Some_conv)

lemma settle_no_model: "\<exists>e'. settle elapsed status None u err e = Some e'"
  by (simp add: settle_def)

lemma finish_cases:
  assumes "proper t0" and "tracking t0 w s" and "finish n status model u err s = (r, s')"
  shows "(r = Inl Panicked \<and> model \<noteq> None \<and> at_event t0 \<noteq> None \<and> event_lost t0 w s') \<or>
     (\<exists>x. r = Inr x \<and> settled_as t0 w (\<lambda>c. c_status c = int status \<and> c_error c = err \<and>
        (\<forall>e. at_event (cs_tracker s) = Some e \<longrightarrow> c_response_bytes c = c_response_bytes (au_call e))) s')"
proof (cases "at_event t0")
  case None
  then have "cs_tracker s = no_tracker"
    using assms(1,2) by (simp add: proper_def tracking_def same_events_def no_tracker_def)
  with None assms show ?thesis
    by (auto simp: finish_def finish_audit_def settled_as_def tracking_def no_tracker_def)
next
  case (Some e0)
  then obtain e where e: "at_event (cs_tracker s) = Some e" "same_call e0 e"
    using assms(2) by (auto simp: tracking_def same_events_def)
  have p: "at_permit (cs_tracker s)" "at_budget (cs_tracker s) = at_budget t0" "cs_audit s = w" "at_permit t0"
    using assms(1,2) Some by (simp_all add: proper_def tracking_def)
  show ?thesis
  proof (cases "settle (nt_elapsed n) (int status) model u err e")
    case None
    moreover have "model \<noteq> None"
      using None settle_no_model [of "nt_elapsed n" "int status" u err e] by (cases model) simp_all
    moreover have "cs_tracker s\<lparr>at_event := None\<rparr> = t0\<lparr>at_event := None\<rparr>" using p by simp
    ultimately show ?thesis
      using assms(3) e p Some by (auto simp: finish_def finish_audit_def event_lost_def)
  next
    case (Some e')
    note st = settle_same [OF this]
    have "settled_as t0 w (\<lambda>c. c_status c = int status \<and> c_error c = err \<and>
        (\<forall>e. at_event (cs_tracker s) = Some e \<longrightarrow> c_response_bytes c = c_response_bytes (au_call e))) s'"
      using assms(3) e p Some st \<open>at_event t0 = Some e0\<close> same_call_trans [OF e(2), of e']
      by (auto simp: finish_def finish_audit_def settled_as_def)
    moreover obtain x where "r = Inr x" using assms(3) e p Some by (auto simp: finish_def finish_audit_def)
    ultimately show ?thesis by blast
  qed
qed

section \<open>Answers\<close>

definition streaming_for :: "tracker \<Rightarrow> stream_completion \<Rightarrow> bool" where
  "streaming_for t0 c \<longleftrightarrow>
     sc_permit c = at_permit t0 \<and> sc_budget c = at_budget t0 \<and> same_events (at_event t0) (sc_event c) \<and>
     sc_response_bytes c = 0"

text \<open>What the relaying of an answer leaves behind, for every way it ends.\<close>

definition answer_ok ::
  "tracker \<Rightarrow> audit_writer \<Rightarrow> (stop, reply_body response) result \<Rightarrow> call_state \<Rightarrow> bool" where
  "answer_ok t0 w r s \<longleftrightarrow>
     (case r of
        Inl e \<Rightarrow> if e = Panicked then at_event t0 \<noteq> None \<and> event_lost t0 w s else tracking t0 w s
      | Inr resp \<Rightarrow>
          (case rs_body resp of
             Complete bd \<Rightarrow> settled_as t0 w (\<lambda>c. c_response_bytes c = int (length bd)) s
           | Streaming bs \<Rightarrow> cs_tracker s = no_tracker \<and> cs_audit s = w \<and>
               streaming_for t0 (bs_completion bs)))"

lemma on_tracker_run [simp]:
  "on_tracker f s = (Inr (), s\<lparr>cs_tracker := f (cs_tracker s)\<rparr>)"
  "sbind (on_tracker f) k s = k () (s\<lparr>cs_tracker := f (cs_tracker s)\<rparr>)"
  by (simp_all add: on_tracker_def)

lemma fallible_run [simp]:
  "sbind (fallible (Inr x)) k s = k x s" "sbind (fallible (Inl e)) k s = (Inl (Failed e), s)"
  by (simp_all add: fallible_def map_err_def)

lemma read_body_stop: "read_body cs = Inl e \<Longrightarrow> e \<noteq> Panicked"
  by (induction cs rule: read_body.induct) (auto simp: rbind_Inl_iff)

lemma into_bytes_stop: "into_bytes up = Inl e \<Longrightarrow> e \<noteq> Panicked"
  by (cases up) (auto dest: read_body_stop)

lemma settled_mono:
  "settled_as t0 w P s \<Longrightarrow> (\<And>c. P c \<Longrightarrow> Q c) \<Longrightarrow> settled_as t0 w Q s"
  by (auto simp: settled_as_def split: option.splits)

lemma response_size_kept:
  "map_option (\<lambda>e. c_response_bytes (au_call e)) (at_event (set_response_body bd b t)) =
     map_option (\<lambda>e. c_response_bytes (au_call e)) (at_event t)"
  "map_option (\<lambda>e. c_response_bytes (au_call e)) (at_event (set_response_headers ev h t)) =
     map_option (\<lambda>e. c_response_bytes (au_call e)) (at_event t)"
  by (simp_all add: set_response_body_def set_response_headers_def on_archive_def on_event_def
      Let_def option.map_comp comp_def case_prod_unfold if_distrib [of au_call] if_distrib [of c_response_bytes]
      cong: if_cong)

lemma response_size_set:
  "map_option (\<lambda>e. c_response_bytes (au_call e)) (at_event (set_response_size k t)) =
     map_option (\<lambda>_. k) (at_event t)"
  by (simp add: set_response_size_def on_call_def on_event_def option.map_comp comp_def)

lemma response_size_recorded:
  "at_event (set_response_body bd b (set_response_size k t)) = Some e \<Longrightarrow> c_response_bytes (au_call e) = k"
  "at_event (set_response_body bd b (set_response_headers ev h (set_response_size k t))) = Some e \<Longrightarrow>
     c_response_bytes (au_call e) = k"
  using response_size_kept(1) [of bd b "set_response_size k t"]
    response_size_kept(1) [of bd b "set_response_headers ev h (set_response_size k t)"]
    response_size_kept(2) [of ev h "set_response_size k t"] response_size_set [of k t]
  by (cases "at_event t"; simp)+

text \<open>The common end of a complete answer.\<close>

lemma finish_answer:
  assumes "proper t0" and "tracking t0 w s"
    and size: "\<And>e. at_event (cs_tracker s) = Some e \<Longrightarrow> c_response_bytes (au_call e) = int (length bd)"
    and run: "sbind (finish n status model u err) (\<lambda>audit_id.
        sbind (fallible (build_response status' headers (Complete bd))) (\<lambda>resp.
        sreturn (resp\<lparr>rs_transport := audit_id\<rparr>))) s = (r, s')"
  shows "answer_ok t0 w r s'"
proof -
  obtain v s1 where 1: "finish n status model u err s = (v, s1)" by fastforce
  from finish_cases [OF assms(1,2) 1] show ?thesis
  proof (elim disjE exE conjE)
    assume "v = Inl Panicked" "at_event t0 \<noteq> None" "event_lost t0 w s1"
    then show ?thesis using run 1 by (auto simp: sbind_def answer_ok_def)
  next
    fix x
    assume v: "v = Inr x" and st: "settled_as t0 w (\<lambda>c. c_status c = int status \<and> c_error c = err \<and>
        (\<forall>e. at_event (cs_tracker s) = Some e \<longrightarrow> c_response_bytes c = c_response_bytes (au_call e))) s1"
    have r: "s' = s1" "\<exists>resp. r = Inr resp \<and> rs_body resp = Complete bd"
      using run by (auto simp: sbind_run [of "finish n status model u err" s, OF 1 [unfolded v]] build_response_def)
    have "settled_as t0 w (\<lambda>c. c_response_bytes c = int (length bd)) s1"
    proof (cases "at_event t0")
      case None
      then show ?thesis using st by (simp add: settled_as_def)
    next
      case (Some e0)
      then obtain e where "at_event (cs_tracker s) = Some e"
        using assms(2) by (auto simp: tracking_def same_events_def)
      with size have "settled_as t0 w (\<lambda>c. c_response_bytes c = int (length bd)) s1"
        using st by (auto elim!: settled_mono)
      then show ?thesis .
    qed
    with r show ?thesis by (auto simp: answer_ok_def)
  qed
qed

lemma complete_answer:
  assumes "proper t0" and tr: "tracking t0 w s" and run: "relay_complete n context up s = (r, s')"
  shows "answer_ok t0 w r s'"
proof (cases "into_bytes up")
  case (Inl e)
  then show ?thesis
    using run tr into_bytes_stop [OF Inl] by (auto simp: relay_complete_def answer_ok_def)
next
  case (Inr bytes)
  let ?s = "s\<lparr>cs_tracker := set_response_body bytes False (set_response_size (int (length bytes)) (cs_tracker s))\<rparr>"
  have "tracking t0 w ?s"
    using tr by (rule tracking_gentle [rotated]) (rule gentle_comp [OF gentle_setters(13,12)])
  then show ?thesis
    using run Inr
    by (intro finish_answer [OF assms(1), of w ?s bytes n "up_status up" "cc_model context"])
      (auto simp: relay_complete_def dest: response_size_recorded)
qed

lemma image_answer:
  assumes "proper t0" and tr0: "tracking t0 w s" and run: "image_reply n context up s = (r, s')"
  shows "answer_ok t0 w r s'"
proof -
  let ?s1 = "s\<lparr>cs_tracker := set_response_headers (nt_env n) (up_headers up) (cs_tracker s)\<rparr>"
  have tr: "tracking t0 w ?s1" using gentle_setters(7) tr0 by (rule tracking_gentle)
  show ?thesis
  proof (cases "into_bytes up")
    case (Inl e)
    then show ?thesis
      using run tr into_bytes_stop [OF Inl] by (auto simp: image_reply_def answer_ok_def)
  next
    case (Inr bytes)
    show ?thesis
    proof (cases "images_from_sse (ev_parse (nt_env n)) bytes")
      case (Inl e)
      then show ?thesis using run tr Inr by (auto simp: image_reply_def answer_ok_def)
    next
      case img: (Inr p)
      obtain images u where p: "p = (images, u)" by (cases p)
      define envelope where "envelope = ev_render (nt_env n) (JObj [(''created'', JInt (ev_now (nt_env n))),
          (''data'', JArr images), (''usage'', usage_json u)])"
      let ?f = "\<lambda>t. set_response_body envelope False
                (set_response_headers (nt_env n) [(''content-type'', ''application/json'')]
                  (set_response_size (int (length envelope)) t))"
      let ?s2 = "?s1\<lparr>cs_tracker := ?f (cs_tracker ?s1)\<rparr>"
      have "tracking t0 w ?s2"
        using tr by (rule tracking_gentle [rotated])
          (rule gentle_comp [OF gentle_setters(13) gentle_comp [OF gentle_setters(7,12)]])
      then show ?thesis
        using run Inr img
        by (intro finish_answer [OF assms(1), of w ?s2 envelope n "up_status up" "cc_model context" u None])
          (auto simp: image_reply_def p envelope_def [symmetric] Let_def dest: response_size_recorded)
    qed
  qed
qed

lemma answer_release: "answer_ok t0 w r s \<Longrightarrow> answer_ok t0 w r (release l s)"
proof -
  have "cs_tracker (release l s) = cs_tracker s" "cs_audit (release l s) = cs_audit s"
    by (simp_all add: release_def)
  then show "answer_ok t0 w r s \<Longrightarrow> answer_ok t0 w r (release l s)"
    by (simp add: answer_ok_def tracking_def event_lost_def settled_as_def
        split: sum.splits reply_body.splits if_splits option.splits)
qed

lemma ensuring_answer:
  assumes "\<And>r s'. m s = (r, s') \<Longrightarrow> answer_ok t0 w r s'" and "ensuring (release l) m s = (r, s')"
  shows "answer_ok t0 w r s'"
  using assms by (auto simp: ensuring_def answer_release split: prod.splits)

lemma stream_answer:
  assumes p: "proper t0" and tr: "tracking t0 w s" and run: "relay_stream context l r s = (v, s')"
  shows "answer_ok t0 w v s'"
proof -
  have "gentle (on_call f)" if "\<And>c. c_id (f c) = c_id c \<and> c_request_id (f c) = c_request_id c \<and>
      c_consumer_id (f c) = c_consumer_id c \<and> c_user_id (f c) = c_user_id c \<and> c_path (f c) = c_path c" for f
    unfolding on_call_def by (rule gentle_on_event) (simp add: same_call_def that)
  then have "gentle (on_call (\<lambda>c. c\<lparr>c_status := int (hr_status r), c_model := cc_model context\<rparr>))" by simp
  note g = tracking_gentle [OF this tr]
  have b: "at_permit (on_call f t) = at_permit t" "at_budget (on_call f t) = at_budget t" for f t
    by (simp_all add: on_call_def on_event_def)
  have "cs_audit s = w" using tr by (simp add: tracking_def)
  with run g show ?thesis
    by (auto simp: relay_stream_def take_stream_def build_response_def answer_ok_def streaming_for_def
        stream_completion_new_def tracking_def b)
qed

lemma relay_answer:
  assumes p: "proper t0" and tr: "tracking t0 w s" and run: "relay_response n context l up s = (r, s')"
  shows "answer_ok t0 w r s'"
proof -
  let ?f = "\<lambda>t. set_response_headers (nt_env n) (up_headers up)
              (set_compression_headers [] (Some (up_headers up))
                (set_upstream_http_version (up_version up) (mark_first_byte (nt_first_byte n) t)))"
  let ?s = "s\<lparr>cs_tracker := ?f (cs_tracker s)\<rparr>"
  have g: "gentle ?f"
    by (rule gentle_comp [OF gentle_setters(7) gentle_comp [OF gentle_setters(5)
          gentle_comp [OF gentle_setters(8,10)]]])
  have tr': "tracking t0 w ?s" by (rule tracking_gentle [OF g tr])
  note c = complete_answer [OF p tr'] and st = stream_answer [OF p tr']
  show ?thesis
  proof (cases up)
    case (Live hr)
    show ?thesis
    proof (cases "cc_stream context \<and> is_success (hr_status hr)")
      case True
      then have "relay_stream context l hr ?s = (r, s')" using run Live by (simp add: relay_response_def)
      then show ?thesis by (rule st)
    next
      case False
      then have "ensuring (release l) (relay_complete n context up) ?s = (r, s')"
        using run Live by (simp add: relay_response_def del: de_Morgan_conj)
      then show ?thesis by (rule ensuring_answer [rotated]) (rule c)
    qed
  next
    case (Buffered bu)
    then have "ensuring (release l) (relay_complete n context up) ?s = (r, s')"
      using run by (simp add: relay_response_def)
    then show ?thesis by (rule ensuring_answer [rotated]) (rule c)
  qed
qed

lemma image_response_answer:
  assumes p: "proper t0" and tr: "tracking t0 w s" and run: "image_response n context l up s = (r, s')"
  shows "answer_ok t0 w r s'"
proof -
  let ?f = "\<lambda>t. set_upstream_http_version (up_version up) (mark_first_byte (nt_first_byte n) t)"
  let ?s = "s\<lparr>cs_tracker := ?f (cs_tracker s)\<rparr>"
  have "gentle ?f" by (rule gentle_comp [OF gentle_setters(8,10)])
  from tracking_gentle [OF this tr] have tr': "tracking t0 w ?s" .
  show ?thesis
  proof (cases "is_success (up_status up)")
    case True
    then have "ensuring (release l) (image_reply n context up) ?s = (r, s')"
      using run by (simp add: image_response_def)
    then show ?thesis by (rule ensuring_answer [rotated]) (rule image_answer [OF p tr'])
  next
    case False
    then have "relay_response n context l up ?s = (r, s')" using run by (simp add: image_response_def)
    then show ?thesis by (rule relay_answer [OF p tr'])
  qed
qed

text \<open>Before the answer nothing is sent and nothing panics.\<close>

definition never_panics :: "'a call \<Rightarrow> bool" where
  "never_panics m \<longleftrightarrow> (\<forall>s. fst (m s) \<noteq> Inl Panicked)"

lemma answer_after:
  assumes m: "keeps (tracking t0 w) m" "never_panics m"
    and k: "\<And>x t r s'. tracking t0 w t \<Longrightarrow> k x t = (r, s') \<Longrightarrow> answer_ok t0 w r s'"
    and "tracking t0 w s" and run: "sbind m k s = (r, s')"
  shows "answer_ok t0 w r s'"
proof -
  obtain v s1 where 1: "m s = (v, s1)" by fastforce
  then have t: "tracking t0 w s1" and v: "v \<noteq> Inl Panicked"
    using m assms(4) unfolding keeps_def never_panics_def by (metis snd_conv, metis fst_conv)
  show ?thesis
  proof (cases v)
    case (Inl e)
    then show ?thesis using run 1 t v by (auto simp: sbind_def answer_ok_def)
  next
    case (Inr x)
    then have "k x s1 = (r, s')" using run 1 by (simp add: sbind_def)
    then show ?thesis by (rule k [OF t])
  qed
qed

named_theorems calm_end

lemma never_panics_sbind [calm_end]:
  assumes "never_panics m" and "\<And>x. never_panics (k x)" shows "never_panics (sbind m k)"
  unfolding never_panics_def
proof
  fix s
  obtain v t where "m s = (v, t)" by fastforce
  then show "fst (sbind m k s) \<noteq> Inl Panicked"
    using assms(1) [unfolded never_panics_def, rule_format, of s]
      assms(2) [unfolded never_panics_def, rule_format, of _ t]
    by (cases v) (simp_all add: sbind_def)
qed

lemma never_panics_handling [calm_end]:
  assumes "\<And>x. never_panics (f x)" and "\<And>e. never_panics (g e)" shows "never_panics (handling m f g)"
  unfolding never_panics_def
proof
  fix s
  obtain v t where "m s = (v, t)" by fastforce
  then show "fst (handling m f g s) \<noteq> Inl Panicked"
    using assms [unfolded never_panics_def, rule_format, of _ t] by (cases v) (simp_all add: handling_def)
qed

lemma never_panics_scopes [calm_end]:
  "never_panics m \<Longrightarrow> never_panics (scoped f m)" "never_panics m \<Longrightarrow> never_panics (ensuring f m)"
proof -
  have "fst (scoped f m s) = fst (m s)" "fst (ensuring f m s) = fst (m s)" for s
    by (simp_all add: scoped_def ensuring_def case_prod_unfold split: sum.splits)
  then show "never_panics m \<Longrightarrow> never_panics (scoped f m)" "never_panics m \<Longrightarrow> never_panics (ensuring f m)"
    by (simp_all add: never_panics_def)
qed

lemma map_err_Failed: "map_err Failed r \<noteq> Inl Panicked"
  by (cases r) (simp_all add: map_err_def)

lemma never_panics_simple [calm_end]:
  "never_panics (sreturn x)" "never_panics (sgets g)" "never_panics (smodify h)"
  "never_panics (sfail (Failed err))" "never_panics (fallible q)" "never_panics (on_tracker f)"
  "never_panics (pick n user allp aff ex)" "never_panics (on_app m)" "never_panics (execute n l rq)"
  "never_panics (observe_reply n pid status bd)"
  by (simp_all add: never_panics_def fallible_def on_tracker_def pick_def on_app_def execute_def
      observe_reply_def Let_def map_err_Failed split: prod.splits net_reply.splits)

lemma never_panics_ensure [calm_end]: "never_panics (slift (ensure b (Failed err)))"
  by (cases b) (simp_all add: never_panics_def)

lemma never_panics_if [calm_end]: "never_panics m \<Longrightarrow> never_panics k \<Longrightarrow> never_panics (if c then m else k)"
  by simp

lemma never_panics_prod [calm_end]: "(\<And>x y. never_panics (f x y)) \<Longrightarrow> never_panics (case p of (x, y) \<Rightarrow> f x y)"
  by (cases p) simp

lemma never_panics_option [calm_end]:
  "never_panics m \<Longrightarrow> (\<And>x. never_panics (f x)) \<Longrightarrow> never_panics (case y of None \<Rightarrow> m | Some x \<Rightarrow> f x)"
  by (cases y) simp_all

lemma never_panics_ready [calm_end]: "never_panics (select_ready_provider n user allp aff)"
  unfolding select_ready_provider_def by (intro calm_end)

lemma never_panics_retry [calm_end]: "never_panics (retry_provider n user allp aff pid)"
  unfolding retry_provider_def by (intro calm_end)

lemma never_panics_track [calm_end]: "never_panics (track_upstream n pid up)"
proof -
  have "never_panics (slift (case up of
                 Live r \<Rightarrow> rbind (read_body (hr_chunks r)) (\<lambda>bd.
                   Inr \<lparr>bu_status = hr_status r, bu_version = hr_version r, bu_headers = hr_headers r,
                        bu_body = bd\<rparr>)
               | Buffered r \<Rightarrow> Inr r))"
    by (cases up) (auto simp: never_panics_def rbind_Inl_iff dest: read_body_stop)
  then show ?thesis unfolding track_upstream_def by (intro calm_end)
qed

lemma never_panics_attempt [calm_end]:
  "(\<And>l. never_panics (send1 l)) \<Longrightarrow> (\<And>l. never_panics (send2 l)) \<Longrightarrow>
     never_panics (attempt_twice n user allp aff send1 send2 first)"
  unfolding attempt_twice_def by (intro calm_end)

lemma never_panics_send [calm_end]: "never_panics (send_upstream n l path inbound bd)"
  unfolding send_upstream_def by (intro calm_end)

lemma never_panics_payload [calm_end]: "never_panics (json_payload n path bd)" "never_panics (spool_body n sp)"
  unfolding json_payload_def spool_body_def by (intro calm_end)+

lemma never_panics_spool [calm_end]: "never_panics (spool_create n limit bd)"
proof -
  have "spool_write n limit sp cs = Inl e \<Longrightarrow> e \<noteq> Panicked" for sp cs e
    by (induction n limit sp cs rule: spool_write.induct) (auto simp: rbind_Inl_iff ensure_def split: if_splits)
  then have "never_panics (slift (spool_write n limit sp cs))" for sp cs by (auto simp: never_panics_def)
  then show ?thesis unfolding spool_create_def by (intro calm_end)
qed

section \<open>Handlers\<close>

lemma tracking_set_provider: "keeps (tracking t0 w) m \<Longrightarrow> keeps (tracking t0 w) (sbind (on_tracker (set_provider pid)) (\<lambda>_. m))"
  by (intro keeps_sbind tracking_on_tracker gentle_setters)

lemma dispatch_answer:
  assumes p: "proper t0" and tr: "tracking t0 w s" and run: "dispatch n identity path headers bd s = (r, s')"
  shows "answer_ok t0 w r s'"
proof -
  have g: "gentle (\<lambda>t. set_affinity ev key src (set_reasoning_effort eff t))" for ev key src eff
    by (rule gentle_comp [OF gentle_setters(2,3)])
  show ?thesis
    using run unfolding dispatch_def Let_def
  proof (rule answer_after [rotated -1])
    show "keeps (tracking t0 w) (on_tracker (\<lambda>t. set_affinity (nt_env n)
       (affinity_of_call identity (affinity_key headers (ev_parse (nt_env n) bd)))
       (map_option ak_source (affinity_key headers (ev_parse (nt_env n) bd)))
       (set_reasoning_effort (Option.bind (ev_parse (nt_env n) bd) reasoning_effort) t)))"
      by (rule tracking_on_tracker [OF g])
  qed (intro calm_end, erule answer_after [rotated -1], intro keeps_rules, intro calm_end,
      erule answer_after [rotated -1], intro keeps_ready tracking_free, intro calm_end,
      erule answer_after [rotated -1],
      intro keeps_attempt tracking_free tracking_set_provider tracking_send keeps_rules, intro calm_end,
      auto split: prod.splits if_splits intro: relay_answer [OF p] image_response_answer [OF p] tr)
qed

lemma dispatch_audio_answer:
  assumes p: "proper t0" and tr: "tracking t0 w s" and run: "dispatch_audio n identity path headers bd s = (r, s')"
  shows "answer_ok t0 w r s'"
proof -
  have rf: "tracking t0 w t \<Longrightarrow> tracking t0 w (remove_file x t)" for x t
    by (simp add: remove_file_def tracking_files)
  have g: "gentle (\<lambda>t. set_request_size k (set_request ev h b tc t))" for k ev h b tc
    by (rule gentle_comp [OF gentle_setters(11,4)])
  show ?thesis
    using run unfolding dispatch_audio_def Let_def
  proof (rule answer_after [rotated -1])
    show "keeps (tracking t0 w) (on_tracker (set_affinity (nt_env n)
       (affinity_of_call identity (affinity_key headers None)) (map_option ak_source (affinity_key headers None))))"
      by (rule tracking_on_tracker [OF gentle_setters(2)])
  qed (intro calm_end, erule answer_after [rotated -1], rule tracking_spool, intro calm_end,
      erule answer_after [rotated -1],
      intro keeps_ensuring keeps_sbind tracking_on_tracker g keeps_ready keeps_attempt tracking_free
        tracking_set_provider tracking_send keeps_spool_body, erule rf, intro calm_end,
      auto split: prod.splits intro: relay_answer [OF p] tr)
qed

text \<open>How a call that was tracked ends.\<close>

definition ended_as ::
  "tracker \<Rightarrow> audit_writer \<Rightarrow> stop \<Rightarrow> call_state \<Rightarrow> bool" where
  "ended_as t0 w e s \<longleftrightarrow>
     (case e of
        Failed err \<Rightarrow> settled_as t0 w (\<lambda>c. c_status c = int (ae_status err) \<and> c_error c = Some (ae_message err)) s
      | ClientGone \<Rightarrow> settled_as t0 w (\<lambda>c. c_status c = 499 \<and> c_error c = Some ''client_cancelled'') s
      | Panicked \<Rightarrow> at_event t0 \<noteq> None \<and> cs_tracker s = no_tracker \<and>
          cs_audit s = give_back (at_permit t0) (at_budget t0) w)"

lemma give_back_nothing [simp]: "give_back False False w = w"
  by (simp add: give_back_def)

lemma drop_no_tracker: "cs_tracker s = no_tracker \<Longrightarrow> drop_tracker n s = s"
  by (simp add: drop_tracker_def drop_audit_def no_tracker_def)

lemma drop_cancelled:
  assumes p: "proper t0" and tr: "tracking t0 w s"
  shows "settled_as t0 w (\<lambda>c. c_status c = 499 \<and> c_error c = Some ''client_cancelled'') (drop_tracker n s)"
proof (cases "at_event t0")
  case None
  then show ?thesis
    using p tr by (simp add: proper_def tracking_def same_events_def drop_tracker_def drop_audit_def
        settled_as_def no_tracker_def)
next
  case (Some e0)
  then obtain e where e: "at_event (cs_tracker s) = Some e" "same_call e0 e"
    using tr by (auto simp: tracking_def same_events_def)
  obtain e' where st: "settle (nt_elapsed n) 499 None usage_default (Some ''client_cancelled'')
      (e\<lparr>au_response_body_truncated := True\<rparr>) = Some e'"
    using settle_no_model by blast
  have "same_call e (e\<lparr>au_response_body_truncated := True\<rparr>)" by (simp add: same_call_def)
  with settle_same [OF st] e(2) have "same_call e0 e'" by (metis same_call_trans)
  with settle_same [OF st] p tr Some e st show ?thesis
    by (auto simp: proper_def tracking_def drop_tracker_def drop_audit_def settled_as_def)
qed

lemma settled_drop: "settled_as t0 w P s \<Longrightarrow> drop_tracker n s = s"
  by (simp add: settled_as_def drop_no_tracker)

lemma conclude_cases:
  assumes p: "proper t0" and tr: "tracking t0 w s"
    and m: "\<And>r s'. m s = (r, s') \<Longrightarrow> answer_ok t0 w r s'"
    and run: "conclude n m s = (r, s')"
  shows "(\<exists>resp. r = Inr resp \<and> answer_ok t0 w r s') \<or> (\<exists>e. r = Inl e \<and> ended_as t0 w e s')"
proof -
  obtain v s1 where 1: "m s = (v, s1)" by fastforce
  note a = m [OF 1]
  show ?thesis
  proof (cases v)
    case (Inr resp)
    then have "cs_tracker s1 = no_tracker"
      using a by (auto simp: answer_ok_def settled_as_def split: reply_body.splits)
    then have "r = Inr resp \<and> s' = s1"
      using run 1 Inr drop_no_tracker [of s1 n] by (simp add: conclude_def ensuring_def handling_def)
    with a Inr show ?thesis by simp
  next
    case (Inl e)
    show ?thesis
    proof (cases e)
      case ClientGone
      then have "r = Inl ClientGone \<and> s' = drop_tracker n s1"
        using run 1 Inl by (simp add: conclude_def ensuring_def handling_def)
      with a Inl ClientGone drop_cancelled [OF p] show ?thesis by (auto simp: answer_ok_def ended_as_def)
    next
      case Panicked
      then have r: "r = Inl Panicked \<and> s' = drop_tracker n s1"
        using run 1 Inl by (simp add: conclude_def ensuring_def handling_def)
      have "at_event t0 \<noteq> None" "event_lost t0 w s1" using a Inl Panicked by (simp_all add: answer_ok_def)
      with r show ?thesis
        by (auto simp: ended_as_def event_lost_def drop_tracker_def drop_audit_def)
    next
      case (Failed err)
      have t1: "tracking t0 w s1" using a Inl Failed by (simp add: answer_ok_def)
      show ?thesis
      proof (cases "at_event (cs_tracker s1)")
        case None
        then have "at_event t0 = None" using t1 by (auto simp: tracking_def same_events_def split: option.splits)
        then have n: "cs_tracker s1 = no_tracker" "cs_audit s1 = w"
          using p t1 None by (simp_all add: proper_def tracking_def no_tracker_def)
        then have "r = Inl e \<and> s' = s1"
          using run 1 Inl Failed None drop_no_tracker [of s1 n]
          by (simp add: conclude_def ensuring_def handling_def)
        with n \<open>at_event t0 = None\<close> Failed show ?thesis by (simp add: ended_as_def settled_as_def)
      next
        case (Some ev)
        let ?s = "s1\<lparr>cs_tracker := set_error_response (nt_env n) err (cs_tracker s1)\<rparr>"
        have t2: "tracking t0 w ?s" by (rule tracking_gentle [OF gentle_error t1])
        obtain q s2 where f: "finish n (ae_status err) None usage_default (Some (ae_message err)) ?s = (q, s2)"
          by fastforce
        have "\<exists>x. q = Inr x" "settled_as t0 w (\<lambda>c. c_status c = int (ae_status err) \<and>
            c_error c = Some (ae_message err)) s2"
          using finish_cases [OF p t2 f] by (auto intro: settled_mono)
        then obtain x where q: "q = Inr x" and st: "settled_as t0 w (\<lambda>c. c_status c = int (ae_status err) \<and>
            c_error c = Some (ae_message err)) s2" by blast
        have "sbind (finish n (ae_status err) None usage_default (Some (ae_message err)))
            (\<lambda>_. sfail (Failed err)) ?s = (Inl (Failed err) :: (stop, reply_body response) result, s2)"
          using f q by (simp add: sbind_def)
        then have "r = Inl e \<and> s' = drop_tracker n s2"
          using run 1 Inl Failed Some by (simp add: conclude_def ensuring_def handling_def)
        with settled_drop [OF st] st Failed show ?thesis by (simp add: ended_as_def)
      qed
    qed
  qed
qed

section \<open>Streams\<close>

lemma capture_sse_event [simp]:
  "sc_event (snd (capture_sse parse b st)) = sc_event (snd st)"
  "sc_permit (snd (capture_sse parse b st)) = sc_permit (snd st)"
  "sc_budget (snd (capture_sse parse b st)) = sc_budget (snd st)"
  by (simp_all add: capture_sse_def Let_def split: option.splits prod.splits)

lemma capture_sse_bytes [simp]:
  "sc_response_bytes (snd (capture_sse parse b st)) =
     sc_response_bytes (snd st) + (if sc_event (snd st) = None then 0 else int (length b))"
  by (auto simp: capture_sse_def Let_def split: option.splits prod.splits)

lemma stream_loop_fields:
  assumes "stream_loop parse cs st = (outs, ending, c)"
  shows "sc_event c = sc_event (snd st) \<and> sc_permit c = sc_permit (snd st) \<and> sc_budget c = sc_budget (snd st) \<and>
     (sc_event (snd st) \<noteq> None \<longrightarrow>
        sc_response_bytes c = sc_response_bytes (snd st) + int (length (concat outs)))"
  using assms
proof (induction parse cs st arbitrary: outs rule: stream_loop.induct)
  case (2 parse bytes cs st)
  then obtain outs' where "stream_loop parse cs (capture_sse parse bytes st) = (outs', ending, c)"
    "outs = bytes # outs'" by (auto simp: Let_def split: prod.splits)
  with 2(1) show ?case by auto
qed auto

text \<open>How a stream ends, for its event.\<close>

lemma complete_stream_cases:
  assumes "sc_event c \<noteq> None \<longrightarrow> sc_permit c" and "complete_stream elapsed status b err c w = (r, w')"
  shows "(r = Inl Panicked \<and> sc_event c \<noteq> None \<and> w' = give_back (sc_permit c) (sc_budget c) w) \<or>
     (r = Inr () \<and> (case sc_event c of None \<Rightarrow> w' = give_back (sc_permit c) (sc_budget c) w
        | Some e \<Rightarrow> \<exists>e'. same_call e e' \<and> c_status (au_call e') = status e \<and> c_error (au_call e') = err \<and>
            c_response_bytes (au_call e') = sc_response_bytes c \<and> w' = send e' (sc_budget c) w))"
proof (cases "sc_event c")
  case None
  then show ?thesis using assms(2) by (simp add: complete_stream_def)
next
  case (Some e)
  let ?e = "e\<lparr>au_response_body := Some (pv_body (sc_preview c)), au_response_body_truncated := b,
                     au_call := (au_call e)\<lparr>c_response_bytes := sc_response_bytes c\<rparr>\<rparr>"
  have same: "same_call e ?e" by (simp add: same_call_def)
  show ?thesis
  proof (cases "settle elapsed (status e) (c_model (au_call e)) (sc_usage c) err ?e")
    case None
    then show ?thesis using assms Some by (auto simp: complete_stream_def)
  next
    case st: (Some e')
    have "same_call e e' \<and> c_status (au_call e') = status e \<and> c_error (au_call e') = err \<and>
        c_response_bytes (au_call e') = sc_response_bytes c"
      using settle_same [OF st] same_call_trans [OF same] by simp
    then show ?thesis using assms Some st by (auto simp: complete_stream_def)
  qed
qed

lemma run_stream_cases:
  assumes p: "proper t0" and c: "streaming_for t0 (bs_completion bs)"
    and s: "cs_tracker s = no_tracker" "cs_audit s = w" and run: "run_stream n bs s = (r, s')"
  shows "(r = Inl Panicked \<and> ended_as t0 w Panicked s') \<or>
     (\<exists>outs. r = Inr outs \<and> settled_as t0 w (\<lambda>c. c_response_bytes c = int (length (concat outs))) s')"
proof -
  obtain outs ending c where l: "stream_loop (ev_parse (nt_env n)) (bs_chunks bs) ([], bs_completion bs) = (outs, ending, c)"
    by (metis prod.exhaust)
  note f = stream_loop_fields [OF l, simplified]
  define fin where "fin = (case ending of
             Finished stream_failed \<Rightarrow> finish_stream (nt_elapsed n) stream_failed c w
           | Dropped \<Rightarrow> drop_stream (nt_elapsed n) c w)"
  obtain q w' where d: "fin = (q, w')" by fastforce
  obtain status b err where cs: "complete_stream (nt_elapsed n) status b err c w = (q, w')"
    using d unfolding fin_def finish_stream_def drop_stream_def by (cases ending) auto
  have r: "r = rbind q (\<lambda>_. Inr outs)" and s': "s' = release (bs_lease bs) (s\<lparr>cs_audit := w'\<rparr>)"
    using run l d s by (auto simp: run_stream_def fin_def)
  have s'f: "cs_tracker s' = no_tracker" "cs_audit s' = w'" using s by (simp_all add: s' release_def)
  have e: "sc_permit c = at_permit t0" "sc_budget c = at_budget t0" "same_events (at_event t0) (sc_event c)"
    "sc_event c \<noteq> None \<longrightarrow> sc_response_bytes c = int (length (concat outs))"
    using f c by (simp_all add: streaming_for_def)
  have "sc_event c \<noteq> None \<longrightarrow> sc_permit c"
    using p e by (auto simp: proper_def same_events_def split: option.splits if_splits)
  from complete_stream_cases [OF this cs] show ?thesis
  proof
    assume "q = Inl Panicked \<and> sc_event c \<noteq> None \<and> w' = give_back (sc_permit c) (sc_budget c) w"
    then show ?thesis using r s'f e by (auto simp: ended_as_def same_events_def split: option.splits)
  next
    assume a: "q = Inr () \<and> (case sc_event c of None \<Rightarrow> w' = give_back (sc_permit c) (sc_budget c) w
        | Some e \<Rightarrow> \<exists>e'. same_call e e' \<and> c_status (au_call e') = status e \<and> c_error (au_call e') = err \<and>
            c_response_bytes (au_call e') = sc_response_bytes c \<and> w' = send e' (sc_budget c) w)"
    have "settled_as t0 w (\<lambda>c. c_response_bytes c = int (length (concat outs))) s'"
    proof (cases "at_event t0")
      case None
      then have "t0 = no_tracker" "sc_event c = None" using p e by (simp_all add: proper_def same_events_def)
      then show ?thesis using a e s'f by (simp add: settled_as_def no_tracker_def)
    next
      case (Some e0)
      then obtain e1 where e1: "sc_event c = Some e1" "same_call e0 e1" using e(3) by (auto simp: same_events_def)
      with a obtain e' where "same_call e1 e'" "c_response_bytes (au_call e') = sc_response_bytes c"
        "w' = send e' (sc_budget c) w" by auto
      with e1 e Some s'f show ?thesis
        by (auto simp: settled_as_def intro: same_call_trans)
    qed
    then show ?thesis using r a by auto
  qed
qed

section \<open>Exactly one event\<close>

text \<open>What the queue and its writer look like after a call, against what they were before.\<close>

fun tells :: "(stop, string list) result \<Rightarrow> api_call \<Rightarrow> bool" where
  "tells (Inr outs) c \<longleftrightarrow> c_response_bytes c = int (length (concat outs))"
| "tells (Inl (Failed err)) c \<longleftrightarrow> c_status c = int (ae_status err) \<and> c_error c = Some (ae_message err)"
| "tells (Inl ClientGone) c \<longleftrightarrow> c_status c = 499 \<and> c_error c = Some ''client_cancelled''"
| "tells (Inl Panicked) c \<longleftrightarrow> False"

definition archives :: "api_identity_t \<Rightarrow> audit_writer \<Rightarrow> bool" where
  "archives identity w \<longleftrightarrow> ai_request_archive identity \<and> ARCHIVE_RESERVATION_BYTES \<le> aw_budget w"

definition audited_once ::
  "net \<Rightarrow> api_identity_t \<Rightarrow> http_request \<Rightarrow> audit_writer \<Rightarrow> (stop, string list) result \<Rightarrow> audit_writer \<Rightarrow> bool" where
  "audited_once n identity rq w r w' \<longleftrightarrow>
     (if \<not> has_room w then w' = dropped w
      else aw_reserved w' = aw_reserved w \<and> aw_dropped w' = aw_dropped w \<and>
        aw_dropped_archives w' = aw_dropped_archives w +
          of_bool (ai_request_archive identity \<and> \<not> archives identity w) \<and>
        (if r = Inl Panicked then aw_queue w' = aw_queue w \<and> aw_budget w' = aw_budget w
         else \<exists>e. aw_queue w' = aw_queue w @ [Event e (archives identity w)] \<and>
           aw_budget w' + ARCHIVE_RESERVATION_BYTES * of_bool (archives identity w) = aw_budget w \<and>
           au_request_archive e = archives identity w \<and>
           c_request_id (au_call e) = ev_uuid (nt_env n) 0 \<and> c_path (au_call e) = hq_path rq \<and>
           c_consumer_id (au_call e) = ai_consumer_id identity \<and>
           c_user_id (au_call e) = ai_user_id identity \<and> tells r (au_call e)))"

lemma begin_audit_proper:
  "begin_audit ev identity aid th mth path ip w = (t0, w1) \<Longrightarrow> proper t0"
  by (auto simp: begin_audit_def proper_def no_tracker_def Let_def try_reserve_def split: prod.splits if_splits)

lemma begin_audit_facts:
  assumes "begin_audit ev identity aid th mth path ip w = (t0, w1)"
  shows "if has_room w
     then at_permit t0 \<and> aw_reserved w1 = aw_reserved w + 1 \<and> aw_queue w1 = aw_queue w \<and>
       aw_budget w1 + ARCHIVE_RESERVATION_BYTES * of_bool (at_budget t0) = aw_budget w \<and>
       at_budget t0 = archives identity w \<and> aw_dropped w1 = aw_dropped w \<and>
       aw_dropped_archives w1 = aw_dropped_archives w +
         of_bool (ai_request_archive identity \<and> \<not> archives identity w) \<and>
       at_event t0 = Some (new_event ev identity aid th mth path ip (at_budget t0))
     else t0 = no_tracker \<and> w1 = dropped w"
  using assms
  by (auto simp: begin_audit_def try_reserve_def try_reserve_archive_def dropped_archive_def no_tracker_def
      archives_def Let_def split: prod.splits if_splits)

lemma settled_audited:
  assumes b: "begin_audit (nt_env n) identity (ev_uuid (nt_env n) 0) th mth (hq_path rq) ip w = (t0, w1)"
    and s: "settled_as t0 w1 (tells r) s" and r: "r \<noteq> Inl Panicked"
  shows "audited_once n identity rq w r (cs_audit s)"
proof (cases "has_room w")
  case False
  then show ?thesis
    using begin_audit_facts [OF b] s by (simp add: audited_once_def settled_as_def no_tracker_def)
next
  case True
  note f = begin_audit_facts [OF b, unfolded if_P [OF True]]
  obtain e where e: "same_call (new_event (nt_env n) identity (ev_uuid (nt_env n) 0) th mth (hq_path rq) ip (at_budget t0)) e"
    "tells r (au_call e)" "cs_audit s = send e (at_budget t0) w1"
    using s f by (auto simp: settled_as_def)
  have "aw_queue (cs_audit s) = aw_queue w @ [Event e (at_budget t0)]" "aw_reserved (cs_audit s) = aw_reserved w"
    "aw_budget (cs_audit s) = aw_budget w1" "aw_dropped (cs_audit s) = aw_dropped w"
    "aw_dropped_archives (cs_audit s) = aw_dropped_archives w1"
    using e(3) f by (simp_all add: send_def)
  moreover have "au_request_archive e = at_budget t0" "c_request_id (au_call e) = ev_uuid (nt_env n) 0"
    "c_path (au_call e) = hq_path rq" "c_consumer_id (au_call e) = ai_consumer_id identity"
    "c_user_id (au_call e) = ai_user_id identity"
    using e(1) by (simp_all add: same_call_def new_event_def)
  ultimately show ?thesis using True r f e(2) by (auto simp: audited_once_def)
qed

lemma panicked_audited:
  assumes b: "begin_audit (nt_env n) identity (ev_uuid (nt_env n) 0) th mth (hq_path rq) ip w = (t0, w1)"
    and s: "ended_as t0 w1 Panicked s"
  shows "audited_once n identity rq w (Inl Panicked) (cs_audit s)"
proof -
  have a: "at_event t0 \<noteq> None" "cs_audit s = give_back (at_permit t0) (at_budget t0) w1"
    using s by (simp_all add: ended_as_def)
  then have True: "has_room w"
    using begin_audit_facts [OF b] by (auto simp: no_tracker_def split: if_splits)
  note f = begin_audit_facts [OF b, unfolded if_P [OF True]]
  then show ?thesis using True a
    by (cases "archives identity w") (auto simp: audited_once_def give_back_def)
qed

lemma served_audited:
  assumes body: "\<And>t0 w1 s r s'. proper t0 \<Longrightarrow> tracking t0 w1 s \<Longrightarrow> m s = (r, s') \<Longrightarrow> answer_ok t0 w1 r s'"
    and run: "serve n (sbind (begin_call n identity rq) (\<lambda>_. conclude n m)) s = (r, s')"
  shows "audited_once n identity rq (cs_audit s) r (cs_audit s')"
proof -
  obtain t0 w1 where b: "begin_audit (nt_env n) identity (ev_uuid (nt_env n) 0) (thread_id (hq_headers rq))
      (hq_method rq) (hq_path rq) (hq_client_ip rq) (cs_audit s) = (t0, w1)" by fastforce
  let ?s = "s\<lparr>cs_tracker := t0, cs_audit := w1\<rparr>"
  note p = begin_audit_proper [OF b]
  have tr: "tracking t0 w1 ?s" by (simp add: tracking_def same_events_refl)
  obtain v s1 where 1: "conclude n m ?s = (v, s1)" by fastforce
  have run1: "(case v of Inl e \<Rightarrow> (Inl e, s1) | Inr resp \<Rightarrow> (case rs_body resp of
        Complete bd \<Rightarrow> sreturn [bd] | Streaming bs \<Rightarrow> run_stream n bs) s1) = (r, s')"
    using run b 1 by (simp add: serve_def begin_call_def sbind_def)
  from conclude_cases [OF p tr body [OF p tr] 1] show ?thesis
  proof
    assume "\<exists>e. v = Inl e \<and> ended_as t0 w1 e s1"
    then obtain e where e: "v = Inl e" "ended_as t0 w1 e s1" by blast
    then have r: "r = Inl e" "s' = s1" using run1 by auto
    show ?thesis
    proof (cases e)
      case (Failed err)
      then have "settled_as t0 w1 (tells r) s1" using e r Failed by (auto simp: ended_as_def elim: settled_mono)
      then show ?thesis using settled_audited [OF b] r Failed by simp
    next
      case ClientGone
      then have "settled_as t0 w1 (tells r) s1" using e r ClientGone by (auto simp: ended_as_def elim: settled_mono)
      then show ?thesis using settled_audited [OF b] r ClientGone by simp
    next
      case Panicked
      then show ?thesis using panicked_audited [OF b] e r by simp
    qed
  next
    assume "\<exists>resp. v = Inr resp \<and> answer_ok t0 w1 v s1"
    then obtain resp where v: "v = Inr resp" "answer_ok t0 w1 v s1" by blast
    show ?thesis
    proof (cases "rs_body resp")
      case (Complete bd)
      then have "r = Inr [bd]" "s' = s1" using run1 v by auto
      moreover from this v Complete have "settled_as t0 w1 (tells r) s1"
        by (auto simp: answer_ok_def elim: settled_mono)
      ultimately show ?thesis using settled_audited [OF b] by simp
    next
      case (Streaming bs)
      then have run2: "run_stream n bs s1 = (r, s')" using run1 v by simp
      have st: "streaming_for t0 (bs_completion bs)" "cs_tracker s1 = no_tracker" "cs_audit s1 = w1"
        using v Streaming by (simp_all add: answer_ok_def)
      from run_stream_cases [OF p st run2] show ?thesis
      proof
        assume "r = Inl Panicked \<and> ended_as t0 w1 Panicked s'"
        then show ?thesis using panicked_audited [OF b] by simp
      next
        assume "\<exists>outs. r = Inr outs \<and> settled_as t0 w1 (\<lambda>c. c_response_bytes c = int (length (concat outs))) s'"
        then obtain outs where o: "r = Inr outs"
          "settled_as t0 w1 (\<lambda>c. c_response_bytes c = int (length (concat outs))) s'" by blast
        then have "settled_as t0 w1 (tells r) s'" by (auto elim: settled_mono)
        then show ?thesis using settled_audited [OF b] o by simp
      qed
    qed
  qed
qed

lemma serve_caller:
  "serve n (sbind (api_caller n headers) k) s =
     (case api_identity (ev_sha (nt_env n)) (ap_db (cs_app s)) headers of
        Inl err \<Rightarrow> (Inl (Failed err), s)
      | Inr identity \<Rightarrow> serve n (k identity) s)"
proof (cases "api_identity (ev_sha (nt_env n)) (ap_db (cs_app s)) headers")
  case (Inl err)
  then have "api_caller n headers s = (Inl (Failed err), s)"
    by (simp add: api_caller_def fallible_def map_err_def)
  with Inl show ?thesis by (simp add: serve_def sbind_fail)
next
  case (Inr identity)
  then have "api_caller n headers s = (Inr identity, s)"
    by (simp add: api_caller_def fallible_def map_err_def)
  with Inr show ?thesis by (simp add: serve_def sbind_def)
qed

lemma answer_gentle:
  assumes "\<And>t0 w1 s r s'. proper t0 \<Longrightarrow> tracking t0 w1 s \<Longrightarrow> m s = (r, s') \<Longrightarrow> answer_ok t0 w1 r s'"
    and g: "gentle f" and "proper t0" "tracking t0 w1 s" "sbind (on_tracker f) (\<lambda>_. m) s = (r, s')"
  shows "answer_ok t0 w1 r s'"
  using assms(1) [OF assms(3) tracking_gentle [OF g assms(4)]] assms(5) by simp

lemma json_audited:
  assumes "serve n (handle_json n rq bd) s = (r, s')"
  shows "case api_identity (ev_sha (nt_env n)) (ap_db (cs_app s)) (hq_headers rq) of
       Inl err \<Rightarrow> r = Inl (Failed err) \<and> s' = s
     | Inr identity \<Rightarrow> audited_once n identity rq (cs_audit s) r (cs_audit s')"
proof -
  have g: "gentle (\<lambda>t. set_request_size k (set_compression_headers h1 h2 (set_request ev h b tc t)))" for k h1 h2 ev h b tc
    by (rule gentle_comp [OF gentle_setters(11) gentle_comp [OF gentle_setters(5,4)]])
  have once: "audited_once n identity rq (cs_audit s) r (cs_audit s')"
    if "serve n (sbind (begin_call n identity rq) (\<lambda>_. conclude n m)) s = (r, s')"
      and "m = sbind (on_tracker (\<lambda>t. set_request_size (int (length bd))
          (set_compression_headers (hq_headers rq) None
            (set_request (nt_env n) (hq_headers rq) bd False t)))) (\<lambda>_.
        dispatch n identity (hq_path rq) (hq_headers rq) bd)" for identity m
    using _ that(1) unfolding that(2) by (rule served_audited) (rule answer_gentle [OF dispatch_answer g])
  show ?thesis
    using assms unfolding handle_json_def serve_caller
    by (auto split: sum.splits intro: once)
qed

lemma audio_audited:
  assumes "serve n (handle_audio n rq chunks) s = (r, s')"
  shows "case api_identity (ev_sha (nt_env n)) (ap_db (cs_app s)) (hq_headers rq) of
       Inl err \<Rightarrow> r = Inl (Failed err) \<and> s' = s
     | Inr identity \<Rightarrow> audited_once n identity rq (cs_audit s) r (cs_audit s')"
proof -
  have g: "gentle (\<lambda>t. set_compression_headers h1 h2 (set_request ev h b tc t))" for h1 h2 ev h b tc
    by (rule gentle_comp [OF gentle_setters(5,4)])
  have once: "audited_once n identity rq (cs_audit s) r (cs_audit s')"
    if "serve n (sbind (begin_call n identity rq) (\<lambda>_. conclude n m)) s = (r, s')"
      and "m = sbind (on_tracker (\<lambda>t. set_compression_headers (hq_headers rq) None
          (set_request (nt_env n) (hq_headers rq) [] True t))) (\<lambda>_.
        dispatch_audio n identity (hq_path rq) (hq_headers rq) chunks)" for identity m
    using _ that(1) unfolding that(2) by (rule served_audited) (rule answer_gentle [OF dispatch_audio_answer g])
  show ?thesis
    using assms unfolding handle_audio_def serve_caller
    by (auto split: sum.splits intro: once)
qed


end
