(* ===== verification/Stream_Facts.thy ===== *)
theory Stream_Facts
  imports Tracker_Facts Usage_Facts
begin

text \<open>
  Streamed answers: the client receives the chunks of the upstream unchanged, and the event of the
  call tells how the stream ended, how much of it was delivered and what it cost.
\<close>

fun delivered :: "chunk list \<Rightarrow> string list" where
  "delivered (Data b # cs) = b # delivered cs"
| "delivered _ = []"

fun fate :: "chunk list \<Rightarrow> chunk option" where
  "fate (Data _ # cs) = fate cs"
| "fate (c # _) = Some c"
| "fate [] = None"

definition scan_chunk :: "(string \<Rightarrow> json option) \<Rightarrow> string \<Rightarrow> string \<times> usage \<Rightarrow> string \<times> usage" where
  "scan_chunk parse b st = update_sse_usage parse st b"

lemma capture_sse_Some:
  assumes "sc_event c = Some e"
  shows "capture_sse parse b (pending, c) =
     (let st = scan_chunk parse b (pending, sc_usage c)
      in (fst st, c\<lparr>sc_response_bytes := sc_response_bytes c + int (length b), sc_usage := snd st,
           sc_preview := (if au_request_archive e then preview_capture ARCHIVE_BODY_LIMIT b (sc_preview c)
                          else sc_preview c)\<rparr>))"
  using assms by (simp add: capture_sse_def scan_chunk_def Let_def case_prod_unfold)

lemma stream_loop_spec:
  assumes "sc_event c = Some e"
  shows "\<exists>c'. stream_loop parse cs (pending, c) =
       (delivered cs, (case fate cs of None \<Rightarrow> Finished False | Some Hangup \<Rightarrow> Dropped | Some _ \<Rightarrow> Finished True), c') \<and>
     sc_event c' = Some e \<and> sc_permit c' = sc_permit c \<and> sc_budget c' = sc_budget c \<and>
     sc_response_bytes c' = sc_response_bytes c + int (length (concat (delivered cs))) \<and>
     sc_usage c' = snd (fold (scan_chunk parse) (delivered cs) (pending, sc_usage c)) \<and>
     sc_preview c' = (if au_request_archive e
       then fold (preview_capture ARCHIVE_BODY_LIMIT) (delivered cs) (sc_preview c) else sc_preview c)"
  using assms
proof (induction cs arbitrary: pending c)
  case Nil
  then show ?case by simp
next
  case (Cons x cs)
  show ?case
  proof (cases x)
    case (Data b)
    let ?st = "scan_chunk parse b (pending, sc_usage c)"
    let ?c = "c\<lparr>sc_response_bytes := sc_response_bytes c + int (length b), sc_usage := snd ?st,
           sc_preview := (if au_request_archive e then preview_capture ARCHIVE_BODY_LIMIT b (sc_preview c)
                          else sc_preview c)\<rparr>"
    have "sc_event ?c = Some e" using Cons.prems by simp
    from Cons.IH [OF this, of "fst ?st"] show ?thesis
      using Cons.prems by (auto simp: Data capture_sse_Some Let_def)
  qed (use Cons.prems in simp_all)
qed

text \<open>The settled event, field by field.\<close>

lemma settle_fields:
  assumes "settle elapsed status model u err e = Some e'"
  shows "c_status (au_call e') = status \<and> c_error (au_call e') = err \<and> c_model (au_call e') = model \<and>
     c_response_bytes (au_call e') = c_response_bytes (au_call e) \<and>
     c_input_tokens (au_call e') = us_input_tokens u \<and> c_output_tokens (au_call e') = us_output_tokens u \<and>
     c_cached_tokens (au_call e') = us_cached_tokens u \<and>
     Some (c_cost_usd_nanos (au_call e')) = (case model of None \<Rightarrow> Some None | Some m \<Rightarrow> cost_usd_nanos m u) \<and>
     au_response_body e' = au_response_body e \<and> au_response_body_truncated e' = au_response_body_truncated e"
  using assms by (auto simp: settle_def bind_eq_Some_conv)

text \<open>C9. A stream is passed on unchanged and told exactly: the client receives the upstream's chunks
  up to the end, the break or its own leaving; the one event of the call has the upstream's status
  when the stream ended, 502 when it broke, 499 when the client left; the bytes delivered, the
  tokens scanned from them and their price; and, for an archiving consumer, the first mebibyte of
  them, marked as truncated when there was more or the stream did not end.\<close>

theorem stream_relayed_exactly:
  assumes "run_stream n bs s = (Inr outs, s')"
    and "bs_completion bs = fst (take_stream status model t)"
    and "at_event t = Some e" and "at_permit t"
  shows "outs = delivered (bs_chunks bs) \<and>
    (\<exists>e'. cs_audit s' = send e' (at_budget t) (cs_audit s) \<and>
       (c_status (au_call e'), c_error (au_call e')) =
          (case fate (bs_chunks bs) of
             None \<Rightarrow> (int status, None)
           | Some Hangup \<Rightarrow> (499, Some ''client_cancelled'')
           | Some _ \<Rightarrow> (502, Some ''upstream_stream_error'')) \<and>
       c_response_bytes (au_call e') = int (length (concat outs)) \<and>
       (let u = snd (fold (scan_chunk (ev_parse (nt_env n))) outs ([], usage_default))
        in c_input_tokens (au_call e') = us_input_tokens u \<and> c_output_tokens (au_call e') = us_output_tokens u \<and>
           c_cached_tokens (au_call e') = us_cached_tokens u \<and>
           Some (c_cost_usd_nanos (au_call e')) =
             (case model of None \<Rightarrow> Some None | Some m \<Rightarrow> cost_usd_nanos m u)) \<and>
       au_response_body e' = Some (if au_request_archive e then take (1024 * 1024) (concat outs) else []) \<and>
       au_response_body_truncated e' =
         (fate (bs_chunks bs) \<noteq> None \<or> au_request_archive e \<and> 1024 * 1024 < length (concat outs)))"
proof -
  let ?cs = "bs_chunks bs" and ?parse = "ev_parse (nt_env n)"
  define e1 where "e1 = e\<lparr>au_call := (au_call e)\<lparr>c_status := int status, c_model := model\<rparr>\<rparr>"
  let ?c = "bs_completion bs"
  have c: "sc_event ?c = Some e1" "sc_permit ?c" "sc_budget ?c = at_budget t" "sc_usage ?c = usage_default"
    "sc_preview ?c = preview_default" "sc_response_bytes ?c = 0"
    using assms(2-4) by (simp_all add: take_stream_def stream_completion_new_def on_call_def on_event_def e1_def)
  have arch: "au_request_archive e1 = au_request_archive e" by (simp add: e1_def)
  obtain c' where l: "stream_loop ?parse ?cs ([], ?c) = (delivered ?cs,
        (case fate ?cs of None \<Rightarrow> Finished False | Some Hangup \<Rightarrow> Dropped | Some _ \<Rightarrow> Finished True), c')"
    and c': "sc_event c' = Some e1" "sc_permit c'" "sc_budget c' = at_budget t"
      "sc_response_bytes c' = int (length (concat (delivered ?cs)))"
      "sc_usage c' = snd (fold (scan_chunk ?parse) (delivered ?cs) ([], usage_default))"
      "sc_preview c' = (if au_request_archive e
         then fold (preview_capture ARCHIVE_BODY_LIMIT) (delivered ?cs) preview_default else preview_default)"
    using stream_loop_spec [OF c(1), of ?parse ?cs "[]"] c arch by auto
  have prev: "pv_body (sc_preview c') = (if au_request_archive e then take (1024 * 1024) (concat (delivered ?cs)) else [])"
    "pv_truncated (sc_preview c') \<longleftrightarrow> au_request_archive e \<and> 1024 * 1024 < length (concat (delivered ?cs))"
    by (simp_all add: c'(6) preview_spec preview_default_def [symmetric] ARCHIVE_BODY_LIMIT_def)
      (simp_all add: preview_default_def)
  define status' err b where "status' = (case fate ?cs of None \<Rightarrow> int status | Some Hangup \<Rightarrow> 499 | Some _ \<Rightarrow> 502)"
    and "err = (case fate ?cs of None \<Rightarrow> None | Some Hangup \<Rightarrow> Some ''client_cancelled'' | Some _ \<Rightarrow> Some ''upstream_stream_error'')"
    and "b = (pv_truncated (sc_preview c') \<or> fate ?cs \<noteq> None)"
  let ?e = "e1\<lparr>au_response_body := Some (pv_body (sc_preview c')), au_response_body_truncated := b,
      au_call := (au_call e1)\<lparr>c_response_bytes := sc_response_bytes c'\<rparr>\<rparr>"
  have "\<exists>e'. outs = delivered ?cs \<and> cs_audit s' = send e' (at_budget t) (cs_audit s) \<and>
      settle (nt_elapsed n) status' model (sc_usage c') err ?e = Some e'"
    using assms(1) c'(1-3)
    by (cases "fate ?cs"; auto simp: run_stream_def l finish_stream_def drop_stream_def complete_stream_def
        release_def status'_def err_def b_def e1_def rbind_Inr_iff split: chunk.splits option.splits prod.splits)
  then obtain e' where o: "outs = delivered ?cs" and q: "cs_audit s' = send e' (at_budget t) (cs_audit s)"
    and st: "settle (nt_elapsed n) status' model (sc_usage c') err ?e = Some e'" by blast
  have u: "sc_usage c' = snd (fold (scan_chunk ?parse) outs ([], usage_default))" by (simp add: c'(5) o)
  note f = settle_fields [OF st]
  note fu = f [unfolded u]
  have "(c_status (au_call e'), c_error (au_call e')) = (status', err)"
    "c_response_bytes (au_call e') = int (length (concat outs))"
    "au_response_body e' = Some (pv_body (sc_preview c'))" "au_response_body_truncated e' = b"
    using f by (simp_all add: o c'(4))
  moreover have "(status', err) = (case fate ?cs of
             None \<Rightarrow> (int status, None)
           | Some Hangup \<Rightarrow> (499, Some ''client_cancelled'')
           | Some _ \<Rightarrow> (502, Some ''upstream_stream_error''))"
    by (simp add: status'_def err_def split: option.splits chunk.splits)
  ultimately show ?thesis
    using fu q o e1_def by (intro conjI exI [of _ e']) (auto simp: prev b_def e1_def Let_def)
qed

end
