(* ===== verification/Audit_Facts.thy ===== *)
theory Audit_Facts
  imports Audit_Writer
begin

text \<open>
  The audit pipeline: bounds of the queue, the batch and the budget, nothing lost or written
  twice between acceptance and the database, what a written batch leaves in the tables, and the
  batch that can never be written.
\<close>

section \<open>The pipeline\<close>

definition pipeline_ok :: "audit_machine \<Rightarrow> bool" where
  "pipeline_ok m \<longleftrightarrow>
     length (aw_queue (am_writer m)) + aw_reserved (am_writer m) \<le> QUEUE_CAPACITY \<and>
     length (am_batch m) \<le> BATCH_CAPACITY \<and>
     aw_budget (am_writer m) + ARCHIVE_RESERVATION_BYTES *
       (am_held m + permits (am_batch m) + permits (aw_queue (am_writer m))) = QUEUE_BYTE_CAPACITY \<and>
     am_accepted m = am_written m @ am_batch m @ aw_queue (am_writer m)"

lemma pipeline_start: "pipeline_ok (machine_start db)"
  by (simp add: pipeline_ok_def machine_start_def audit_writer_new_def)

lemma pipeline_step: "audit_step m m' \<Longrightarrow> pipeline_ok m \<Longrightarrow> pipeline_ok m'"
proof (induction rule: audit_step.induct)
  case (reserve m)
  then show ?case by (simp add: pipeline_ok_def try_reserve_def has_room_def dropped_def)
next
  case (abandon m)
  then show ?case by (auto simp: pipeline_ok_def)
next
  case (archive m ok w)
  then show ?case
    by (auto simp: pipeline_ok_def try_reserve_archive_def dropped_archive_def algebra_simps
        split: if_splits)
next
  case (release m)
  then obtain n where "am_held m = Suc n" by (cases "am_held m") auto
  with release show ?case by (simp add: pipeline_ok_def algebra_simps)
next
  case (sent m b e)
  then show ?case by (cases b) (auto simp: pipeline_ok_def send_def)
next
  case (transport m cid n enc h)
  then show ?case by (simp add: pipeline_ok_def record_response_transport_def has_room_def dropped_def)
next
  case (take m q qs)
  have "permits (q # qs) = permits [q] + permits qs" by (cases q) simp_all
  with take show ?case by (simp add: pipeline_ok_def algebra_simps)
next
  case (written m now db)
  then show ?case by (simp add: pipeline_ok_def algebra_simps)
next
  case (failed m)
  then show ?case by simp
next
  case (elsewhere m db)
  then show ?case by (simp add: pipeline_ok_def)
qed

lemma pipeline_reachable: "audit_step\<^sup>*\<^sup>* m m' \<Longrightarrow> pipeline_ok m \<Longrightarrow> pipeline_ok m'"
  by (induction rule: rtranclp_induct) (auto intro: pipeline_step)

text \<open>C18. In every reachable state of the audit pipeline the queue with its reserved places holds
  at most 4096 messages and the batch at most 128; the free budget and the permits that are out
  add up to 64 MiB, so at most 31 archives are in memory; and everything ever accepted is, in
  order and exactly once, written, in the batch or in the queue.\<close>

theorem audit_pipeline_invariant:
  assumes "audit_step\<^sup>*\<^sup>* (machine_start db) m"
  shows "length (aw_queue (am_writer m)) + aw_reserved (am_writer m) \<le> 4096 \<and>
     length (am_batch m) \<le> 128 \<and>
     aw_budget (am_writer m) + 2113536 *
       (am_held m + permits (am_batch m) + permits (aw_queue (am_writer m))) = 67108864 \<and>
     am_held m + permits (am_batch m) + permits (aw_queue (am_writer m)) \<le> 31 \<and>
     am_accepted m = am_written m @ am_batch m @ aw_queue (am_writer m)"
proof -
  have "pipeline_ok m" using pipeline_reachable [OF assms pipeline_start] .
  then show ?thesis by (auto simp: pipeline_ok_def audit_capacities)
qed

section \<open>A batch in the database\<close>

lemma persist_all_append:
  "persist_all (xs @ ys) db = Option.bind (persist_all xs db) (persist_all ys)"
  by (induction xs arbitrary: db) (simp_all, metis Option.bind_assoc)

lemma insert_event_frame:
  assumes "insert_event e db = Some db'"
  shows "db_consumers db' = db_consumers db" and "db_users db' = db_users db"
    and "db_providers db' = db_providers db"
    and "map c_id (db_api_calls db') = map c_id (db_api_calls db) @ [c_id (au_call e)]"
    and "consumer_exists db (c_consumer_id (au_call e))" and "user_exists db (c_user_id (au_call e))"
    and "c_id (au_call e) \<notin> c_id ` set (db_api_calls db)"
  using assms by (simp_all add: insert_event_def Let_def split: if_splits) auto

lemma update_transport_frame:
  "db_consumers (update_transport c n enc h db) = db_consumers db"
  "db_users (update_transport c n enc h db) = db_users db"
  "db_providers (update_transport c n enc h db) = db_providers db"
  "map c_id (db_api_calls (update_transport c n enc h db)) = map c_id (db_api_calls db)"
  by (simp_all add: update_transport_def Let_def map_update_where split: option.splits)

lemma persist_one_frame:
  assumes "persist_one q db = Some db'"
  shows "db_consumers db' = db_consumers db" and "db_users db' = db_users db"
  using assms by (cases q; auto simp: insert_event_frame update_transport_frame)+

fun event_ids :: "queued_audit list \<Rightarrow> string list" where
  "event_ids [] = []"
| "event_ids (Event e _ # qs) = c_id (au_call e) # event_ids qs"
| "event_ids (ResponseTransport _ _ _ _ # qs) = event_ids qs"

lemma persist_all_facts:
  assumes "persist_all qs db = Some db'"
  shows "db_consumers db' = db_consumers db \<and> db_users db' = db_users db \<and>
    map c_id (db_api_calls db') = map c_id (db_api_calls db) @ event_ids qs \<and>
    distinct (event_ids qs) \<and> set (event_ids qs) \<inter> c_id ` set (db_api_calls db) = {} \<and>
    (\<forall>e b. Event e b \<in> set qs \<longrightarrow> consumer_exists db (c_consumer_id (au_call e)) \<and>
       user_exists db (c_user_id (au_call e)))"
  using assms
proof (induction qs arbitrary: db)
  case Nil
  then show ?case by simp
next
  case (Cons q qs)
  from Cons.prems obtain db1 where one: "persist_one q db = Some db1" and rest: "persist_all qs db1 = Some db'"
    by (auto simp: bind_eq_Some_conv)
  note IH = Cons.IH [OF rest]
  note fr = persist_one_frame [OF one]
  have ex: "consumer_exists db1 = consumer_exists db" "user_exists db1 = user_exists db"
    using fr by (simp_all add: consumer_exists_def user_exists_def fun_eq_iff)
  show ?case
  proof (cases q)
    case (Event e b)
    note ie = insert_event_frame [OF one [unfolded Event persist_one.simps]]
    have "set (map c_id (db_api_calls db1)) = insert (c_id (au_call e)) (set (map c_id (db_api_calls db)))"
      by (simp only: ie(4)) simp
    then have ids: "c_id ` set (db_api_calls db1) = insert (c_id (au_call e)) (c_id ` set (db_api_calls db))"
      by simp
    have known: "\<forall>f c. Event f c \<in> set (q # qs) \<longrightarrow> consumer_exists db (c_consumer_id (au_call f)) \<and>
       user_exists db (c_user_id (au_call f))"
      using IH ie(5,6) by (auto simp: Event ex)
    have "distinct (event_ids (q # qs))" "set (event_ids (q # qs)) \<inter> c_id ` set (db_api_calls db) = {}"
      using IH ie(7) by (auto simp: Event ids)
    moreover have "map c_id (db_api_calls db') = map c_id (db_api_calls db) @ event_ids (q # qs)"
      using IH ie(4) by (simp add: Event)
    ultimately show ?thesis using IH fr known by simp
  next
    case (ResponseTransport c n enc h)
    then have "map c_id (db_api_calls db1) = map c_id (db_api_calls db)"
      using one by (auto simp: update_transport_frame)
    moreover from this have "c_id ` set (db_api_calls db1) = c_id ` set (db_api_calls db)"
      by (metis list.set_map)
    ultimately show ?thesis using IH fr ex by (simp add: ResponseTransport)
  qed
qed

lemma touched_keys_set:
  "set (touched_keys qs) = {c_consumer_id (au_call e) | e b. Event e b \<in> set qs}"
  by (induction qs rule: touched_keys.induct) auto

text \<open>A batch that is written adds exactly one row per event, in the order of the queue, no
  two with the same identifier and none over an existing row; its events' consumers and users
  exist, exactly those consumers get the time of writing as their last use, and the users stay
  as they are.\<close>

theorem persist_writes_all:
  assumes "persist now batch db = Some db'"
  shows "map c_id (db_api_calls db') = map c_id (db_api_calls db) @ event_ids batch \<and>
     distinct (event_ids batch) \<and> set (event_ids batch) \<inter> c_id ` set (db_api_calls db) = {} \<and>
     (\<forall>e b. Event e b \<in> set batch \<longrightarrow> consumer_exists db (c_consumer_id (au_call e)) \<and>
       user_exists db (c_user_id (au_call e))) \<and>
     db_consumers db' = map (\<lambda>k. if \<exists>e b. Event e b \<in> set batch \<and> c_consumer_id (au_call e) = k_id k
        then k\<lparr>k_last_used_at := Some now\<rparr> else k) (db_consumers db) \<and>
     db_users db' = db_users db"
proof -
  from assms obtain db1 where p: "persist_all batch db = Some db1"
    and db': "db' = db1\<lparr>db_consumers := update_where (\<lambda>k. k_id k \<in> set (touched_keys batch))
                 (\<lambda>k. k\<lparr>k_last_used_at := Some now\<rparr>) (db_consumers db1)\<rparr>"
    by (auto simp: persist_def bind_eq_Some_conv)
  note f = persist_all_facts [OF p]
  have "k_id k \<in> set (touched_keys batch) \<longleftrightarrow>
      (\<exists>e b. Event e b \<in> set batch \<and> c_consumer_id (au_call e) = k_id k)" for k :: consumer
    unfolding touched_keys_set by (simp, metis)
  with f show ?thesis by (simp add: db' update_where_def)
qed

section \<open>A batch that cannot be written\<close>

lemma persist_poisoned:
  assumes "Event e b \<in> set batch" and "\<not> consumer_exists db (c_consumer_id (au_call e))"
  shows "persist now batch db = None"
proof -
  have "persist_all batch db = None"
    using persist_all_facts [of batch db] assms by (cases "persist_all batch db") blast+
  then show ?thesis by (simp add: persist_def)
qed

text \<open>A step during which a consumer stays deleted.\<close>

definition step_without :: "string \<Rightarrow> audit_machine \<Rightarrow> audit_machine \<Rightarrow> bool" where
  "step_without cid m m' \<longleftrightarrow>
     audit_step m m' \<and> \<not> consumer_exists (am_db m) cid \<and> \<not> consumer_exists (am_db m') cid"

lemma stalled_step:
  assumes "step_without cid m m'" and "Event e b \<in> set (am_batch m)" and "c_consumer_id (au_call e) = cid"
  shows "am_written m' = am_written m \<and> Event e b \<in> set (am_batch m')"
proof -
  have "audit_step m m'" and no: "\<not> consumer_exists (am_db m) cid"
    using assms(1) by (simp_all add: step_without_def)
  then show ?thesis
    using assms(2,3) persist_poisoned [OF assms(2)]
    by (cases rule: audit_step.cases) auto
qed

text \<open>C20. One event whose consumer was deleted before its batch was written stops the audit for
  good: as long as the identifier does not come back, whatever else happens, nothing is ever
  written again, the event stays in the batch, and everything accepted later stays behind it.\<close>

theorem deleted_consumer_stalls_audit:
  assumes "(step_without cid)\<^sup>*\<^sup>* m m'" and "Event e b \<in> set (am_batch m)"
    and "c_consumer_id (au_call e) = cid"
  shows "am_written m' = am_written m \<and> Event e b \<in> set (am_batch m')"
  using assms(1)
proof (induction rule: rtranclp_induct)
  case base
  with assms(2) show ?case by simp
next
  case (step m1 m2)
  with stalled_step [OF step.hyps(2) _ assms(3)] show ?case by auto
qed

section \<open>Retention\<close>

lemma delete_expired_keeps:
  "a \<in> set (db_archives (snd (delete_expired days now db))) \<longleftrightarrow>
     a \<in> set (db_archives db) \<and> now - days * 86400 \<le> ra_created_at a"
  by (auto simp: delete_expired_def Let_def)

end
