(* ===== verification/Audit_Run.thy ===== *)
theory Audit_Run
  imports Audit_Facts
begin

text \<open>
  The loop of the writer task (\<open>run\<close> of \<open>src/audit.rs\<close>) on the messages that wait in the queue: a batch
  is retried until it is written, then the next one is taken. The loop over a batch has no bound, so
  it is a partial function and its end is something to prove. \<open>up k\<close> says whether the database answers
  the k-th attempt, \<open>clock k\<close> is the time of it.
\<close>

section \<open>The loops\<close>

partial_function (option) write_batch ::
  "(nat \<Rightarrow> bool) \<Rightarrow> (nat \<Rightarrow> i64) \<Rightarrow> queued_audit list \<Rightarrow> database \<Rightarrow> nat \<Rightarrow> (database \<times> nat) option" where
  "write_batch up clock batch db k =
     (case if up k then persist (clock k) batch db else None of
        Some db' \<Rightarrow> Some (db', Suc k)
      | None \<Rightarrow> write_batch up clock batch db (Suc k))"

partial_function (option) drain ::
  "(nat \<Rightarrow> bool) \<Rightarrow> (nat \<Rightarrow> i64) \<Rightarrow> queued_audit list \<Rightarrow> database \<Rightarrow> nat \<Rightarrow> (database \<times> nat) option" where
  "drain up clock queue db k =
     (if queue = [] then Some (db, k)
      else Option.bind (write_batch up clock (take BATCH_CAPACITY queue) db k)
        (\<lambda>r. drain up clock (drop BATCH_CAPACITY queue) (fst r) (snd r)))"

section \<open>One batch\<close>

lemma persist_None_iff: "persist now batch db = None \<longleftrightarrow> persist_all batch db = None"
  by (simp add: persist_def split: bind_splits)

lemma persist_SomeD: "persist now batch db = Some d \<Longrightarrow> \<exists>y. persist_all batch db = Some y"
  using persist_None_iff [of now batch db] by auto

lemma write_batch_never:
  assumes "persist_all batch db = None" shows "write_batch up clock batch db k = None"
proof -
  have "persist_all batch db \<noteq> None" if "write_batch up clock batch db k = Some r" for r
    by (rule write_batch.raw_induct [OF _ that])
      (auto dest: persist_SomeD split: option.splits if_splits)
  with assms show ?thesis by (cases "write_batch up clock batch db k") auto
qed

lemma write_batch_ends:
  assumes "persist_all batch db = Some db1" and "\<exists>j. up (k + j)"
  shows "\<exists>j. write_batch up clock batch db k = Some (the (persist (clock j) batch db), Suc j) \<and> k \<le> j"
proof -
  define n where "n = (LEAST j. up (k + j))"
  have up: "up (k + n)" and down: "\<And>j. j < n \<Longrightarrow> \<not> up (k + j)"
    unfolding n_def using assms(2) by (auto intro: LeastI dest: not_less_Least)
  have some: "persist t batch db \<noteq> None" for t using assms(1) by (simp add: persist_None_iff)
  have "i \<le> n \<Longrightarrow> write_batch up clock batch db (k + (n - i)) =
      Some (the (persist (clock (k + n)) batch db), Suc (k + n))" for i
  proof (induction i)
    case 0
    obtain d where "persist (clock (k + n)) batch db = Some d" using some by blast
    then show ?case using up by (subst write_batch.simps) simp
  next
    case (Suc i)
    then have "\<not> up (k + (n - Suc i))" by (intro down) simp
    moreover have "Suc (k + (n - Suc i)) = k + (n - i)" using Suc.prems by simp
    ultimately show ?case using Suc by (subst write_batch.simps) simp
  qed
  from this [of n] show ?thesis by auto
qed

section \<open>What a write changes for the next one\<close>

text \<open>Only the time a consumer was last used.\<close>

definition used_later :: "database \<Rightarrow> database \<Rightarrow> bool" where
  "used_later db db' \<longleftrightarrow> (\<exists>ks. db' = db\<lparr>db_consumers := ks\<rparr> \<and>
     map (\<lambda>k. k\<lparr>k_last_used_at := None\<rparr>) ks = map (\<lambda>k. k\<lparr>k_last_used_at := None\<rparr>) (db_consumers db))"

lemma used_later_refl: "used_later db db"
  by (auto simp: used_later_def intro!: exI [of _ "db_consumers db"])

lemma used_later_trans: "used_later a b \<Longrightarrow> used_later b c \<Longrightarrow> used_later a c"
  by (auto simp: used_later_def)

lemma used_later_ids:
  assumes "map (\<lambda>k. k\<lparr>k_last_used_at := None\<rparr>) ks = map (\<lambda>k. k\<lparr>k_last_used_at := None\<rparr>) js"
  shows "k_id ` set ks = k_id ` set js"
proof -
  have "map k_id (map (\<lambda>k. k\<lparr>k_last_used_at := None\<rparr>) ks) = map k_id (map (\<lambda>k. k\<lparr>k_last_used_at := None\<rparr>) js)"
    using assms by simp
  then have "map k_id ks = map k_id js" by (simp add: o_def)
  then show ?thesis by (metis list.set_map)
qed

lemma persist_one_used:
  assumes "used_later db db'"
  shows "rel_option used_later (persist_one q db) (persist_one q db')"
proof -
  obtain ks where db': "db' = db\<lparr>db_consumers := ks\<rparr>"
    and ks: "map (\<lambda>k. k\<lparr>k_last_used_at := None\<rparr>) ks = map (\<lambda>k. k\<lparr>k_last_used_at := None\<rparr>) (db_consumers db)"
    using assms by (auto simp: used_later_def)
  have ex: "consumer_exists (db\<lparr>db_consumers := ks\<rparr>) = consumer_exists db"
    "user_exists (db\<lparr>db_consumers := ks\<rparr>) = user_exists db"
    "provider_exists (db\<lparr>db_consumers := ks\<rparr>) = provider_exists db"
    using used_later_ids [OF ks]
    by (simp_all add: fun_eq_iff consumer_exists_def user_exists_def provider_exists_def)
  have "persist_one q db' = map_option (\<lambda>d. d\<lparr>db_consumers := ks\<rparr>) (persist_one q db) \<and>
      (\<forall>d. persist_one q db = Some d \<longrightarrow> db_consumers d = db_consumers db)"
    unfolding db'
    by (cases q) (auto simp: ex insert_event_def update_transport_def Let_def split: option.splits)
  then show ?thesis
    using ks by (cases "persist_one q db") (auto simp: used_later_def)
qed

lemma persist_all_used:
  "used_later db db' \<Longrightarrow> rel_option used_later (persist_all qs db) (persist_all qs db')"
proof (induction qs arbitrary: db db')
  case (Cons q qs)
  from persist_one_used [OF Cons.prems, of q] show ?case
    by (cases "persist_one q db"; cases "persist_one q db'") (auto intro: Cons.IH)
qed simp

lemma persist_used:
  assumes "persist now batch db = Some db'" shows "rel_option used_later (persist_all batch db) (Some db')"
proof -
  obtain db1 where 1: "persist_all batch db = Some db1"
    and db': "db' = db1\<lparr>db_consumers := update_where (\<lambda>k. k_id k \<in> set (touched_keys batch))
                 (\<lambda>k. k\<lparr>k_last_used_at := Some now\<rparr>) (db_consumers db1)\<rparr>"
    using assms by (auto simp: persist_def split: bind_splits)
  let ?ks = "update_where (\<lambda>k. k_id k \<in> set (touched_keys batch)) (\<lambda>k. k\<lparr>k_last_used_at := Some now\<rparr>)
    (db_consumers db1)"
  have "map (\<lambda>k. k\<lparr>k_last_used_at := None\<rparr>) ?ks = map (\<lambda>k. k\<lparr>k_last_used_at := None\<rparr>) (db_consumers db1)"
    by (rule map_update_where) simp
  then have "used_later db1 db'" unfolding used_later_def db' by blast
  with 1 show ?thesis by simp
qed

section \<open>The whole queue\<close>

text \<open>C19. The writer task finishes exactly what it can: as long as the database answers again and again,
  it empties its queue if and only if every message in it can be written, one after the other; then
  the calls, the diagnostics and all other tables are what writing all messages in one transaction
  gives, however they were cut into batches and however often an attempt failed, up to the time at
  which the consumers were last used. A message that can never be written holds it up for ever.\<close>

theorem audit_queue_drained:
  assumes "\<forall>k. \<exists>j. up (k + j)"
  shows "rel_option used_later (persist_all queue db) (map_option fst (drain up clock queue db k))"
proof -
  have "used_later db0 db \<Longrightarrow>
      rel_option used_later (persist_all queue db0) (map_option fst (drain up clock queue db k))" for db0
  proof (induction "length queue" arbitrary: queue db0 db k rule: less_induct)
    case less
    show ?case
    proof (cases "queue = []")
      case True
      then show ?thesis using less.prems by (simp add: drain.simps)
    next
      case False
      let ?b = "take BATCH_CAPACITY queue" and ?q = "drop BATCH_CAPACITY queue"
      have shorter: "length ?q < length queue" using False by (simp add: BATCH_CAPACITY_def)
      have split: "persist_all queue db0 = Option.bind (persist_all ?b db0) (persist_all ?q)"
        by (metis append_take_drop_id persist_all_append)
      have rel: "rel_option used_later (persist_all ?b db0) (persist_all ?b db)"
        by (rule persist_all_used [OF less.prems])
      show ?thesis
      proof (cases "persist_all ?b db")
        case None
        then show ?thesis
          using rel False split write_batch_never [OF None, of up clock k] by (subst drain.simps) simp
      next
        case (Some d)
        then obtain d0 where d0: "persist_all ?b db0 = Some d0" "used_later d0 d"
          using rel by (cases "persist_all ?b db0") auto
        obtain j where w: "write_batch up clock ?b db k = Some (the (persist (clock j) ?b db), Suc j)"
          using write_batch_ends [OF Some, of up k clock] assms by blast
        obtain d' where d': "persist (clock j) ?b db = Some d'"
          using Some persist_None_iff [of "clock j" ?b db] by (cases "persist (clock j) ?b db") auto
        have "used_later d d'" using persist_used [OF d'] Some by simp
        with d0(2) have "used_later d0 d'" by (rule used_later_trans)
        from less.hyps [OF shorter this, of "Suc j"] show ?thesis
          using False split d0(1) w d' by (subst drain.simps) simp
      qed
    qed
  qed
  from this [OF used_later_refl] show ?thesis .
qed

end
