(* ===== verification/Audit_Witness.thy ===== *)
theory Audit_Witness
  imports Audit_Run
begin

text \<open>
  Concrete runs of the audit pipeline: one event of a known consumer from its reservation to the
  database, and one whose consumer is gone.
\<close>

definition sample_event :: "string \<Rightarrow> string \<Rightarrow> audit_event" where
  "sample_event eid cid =
     \<lparr>au_call = \<lparr>c_id = eid, c_request_id = ''r'', c_thread_id = None, c_consumer_id = cid,
        c_user_id = ''u'', c_provider_id = Some ''gone'', c_affinity_hash = None,
        c_affinity_source = None, c_method = ''POST'', c_path = ''/v1/responses'', c_model = None,
        c_reasoning_effort = None, c_status = 200, c_first_byte_latency_ms = None,
        c_request_bytes = 1, c_response_bytes = 2, c_request_transport_bytes = 1,
        c_response_transport_bytes = 2, c_downstream_accept_encoding = None,
        c_downstream_content_encoding = None, c_upstream_accept_encoding = None,
        c_upstream_content_encoding = None, c_latency_ms = 1, c_input_tokens = 0,
        c_output_tokens = 0, c_cached_tokens = 0, c_cost_usd_nanos = None, c_error = None,
        c_client_ip = ''ip'', c_created_at = 1, c_upstream_http_version = None\<rparr>,
      au_request_archive = False, au_request_headers_json = ''[]'', au_request_body = [],
      au_request_body_truncated = False, au_upstream_request_headers_json = None,
      au_response_headers_json = None, au_response_body = None, au_response_body_truncated = False\<rparr>"

definition audit_db :: database where
  "audit_db = empty_db\<lparr>
     db_users := [\<lparr>u_id = ''u'', u_email = None, u_display_name = None, u_role = ''user'',
                   u_provider_access = 0, u_created_at = 1\<rparr>],
     db_consumers := [\<lparr>k_id = ''k'', k_user_id = ''u'', k_name = ''n'', k_prefix = ''p'',
                       k_secret_hash = ''h'', k_request_archive = 0, k_created_at = 1,
                       k_last_used_at = None, k_revoked_at = None\<rparr>]\<rparr>"

lemma sample_event_ids [simp]:
  "c_id (au_call (sample_event eid cid)) = eid"
  "c_consumer_id (au_call (sample_event eid cid)) = cid"
  "c_user_id (au_call (sample_event eid cid)) = ''u''"
  "au_request_archive (sample_event eid cid) = False"
  by (simp_all add: sample_event_def)

text \<open>A place is reserved, the event sent, taken into a batch.\<close>

definition reserved_machine :: "database \<Rightarrow> audit_machine" where
  "reserved_machine db = (machine_start db)\<lparr>am_writer := audit_writer_new\<lparr>aw_reserved := 1\<rparr>\<rparr>"

definition sent_machine :: "audit_event \<Rightarrow> database \<Rightarrow> audit_machine" where
  "sent_machine e db = (machine_start db)\<lparr>
     am_writer := audit_writer_new\<lparr>aw_queue := [Event e False]\<rparr>, am_accepted := [Event e False]\<rparr>"

definition taken_machine :: "audit_event \<Rightarrow> database \<Rightarrow> audit_machine" where
  "taken_machine e db = (machine_start db)\<lparr>am_batch := [Event e False], am_accepted := [Event e False]\<rparr>"

lemma reserve_step: "audit_step (machine_start db) (reserved_machine db)"
proof -
  have "audit_step (machine_start db)
      ((machine_start db)\<lparr>am_writer := snd (try_reserve (am_writer (machine_start db)))\<rparr>)"
    by (rule audit_step.reserve)
  then show ?thesis
    by (simp add: reserved_machine_def machine_start_def try_reserve_def has_room_def
        audit_writer_new_def QUEUE_CAPACITY_def)
qed

lemma send_step: "audit_step (reserved_machine db) (sent_machine e db)"
  using audit_step.sent [of "reserved_machine db" False e]
  by (simp add: reserved_machine_def sent_machine_def machine_start_def send_def audit_writer_new_def)

lemma take_step: "audit_step (sent_machine e db) (taken_machine e db)"
  using audit_step.take [of "sent_machine e db" "Event e False" "[]"]
  by (simp add: sent_machine_def taken_machine_def machine_start_def audit_writer_new_def
      BATCH_CAPACITY_def)

lemma taken_reachable: "audit_step\<^sup>*\<^sup>* (machine_start db) (taken_machine e db)"
  using reserve_step [of db] send_step [of db e] take_step [of e db]
  by (meson converse_rtranclp_into_rtranclp rtranclp.rtrancl_refl)

theorem audit_pipeline_invariant_witness:
  "\<exists>m. audit_step\<^sup>*\<^sup>* (machine_start empty_db) m \<and> am_accepted m \<noteq> [] \<and>
     am_accepted m = am_written m @ am_batch m @ aw_queue (am_writer m)"
proof -
  let ?m = "taken_machine (sample_event ''e'' ''k'') empty_db"
  have "am_accepted ?m = am_written ?m @ am_batch ?m @ aw_queue (am_writer ?m)"
    using audit_pipeline_invariant [OF taken_reachable] by blast
  moreover have "am_accepted ?m \<noteq> []" by (simp add: taken_machine_def)
  ultimately show ?thesis using taken_reachable by (intro exI conjI)
qed

lemma persist_writes_all_example:
  "\<exists>db. persist 7 [Event (sample_event ''e'' ''k'') False] audit_db = Some db \<and>
     map c_id (db_api_calls db) = [''e''] \<and> map k_last_used_at (db_consumers db) = [Some 7]"
proof -
  obtain db where p: "persist 7 [Event (sample_event ''e'' ''k'') False] audit_db = Some db"
    by (simp add: persist_def insert_event_def Let_def audit_db_def empty_db_def
        consumer_exists_def user_exists_def)
  have q: "db_api_calls audit_db = []" "map k_id (db_consumers audit_db) = [''k'']"
    by (simp_all add: audit_db_def empty_db_def)
  note f = persist_writes_all [OF p]
  have "map c_id (db_api_calls db) = [''e'']" using f q(1) by simp
  moreover have "map k_last_used_at (db_consumers db) = [Some 7]" using f q(2) by auto
  ultimately show ?thesis using p by (intro exI conjI)
qed

theorem deleted_consumer_stalls_audit_witness:
  "\<exists>m m'. audit_step\<^sup>*\<^sup>* (machine_start empty_db) m \<and>
     (step_without ''k'')\<^sup>*\<^sup>* m m' \<and> aw_reserved (am_writer m') = 1 \<and> am_written m' = [] \<and>
     Event (sample_event ''e'' ''k'') False \<in> set (am_batch m')"
proof -
  let ?e = "sample_event ''e'' ''k''"
  let ?m = "taken_machine ?e empty_db"
  let ?n = "?m\<lparr>am_writer := snd (try_reserve (am_writer ?m))\<rparr>"
  have "audit_step ?m ?n" by (rule audit_step.reserve)
  moreover have "am_db ?m = empty_db" "am_db ?n = empty_db"
    by (simp_all add: taken_machine_def machine_start_def)
  moreover have "\<not> consumer_exists empty_db ''k''" by (simp add: consumer_exists_def empty_db_def)
  ultimately have "step_without ''k'' ?m ?n" by (simp add: step_without_def)
  then have run: "(step_without ''k'')\<^sup>*\<^sup>* ?m ?n" by (rule r_into_rtranclp)
  have b: "Event ?e False \<in> set (am_batch ?m)" by (simp add: taken_machine_def)
  have w: "am_written ?m = []" by (simp add: taken_machine_def machine_start_def)
  have r: "aw_reserved (am_writer ?n) = 1"
    by (simp add: taken_machine_def machine_start_def try_reserve_def has_room_def
        audit_writer_new_def QUEUE_CAPACITY_def)
  note d = deleted_consumer_stalls_audit [OF run b sample_event_ids(2)]
  show ?thesis
    by (intro exI conjI, rule taken_reachable, rule run, rule r,
        rule d [THEN conjunct1, unfolded w], rule d [THEN conjunct2])
qed

theorem audit_queue_drained_witness:
  "(\<exists>db k. drain (\<lambda>k. 2 \<le> k) int [Event (sample_event ''e'' ''k'') False] audit_db 0 = Some (db, k) \<and>
      map c_id (db_api_calls db) = [''e'']) \<and>
   drain (\<lambda>k. 2 \<le> k) int [Event (sample_event ''e'' ''gone'') False] audit_db 0 = None"
proof -
  have up: "\<forall>k. \<exists>j. 2 \<le> k + (j::nat)" by presburger
  obtain d where d: "persist_all [Event (sample_event ''e'' ''k'') False] audit_db = Some d" "map c_id (db_api_calls d) = [''e'']"
    by (simp add: insert_event_def Let_def audit_db_def empty_db_def consumer_exists_def user_exists_def)
  have none: "persist_all [Event (sample_event ''e'' ''gone'') False] audit_db = None"
    by (simp add: insert_event_def Let_def audit_db_def empty_db_def consumer_exists_def user_exists_def)
  have "\<exists>db k. drain (\<lambda>k. 2 \<le> k) int [Event (sample_event ''e'' ''k'') False] audit_db 0 = Some (db, k) \<and>
      used_later d db"
    using audit_queue_drained [OF up, of "[Event (sample_event ''e'' ''k'') False]" audit_db int 0]
    by (simp only: d(1)) (auto simp: option_rel_Some1)
  moreover have "drain (\<lambda>k. 2 \<le> k) int [Event (sample_event ''e'' ''gone'') False] audit_db 0 = None"
    using audit_queue_drained [OF up, of "[Event (sample_event ''e'' ''gone'') False]" audit_db int 0]
    by (simp only: none) (auto simp: option.rel_sel)
  ultimately show ?thesis using d(2) by (auto simp: used_later_def)
qed

end
