(* ===== verification/Proxy_Witness.thy ===== *)
theory Proxy_Witness
  imports Stream_Facts Api_Witness Audit_Witness
begin

text \<open>
  Concrete calls: a stream that breaks, an upload found by the clean-up, and a whole JSON call that
  is sent to a second provider after the first one answered 503.
\<close>

section \<open>A broken stream\<close>

definition sample_net :: "(nat \<Rightarrow> net_reply) \<Rightarrow> net" where
  "sample_net replies = \<lparr>nt_env = sample_env, nt_valid_url = (\<lambda>_. True), nt_reply = (\<lambda>k _. replies k),
     nt_first_byte = 3, nt_elapsed = 7, nt_create_ok = True, nt_write_ok = (\<lambda>_. True),
     nt_open_ok = (\<lambda>_. True)\<rparr>"

definition idle_state :: call_state where
  "idle_state = \<lparr>cs_app = run_app, cs_audit = audit_writer_new, cs_tracker = no_tracker,
     cs_requests = [], cs_files = []\<rparr>"

definition busy_tracker :: tracker where
  "busy_tracker = \<lparr>at_permit = True, at_budget = False, at_event = Some (sample_event ''e'' ''k1'')\<rparr>"

definition sample_lease :: lease where
  "sample_lease = \<lparr>l_provider = pa, l_access_token = ''tok'', l_refresh_token = ''ref''\<rparr>"

definition broken_stream :: body_stream where
  "broken_stream = \<lparr>bs_lease = sample_lease,
     bs_completion = fst (take_stream 200 None busy_tracker),
     bs_chunks = [Data ''ab'', Data ''c'', Broken, Data ''lost'']\<rparr>"

lemma run_stream_total:
  assumes "bs_completion bs = fst (take_stream status None t)" and "at_event t = Some e" and "at_permit t"
  shows "\<exists>outs s'. run_stream n bs s = (Inr outs, s')"
proof -
  define e1 where "e1 = e\<lparr>au_call := (au_call e)\<lparr>c_status := int status, c_model := None\<rparr>\<rparr>"
  have ev: "sc_event (bs_completion bs) = Some e1" "sc_permit (bs_completion bs)"
    using assms by (simp_all add: take_stream_def stream_completion_new_def on_call_def on_event_def e1_def)
  obtain c' where l: "stream_loop (ev_parse (nt_env n)) (bs_chunks bs) ([], bs_completion bs) =
      (delivered (bs_chunks bs), (case fate (bs_chunks bs) of None \<Rightarrow> Finished False
         | Some Hangup \<Rightarrow> Dropped | Some _ \<Rightarrow> Finished True), c')"
    and c': "sc_event c' = Some e1" "sc_permit c'"
    using stream_loop_spec [OF ev(1), of "ev_parse (nt_env n)" "bs_chunks bs" "[]"] ev(2) by auto
  have m: "c_model (au_call e1) = None" by (simp add: e1_def)
  show ?thesis
    by (cases "fate (bs_chunks bs)")
      (auto simp: run_stream_def l finish_stream_def drop_stream_def complete_stream_def c' m settle_def
        split: chunk.splits)
qed

theorem stream_relayed_exactly_witness:
  "\<exists>s' e'. run_stream (sample_net (\<lambda>_. Refused)) broken_stream idle_state = (Inr [''ab'', ''c''], s') \<and>
     cs_audit s' = send e' False audit_writer_new \<and> c_status (au_call e') = 502 \<and>
     c_response_bytes (au_call e') = 3"
proof -
  let ?n = "sample_net (\<lambda>_. Refused)"
  have b: "bs_completion broken_stream = fst (take_stream 200 None busy_tracker)"
    "at_event busy_tracker = Some (sample_event ''e'' ''k1'')" "at_permit busy_tracker"
    "at_budget busy_tracker = False" "delivered (bs_chunks broken_stream) = [''ab'', ''c'']"
    "fate (bs_chunks broken_stream) = Some Broken" "cs_audit idle_state = audit_writer_new"
    by (simp_all add: broken_stream_def busy_tracker_def idle_state_def)
  obtain outs s' where run: "run_stream ?n broken_stream idle_state = (Inr outs, s')"
    using run_stream_total [OF b(1-3), of ?n idle_state] by blast
  note x = stream_relayed_exactly [OF run b(1-3), unfolded b(4-7)]
  have o: "outs = [''ab'', ''c'']" using x by (rule conjunct1)
  obtain e' where "cs_audit s' = send e' False audit_writer_new"
    "(c_status (au_call e'), c_error (au_call e')) = (502, Some ''upstream_stream_error'')"
    "c_response_bytes (au_call e') = int (length (concat outs))"
    using x by auto
  then show ?thesis using run unfolding o by (intro exI [of _ s'] exI [of _ e'] conjI) simp_all
qed

section \<open>Uploads\<close>


end
