(* ===== verification/Router.thy ===== *)
theory Router
  imports Api_Audit Api_Settings Api_Providers Proxy
begin

text \<open>
  The routes of \<open>router\<close> in \<open>src/lib.rs\<close>: which handler a method and a path reach, with which path
  parameters and which limit on the body, and the console's handlers behind one function. What Axum
  and serde extract from a request (the body's members, the query) comes as the arguments of a
  \<open>console_request\<close>.
\<close>

section \<open>The table\<close>

datatype body_limit = NoLimit | ResponseLimit | ImageLimit | AudioLimit

record route_entry =
  rt_path :: string
  rt_handlers :: "(string \<times> string) list"
  rt_limit :: body_limit

definition plain_route :: "string \<Rightarrow> (string \<times> string) list \<Rightarrow> route_entry" where
  "plain_route path handlers = \<lparr>rt_path = path, rt_handlers = handlers, rt_limit = NoLimit\<rparr>"

definition limited_route :: "string \<Rightarrow> string \<Rightarrow> body_limit \<Rightarrow> route_entry" where
  "limited_route path handler lim = \<lparr>rt_path = path, rt_handlers = [(''POST'', handler)], rt_limit = lim\<rparr>"

definition routes :: "route_entry list" where
  "routes =
     [plain_route ''/api/health'' [(''GET'', ''health'')],
      plain_route ''/api/config'' [(''GET'', ''public_config'')],
      plain_route ''/api/setup'' [(''GET'', ''setup_status''), (''POST'', ''setup'')],
      plain_route ''/api/me'' [(''GET'', ''me'')],
      limited_route ''/api/transcriptions'' ''handle_console_transcription'' AudioLimit,
      limited_route ''/api/images/generations'' ''handle_console_image_generation'' ImageLimit,
      plain_route ''/api/consumers'' [(''GET'', ''list_consumers''), (''POST'', ''create_consumer'')],
      plain_route ''/api/consumers/{id}'' [(''PATCH'', ''update_consumer''), (''DELETE'', ''delete_consumer'')],
      plain_route ''/api/consumers/{id}/revoke'' [(''POST'', ''revoke_consumer'')],
      plain_route ''/api/providers'' [(''GET'', ''list_providers''), (''POST'', ''create_provider'')],
      plain_route ''/api/providers/usage'' [(''GET'', ''list_provider_usage'')],
      plain_route ''/api/providers/circuit-events'' [(''GET'', ''list_provider_circuit_summaries'')],
      plain_route ''/api/providers/rate-limit-resets'' [(''GET'', ''list_provider_rate_limit_resets'')],
      plain_route ''/api/providers/{id}''
        [(''GET'', ''read_provider_tokens''), (''PUT'', ''replace_provider_tokens''),
         (''PATCH'', ''update_provider''), (''DELETE'', ''delete_provider'')],
      plain_route ''/api/providers/{id}/circuit-events'' [(''GET'', ''list_provider_circuit_events'')],
      plain_route ''/api/providers/{id}/test'' [(''POST'', ''test_provider'')],
      plain_route ''/api/providers/{id}/rate-limit-resets/consume''
        [(''POST'', ''consume_provider_rate_limit_reset'')],
      plain_route ''/api/providers/{id}/grants''
        [(''GET'', ''list_provider_grants''), (''POST'', ''create_provider_grant'')],
      plain_route ''/api/providers/{id}/grants/{user_id}'' [(''DELETE'', ''delete_provider_grant'')],
      plain_route ''/api/oauth/start'' [(''POST'', ''oauth_start'')],
      plain_route ''/api/oauth/complete'' [(''POST'', ''oauth_complete'')],
      plain_route ''/api/usage'' [(''GET'', ''usage'')],
      plain_route ''/api/audit'' [(''GET'', ''audit'')],
      plain_route ''/api/audit/{id}'' [(''GET'', ''audit_detail'')],
      plain_route ''/api/admin-audit'' [(''GET'', ''list_admin_audit'')],
      plain_route ''/api/dashboard'' [(''GET'', ''dashboard'')],
      plain_route ''/api/system/resources''
        [(''GET'', ''system_resources''), (''POST'', ''vacuum_system_database'')],
      plain_route ''/api/settings'' [(''GET'', ''settings''), (''PATCH'', ''update_settings'')],
      plain_route ''/api/users'' [(''GET'', ''list_users'')],
      plain_route ''/api/users/{id}'' [(''PATCH'', ''update_user'')],
      limited_route ''/v1/responses'' ''handle_json'' ResponseLimit,
      limited_route ''/v1/responses/compact'' ''handle_json'' ResponseLimit,
      limited_route ''/backend-api/codex/responses'' ''handle_json'' ResponseLimit,
      limited_route ''/backend-api/codex/responses/compact'' ''handle_json'' ResponseLimit,
      limited_route ''/v1/audio/transcriptions'' ''handle_audio'' AudioLimit,
      limited_route ''/v1/images/generations'' ''handle_json'' ImageLimit,
      plain_route ''/v1/models'' [(''GET'', ''handle_models'')]]"

section \<open>Matching\<close>

text \<open>Axum, as it documents: a path matches segment by segment; a parameter takes one segment that is not empty, and a
  route without parameters goes before one with parameters.\<close>

definition is_param :: "string \<Rightarrow> bool" where
  "is_param seg \<longleftrightarrow> starts_with seg ''{''"

fun match_segments :: "string list \<Rightarrow> string list \<Rightarrow> string list option" where
  "match_segments [] [] = Some []"
| "match_segments (p # ps) (s # ss) =
     (if is_param p
      then if s = [] then None else map_option ((#) s) (match_segments ps ss)
      else if p = s then match_segments ps ss else None)"
| "match_segments _ _ = None"

fun first_match :: "route_entry list \<Rightarrow> string list \<Rightarrow> (route_entry \<times> string list) option" where
  "first_match [] segs = None"
| "first_match (r # rs) segs =
     (case match_segments (split_on (CHR ''/'') (rt_path r)) segs of
        Some params \<Rightarrow> Some (r, params)
      | None \<Rightarrow> first_match rs segs)"

definition find_route :: "string \<Rightarrow> (route_entry \<times> string list) option" where
  "find_route path =
     (case find (\<lambda>r. rt_path r = path \<and> CHR ''{'' \<notin> set (rt_path r)) routes of
        Some r \<Rightarrow> Some (r, [])
      | None \<Rightarrow> first_match routes (split_on (CHR ''/'') path))"

text \<open>A route that knows \<open>GET\<close> answers \<open>HEAD\<close> with the same handler; a method no handler is
  registered for is a 405, and a path no route matches goes to the fallback, \<open>static_asset\<close>.\<close>

datatype routed =
    Routed string "string list" body_limit
  | MethodNotAllowed
  | Fallback

definition route :: "string \<Rightarrow> string \<Rightarrow> routed" where
  "route meth path =
     (case find_route path of
        None \<Rightarrow> Fallback
      | Some (r, params) \<Rightarrow>
          (case map_of (rt_handlers r) (if meth = ''HEAD'' then ''GET'' else meth) of
             None \<Rightarrow> MethodNotAllowed
           | Some h \<Rightarrow> Routed h params (rt_limit r)))"

section \<open>Body limits\<close>

text \<open>\<open>router\<close> reads the limits once, when the program starts.\<close>

record limits =
  lm_response :: nat
  lm_image :: nat
  lm_audio :: nat

definition router_limits :: "config \<Rightarrow> limits" where
  "router_limits cfg =
     \<lparr>lm_response = cf_response_body_limit cfg, lm_image = cf_image_body_limit cfg,
      lm_audio = cf_audio_body_limit cfg\<rparr>"

fun limit_of :: "limits \<Rightarrow> body_limit \<Rightarrow> nat option" where
  "limit_of lm NoLimit = None"
| "limit_of lm ResponseLimit = Some (lm_response lm)"
| "limit_of lm ImageLimit = Some (lm_image lm)"
| "limit_of lm AudioLimit = Some (lm_audio lm)"

section \<open>The console\<close>

datatype console_request =
    Health | PublicConfig | SetupStatus | Setup string string | Me
  | ListConsumers | CreateConsumer string bool
  | UpdateConsumer string "string option" "bool option" | DeleteConsumer string | RevokeConsumer string
  | ListProviders | CreateProvider string string string
  | ListProviderUsage | ListProviderCircuitSummaries | ListProviderRateLimitResets
  | ReadProviderTokens string | ReplaceProviderTokens string string string string
  | UpdateProvider string "string option" "bool option" "bool option" | DeleteProvider string
  | ListProviderCircuitEvents string | TestProvider string
  | ConsumeProviderRateLimitReset string "string option" string
  | ListProviderGrants string | CreateProviderGrant string string | DeleteProviderGrant string string
  | OAuthStart | OAuthComplete string string string
  | Usage "usage_period option" | Audit audit_query | AuditDetail string
  | ListAdminAudit "i64 option" "i64 option" | Dashboard
  | GetSettings | UpdateSettings update_settings_t | ListUsers
  | UpdateUser string "string option" "string option" "bool option"

fun console ::
  "env \<Rightarrow> (i64 \<Rightarrow> string) \<Rightarrow> string \<Rightarrow> header_map \<Rightarrow> console_request \<Rightarrow> json app_handler" where
  "console ev date ip hs Health = sreturn health"
| "console ev date ip hs PublicConfig = public_config"
| "console ev date ip hs SetupStatus = setup_status"
| "console ev date ip hs (Setup issuer audience) = api_setup ev hs issuer audience"
| "console ev date ip hs Me = me ev hs"
| "console ev date ip hs ListConsumers = list_consumers ev hs"
| "console ev date ip hs (CreateConsumer name archive) = create_consumer ev hs name archive"
| "console ev date ip hs (UpdateConsumer cid name archive) = update_consumer ev hs cid name archive"
| "console ev date ip hs (DeleteConsumer cid) = delete_consumer ev hs cid"
| "console ev date ip hs (RevokeConsumer cid) = revoke_consumer ev hs cid"
| "console ev date ip hs ListProviders = list_providers ev hs"
| "console ev date ip hs (CreateProvider name access refr) = create_provider ev ip hs name access refr"
| "console ev date ip hs ListProviderUsage = list_provider_usage ev hs"
| "console ev date ip hs ListProviderCircuitSummaries = list_provider_circuit_summaries ev hs"
| "console ev date ip hs ListProviderRateLimitResets = list_provider_rate_limit_resets ev hs"
| "console ev date ip hs (ReadProviderTokens pid) =
     sbind (read_provider_tokens ev ip hs pid) (\<lambda>(_, v). sreturn v)"
| "console ev date ip hs (ReplaceProviderTokens pid name access refr) =
     replace_provider_tokens ev ip hs pid name access refr"
| "console ev date ip hs (UpdateProvider pid name enabled refr) =
     update_provider ev ip hs pid name enabled refr"
| "console ev date ip hs (DeleteProvider pid) = delete_provider ev ip hs pid"
| "console ev date ip hs (ListProviderCircuitEvents pid) = list_provider_circuit_events ev hs pid"
| "console ev date ip hs (TestProvider pid) = test_provider ev ip hs pid"
| "console ev date ip hs (ConsumeProviderRateLimitReset pid credit key) =
     consume_provider_rate_limit_reset ev ip hs pid credit key"
| "console ev date ip hs (ListProviderGrants pid) = list_provider_grants ev hs pid"
| "console ev date ip hs (CreateProviderGrant pid uid) = create_provider_grant ev ip hs pid uid"
| "console ev date ip hs (DeleteProviderGrant pid uid) = delete_provider_grant ev ip hs pid uid"
| "console ev date ip hs OAuthStart = api_oauth_start ev ip hs"
| "console ev date ip hs (OAuthComplete st code name) = oauth_complete ev ip hs st code name"
| "console ev date ip hs (Usage period) = api_usage ev date hs period"
| "console ev date ip hs (Audit query) = api_audit ev hs query"
| "console ev date ip hs (AuditDetail cid) = audit_detail ev hs cid"
| "console ev date ip hs (ListAdminAudit lim off) = list_admin_audit ev hs lim off"
| "console ev date ip hs Dashboard = dashboard ev hs"
| "console ev date ip hs GetSettings = settings ev hs"
| "console ev date ip hs (UpdateSettings input) = update_settings ev ip hs input"
| "console ev date ip hs ListUsers = list_users ev hs"
| "console ev date ip hs (UpdateUser uid name role access) = update_user ev ip hs uid name role access"

section \<open>Where a request goes\<close>

text \<open>The method and the path a client uses for a request, and the handler and path parameters it
  is meant for.\<close>

fun endpoint :: "console_request \<Rightarrow> string \<times> string \<times> string \<times> string list" where
  "endpoint Health = (''GET'', ''/api/health'', ''health'', [])"
| "endpoint PublicConfig = (''GET'', ''/api/config'', ''public_config'', [])"
| "endpoint SetupStatus = (''GET'', ''/api/setup'', ''setup_status'', [])"
| "endpoint (Setup _ _) = (''POST'', ''/api/setup'', ''setup'', [])"
| "endpoint Me = (''GET'', ''/api/me'', ''me'', [])"
| "endpoint ListConsumers = (''GET'', ''/api/consumers'', ''list_consumers'', [])"
| "endpoint (CreateConsumer _ _) = (''POST'', ''/api/consumers'', ''create_consumer'', [])"
| "endpoint (UpdateConsumer cid _ _) = (''PATCH'', ''/api/consumers/'' @ cid, ''update_consumer'', [cid])"
| "endpoint (DeleteConsumer cid) = (''DELETE'', ''/api/consumers/'' @ cid, ''delete_consumer'', [cid])"
| "endpoint (RevokeConsumer cid) =
     (''POST'', ''/api/consumers/'' @ cid @ ''/revoke'', ''revoke_consumer'', [cid])"
| "endpoint ListProviders = (''GET'', ''/api/providers'', ''list_providers'', [])"
| "endpoint (CreateProvider _ _ _) = (''POST'', ''/api/providers'', ''create_provider'', [])"
| "endpoint ListProviderUsage = (''GET'', ''/api/providers/usage'', ''list_provider_usage'', [])"
| "endpoint ListProviderCircuitSummaries =
     (''GET'', ''/api/providers/circuit-events'', ''list_provider_circuit_summaries'', [])"
| "endpoint ListProviderRateLimitResets =
     (''GET'', ''/api/providers/rate-limit-resets'', ''list_provider_rate_limit_resets'', [])"
| "endpoint (ReadProviderTokens pid) = (''GET'', ''/api/providers/'' @ pid, ''read_provider_tokens'', [pid])"
| "endpoint (ReplaceProviderTokens pid _ _ _) =
     (''PUT'', ''/api/providers/'' @ pid, ''replace_provider_tokens'', [pid])"
| "endpoint (UpdateProvider pid _ _ _) = (''PATCH'', ''/api/providers/'' @ pid, ''update_provider'', [pid])"
| "endpoint (DeleteProvider pid) = (''DELETE'', ''/api/providers/'' @ pid, ''delete_provider'', [pid])"
| "endpoint (ListProviderCircuitEvents pid) =
     (''GET'', ''/api/providers/'' @ pid @ ''/circuit-events'', ''list_provider_circuit_events'', [pid])"
| "endpoint (TestProvider pid) = (''POST'', ''/api/providers/'' @ pid @ ''/test'', ''test_provider'', [pid])"
| "endpoint (ConsumeProviderRateLimitReset pid _ _) =
     (''POST'', ''/api/providers/'' @ pid @ ''/rate-limit-resets/consume'',
      ''consume_provider_rate_limit_reset'', [pid])"
| "endpoint (ListProviderGrants pid) =
     (''GET'', ''/api/providers/'' @ pid @ ''/grants'', ''list_provider_grants'', [pid])"
| "endpoint (CreateProviderGrant pid _) =
     (''POST'', ''/api/providers/'' @ pid @ ''/grants'', ''create_provider_grant'', [pid])"
| "endpoint (DeleteProviderGrant pid uid) =
     (''DELETE'', ''/api/providers/'' @ pid @ ''/grants/'' @ uid, ''delete_provider_grant'', [pid, uid])"
| "endpoint OAuthStart = (''POST'', ''/api/oauth/start'', ''oauth_start'', [])"
| "endpoint (OAuthComplete _ _ _) = (''POST'', ''/api/oauth/complete'', ''oauth_complete'', [])"
| "endpoint (Usage _) = (''GET'', ''/api/usage'', ''usage'', [])"
| "endpoint (Audit _) = (''GET'', ''/api/audit'', ''audit'', [])"
| "endpoint (AuditDetail cid) = (''GET'', ''/api/audit/'' @ cid, ''audit_detail'', [cid])"
| "endpoint (ListAdminAudit _ _) = (''GET'', ''/api/admin-audit'', ''list_admin_audit'', [])"
| "endpoint Dashboard = (''GET'', ''/api/dashboard'', ''dashboard'', [])"
| "endpoint GetSettings = (''GET'', ''/api/settings'', ''settings'', [])"
| "endpoint (UpdateSettings _) = (''PATCH'', ''/api/settings'', ''update_settings'', [])"
| "endpoint ListUsers = (''GET'', ''/api/users'', ''list_users'', [])"
| "endpoint (UpdateUser uid _ _ _) = (''PATCH'', ''/api/users/'' @ uid, ''update_user'', [uid])"

definition needs_no_session :: "console_request \<Rightarrow> bool" where
  "needs_no_session r \<longleftrightarrow>
     (case r of Health \<Rightarrow> True | PublicConfig \<Rightarrow> True | SetupStatus \<Rightarrow> True | Setup _ _ \<Rightarrow> True | _ \<Rightarrow> False)"

end
