(* ===== verification/F64.thy ===== *)
theory F64
  imports Complex_Main "HOL-Library.Log_Nat"
begin

text \<open>
  \<open>f64\<close> arithmetic as the resource monitor uses it. A finite non-negative \<open>f64\<close> is the rational
  number it stands for, and every operation rounds the exact result to 53 significant bits, ties to
  even. The results met there are zero or between \<open>2^-96\<close> and \<open>2^104\<close>, far from overflow and from the
  subnormal numbers.
\<close>

definition binade :: "rat \<Rightarrow> int" where
  "binade q =
     (let (a, b) = quotient_of q;
          e = int (floorlog 2 (nat a)) - int (floorlog 2 (nat b))
      in if 2 powi e \<le> q then e else e - 1)"

definition round_even :: "rat \<Rightarrow> int" where
  "round_even x =
     (let n = \<lfloor>x\<rfloor>; d = x - of_int n
      in if d < 1 / 2 then n else if 1 / 2 < d then n + 1 else if even n then n else n + 1)"

definition f64 :: "rat \<Rightarrow> rat" where
  "f64 q =
     (if q = 0 then 0
      else let u = 2 powi (binade q - 52) in of_int (round_even (q / u)) * u)"

lemma floorlog_int:
  assumes "0 < a"
  shows "(2::rat) powi (int (floorlog 2 (nat a)) - 1) \<le> of_int a \<and>
    of_int a < (2::rat) powi int (floorlog 2 (nat a))"
proof -
  define m where "m = floorlog 2 (nat a)"
  have m: "0 < m" using assms by (simp add: m_def floorlog_def)
  have "2 ^ (m - 1) \<le> nat a \<and> nat a < 2 ^ m" using floorlog_bounds [of "nat a" 2] assms by (simp add: m_def)
  then have "2 ^ (m - 1) \<le> a" "a < 2 ^ m" using assms by (simp_all add: nat_less_iff le_nat_iff)
  then have "of_int (2 ^ (m - 1)) \<le> (of_int a :: rat)" "of_int a < (of_int (2 ^ m) :: rat)"
    by (simp_all only: of_int_le_iff of_int_less_iff)
  moreover have "(2::rat) powi (int m - 1) = 2 ^ (m - 1)" using m by (simp add: power_int_def nat_diff_distrib)
  ultimately show ?thesis by (simp add: m_def [symmetric])
qed

lemma powi_le_iff: "(2::rat) powi i \<le> 2 powi j \<longleftrightarrow> i \<le> j"
proof (cases "i \<le> j")
  case True
  then show ?thesis using power_int_increasing [of i j "2::rat"] by simp
next
  case False
  then have "(2::rat) powi j < 2 powi i" by (intro power_int_strict_increasing) simp_all
  with False show ?thesis by simp
qed

lemma binade_bounds:
  assumes "0 < q" shows "2 powi binade q \<le> q \<and> q < 2 powi (binade q + 1)"
proof -
  obtain a b where ab: "quotient_of q = (a, b)" by (cases "quotient_of q")
  have b: "0 < b" by (rule quotient_of_denom_pos [OF ab])
  have q: "q = of_int a / of_int b" by (rule quotient_of_div [OF ab])
  have a: "0 < a" using assms b by (simp add: q zero_less_divide_iff)
  define m n where "m = int (floorlog 2 (nat a))" and "n = int (floorlog 2 (nat b))"
  note A = floorlog_int [OF a, folded m_def] and B = floorlog_int [OF b, folded n_def]
  let ?e = "m - n"
  have "q < 2 powi m / 2 powi (n - 1)"
    unfolding q using A B a b by (intro frac_less) simp_all
  also have "\<dots> = 2 powi (?e + 1)" by (simp add: algebra_simps flip: power_int_diff)
  finally have hi: "q < 2 powi (?e + 1)" .
  have "2 powi (?e - 1) = (2::rat) powi (m - 1) / 2 powi n" by (simp add: algebra_simps flip: power_int_diff)
  also have "\<dots> \<le> q" unfolding q using A B a b by (intro frac_le) simp_all
  finally have lo: "2 powi (?e - 1) \<le> q" .
  have e: "binade q = (if 2 powi ?e \<le> q then ?e else ?e - 1)"
    by (simp add: binade_def ab m_def n_def)
  show ?thesis using hi lo by (simp add: e)
qed

lemma binade_mono: "0 < q \<Longrightarrow> q \<le> r \<Longrightarrow> binade q \<le> binade r"
proof -
  assume q: "0 < q" and le: "q \<le> r"
  have "2 powi binade q < (2::rat) powi (binade r + 1)"
    using binade_bounds [OF q] binade_bounds [of r] q le by linarith
  then show ?thesis using powi_le_iff [of "binade r + 1" "binade q"] by linarith
qed

section \<open>Rounding\<close>

lemma round_even_mono: "x \<le> y \<Longrightarrow> round_even x \<le> round_even y"
proof -
  assume le: "x \<le> y"
  then have "\<lfloor>x\<rfloor> \<le> \<lfloor>y\<rfloor>" by (rule floor_mono)
  then consider "\<lfloor>x\<rfloor> = \<lfloor>y\<rfloor>" | "\<lfloor>x\<rfloor> + 1 \<le> \<lfloor>y\<rfloor>" by linarith
  then show ?thesis
  proof cases
    case 1
    then show ?thesis using le by (auto simp: round_even_def Let_def)
  next
    case 2
    have "round_even x \<le> \<lfloor>x\<rfloor> + 1" "\<lfloor>y\<rfloor> \<le> round_even y" by (simp_all add: round_even_def Let_def)
    with 2 show ?thesis by linarith
  qed
qed

lemma round_even_of_int [simp]: "round_even (of_int n) = n"
  by (simp add: round_even_def)

lemma f64_zero [simp]: "f64 0 = 0" by (simp add: f64_def)

text \<open>A number with at most 53 significant bits is not rounded.\<close>

lemma f64_exact:
  assumes k: "0 < k" "k \<le> 2 ^ 53" shows "f64 (of_int k * 2 powi e) = of_int k * 2 powi e"
proof -
  let ?q = "of_int k * (2::rat) powi e"
  have q: "0 < ?q" using k by simp
  have "2 powi binade ?q \<le> (2::rat) powi (53 + e)"
  proof -
    have "(of_int k :: rat) \<le> of_int (2 ^ 53)" using k by (simp only: of_int_le_iff)
    then have "?q \<le> 2 ^ 53 * 2 powi e" by (intro mult_right_mono) simp_all
    also have "\<dots> = 2 powi (53 + e)" by (simp add: power_int_add)
    finally show ?thesis using binade_bounds [OF q] by linarith
  qed
  then have le: "binade ?q \<le> 53 + e" by (simp only: powi_le_iff)
  have "\<exists>n. ?q / 2 powi (binade ?q - 52) = of_int n"
  proof (cases "binade ?q = 53 + e")
    case True
    have "2 powi (53 + e) \<le> ?q" using binade_bounds [OF q] True by simp
    then have "2 ^ 53 * (2::rat) powi e \<le> of_int k * 2 powi e" by (simp add: power_int_add)
    then have "(2 ^ 53 :: rat) \<le> of_int k" by simp
    then have "(of_int (2 ^ 53) :: rat) \<le> of_int k" by simp
    then have "2 ^ 53 \<le> k" by (simp only: of_int_le_iff)
    with k have "k = 2 ^ 53" by linarith
    have "binade ?q - 52 = e + 1" using True by simp
    then have "?q / 2 powi (binade ?q - 52) = 2 ^ 53 * (2 powi e / 2 powi (e + 1))"
      using \<open>k = 2 ^ 53\<close> by (simp only:) simp
    also have "\<dots> = of_int (2 ^ 52)" by (simp add: power_int_add)
    finally show ?thesis by blast
  next
    case False
    define d where "d = nat (e - (binade ?q - 52))"
    have d: "e - (binade ?q - 52) = int d" using le False by (simp add: d_def)
    have "x * 2 powi e / 2 powi c = x * 2 powi (e - c)" for x :: rat and c
      by (simp add: power_int_diff)
    then have "?q / 2 powi (binade ?q - 52) = of_int k * 2 powi (e - (binade ?q - 52))" .
    also have "\<dots> = of_int (k * 2 ^ d)" by (simp add: d)
    finally show ?thesis by blast
  qed
  then obtain n where n: "?q / 2 powi (binade ?q - 52) = of_int n" ..
  then have "f64 ?q = of_int n * 2 powi (binade ?q - 52)"
    using q k(1) by (simp add: f64_def Let_def)
  moreover have "x / 2 powi c * 2 powi c = x" for x :: rat and c by simp
  ultimately show ?thesis by (simp only: n [symmetric])
qed

lemma f64_int: "0 \<le> k \<Longrightarrow> k \<le> 2 ^ 53 \<Longrightarrow> f64 (of_int k) = of_int k"
  using f64_exact [of k 0] by (cases "k = 0") simp_all

lemma f64_between:
  assumes "0 < q" shows "2 powi binade q \<le> f64 q \<and> f64 q \<le> 2 powi (binade q + 1)"
proof -
  let ?u = "(2::rat) powi (binade q - 52)"
  have f: "f64 q = of_int (round_even (q / ?u)) * ?u" using assms by (simp add: f64_def Let_def)
  have p: "2 powi binade q = of_int (2 ^ 52) * ?u" "2 powi (binade q + 1) = of_int (2 ^ 53) * ?u"
    by (simp_all add: power_int_diff power_int_add)
  have "of_int (2 ^ 52) \<le> q / ?u" "q / ?u \<le> of_int (2 ^ 53)"
    using binade_bounds [OF assms] unfolding p by (simp_all add: field_simps)
  then have "2 ^ 52 \<le> round_even (q / ?u)" "round_even (q / ?u) \<le> 2 ^ 53"
    using round_even_mono round_even_of_int by metis+
  then have "of_int (2 ^ 52) \<le> (of_int (round_even (q / ?u)) :: rat)"
    "(of_int (round_even (q / ?u)) :: rat) \<le> of_int (2 ^ 53)" by (simp_all only: of_int_le_iff)
  then show ?thesis unfolding f p by (intro conjI mult_right_mono) simp_all
qed

lemma f64_nonneg: "0 \<le> q \<Longrightarrow> 0 \<le> f64 q"
  using f64_between [of q] by (cases "q = 0") (auto intro: order_trans [rotated])

lemma f64_mono: "0 \<le> q \<Longrightarrow> q \<le> r \<Longrightarrow> f64 q \<le> f64 r"
proof (cases "q = 0")
  case False
  assume "0 \<le> q" and le: "q \<le> r"
  with False have q: "0 < q" by simp
  then have r: "0 < r" using le by simp
  consider "binade q = binade r" | "binade q + 1 \<le> binade r" using binade_mono [OF q le] by linarith
  then show ?thesis
  proof cases
    case 1
    have "round_even (q / 2 powi (binade r - 52)) \<le> round_even (r / 2 powi (binade r - 52))"
      using le by (intro round_even_mono divide_right_mono) simp_all
    then show ?thesis using q r by (simp add: f64_def Let_def 1)
  next
    case 2
    have "f64 q \<le> 2 powi (binade q + 1)" using f64_between [OF q] by simp
    also have "\<dots> \<le> 2 powi binade r" using 2 by (simp only: powi_le_iff)
    also have "\<dots> \<le> f64 r" using f64_between [OF r] by simp
    finally show ?thesis .
  qed
qed (simp add: f64_nonneg)

end
