(* ===== verification/Resources.thy ===== *)
theory Resources
  imports F64 Tracker Api_Consumers
begin

text \<open>
  \<open>src/resources.rs\<close>: the snapshot of processor, memory, network, disk and database files an
  administrator sees. What \<open>sysinfo\<close>, the file system and SQLite report comes in as \<open>readings\<close>; the
  selection of the disk and the arithmetic, in \<open>f64\<close> and in \<open>u64\<close>, are the code's.
\<close>

section \<open>u64\<close>

type_synonym u64 = "64 word"

definition u64_sat_sub :: "u64 \<Rightarrow> u64 \<Rightarrow> u64" where
  "u64_sat_sub a b = (if b \<le> a then a - b else 0)"

definition u64_sat_add :: "u64 \<Rightarrow> u64 \<Rightarrow> u64" where
  "u64_sat_add a b = (if unat a + unat b < 2 ^ 64 then a + b else - 1)"

definition u64_sat_mul :: "u64 \<Rightarrow> u64 \<Rightarrow> u64" where
  "u64_sat_mul a b = (if unat a * unat b < 2 ^ 64 then a * b else - 1)"

definition as_f64 :: "u64 \<Rightarrow> rat" where
  "as_f64 a = f64 (of_nat (unat a))"

text \<open>\<open>value as u64\<close> of a non-negative \<open>f64\<close>: truncated and saturating.\<close>

definition f64_as_u64 :: "rat \<Rightarrow> u64" where
  "f64_as_u64 x = (if 2 ^ 64 \<le> \<lfloor>x\<rfloor> then - 1 else word_of_int \<lfloor>x\<rfloor>)"

text \<open>\<open>Duration::as_secs_f64\<close> of a duration in nanoseconds.\<close>

definition as_secs_f64 :: "nat \<Rightarrow> rat" where
  "as_secs_f64 nanos = f64 (f64 (of_nat (nanos div 10 ^ 9)) + f64 (f64 (of_nat (nanos mod 10 ^ 9)) / 10 ^ 9))"

section \<open>Percentages and rates\<close>

definition percentage :: "u64 \<Rightarrow> u64 \<Rightarrow> rat" where
  "percentage used whole =
     (if whole = 0 then 0 else f64 (f64 (as_f64 used / as_f64 whole) * 100))"

text \<open>\<open>round\<close> goes to the nearest integer, halves away from zero.\<close>

definition rate :: "u64 \<Rightarrow> rat \<Rightarrow> u64" where
  "rate bytes seconds = f64_as_u64 (of_int \<lfloor>f64 (as_f64 bytes / seconds) + 1 / 2\<rfloor>)"

section \<open>Snapshots\<close>

record 'f cpu_snapshot =
  cpu_usage_percent :: 'f
  cpu_load_1m :: 'f
  cpu_logical_cpus :: nat

record memory_snapshot =
  mem_used_bytes :: u64
  mem_total_bytes :: u64
  mem_available_bytes :: u64
  mem_process_used_bytes :: u64
  mem_other_used_bytes :: u64
  mem_usage_percent :: rat
  mem_swap_used_bytes :: u64
  mem_swap_total_bytes :: u64

record network_snapshot =
  net_receive_bytes_per_second :: u64
  net_transmit_bytes_per_second :: u64
  net_interfaces :: nat

record disk_snapshot =
  dsk_mount_point :: string
  dsk_used_bytes :: u64
  dsk_total_bytes :: u64
  dsk_available_bytes :: u64
  dsk_usage_percent :: rat

record sqlite_snapshot =
  sq_main_bytes :: u64
  sq_wal_bytes :: u64
  sq_shm_bytes :: u64
  sq_total_bytes :: u64
  sq_freelist_bytes :: u64
  sq_freelist_percent :: rat

record 'f system_snapshot =
  sn_sampled_at :: i64
  sn_sample_interval_ms :: u64
  sn_cpu :: "'f cpu_snapshot"
  sn_memory :: memory_snapshot
  sn_network :: network_snapshot
  sn_disk :: "disk_snapshot option"
  sn_sqlite :: sqlite_snapshot

section \<open>Readings\<close>

record disk =
  dk_mount_point :: string
  dk_total_space :: u64
  dk_available_space :: u64

datatype file_len = Len u64 | NotFound | Unreadable

text \<open>What one sample reads, in the order it reads it. The processor's load is passed on unread, as
  a value of any type. \<open>rd_received\<close> and \<open>rd_transmitted\<close> are the bytes of each interface since the
  previous refresh.\<close>

record 'f readings =
  rd_instant :: nat
  rd_timestamp :: i64
  rd_min_interval :: nat
  rd_cpu_usage :: 'f
  rd_load_1m :: 'f
  rd_cpus :: nat
  rd_used_memory :: u64
  rd_total_memory :: u64
  rd_available_memory :: u64
  rd_used_swap :: u64
  rd_total_swap :: u64
  rd_process_memory :: "u64 option"
  rd_received :: "u64 list"
  rd_transmitted :: "u64 list"
  rd_disks :: "disk list"
  rd_file :: "string \<Rightarrow> file_len"
  rd_pragmas :: "(i64 \<times> i64 \<times> i64) option"
  rd_vacuum_ok :: bool

record resource_monitor =
  rm_database_path :: string
  rm_last_sample :: nat

section \<open>Disks\<close>

text \<open>\<open>Path::components\<close> on Unix: repeated slashes and inner dots disappear, a leading slash is a
  component.\<close>

definition path_components :: "string \<Rightarrow> string list" where
  "path_components p =
     (let parts = split_on (CHR ''/'') p;
          names = filter (\<lambda>s. s \<noteq> [] \<and> s \<noteq> ''.'') parts
      in if starts_with p ''/'' then ''/'' # names
         else if hd parts = ''.'' then ''.'' # names else names)"

text \<open>\<open>Path::starts_with\<close> compares whole components.\<close>

definition path_starts_with :: "string \<Rightarrow> string \<Rightarrow> bool" where
  "path_starts_with path base = prefix (path_components base) (path_components path)"

text \<open>\<open>Iterator::max_by_key\<close> returns the last of several greatest elements.\<close>

fun max_by_key :: "('a \<Rightarrow> nat) \<Rightarrow> 'a list \<Rightarrow> 'a option" where
  "max_by_key k [] = None"
| "max_by_key k (x # xs) =
     (case max_by_key k xs of
        None \<Rightarrow> Some x
      | Some y \<Rightarrow> if k y < k x then Some x else Some y)"

definition holds_database :: "string \<Rightarrow> disk \<Rightarrow> bool" where
  "holds_database database_path d =
     path_starts_with database_path (dk_mount_point d)"

definition disk_usage :: "disk list \<Rightarrow> string \<Rightarrow> disk_snapshot option" where
  "disk_usage disks database_path =
     (case max_by_key (\<lambda>d. length (path_components (dk_mount_point d)))
             (filter (holds_database database_path) disks) of
        None \<Rightarrow> None
      | Some d \<Rightarrow>
          let whole = dk_total_space d;
              available = dk_available_space d;
              used = u64_sat_sub whole available
          in Some \<lparr>dsk_mount_point = dk_mount_point d, dsk_used_bytes = used, dsk_total_bytes = whole,
                   dsk_available_bytes = available, dsk_usage_percent = percentage used whole\<rparr>)"

section \<open>Database files\<close>

fun file_size :: "file_len \<Rightarrow> (stop, u64) result" where
  "file_size (Len n) = Inr n"
| "file_size NotFound = Inr 0"
| "file_size Unreadable = Inl (Failed internal_error)"

definition sqlite_file_usage :: "(string \<Rightarrow> file_len) \<Rightarrow> string \<Rightarrow> (stop, sqlite_snapshot) result" where
  "sqlite_file_usage files database_path =
     rbind (file_size (files database_path)) (\<lambda>main_bytes.
     rbind (file_size (files (database_path @ ''-wal''))) (\<lambda>wal_bytes.
     rbind (file_size (files (database_path @ ''-shm''))) (\<lambda>shm_bytes.
     Inr \<lparr>sq_main_bytes = main_bytes, sq_wal_bytes = wal_bytes, sq_shm_bytes = shm_bytes,
          sq_total_bytes = u64_sat_add (u64_sat_add main_bytes wal_bytes) shm_bytes,
          sq_freelist_bytes = 0, sq_freelist_percent = 0\<rparr>)))"

text \<open>\<open>u64::try_from(..).expect(..)\<close> panics on a negative column.\<close>

definition u64_of_column :: "i64 \<Rightarrow> (stop, u64) result" where
  "u64_of_column n = (if n < 0 then Inl Panicked else Inr (word_of_int n))"

definition sqlite_usage :: "'f readings \<Rightarrow> string \<Rightarrow> (stop, sqlite_snapshot) result" where
  "sqlite_usage rd database_path =
     rbind (sqlite_file_usage (rd_file rd) database_path) (\<lambda>snapshot.
     case rd_pragmas rd of
       None \<Rightarrow> Inl (Failed internal_error)
     | Some (c0, c1, c2) \<Rightarrow>
         rbind (u64_of_column c0) (\<lambda>page_size.
         rbind (u64_of_column c1) (\<lambda>page_count.
         rbind (u64_of_column c2) (\<lambda>freelist_count.
         Inr (snapshot\<lparr>sq_freelist_bytes := u64_sat_mul page_size freelist_count,
                sq_freelist_percent := percentage freelist_count page_count\<rparr>)))))"

section \<open>Sampling\<close>

definition monitor_new :: "string \<Rightarrow> nat \<Rightarrow> resource_monitor" where
  "monitor_new database_path instant = \<lparr>rm_database_path = database_path, rm_last_sample = instant\<rparr>"

definition sample :: "'f readings \<Rightarrow> (resource_monitor, stop, 'f system_snapshot) handler" where
  "sample rd m =
     (let elapsed = rd_instant rd - rm_last_sample m;
          m' = m\<lparr>rm_last_sample := rd_instant rd\<rparr>;
          sample_seconds = as_secs_f64 (max elapsed (rd_min_interval rd));
          received = sum_list (rd_received rd);
          transmitted = sum_list (rd_transmitted rd);
          used = rd_used_memory rd;
          process_used = unwrap_or (rd_process_memory rd) 0
      in (rbind (sqlite_usage rd (rm_database_path m)) (\<lambda>sqlite.
            Inr \<lparr>sn_sampled_at = rd_timestamp rd,
              sn_sample_interval_ms =
                (if elapsed div 10 ^ 6 < 2 ^ 64 then word_of_nat (elapsed div 10 ^ 6) else - 1),
              sn_cpu = \<lparr>cpu_usage_percent = rd_cpu_usage rd, cpu_load_1m = rd_load_1m rd,
                        cpu_logical_cpus = rd_cpus rd\<rparr>,
              sn_memory = \<lparr>mem_used_bytes = used, mem_total_bytes = rd_total_memory rd,
                mem_available_bytes = rd_available_memory rd, mem_process_used_bytes = process_used,
                mem_other_used_bytes = u64_sat_sub used process_used,
                mem_usage_percent = percentage used (rd_total_memory rd),
                mem_swap_used_bytes = rd_used_swap rd, mem_swap_total_bytes = rd_total_swap rd\<rparr>,
              sn_network = \<lparr>net_receive_bytes_per_second = rate received sample_seconds,
                net_transmit_bytes_per_second = rate transmitted sample_seconds,
                net_interfaces = length (rd_received rd)\<rparr>,
              sn_disk = disk_usage (rd_disks rd) (rm_database_path m),
              sn_sqlite = sqlite\<rparr>), m'))"

definition vacuum :: "'f readings \<Rightarrow> (resource_monitor, stop, 'f system_snapshot) handler" where
  "vacuum rd =
     sbind (slift (ensure (rd_vacuum_ok rd) (Failed internal_error))) (\<lambda>_. sample rd)"

section \<open>The endpoints\<close>

text \<open>The handlers of \<open>src/api.rs\<close>, on the program's state and the monitor behind its lock.\<close>

type_synonym 'a monitored = "(app \<times> resource_monitor, stop, 'a) handler"

definition on_program :: "'a app_handler \<Rightarrow> 'a monitored" where
  "on_program h s = (case h (fst s) of (r, a) \<Rightarrow>
     (case r of Inl e \<Rightarrow> Inl (Failed e) | Inr x \<Rightarrow> Inr x, (a, snd s)))"

definition on_monitor :: "(resource_monitor, stop, 'a) handler \<Rightarrow> 'a monitored" where
  "on_monitor h s = (case h (snd s) of (r, m) \<Rightarrow> (r, (fst s, m)))"

definition system_resources ::
  "env \<Rightarrow> 'f readings \<Rightarrow> header_map \<Rightarrow> 'f system_snapshot monitored" where
  "system_resources ev rd headers =
     sbind (on_program (session ev headers)) (\<lambda>u.
     sbind (on_program (slift (require_admin u))) (\<lambda>_.
     on_monitor (sample rd)))"

text \<open>The audit row is written whether or not the vacuum succeeded.\<close>

definition vacuum_system_database ::
  "env \<Rightarrow> 'f readings \<Rightarrow> string \<Rightarrow> header_map \<Rightarrow> 'f system_snapshot monitored" where
  "vacuum_system_database ev rd ip headers =
     sbind (on_program (session ev headers)) (\<lambda>u.
     sbind (on_program (slift (require_admin u))) (\<lambda>_.
     sbind (\<lambda>s. case on_monitor (vacuum rd) s of (Inl Panicked, s') \<Rightarrow> (Inl Panicked, s')
                  | (r, s') \<Rightarrow> (Inr r, s')) (\<lambda>result.
     sbind (on_program (write_admin_audit ev (ui_id u)
              (if is_ok result then ''system.database.vacuum'' else ''system.database.vacuum.failed'')
              None ip)) (\<lambda>_.
     slift result))))"

end
