(* ===== verification/Startup.thy ===== *)
theory Startup
  imports Router Resources
begin

text \<open>
  How the program starts: \<open>BootstrapConfig::load\<close> (\<open>src/config.rs\<close>), \<open>connect\<close> (\<open>src/db.rs\<close>) with its check
  of the foreign keys, \<open>AppState::new\<close> (\<open>src/lib.rs\<close>) and \<open>main\<close>. The file system, the SQLite file and
  the migrations are the parameter \<open>platform\<close>.
\<close>

section \<open>The platform\<close>

text \<open>\<open>pf_open\<close> is what the file holds, or an empty database where there is none; every field that can
  fail gives the text of its error.\<close>

record platform =
  pf_home :: "string option"
  pf_create_dir :: "string \<Rightarrow> (string, unit) result"
  pf_set_mode :: "string \<Rightarrow> nat \<Rightarrow> (string, unit) result"
  pf_open :: "string \<Rightarrow> (string, database) result"
  pf_migrate :: "database \<Rightarrow> (string, database) result"
  pf_bind :: "string \<Rightarrow> (string, unit) result"

section \<open>The data directory\<close>

definition DEFAULT_LISTEN :: string where "DEFAULT_LISTEN = ''0.0.0.0:8080''"

text \<open>\<open>Path::join\<close> of a relative path.\<close>

definition path_join :: "string \<Rightarrow> string \<Rightarrow> string" where
  "path_join a b = (if a = [] \<or> last a = CHR ''/'' then a @ b else a @ ''/'' @ b)"

definition in_data_dir :: "platform \<Rightarrow> string \<Rightarrow> string \<Rightarrow> (string, bootstrap_config) result" where
  "in_data_dir pf data_dir listen =
     rbind (map_err (\<lambda>_. ''failed to create '' @ data_dir) (pf_create_dir pf data_dir)) (\<lambda>_.
     rbind (pf_set_mode pf data_dir 448) (\<lambda>_.
     Inr \<lparr>bc_listen = listen, bc_data_dir = data_dir,
          bc_database_path = path_join data_dir ''openai-lb.sqlite3''\<rparr>))"

definition bootstrap_load :: "platform \<Rightarrow> (string, bootstrap_config) result" where
  "bootstrap_load pf =
     rbind (ok_or (pf_home pf) ''cannot determine the current user's home directory'') (\<lambda>home.
     in_data_dir pf (path_join home ''.openai-lb'') DEFAULT_LISTEN)"

section \<open>The database\<close>

text \<open>\<open>pragma_foreign_key_check\<close> has one row for every reference to a row that is missing; a column
  that is \<open>NULL\<close> refers to nothing.\<close>

definition dangling :: "('a \<Rightarrow> string option) \<Rightarrow> (string \<Rightarrow> bool) \<Rightarrow> 'a list \<Rightarrow> nat" where
  "dangling ref known rows =
     length (filter (\<lambda>x. case ref x of None \<Rightarrow> False | Some k \<Rightarrow> \<not> known k) rows)"

definition call_exists :: "database \<Rightarrow> string \<Rightarrow> bool" where
  "call_exists db cid \<longleftrightarrow> cid \<in> c_id ` set (db_api_calls db)"

definition foreign_key_violations :: "database \<Rightarrow> nat" where
  "foreign_key_violations db = sum_list
     [dangling (\<lambda>k. Some (k_user_id k)) (user_exists db) (db_consumers db),
      dangling p_owner_id (user_exists db) (db_providers db),
      dangling (\<lambda>g. Some (g_provider_id g)) (provider_exists db) (db_grants db),
      dangling (\<lambda>g. Some (g_user_id g)) (user_exists db) (db_grants db),
      dangling (\<lambda>a. Some (af_provider_id a)) (provider_exists db) (db_affinities db),
      dangling (\<lambda>e. Some (ce_provider_id e)) (provider_exists db) (db_circuits db),
      dangling (\<lambda>c. Some (c_consumer_id c)) (consumer_exists db) (db_api_calls db),
      dangling (\<lambda>c. Some (c_user_id c)) (user_exists db) (db_api_calls db),
      dangling c_provider_id (provider_exists db) (db_api_calls db),
      dangling (\<lambda>a. Some (ra_api_call_id a)) (call_exists db) (db_archives db),
      dangling (\<lambda>a. Some (aa_admin_user_id a)) (user_exists db) (db_admin_audit db)]"

definition connect_with_options :: "platform \<Rightarrow> string \<Rightarrow> (string, database) result" where
  "connect_with_options pf path =
     rbind (pf_open pf path) (\<lambda>stored.
     rbind (pf_migrate pf stored) (\<lambda>db.
     let violations = foreign_key_violations db
     in rbind (ensure (violations = 0)
          (''database migration left '' @ show_nat violations @ '' foreign key violation(s)'')) (\<lambda>_.
        Inr db)))"

definition connect :: "platform \<Rightarrow> string \<Rightarrow> (string, database) result" where
  "connect pf path =
     rbind (connect_with_options pf path) (\<lambda>pool.
     rbind (pf_set_mode pf path 384) (\<lambda>_.
     Inr pool))"

section \<open>The shared state\<close>

text \<open>\<open>AppState::new\<close>: the verifier, the balancer with the providers and the live affinities of the
  database, no OAuth flow.\<close>

definition app_new :: "env \<Rightarrow> config \<Rightarrow> database \<Rightarrow> (string, app) result" where
  "app_new ev cfg db =
     rbind (auth_manager_new (ev_verifier ev) (cf_auth_issuer cfg) (cf_auth_audience cfg)) (\<lambda>v.
     Inr \<lparr>ap_config = cfg, ap_db = db, ap_balancer = hydrate (ev_now ev) db balancer_default,
          ap_verifier = v, ap_oauth_flows = []\<rparr>)"

section \<open>Foreign keys\<close>

lemma dangling_0_iff: "dangling ref known rows = 0 \<longleftrightarrow> (\<forall>x \<in> set rows. \<forall>k \<in> set_option (ref x). known k)"
  by (auto simp: dangling_def filter_empty_conv split: option.splits)

lemma foreign_keys_iff:
  "foreign_key_violations db = 0 \<longleftrightarrow>
     (\<forall>k \<in> set (db_consumers db). user_exists db (k_user_id k)) \<and>
     (\<forall>p \<in> set (db_providers db). \<forall>u \<in> set_option (p_owner_id p). user_exists db u) \<and>
     (\<forall>g \<in> set (db_grants db). provider_exists db (g_provider_id g) \<and> user_exists db (g_user_id g)) \<and>
     (\<forall>a \<in> set (db_affinities db). provider_exists db (af_provider_id a)) \<and>
     (\<forall>e \<in> set (db_circuits db). provider_exists db (ce_provider_id e)) \<and>
     (\<forall>c \<in> set (db_api_calls db). consumer_exists db (c_consumer_id c) \<and> user_exists db (c_user_id c) \<and>
       (\<forall>p \<in> set_option (c_provider_id c). provider_exists db p)) \<and>
     (\<forall>a \<in> set (db_archives db). call_exists db (ra_api_call_id a)) \<and>
     (\<forall>a \<in> set (db_admin_audit db). user_exists db (aa_admin_user_id a))"
  by (auto simp: foreign_key_violations_def dangling_0_iff)

end
