(* ===== verification/System.thy ===== *)
theory System
  imports Startup Balancer_Maint
begin

text \<open>
  The whole program: what it keeps besides the database, its start in \<open>main\<close>, and the steps it takes,
  as handlers of requests and as background tasks. A handler runs to its end
  in one step; the tasks, which hold nothing while they wait, are interleaved with the handlers
  phase by phase.
\<close>

section \<open>State\<close>

text \<open>Where the maintenance task is between two ticks: it has read the balancer, or it has committed
  its transaction and not yet told the balancer.\<close>

datatype maintenance =
    Idle
  | Snapshot "(string \<times> provider_update) list" "(string \<times> affinity_entry) list"
  | Committed "(string \<times> provider_update) list" "(string \<times> affinity_entry \<times> bool) list"

record program =
  pg_call :: call_state
  pg_monitor :: resource_monitor
  pg_limits :: limits
  pg_batch :: "queued_audit list"
  pg_maintenance :: maintenance

abbreviation pg_app :: "program \<Rightarrow> app" where
  "pg_app y \<equiv> cs_app (pg_call y)"

definition with_app :: "app \<Rightarrow> program \<Rightarrow> program" where
  "with_app a y = y\<lparr>pg_call := (pg_call y)\<lparr>cs_app := a\<rparr>\<rparr>"

definition on_database :: "(database \<Rightarrow> database) \<Rightarrow> program \<Rightarrow> program" where
  "on_database f y = with_app ((pg_app y)\<lparr>ap_db := f (ap_db (pg_app y))\<rparr>) y"

section \<open>Start\<close>

text \<open>\<open>main\<close>: the directory, the database, the settings, the state, and the port to listen on.\<close>

definition program_start ::
  "env \<Rightarrow> nat \<Rightarrow> platform \<Rightarrow> string list \<Rightarrow> (string, program) result" where
  "program_start ev instant pf files =
     rbind (bootstrap_load pf) (\<lambda>boot.
     rbind (connect pf (bc_database_path boot)) (\<lambda>db.
     rbind (config_load boot db) (\<lambda>cfg.
     rbind (app_new ev cfg db) (\<lambda>a.
     rbind (pf_bind pf (bc_listen boot)) (\<lambda>_.
     Inr \<lparr>pg_call = \<lparr>cs_app = a, cs_audit = audit_writer_new, cs_tracker = no_tracker, cs_requests = [],
             cs_files = files\<rparr>,
          pg_monitor = monitor_new (cf_database_path cfg) instant, pg_limits = router_limits cfg,
          pg_batch = [], pg_maintenance = Idle\<rparr>)))))"

section \<open>Bodies within their limit\<close>

text \<open>A body the handler reads as a whole is refused when it is too long; a body it reads in pieces
  breaks off where it gets too long.\<close>

definition fits :: "limits \<Rightarrow> body_limit \<Rightarrow> string \<Rightarrow> bool" where
  "fits lm bl bd = (case limit_of lm bl of None \<Rightarrow> True | Some n \<Rightarrow> length bd \<le> n)"

fun limit_chunks :: "nat \<Rightarrow> chunk list \<Rightarrow> chunk list" where
  "limit_chunks n [] = []"
| "limit_chunks n (Data b # cs) = (if n < length b then [Broken] else Data b # limit_chunks (n - length b) cs)"
| "limit_chunks n (Broken # cs) = Broken # limit_chunks n cs"
| "limit_chunks n (Hangup # cs) = Hangup # limit_chunks n cs"

definition limited :: "limits \<Rightarrow> body_limit \<Rightarrow> chunk list \<Rightarrow> chunk list" where
  "limited lm bl cs = (case limit_of lm bl of None \<Rightarrow> cs | Some n \<Rightarrow> limit_chunks n cs)"

section \<open>Steps\<close>

text \<open>A request of the console runs its handler; a proxied call runs the handler the table of routes has
  for its path, on a body within the limit the table gives it. The maintenance task snapshots, commits or fails, and
  settles; the audit task takes events into a batch, writes the batch, or fails and keeps it; the
  clean-ups remove expired diagnostics and uploads. A crash or a restart keeps the database, whose
  migrations are done, and the files, and loses everything else.\<close>

inductive program_step :: "program \<Rightarrow> program \<Rightarrow> bool" where
  console: "program_step y (with_app (snd (console ev date ip hs r (pg_app y))) y)"
| resources: "system_resources ev (rd :: rat readings) hs (pg_app y, pg_monitor y) = (res, (a, m)) \<Longrightarrow>
    program_step y ((with_app a y)\<lparr>pg_monitor := m\<rparr>)"
| vacuum: "vacuum_system_database ev (rd :: rat readings) ip hs (pg_app y, pg_monitor y) = (res, (a, m)) \<Longrightarrow>
    program_step y ((with_app a y)\<lparr>pg_monitor := m\<rparr>)"
| json: "limited_route (hq_path rq) ''handle_json'' bl \<in> set routes \<Longrightarrow> fits (pg_limits y) bl bd \<Longrightarrow>
    program_step y (y\<lparr>pg_call := snd (serve n (handle_json n rq bd) (pg_call y))\<rparr>)"
| audio: "limited_route (hq_path rq) ''handle_audio'' bl \<in> set routes \<Longrightarrow>
    program_step y (y\<lparr>pg_call := snd (serve n (handle_audio n rq (limited (pg_limits y) bl cs)) (pg_call y))\<rparr>)"
| models: "program_step y (y\<lparr>pg_call := snd (handle_models n hs (pg_call y))\<rparr>)"
| transcription:
    "program_step y (y\<lparr>pg_call := snd (handle_console_transcription n hs (limited (pg_limits y) AudioLimit cs) (pg_call y))\<rparr>)"
| image: "fits (pg_limits y) ImageLimit bd \<Longrightarrow>
    program_step y (y\<lparr>pg_call := snd (handle_console_image_generation n hs bd (pg_call y))\<rparr>)"
| transport:
    "program_step y (y\<lparr>pg_call := (pg_call y)\<lparr>cs_audit := response_transport ev tid hs cs (cs_audit (pg_call y))\<rparr>\<rparr>)"
| snapshot: "pg_maintenance y = Idle \<Longrightarrow> maintain_snapshot (ap_balancer (pg_app y)) = (ups, affs) \<Longrightarrow>
    program_step y (y\<lparr>pg_maintenance := Snapshot ups affs\<rparr>)"
| commit: "pg_maintenance y = Snapshot ups affs \<Longrightarrow>
    maintain_transaction now ups affs (ap_db (pg_app y)) = (persisted, db) \<Longrightarrow>
    program_step y ((on_database (\<lambda>_. db) y)\<lparr>pg_maintenance := Committed ups persisted\<rparr>)"
| rollback: "pg_maintenance y = Snapshot ups affs \<Longrightarrow> program_step y (y\<lparr>pg_maintenance := Idle\<rparr>)"
| settle: "pg_maintenance y = Committed ups persisted \<Longrightarrow>
    program_step y ((with_app ((pg_app y)\<lparr>ap_balancer := maintain_settle now ups persisted (ap_balancer (pg_app y))\<rparr>) y)
      \<lparr>pg_maintenance := Idle\<rparr>)"
| take: "aw_queue (cs_audit (pg_call y)) = q # qs \<Longrightarrow> length (pg_batch y) < BATCH_CAPACITY \<Longrightarrow>
    program_step y (y\<lparr>pg_call := (pg_call y)\<lparr>cs_audit := (cs_audit (pg_call y))\<lparr>aw_queue := qs\<rparr>\<rparr>,
      pg_batch := pg_batch y @ [q]\<rparr>)"
| written: "persist now (pg_batch y) (ap_db (pg_app y)) = Some db \<Longrightarrow>
    program_step y ((on_database (\<lambda>_. db)
      (y\<lparr>pg_call := (pg_call y)\<lparr>cs_audit := (cs_audit (pg_call y))\<lparr>aw_budget :=
         aw_budget (cs_audit (pg_call y)) + ARCHIVE_RESERVATION_BYTES * permits (pg_batch y)\<rparr>\<rparr>\<rparr>))
      \<lparr>pg_batch := []\<rparr>)"
| expire: "program_step y (on_database (\<lambda>db. snd (delete_expired
      (cf_request_archive_retention_days (ap_config (pg_app y))) now db)) y)"
| sweep: "map en_path entries = cs_files (pg_call y) \<Longrightarrow>
    program_step y (y\<lparr>pg_call := (pg_call y)\<lparr>cs_files := map en_path (cleanup_uploads now entries)\<rparr>\<rparr>)"
| restart: "pf_open pf (cf_database_path (ap_config (pg_app y))) = Inr (ap_db (pg_app y)) \<Longrightarrow>
    pf_migrate pf (ap_db (pg_app y)) = Inr (ap_db (pg_app y)) \<Longrightarrow> pf_home pf = Some home \<Longrightarrow>
    cf_database_path (ap_config (pg_app y)) = path_join (path_join home ''.openai-lb'') ''openai-lb.sqlite3'' \<Longrightarrow>
    program_start ev instant pf (cs_files (pg_call y)) = Inr y' \<Longrightarrow> program_step y y'"

inductive_cases program_stepE: "program_step y y'"

end
