(* ===== verification/Schema.thy ===== *)
theory Schema
  imports Setup_Facts Provider_Facts Balancer_Tx Audit_Facts
begin

text \<open>
  The database stays well-formed: primary keys, unique indexes, foreign keys, the single root, the
  roles, and the circuit events that are open only during a cooldown. Every operation of the
  program that writes a table keeps it, whatever its arguments are and whether it succeeds.
\<close>

section \<open>The invariant\<close>

definition keys_ok :: "database \<Rightarrow> bool" where
  "keys_ok db \<longleftrightarrow>
     db_keys db \<and> distinct (map k_secret_hash (db_consumers db)) \<and> distinct (map c_id (db_api_calls db)) \<and>
     distinct (map ra_api_call_id (db_archives db)) \<and>
     distinct (map (\<lambda>g. (g_provider_id g, g_user_id g)) (db_grants db))"

definition known_role :: "string \<Rightarrow> bool" where
  "known_role r \<longleftrightarrow> r = ''root'' \<or> r = ''admin'' \<or> r = ''user''"

lemma known_role_simps [simp]: "known_role ''root''" "known_role ''admin''" "known_role ''user''"
  by (simp_all add: known_role_def)

definition users_ok :: "database \<Rightarrow> bool" where
  "users_ok db \<longleftrightarrow>
     single_root db \<and> (\<forall>u \<in> set (db_users db). known_role (u_role u))"

definition calls_ok :: "database \<Rightarrow> bool" where
  "calls_ok db \<longleftrightarrow>
     (\<forall>k \<in> set (db_consumers db). user_exists db (k_user_id k)) \<and>
     (\<forall>c \<in> set (db_api_calls db). consumer_exists db (c_consumer_id c) \<and> user_exists db (c_user_id c) \<and>
       (\<forall>p \<in> set_option (c_provider_id c). provider_exists db p)) \<and>
     (\<forall>a \<in> set (db_archives db). ra_api_call_id a \<in> c_id ` set (db_api_calls db)) \<and>
     (\<forall>g \<in> set (db_grants db). user_exists db (g_user_id g)) \<and>
     (\<forall>p \<in> set (db_providers db). \<forall>u \<in> set_option (p_owner_id p). user_exists db u)"

definition schema_ok :: "database \<Rightarrow> bool" where
  "schema_ok db \<longleftrightarrow> keys_ok db \<and> db_refs db \<and> circuits_wf db \<and> users_ok db \<and> calls_ok db"

lemmas schema_defs = schema_ok_def keys_ok_def users_ok_def calls_ok_def db_keys_def db_refs_def
  single_root_def

lemmas exists_defs = provider_exists_def user_exists_def consumer_exists_def

lemma open_circuits_cong: "db_circuits db' = db_circuits db \<Longrightarrow> open_circuits db' = open_circuits db"
  by (rule ext) (simp add: open_circuits_def)

lemma schema_cong:
  assumes "db_providers db' = db_providers db" "db_grants db' = db_grants db"
    "db_affinities db' = db_affinities db" "db_circuits db' = db_circuits db" "db_users db' = db_users db"
    "db_consumers db' = db_consumers db" "db_api_calls db' = db_api_calls db" "db_archives db' = db_archives db"
  shows "schema_ok db' = schema_ok db"
  using assms circuits_wf_cong [of db' db] by (simp add: schema_defs exists_defs)

lemma schema_other [simp]:
  "schema_ok (db\<lparr>db_admin_audit := a\<rparr>) = schema_ok db" "schema_ok (db\<lparr>db_meta := m\<rparr>) = schema_ok db"
  by (rule schema_cong; simp)+

lemma schema_empty: "schema_ok empty_db"
  by (simp add: schema_defs exists_defs empty_db_def circuits_wf_def open_circuits_def)

section \<open>Providers\<close>

text \<open>A change of the providers' columns that keeps their identifiers and leaves their owners among
  the users, with the events it leaves.\<close>

lemma schema_providers:
  assumes ok: "schema_ok db" and ids: "map p_id ps = map p_id (db_providers db)"
    and ces: "map ce_provider_id es = map ce_provider_id (db_circuits db)"
    and wf: "circuits_wf (db\<lparr>db_providers := ps, db_circuits := es\<rparr>)"
    and own: "\<And>p u. p \<in> set ps \<Longrightarrow> p_owner_id p = Some u \<Longrightarrow> user_exists db u"
  shows "schema_ok (db\<lparr>db_providers := ps, db_circuits := es\<rparr>)"
proof -
  have p: "p_id ` set ps = p_id ` set (db_providers db)" using arg_cong [OF ids, of set] by simp
  have c: "ce_provider_id ` set es = ce_provider_id ` set (db_circuits db)"
    using arg_cong [OF ces, of set] by simp
  have "\<forall>e \<in> set es. ce_provider_id e \<in> p_id ` set (db_providers db)"
  proof
    fix e assume "e \<in> set es"
    then have "ce_provider_id e \<in> ce_provider_id ` set (db_circuits db)" using c by blast
    then show "ce_provider_id e \<in> p_id ` set (db_providers db)"
      using ok by (auto simp: schema_defs exists_defs)
  qed
  with ok p ids wf own show ?thesis
    by (auto simp: schema_defs exists_defs)
qed

lemma schema_update_status:
  assumes ok: "schema_ok db" and id: "\<And>p. p_id (f p) = p_id p" and own: "\<And>p. p_owner_id (f p) = p_owner_id p"
  shows "schema_ok (update_provider_status w f db)"
proof -
  have "circuits_wf (update_provider_status w f db)"
    using ok id by (intro circuits_wf_update_status) (simp_all add: schema_defs)
  then show ?thesis
    using ok id own unfolding update_provider_status_def
    by (intro schema_providers)
      (auto simp: fold_trigger_ids map_update_where in_update_where schema_ok_def calls_ok_def split: if_splits)
qed

lemma schema_update_row:
  assumes ok: "schema_ok db" and id: "\<And>p. p_id (f p) = p_id p" and st: "\<And>p. p_status (f p) = p_status p"
    and own: "\<And>p u. p_owner_id (f p) = Some u \<Longrightarrow> p_owner_id p = Some u \<or> user_exists db u"
  shows "schema_ok (update_provider_row w f db)"
proof -
  let ?ps = "update_where w f (db_providers db)"
  have "p_status p = ''cooldown''" if "p \<in> set ?ps" "open_circuits db (p_id p) \<noteq> []" for p
    using that ok by (auto simp: in_update_where id st schema_ok_def circuits_wf_def)
  then have "circuits_wf (db\<lparr>db_providers := ?ps, db_circuits := db_circuits db\<rparr>)"
    using ok by (simp add: schema_ok_def circuits_wf_def open_circuits_def)
  moreover have "user_exists db u" if p: "p \<in> set ?ps" and o: "p_owner_id p = Some u" for p u
  proof -
    from p obtain p0 where "p0 \<in> set (db_providers db)" "p_owner_id p0 = Some u \<or> user_exists db u"
      using own o by (auto simp: in_update_where split: if_splits)
    then show ?thesis using ok by (auto simp: schema_ok_def calls_ok_def)
  qed
  ultimately have "schema_ok (db\<lparr>db_providers := ?ps, db_circuits := db_circuits db\<rparr>)"
    using ok by (intro schema_providers) (simp_all add: map_update_where id)
  then show ?thesis by (simp add: update_provider_row_def)
qed

lemma schema_insert_provider:
  assumes ok: "schema_ok db" and ins: "insert_provider_row p db = Some db'"
  shows "schema_ok db'"
proof -
  from ins have new: "\<not> provider_exists db (p_id p)" and own: "\<And>u. p_owner_id p = Some u \<Longrightarrow> user_exists db u"
    and db': "db' = db\<lparr>db_providers := db_providers db @ [p]\<rparr>"
    by (auto simp: insert_provider_row_def split: if_splits)
  have o: "open_circuits db' q = open_circuits db q" for q by (simp add: db' open_circuits_def)
  have "open_circuits db (p_id p) = []"
    using ok new by (auto simp: schema_defs open_circuits_def filter_empty_conv)
  then have "circuits_wf db'" using ok by (simp add: circuits_wf_def schema_ok_def o) (simp add: db')
  with ok new own show ?thesis
    by (auto simp: db' schema_defs exists_defs)
qed

lemma schema_delete_provider:
  assumes ok: "schema_ok db" shows "schema_ok (delete_provider_rows pid db)"
proof -
  have o: "open_circuits (delete_provider_rows pid db) q = (if q = pid then [] else open_circuits db q)" for q
    by (auto simp: open_circuits_def delete_provider_rows_def filter_empty_conv intro!: filter_cong)
  have p: "set (db_providers (delete_provider_rows pid db)) \<subseteq> set (db_providers db)"
    by (auto simp: delete_provider_rows_def)
  have gone: "provider_exists (delete_provider_rows pid db) q \<longleftrightarrow> q \<noteq> pid \<and> provider_exists db q" for q
    by (auto simp: provider_exists_def delete_provider_rows_def)
  have "circuits_wf (delete_provider_rows pid db)"
    using ok p by (auto simp: circuits_wf_def o schema_ok_def)
  moreover have "keys_ok (delete_provider_rows pid db)"
    using ok by (auto simp: schema_ok_def keys_ok_def db_keys_def delete_provider_rows_def map_update_where
        intro: distinct_map_filter)
  moreover have "db_refs (delete_provider_rows pid db)"
    using ok by (auto simp: schema_ok_def db_refs_def provider_exists_def delete_provider_rows_def)
  moreover have "users_ok (delete_provider_rows pid db)"
    using ok by (auto simp: schema_ok_def users_ok_def single_root_def delete_provider_rows_def)
  moreover have "calls_ok (delete_provider_rows pid db)"
  proof -
    let ?db = "delete_provider_rows pid db"
    have u: "user_exists ?db = user_exists db" and k: "consumer_exists ?db = consumer_exists db"
      by (simp_all add: fun_eq_iff user_exists_def consumer_exists_def delete_provider_rows_def)
    have calls: "\<exists>c0 \<in> set (db_api_calls db). c_consumer_id c = c_consumer_id c0 \<and>
        c_user_id c = c_user_id c0 \<and> (c_provider_id c = None \<or>
          c_provider_id c = c_provider_id c0 \<and> c_provider_id c0 \<noteq> Some pid)"
      if "c \<in> set (db_api_calls ?db)" for c
      using that by (auto simp: delete_provider_rows_def in_update_where)
    have "c_id ` set (db_api_calls ?db) = c_id ` set (db_api_calls db)"
      by (simp add: delete_provider_rows_def image_update_where)
    moreover have "consumer_exists db (c_consumer_id c) \<and> user_exists db (c_user_id c) \<and>
        (\<forall>q \<in> set_option (c_provider_id c). provider_exists ?db q)" if "c \<in> set (db_api_calls ?db)" for c
      using calls [OF that] ok by (fastforce simp: schema_ok_def calls_ok_def gone)
    moreover have "set (db_grants ?db) \<subseteq> set (db_grants db)" "db_archives ?db = db_archives db"
      "db_consumers ?db = db_consumers db"
      by (auto simp: delete_provider_rows_def)
    ultimately show ?thesis using ok p unfolding schema_ok_def calls_ok_def u k by auto
  qed
  ultimately show ?thesis by (simp add: schema_ok_def)
qed

section \<open>Users and consumers\<close>

lemma schema_users:
  assumes ok: "schema_ok db" and sub: "u_id ` set (db_users db) \<subseteq> u_id ` set us"
    and d: "distinct (map u_id us)" and u: "users_ok (db\<lparr>db_users := us\<rparr>)"
  shows "schema_ok (db\<lparr>db_users := us\<rparr>)"
proof -
  let ?db = "db\<lparr>db_users := us\<rparr>"
  have x: "user_exists db i \<Longrightarrow> user_exists ?db i" for i using sub by (auto simp: user_exists_def)
  have "keys_ok ?db" using ok d by (simp add: schema_ok_def keys_ok_def db_keys_def)
  moreover have "db_refs ?db" using ok by (simp add: schema_ok_def db_refs_def provider_exists_def)
  moreover have "circuits_wf ?db"
    using ok circuits_wf_cong [of ?db db] by (simp add: schema_ok_def)
  moreover have "calls_ok ?db"
    using ok x unfolding schema_ok_def calls_ok_def
    by (simp add: provider_exists_def consumer_exists_def)
  ultimately show ?thesis using u by (simp add: schema_ok_def)
qed

lemma schema_insert_user: assumes "schema_ok db" shows "schema_ok (insert_user now uid db)"
proof (cases "user_exists db uid")
  case False
  with assms show ?thesis
    unfolding insert_user_def
    by (simp, intro schema_users) (auto simp: schema_defs user_exists_def)
qed (simp add: insert_user_def assms)

lemma roots_update:
  "length (filter (\<lambda>u. u_role u = ''root'') (update_where w f us)) \<le>
     length (filter (\<lambda>u. u_role u = ''root'') us)"
  if "\<And>u. w u \<Longrightarrow> u_role (f u) = ''root'' \<Longrightarrow> u_role u = ''root''" for us
  using that by (induction us) (auto simp: update_where_def)

lemma schema_update_users:
  assumes ok: "schema_ok db" and id: "\<And>u. u_id (f u) = u_id u"
    and role: "\<And>u. w u \<Longrightarrow> u_role (f u) = u_role u \<or> u_role (f u) \<in> {''admin'', ''user''}"
  shows "schema_ok (db\<lparr>db_users := update_where w f (db_users db)\<rparr>)"
proof (rule schema_users [OF ok])
  let ?us = "update_where w f (db_users db)"
  have "length (filter (\<lambda>u. u_role u = ''root'') ?us) \<le> length (filter (\<lambda>u. u_role u = ''root'') (db_users db))"
    using role by (intro roots_update) fastforce
  moreover have "known_role (u_role u)" if "u \<in> set ?us" for u
  proof -
    from that obtain v where v: "v \<in> set (db_users db)" "u = (if w v then f v else v)"
      by (auto simp: in_update_where)
    have r: "known_role (u_role v)" using ok v(1) by (simp add: schema_ok_def users_ok_def)
    show ?thesis
    proof (cases "w v")
      case True
      with v(2) role [OF True] r show ?thesis by (auto simp: known_role_def)
    qed (use v(2) r in \<open>simp only: if_False\<close>)
  qed
  ultimately show "users_ok (db\<lparr>db_users := ?us\<rparr>)"
    using ok unfolding schema_ok_def users_ok_def single_root_def by simp
qed (use ok in \<open>simp_all add: image_update_where map_update_where id schema_ok_def keys_ok_def db_keys_def\<close>)

lemma schema_make_root:
  assumes ok: "schema_ok db" and m: "make_root now uid db = Some db'"
  shows "schema_ok db' \<and> user_exists db' uid"
proof -
  let ?us = "update_where (\<lambda>u. u_id u = uid) (\<lambda>u. u\<lparr>u_role := ''root''\<rparr>) (db_users db)"
  from m have others: "\<forall>u \<in> set (db_users db). u_role u = ''root'' \<longrightarrow> u_id u = uid"
    by (auto simp: make_root_def split: if_splits)
  have keys: "distinct (map u_id (db_users db))"
    and roles: "\<forall>u \<in> set (db_users db). known_role (u_role u)"
    using ok by (simp_all add: schema_ok_def keys_ok_def db_keys_def users_ok_def)
  have one: "length (filter (\<lambda>u. u_role u = ''root'') xs) \<le> 1"
    if "distinct (map u_id xs)" "\<forall>u \<in> set xs. u_role u = ''root'' \<longrightarrow> u_id u = uid" for xs
  proof -
    have "length (filter (\<lambda>u. u_role u = ''root'') xs) = card (set (filter (\<lambda>u. u_role u = ''root'') xs))"
      using that(1) by (intro distinct_card [symmetric]) (simp add: distinct_map)
    also have "\<dots> \<le> card {uid}"
      using that by (intro card_inj_on_le [of u_id]) (auto simp: distinct_map inj_on_def)
    finally show ?thesis by simp
  qed
  show ?thesis
  proof (cases "user_exists db uid")
    case True
    with m have db': "db' = db\<lparr>db_users := ?us\<rparr>" by (auto simp: make_root_def split: if_splits)
    have ids: "map u_id ?us = map u_id (db_users db)" by (simp add: map_update_where)
    have "\<forall>u \<in> set ?us. u_role u = ''root'' \<longrightarrow> u_id u = uid"
      using others by (auto simp: in_update_where split: if_splits)
    then have "single_root db'" using one [of ?us] keys by (simp add: single_root_def db' ids)
    moreover have "\<forall>u \<in> set ?us. known_role (u_role u)"
      using roles by (auto simp: in_update_where)
    ultimately have u: "users_ok db'" by (simp add: users_ok_def db')
    have "schema_ok db'"
      unfolding db' by (rule schema_users [OF ok]) (use keys u in \<open>simp_all add: ids db' image_update_where\<close>)
    with True show ?thesis by (simp add: db' user_exists_def image_update_where)
  next
    case False
    with m have db': "db' = db\<lparr>db_users := db_users db @ [\<lparr>u_id = uid, u_email = None, u_display_name = None,
        u_role = ''root'', u_provider_access = 0, u_created_at = now\<rparr>]\<rparr>"
      by (auto simp: make_root_def split: if_splits)
    have none: "filter (\<lambda>u. u_role u = ''root'') (db_users db) = []"
      using others False by (auto simp: filter_empty_conv user_exists_def)
    have "users_ok db'" using roles none by (simp add: users_ok_def single_root_def db')
    then have "schema_ok db'"
      unfolding db' using keys False by (intro schema_users [OF ok]) (auto simp: user_exists_def)
    then show ?thesis by (simp add: db' user_exists_def)
  qed
qed

lemma schema_meta_set [simp]: "schema_ok (meta_set k v db) = schema_ok db"
  by (simp add: meta_set_def)

lemma schema_write_settings [simp]: "schema_ok (write_settings kvs db) = schema_ok db"
proof (induction kvs arbitrary: db)
  case (Cons kv kvs)
  then show ?case by (cases kv) (simp add: write_settings_def)
qed (simp add: write_settings_def)

lemma schema_setup:
  assumes ok: "schema_ok db" and s: "setup_transaction now uid issuer audience db = Inr db'"
  shows "schema_ok db'"
proof -
  from s obtain db1 where m: "make_root now uid db = Some db1"
    and db': "db' = meta_set ''setup_complete'' ''true'' (meta_set ''auth_audience'' audience
        (meta_set ''auth_issuer'' issuer (adopt_providers uid db1)))"
    by (cases "make_root now uid db") (auto simp: setup_transaction_def rbind_Inr_iff split: if_splits)
  have "schema_ok (adopt_providers uid db1)"
    using schema_make_root [OF ok m] unfolding adopt_providers_def
    by (intro schema_update_row) (auto split: if_splits)
  then show ?thesis by (simp add: db')
qed

lemma schema_consumers:
  assumes ok: "schema_ok db" and id: "\<And>k. k_id (f k) = k_id k" and u: "\<And>k. k_user_id (f k) = k_user_id k"
    and h: "\<And>k. k_secret_hash (f k) = k_secret_hash k"
  shows "schema_ok (db\<lparr>db_consumers := update_where w f (db_consumers db)\<rparr>)" (is "schema_ok ?db")
proof -
  have x: "consumer_exists ?db = consumer_exists db" "user_exists ?db = user_exists db"
    "provider_exists ?db = provider_exists db"
    by (simp_all add: fun_eq_iff exists_defs image_update_where id)
  have "calls_ok ?db"
    using ok u unfolding schema_ok_def calls_ok_def x by (auto simp: in_update_where)
  then show ?thesis
    using ok circuits_wf_cong [of ?db db]
    by (simp add: schema_ok_def keys_ok_def db_keys_def db_refs_def users_ok_def single_root_def x
        map_update_where id h)
qed

lemma schema_insert_consumer:
  assumes ok: "schema_ok db" and ins: "insert_consumer k db = Some db'"
  shows "schema_ok db'"
proof -
  from ins have new: "k_id k \<notin> k_id ` set (db_consumers db)" "k_secret_hash k \<notin> k_secret_hash ` set (db_consumers db)"
    and u: "user_exists db (k_user_id k)" and db': "db' = db\<lparr>db_consumers := db_consumers db @ [k]\<rparr>"
    by (auto simp: insert_consumer_def split: if_splits)
  have "keys_ok db'" using ok new by (simp add: schema_ok_def keys_ok_def db_keys_def db')
  moreover have "calls_ok db'"
    using ok u by (auto simp: schema_ok_def calls_ok_def db' exists_defs)
  ultimately show ?thesis
    using ok circuits_wf_cong [of db' db]
    by (simp add: schema_ok_def db_refs_def users_ok_def single_root_def db' provider_exists_def)
qed

lemma schema_delete_consumers:
  assumes ok: "schema_ok db" shows "schema_ok (delete_consumer_rows w db)" (is "schema_ok ?db")
proof -
  have x: "user_exists ?db = user_exists db" "provider_exists ?db = provider_exists db"
    by (simp_all add: fun_eq_iff exists_defs delete_consumer_rows_def Let_def)
  have k: "consumer_exists ?db i" if "consumer_exists db i" "i \<notin> k_id ` {k \<in> set (db_consumers db). w k}" for i
    using that by (auto simp: consumer_exists_def delete_consumer_rows_def Let_def)
  have c: "c \<in> set (db_api_calls ?db) \<longleftrightarrow>
      c \<in> set (db_api_calls db) \<and> c_consumer_id c \<notin> k_id ` {k \<in> set (db_consumers db). w k}" for c
    by (auto simp: delete_consumer_rows_def Let_def)
  have a: "ra_api_call_id a \<in> c_id ` set (db_api_calls ?db)"
    if "a \<in> set (db_archives ?db)" "ra_api_call_id a \<in> c_id ` set (db_api_calls db)" for a
    using that by (auto simp: delete_consumer_rows_def Let_def)
  have sub: "\<And>k. k \<in> set (db_consumers ?db) \<Longrightarrow> k \<in> set (db_consumers db)"
    "\<And>a. a \<in> set (db_archives ?db) \<Longrightarrow> a \<in> set (db_archives db)"
    "db_grants ?db = db_grants db" "db_providers ?db = db_providers db"
    by (auto simp: delete_consumer_rows_def Let_def)
  have o: "\<forall>k \<in> set (db_consumers db). user_exists db (k_user_id k)"
    "\<forall>c \<in> set (db_api_calls db). consumer_exists db (c_consumer_id c) \<and> user_exists db (c_user_id c) \<and>
       (\<forall>p \<in> set_option (c_provider_id c). provider_exists db p)"
    "\<forall>a \<in> set (db_archives db). ra_api_call_id a \<in> c_id ` set (db_api_calls db)"
    "\<forall>g \<in> set (db_grants db). user_exists db (g_user_id g)"
    "\<forall>p \<in> set (db_providers db). \<forall>u \<in> set_option (p_owner_id p). user_exists db u"
    using ok unfolding schema_ok_def calls_ok_def by blast+
  have "calls_ok ?db"
    unfolding calls_ok_def x sub(3,4)
    by (intro conjI ballI k a) (use o sub(1,2) c in blast)+
  moreover have "keys_ok ?db"
    using ok by (auto simp: schema_ok_def keys_ok_def db_keys_def delete_consumer_rows_def Let_def
        intro: distinct_map_filter)
  ultimately show ?thesis
    using ok circuits_wf_cong [of ?db db]
    by (simp add: schema_ok_def db_refs_def users_ok_def single_root_def x)
      (simp add: delete_consumer_rows_def Let_def)
qed

section \<open>Grants\<close>

lemma schema_insert_grant:
  assumes ok: "schema_ok db" and p: "provider_exists db pid"
  shows "schema_ok (snd (insert_grant now pid uid db))"
proof (cases "user_exists db uid \<and> \<not> granted db pid uid")
  case True
  let ?g = "\<lparr>g_provider_id = pid, g_user_id = uid, g_created_at = now\<rparr>"
  let ?db = "db\<lparr>db_grants := db_grants db @ [?g]\<rparr>"
  have "(pid, uid) \<notin> (\<lambda>g. (g_provider_id g, g_user_id g)) ` set (db_grants db)"
    using True by (auto simp: granted_def list_ex_iff)
  then have "keys_ok ?db" using ok by (simp add: schema_ok_def keys_ok_def db_keys_def)
  moreover have "calls_ok ?db" using ok True by (auto simp: schema_ok_def calls_ok_def exists_defs)
  moreover have "db_refs ?db" using ok p by (auto simp: schema_ok_def db_refs_def exists_defs)
  ultimately show ?thesis
    using ok circuits_wf_cong [of ?db db] True
    by (simp add: insert_grant_def schema_ok_def users_ok_def single_root_def)
qed (auto simp: insert_grant_def ok)

lemma schema_filter_grants:
  assumes ok: "schema_ok db" shows "schema_ok (db\<lparr>db_grants := filter w (db_grants db)\<rparr>)" (is "schema_ok ?db")
proof -
  have "keys_ok ?db" using ok by (auto simp: schema_ok_def keys_ok_def db_keys_def intro: distinct_map_filter)
  moreover have "calls_ok ?db" using ok by (auto simp: schema_ok_def calls_ok_def exists_defs)
  ultimately show ?thesis
    using ok circuits_wf_cong [of ?db db]
    by (auto simp: schema_ok_def db_refs_def users_ok_def single_root_def provider_exists_def)
qed

section \<open>The audit\<close>

lemma schema_insert_event:
  assumes ok: "schema_ok db" and ins: "insert_event e db = Some db'" shows "schema_ok db'"
proof -
  let ?c = "(au_call e)\<lparr>c_provider_id := opt_filter (provider_exists db) (c_provider_id (au_call e))\<rparr>"
  define as where "as = (if au_request_archive e
                 then [\<lparr>ra_api_call_id = c_id (au_call e), ra_request_headers_json = au_request_headers_json e,
                        ra_upstream_request_headers_json = au_upstream_request_headers_json e,
                        ra_request_body = au_request_body e,
                        ra_request_body_truncated = au_request_body_truncated e,
                        ra_response_headers_json = au_response_headers_json e,
                        ra_downstream_response_headers_json = None,
                        ra_response_body = au_response_body e,
                        ra_response_body_truncated = au_response_body_truncated e,
                        ra_created_at = c_created_at (au_call e)\<rparr>]
                 else [])"
  have as: "distinct (map ra_api_call_id as)" "\<forall>a \<in> set as. ra_api_call_id a = c_id (au_call e)"
    by (simp_all add: as_def)
  from ins have new: "c_id (au_call e) \<notin> c_id ` set (db_api_calls db)"
    and k: "consumer_exists db (c_consumer_id (au_call e))" and u: "user_exists db (c_user_id (au_call e))"
    and db': "db' = db\<lparr>db_api_calls := db_api_calls db @ [?c], db_archives := db_archives db @ as\<rparr>"
    and as_new: "\<forall>a \<in> set as. ra_api_call_id a \<notin> ra_api_call_id ` set (db_archives db)"
    by (auto simp: insert_event_def Let_def as_def split: if_splits)
  have x: "consumer_exists db' = consumer_exists db" "user_exists db' = user_exists db"
    "provider_exists db' = provider_exists db"
    by (simp_all add: fun_eq_iff exists_defs db')
  have "set (map ra_api_call_id as) \<subseteq> - set (map ra_api_call_id (db_archives db))"
    using as_new by (simp add: image_subset_iff)
  then have "set (map ra_api_call_id (db_archives db)) \<inter> set (map ra_api_call_id as) = {}" by blast
  then have "keys_ok db'" using ok new as(1) by (simp add: schema_ok_def keys_ok_def db_keys_def db')
  moreover have "calls_ok db'"
    using ok k u as unfolding schema_ok_def calls_ok_def x by (auto simp: db' opt_filter_def split: option.splits if_splits)
  ultimately show ?thesis
    using ok circuits_wf_cong [of db' db]
    by (simp add: schema_ok_def db_refs_def users_ok_def single_root_def x) (simp add: db')
qed

lemma schema_calls_columns:
  assumes ok: "schema_ok db"
    and f: "\<And>c. c_id (f c) = c_id c" "\<And>c. c_consumer_id (f c) = c_consumer_id c"
      "\<And>c. c_user_id (f c) = c_user_id c" "\<And>c. c_provider_id (f c) = c_provider_id c"
    and g: "\<And>a. ra_api_call_id (g a) = ra_api_call_id a"
  shows "schema_ok (db\<lparr>db_api_calls := update_where w f (db_api_calls db),
           db_archives := update_where v g (db_archives db)\<rparr>)" (is "schema_ok ?db")
proof -
  have x: "consumer_exists ?db = consumer_exists db" "user_exists ?db = user_exists db"
    "provider_exists ?db = provider_exists db"
    by (simp_all add: fun_eq_iff exists_defs)
  have ids: "c_id ` set (update_where w f (db_api_calls db)) = c_id ` set (db_api_calls db)"
    by (rule image_update_where) (rule f(1))
  have "calls_ok ?db"
    using ok unfolding schema_ok_def calls_ok_def x by (auto simp: ids in_update_where f g split: if_splits)
  moreover have "keys_ok ?db"
    using ok by (simp add: schema_ok_def keys_ok_def db_keys_def map_update_where f(1) g)
  ultimately show ?thesis
    using ok circuits_wf_cong [of ?db db]
    by (simp add: schema_ok_def db_refs_def users_ok_def single_root_def x)
qed

lemma update_where_none: "update_where (\<lambda>_. False) f xs = xs"
  by (induction xs) (simp_all add: update_where_def)

lemma schema_update_transport:
  assumes "schema_ok db" shows "schema_ok (update_transport cid bytes encoding headers db)"
proof (cases headers)
  case None
  have "schema_ok (db\<lparr>db_api_calls := update_where (\<lambda>c. c_id c = cid)
      (\<lambda>c. c\<lparr>c_response_transport_bytes := bytes, c_downstream_content_encoding := encoding\<rparr>) (db_api_calls db),
      db_archives := update_where (\<lambda>_. False) id (db_archives db)\<rparr>)"
    by (rule schema_calls_columns [OF assms]) simp_all
  with None show ?thesis by (simp add: update_transport_def update_where_none)
next
  case (Some h)
  then show ?thesis
    by (simp add: update_transport_def) (rule schema_calls_columns [OF assms]; simp)
qed

lemma schema_persist:
  assumes ok: "schema_ok db" and p: "persist used_at batch db = Some db'" shows "schema_ok db'"
proof -
  have all: "persist_all qs db1 = Some db2 \<Longrightarrow> schema_ok db1 \<Longrightarrow> schema_ok db2" for qs db1 db2
  proof (induction qs arbitrary: db1)
    case (Cons q qs)
    then obtain d where d: "persist_one q db1 = Some d" "persist_all qs d = Some db2"
      by (auto split: bind_splits)
    from d(1) Cons.prems(2) have "schema_ok d"
      by (cases q) (auto intro: schema_insert_event schema_update_transport)
    with Cons.IH [OF d(2)] show ?case by simp
  qed simp
  from p obtain db1 where "persist_all batch db = Some db1"
    and db': "db' = db1\<lparr>db_consumers := update_where (\<lambda>k. k_id k \<in> set (touched_keys batch))
                 (\<lambda>k. k\<lparr>k_last_used_at := Some used_at\<rparr>) (db_consumers db1)\<rparr>"
    by (auto simp: persist_def split: bind_splits)
  with all ok show ?thesis by (simp add: schema_consumers)
qed

lemma schema_filter_archives:
  assumes ok: "schema_ok db" shows "schema_ok (db\<lparr>db_archives := filter w (db_archives db)\<rparr>)" (is "schema_ok ?db")
proof -
  have "keys_ok ?db" using ok by (auto simp: schema_ok_def keys_ok_def db_keys_def intro: distinct_map_filter)
  moreover have "calls_ok ?db" using ok by (auto simp: schema_ok_def calls_ok_def exists_defs)
  ultimately show ?thesis
    using ok circuits_wf_cong [of ?db db]
    by (simp add: schema_ok_def db_refs_def users_ok_def single_root_def provider_exists_def)
qed

lemma schema_delete_expired: "schema_ok db \<Longrightarrow> schema_ok (snd (delete_expired days now db))"
  by (simp only: delete_expired_def Let_def snd_conv schema_filter_archives)

section \<open>Maintenance\<close>

lemma schema_circuits:
  assumes ok: "schema_ok db" and sub: "\<And>e. e \<in> set es \<Longrightarrow> provider_exists db (ce_provider_id e)"
    and wf: "circuits_wf (db\<lparr>db_circuits := es\<rparr>)"
  shows "schema_ok (db\<lparr>db_circuits := es\<rparr>)"
  using assms by (simp add: schema_ok_def keys_ok_def db_keys_def db_refs_def users_ok_def single_root_def
      calls_ok_def exists_defs)

lemma schema_persist_update:
  assumes ok: "schema_ok db" and u: "pu_circuit u \<noteq> None \<longrightarrow> pu_status u = Some ''cooldown''"
  shows "schema_ok (persist_update (pid, u) db)"
proof -
  let ?db = "persist_update (pid, u) db"
  have wf: "circuits_wf ?db"
    using ok u by (intro persist_update_circuits_wf) (auto simp: schema_ok_def keys_ok_def db_keys_def)
  define db1 where "db1 = (case pu_circuit u of None \<Rightarrow> db | Some c \<Rightarrow> upsert_circuit pid c db)"
  have up: "?db = update_provider_status (\<lambda>p. p_id p = pid) (sql_apply_update u) db1"
    by (simp add: persist_update_def db1_def)
  have db1: "db1 = db\<lparr>db_circuits := db_circuits db1\<rparr>" by (simp add: db1_def upsert_circuit_def split: option.splits)
  have refs: "provider_exists db (ce_provider_id e)" if "e \<in> set (db_circuits db1)" for e
    using that ok by (auto simp: db1_def upsert_circuit_def in_update_where schema_ok_def db_refs_def
        provider_exists_def split: option.splits if_splits)
  have ps: "db_providers db1 = db_providers db" by (subst db1) simp
  define ps' es' where "ps' = db_providers ?db" and "es' = db_circuits ?db"
  have ids: "map p_id ps' = map p_id (db_providers db)"
    by (simp add: ps'_def up update_provider_status_def map_update_where ps sql_apply_update_def)
  have eq: "?db = db\<lparr>db_providers := ps', db_circuits := es'\<rparr>"
    unfolding ps'_def es'_def up update_provider_status_def by (subst db1) simp
  have "map ce_provider_id es' = map ce_provider_id (db_circuits db1)"
    by (simp add: es'_def up update_provider_status_def fold_trigger_ids)
  then have "ce_provider_id ` set es' = ce_provider_id ` set (db_circuits db1)"
    by (metis list.set_map)
  then have es: "\<forall>e \<in> set es'. provider_exists db (ce_provider_id e)" using refs by (metis imageE imageI)
  have own: "\<forall>p \<in> set ps'. \<forall>u \<in> set_option (p_owner_id p). user_exists db u"
    using ok by (auto simp: ps'_def up update_provider_status_def in_update_where ps sql_apply_update_def
        schema_ok_def calls_ok_def split: if_splits)
  have "p_id ` set ps' = p_id ` set (db_providers db)" using ids by (metis list.set_map)
  then have x: "provider_exists ?db = provider_exists db" "user_exists ?db = user_exists db"
    "consumer_exists ?db = consumer_exists db"
    by (simp_all add: fun_eq_iff exists_defs eq)
  have "keys_ok ?db" using ok ids by (simp add: eq schema_ok_def keys_ok_def db_keys_def)
  moreover have "db_refs ?db" using ok es unfolding db_refs_def x by (simp add: eq schema_ok_def db_refs_def)
  moreover have "calls_ok ?db"
    using ok own unfolding calls_ok_def x by (simp add: eq schema_ok_def calls_ok_def)
  ultimately show ?thesis using ok wf by (simp add: schema_ok_def users_ok_def single_root_def eq)
qed

lemma schema_affinities:
  assumes ok: "schema_ok db" and d: "distinct (map af_hash as)"
    and r: "\<And>a. a \<in> set as \<Longrightarrow> provider_exists db (af_provider_id a)"
  shows "schema_ok (db\<lparr>db_affinities := as\<rparr>)"
  using assms circuits_wf_cong [of "db\<lparr>db_affinities := as\<rparr>" db]
  by (simp add: schema_ok_def keys_ok_def db_keys_def db_refs_def users_ok_def single_root_def
      calls_ok_def exists_defs)

lemma schema_persist_affinity:
  assumes ok: "schema_ok db" shows "schema_ok (snd (persist_affinity h e db))"
proof (cases "provider_exists db (ent_provider_id e)")
  case True
  let ?as = "if h \<in> af_hash ` set (db_affinities db)
     then update_where (\<lambda>r. af_hash r = h) (\<lambda>_. affinity_row_of h e) (db_affinities db)
     else db_affinities db @ [affinity_row_of h e]"
  have "map af_hash (update_where (\<lambda>r. af_hash r = h) (\<lambda>_. affinity_row_of h e) xs) = map af_hash xs" for xs
    by (induction xs) (simp_all add: update_where_def affinity_row_of_def)
  then have "distinct (map af_hash ?as)"
    using ok by (simp add: schema_ok_def keys_ok_def db_keys_def affinity_row_of_def)
  moreover have "provider_exists db (af_provider_id a)" if "a \<in> set ?as" for a
    using that ok True by (auto simp: in_update_where affinity_row_of_def schema_ok_def db_refs_def split: if_splits)
  ultimately have "schema_ok (db\<lparr>db_affinities := ?as\<rparr>)" using ok by (intro schema_affinities)
  with True show ?thesis by (simp add: persist_affinity_def)
qed (simp add: persist_affinity_def ok)

lemma schema_expire_affinities:
  assumes ok: "schema_ok db" shows "schema_ok (expire_affinities now db)"
  unfolding expire_affinities_def
  by (rule schema_affinities [OF ok])
    (use ok in \<open>auto simp: schema_ok_def keys_ok_def db_keys_def db_refs_def intro: distinct_map_filter\<close>)

lemma schema_maintain:
  assumes ok: "schema_ok db" and wf: "updates_wf ups"
  shows "schema_ok (snd (maintain_transaction now ups affs db))"
proof -
  have ups: "schema_ok (fold persist_update ups db)"
    using ok wf
  proof (induction ups arbitrary: db)
    case (Cons x xs)
    obtain pid u where x: "x = (pid, u)" by (cases x)
    have "schema_ok (persist_update x db)"
      using Cons.prems by (auto simp: x updates_wf_def intro: schema_persist_update)
    moreover have "updates_wf xs" using Cons.prems by (simp add: updates_wf_def)
    ultimately show ?case using Cons.IH by simp
  qed simp
  have affs: "schema_ok d \<Longrightarrow> schema_ok (snd (persist_affinities affs d))" for d
  proof (induction affs arbitrary: d)
    case (Cons x xs)
    obtain h e where x: "x = (h, e)" by (cases x)
    show ?case
      using Cons.IH [OF schema_persist_affinity [OF Cons.prems, of h e]]
      by (simp add: x Let_def case_prod_unfold)
  qed simp
  have "schema_ok (recover_rows now (snd (persist_affinities affs (fold persist_update ups db))))"
    unfolding recover_rows_def by (intro schema_update_status affs ups) simp_all
  then show ?thesis by (simp add: maintain_transaction_def case_prod_unfold Let_def schema_expire_affinities)
qed

end
