(* ===== verification/Column_Types.thy ===== *)
theory Column_Types
  imports Schema
begin

text \<open>
  The types of the columns that SQLite stores without a type of their own: flags are 0 or 1, a
  provider's status is one of four words, a cooldown has an end, and a circuit event is closed with a
  resolution. The first of these the migrations check in part, the others only the program keeps.
\<close>

section \<open>Typed rows\<close>

definition flag :: "i64 \<Rightarrow> bool" where
  "flag n \<longleftrightarrow> n = 0 \<or> n = 1"

definition known_status :: "string \<Rightarrow> bool" where
  "known_status s \<longleftrightarrow> s \<in> {''active'', ''cooldown'', ''disabled'', ''auth_error''}"

definition provider_typed :: "provider \<Rightarrow> bool" where
  "provider_typed p \<longleftrightarrow> flag (p_manual_disabled p) \<and> known_status (p_status p) \<and>
     (p_status p = ''cooldown'' \<longrightarrow> p_cooldown_until p \<noteq> None)"

definition circuit_typed :: "circuit_event \<Rightarrow> bool" where
  "circuit_typed e \<longleftrightarrow> (ce_closed_at e = None) = (ce_resolution e = None)"

definition columns_ok :: "database \<Rightarrow> bool" where
  "columns_ok db \<longleftrightarrow>
     (\<forall>p \<in> set (db_providers db). provider_typed p) \<and> (\<forall>e \<in> set (db_circuits db). circuit_typed e) \<and>
     (\<forall>u \<in> set (db_users db). flag (u_provider_access u)) \<and>
     (\<forall>k \<in> set (db_consumers db). flag (k_request_archive k))"

lemma flag_simps [simp]: "flag 0" "flag 1" "flag (bool_i64 b)"
  by (simp_all add: flag_def bool_i64_def)

lemma known_status_simps [simp]:
  "known_status ''active''" "known_status ''cooldown''" "known_status ''disabled''" "known_status ''auth_error''"
  by (simp_all add: known_status_def)

lemma columns_cong:
  assumes "db_providers db' = db_providers db" "db_circuits db' = db_circuits db" "db_users db' = db_users db"
    "db_consumers db' = db_consumers db"
  shows "columns_ok db' = columns_ok db"
  using assms by (simp add: columns_ok_def)

lemma columns_other [simp]:
  "columns_ok (db\<lparr>db_admin_audit := a\<rparr>) = columns_ok db" "columns_ok (db\<lparr>db_meta := m\<rparr>) = columns_ok db"
  "columns_ok (db\<lparr>db_grants := gs\<rparr>) = columns_ok db" "columns_ok (db\<lparr>db_archives := ars\<rparr>) = columns_ok db"
  "columns_ok (db\<lparr>db_affinities := afs\<rparr>) = columns_ok db"
  by (rule columns_cong; simp)+

section \<open>Statements\<close>

lemma trigger_typed: "\<forall>e \<in> set es. circuit_typed e \<Longrightarrow> \<forall>e \<in> set (fold (\<lambda>p. circuit_trigger p (f p)) ps es). circuit_typed e"
proof (induction ps arbitrary: es)
  case (Cons p ps)
  have "\<forall>e \<in> set (circuit_trigger p (f p) es). circuit_typed e"
    using Cons.prems by (auto simp: circuit_trigger_def in_update_where circuit_typed_def split: if_splits)
  with Cons.IH show ?case by simp
qed simp

lemma columns_update_row:
  assumes "columns_ok db" and "\<And>p. provider_typed p \<Longrightarrow> provider_typed (f p)"
  shows "columns_ok (update_provider_row w f db)"
  using assms by (auto simp: columns_ok_def update_provider_row_def in_update_where)

lemma columns_update_status:
  assumes "columns_ok db" and "\<And>p. provider_typed p \<Longrightarrow> provider_typed (f p)"
  shows "columns_ok (update_provider_status w f db)"
  using assms trigger_typed [of "db_circuits db"]
  by (auto simp: columns_ok_def update_provider_status_def in_update_where)

lemma columns_update_users:
  assumes "columns_ok db" and "\<And>u. flag (u_provider_access u) \<Longrightarrow> flag (u_provider_access (f u))"
  shows "columns_ok (db\<lparr>db_users := update_where w f (db_users db)\<rparr>)"
  using assms by (auto simp: columns_ok_def in_update_where)

lemma columns_update_consumers:
  assumes "columns_ok db" and "\<And>k. flag (k_request_archive k) \<Longrightarrow> flag (k_request_archive (f k))"
  shows "columns_ok (db\<lparr>db_consumers := update_where w f (db_consumers db)\<rparr>)"
  using assms by (auto simp: columns_ok_def in_update_where)

lemma columns_inserts:
  "columns_ok db \<Longrightarrow> columns_ok (insert_user now uid db)"
  "columns_ok db \<Longrightarrow> columns_ok (snd (insert_grant now pid uid db))"
  "columns_ok db \<Longrightarrow> insert_provider_row p db = Some db' \<Longrightarrow> provider_typed p \<Longrightarrow> columns_ok db'"
  "columns_ok db \<Longrightarrow> insert_consumer k db = Some db' \<Longrightarrow> flag (k_request_archive k) \<Longrightarrow> columns_ok db'"
  "columns_ok db \<Longrightarrow> make_root now uid db = Some db' \<Longrightarrow> columns_ok db'"
  by (auto simp: columns_ok_def insert_user_def insert_grant_def insert_provider_row_def insert_consumer_def
      make_root_def in_update_where Let_def split: if_splits)

lemma columns_deletes:
  "columns_ok db \<Longrightarrow> columns_ok (delete_provider_rows pid db)"
  "columns_ok db \<Longrightarrow> columns_ok (delete_consumer_rows v db)"
  by (auto simp: columns_ok_def delete_provider_rows_def delete_consumer_rows_def Let_def)

lemma columns_meta_set [simp]: "columns_ok (meta_set k v db) = columns_ok db"
  by (simp add: meta_set_def)

lemma columns_settings [simp]: "columns_ok (write_settings kvs db) = columns_ok db"
proof (induction kvs arbitrary: db)
  case (Cons kv kvs)
  then show ?case by (cases kv) (simp add: write_settings_def)
qed (simp add: write_settings_def)

lemma columns_persist_one: "persist_one q db = Some db' \<Longrightarrow> columns_ok db' = columns_ok db"
  by (rule columns_cong; cases q; auto simp: insert_event_def update_transport_def Let_def
      split: if_splits option.splits)

section \<open>Pending updates\<close>

definition update_typed :: "provider_update \<Rightarrow> bool" where
  "update_typed u \<longleftrightarrow> (case pu_status u of None \<Rightarrow> True
     | Some s \<Rightarrow> known_status s \<and> (s = ''cooldown'' \<longrightarrow> pu_cooldown_until u \<noteq> None))"

definition updates_typed :: "(string \<times> provider_update) list \<Rightarrow> bool" where
  "updates_typed ups \<longleftrightarrow> (\<forall>x \<in> set ups. update_typed (snd x))"

lemma updates_typed_mono: "set xs \<subseteq> set ys \<Longrightarrow> updates_typed ys \<Longrightarrow> updates_typed xs"
  by (auto simp: updates_typed_def)

lemma response_update_typed: "update_typed (response_update parse render uuid now status body)"
  by (auto simp: update_typed_def response_update_def plain_update_def Let_def split: option.splits)

lemma merge_update_typed: "update_typed u \<Longrightarrow> update_typed v \<Longrightarrow> update_typed (merge_update u v)"
  by (auto simp: update_typed_def merge_update_def Let_def split: option.splits)

lemma insert_typed: "updates_typed m \<Longrightarrow> update_typed u \<Longrightarrow> updates_typed (dm_insert k u m)"
  by (induction m) (auto simp: updates_typed_def dm_insert_def split: if_splits)

lemma track_response_typed:
  assumes "updates_typed (b_provider_updates b)"
  shows "updates_typed (b_provider_updates (track_response parse render uuid now pid status body b))"
proof -
  have "update_typed u" if "dm_get (b_provider_updates b) pid = Some u" for u
    using assms dm_get_in_set [OF that] by (auto simp: updates_typed_def)
  with assms show ?thesis
    by (auto simp: track_response_def observe_def split: option.split
        intro!: insert_typed response_update_typed merge_update_typed)
qed

lemma apply_update_typed: "update_typed u \<Longrightarrow> provider_typed p \<Longrightarrow> provider_typed (sql_apply_update u p)"
  by (auto simp: update_typed_def provider_typed_def sql_apply_update_def split: option.splits)

lemma columns_persist_update:
  assumes "columns_ok db" and "update_typed u" shows "columns_ok (persist_update (pid, u) db)"
proof -
  have "columns_ok (upsert_circuit pid c db)" for c
    using assms(1) by (auto simp: upsert_circuit_def columns_ok_def circuit_typed_def in_update_where)
  with assms show ?thesis
    by (auto simp: persist_update_def apply_update_typed intro!: columns_update_status split: option.split)
qed

lemma columns_recover: "columns_ok db \<Longrightarrow> columns_ok (recover_rows now db)"
  unfolding recover_rows_def by (rule columns_update_status) (simp_all add: provider_typed_def)

end
