(* ===== verification/App_Schema.thy ===== *)
theory App_Schema
  imports Column_Types Router
begin

text \<open>
  Every console handler keeps the database well-formed, the rows of the admin audit among them, and
  keeps whatever of the balancer survives a reload of the providers and the removal of one,
  whatever its arguments are and whether it succeeds.
\<close>

section \<open>The whole database\<close>

definition audit_refs :: "database \<Rightarrow> bool" where
  "audit_refs db \<longleftrightarrow> (\<forall>a \<in> set (db_admin_audit db). user_exists db (aa_admin_user_id a))"

definition database_ok :: "database \<Rightarrow> bool" where
  "database_ok db \<longleftrightarrow> schema_ok db \<and> audit_refs db"

text \<open>The settings can be read; where the program's files are does not matter for that.\<close>

definition loads :: "database \<Rightarrow> bool" where
  "loads db \<longleftrightarrow> is_ok (config_load \<lparr>bc_listen = [], bc_data_dir = [], bc_database_path = []\<rparr> db)"

lemma loads_iff: "loads db \<longleftrightarrow> (\<exists>cfg. config_load boot db = Inr cfg)"
proof -
  have other: "\<exists>cfg'. config_load boot2 db = Inr cfg'" if "config_load boot1 db = Inr cfg" for boot1 boot2 cfg
    using that unfolding config_load_Inr
    by (intro exI [of _ "cfg\<lparr>cf_listen := bc_listen boot2, cf_data_dir := bc_data_dir boot2,
      cf_database_path := bc_database_path boot2\<rparr>"]) simp
  show ?thesis unfolding loads_def is_ok_iff using other by blast
qed

lemma loads_cong: "db_meta db' = db_meta db \<Longrightarrow> loads db' = loads db"
  using config_load_meta [of db' db] by (simp add: loads_def)

lemma loads_audit [simp]: "loads (db\<lparr>db_admin_audit := a\<rparr>) = loads db"
  by (rule loads_cong) simp

lemma meta_set_tables:
  "db_users (meta_set k v db) = db_users db" "db_admin_audit (meta_set k v db) = db_admin_audit db"
  by (simp_all add: meta_set_def)

lemma loads_setup_keys:
  assumes "loads db"
  shows "loads (meta_set ''auth_issuer'' v db)" and "loads (meta_set ''auth_audience'' v db)"
    and "loads (meta_set ''setup_complete'' ''true'' db)"
proof -
  let ?boot = "\<lparr>bc_listen = [], bc_data_dir = [], bc_database_path = []\<rparr>"
  obtain cfg where o: "config_load ?boot db = Inr cfg" using assms by (auto simp: loads_def is_ok_iff)
  note o = o [unfolded config_load_Inr]
  have k: "''auth_issuer'' \<in> fst ` set (db_meta db)" "''auth_audience'' \<in> fst ` set (db_meta db)"
    "''setup_complete'' \<in> fst ` set (db_meta db)"
    using o by (blast intro: meta_keys)+
  let ?v = "if trim v = [] then None else Some (trim_end_matches ''/'' (trim v))"
  have "config_load ?boot (meta_set ''auth_issuer'' v db) = Inr (cfg\<lparr>cf_auth_issuer := ?v\<rparr>)"
    "config_load ?boot (meta_set ''auth_audience'' v db) = Inr (cfg\<lparr>cf_auth_audience := ?v\<rparr>)"
    "config_load ?boot (meta_set ''setup_complete'' ''true'' db) = Inr (cfg\<lparr>cf_setup_complete := True\<rparr>)"
    unfolding config_load_Inr using o k by (simp_all add: meta_sets parse_bool_def)
  then show "loads (meta_set ''auth_issuer'' v db)" "loads (meta_set ''auth_audience'' v db)"
    "loads (meta_set ''setup_complete'' ''true'' db)"
    by (simp_all add: loads_def is_ok_iff)
qed

lemma loads_settings:
  assumes "loads db" and ok: "validated_settings ev i cfg = Inr cfg'"
  shows "loads (write_settings (settings_values cfg') db)"
proof -
  obtain c where c: "config_load \<lparr>bc_listen = [], bc_data_dir = [], bc_database_path = []\<rparr> db = Inr c"
    using assms(1) by (auto simp: loads_def is_ok_iff)
  from ok obtain c' where c': "validated_settings ev i c = Inr c'" "settings_values c' = settings_values cfg'"
    by (auto simp: validated_settings_def rbind_Inr_iff settings_values_def)
  from settings_written_load [OF c c'(1)] show ?thesis by (simp add: c'(2) loads_def)
qed

text \<open>Users are never deleted, so the author of an audit row stays; the settings can still be read
  and the columns keep their types.\<close>

definition grows :: "database \<Rightarrow> database \<Rightarrow> bool" where
  "grows db db' \<longleftrightarrow> db_admin_audit db' = db_admin_audit db \<and> (\<forall>u. user_exists db u \<longrightarrow> user_exists db' u) \<and>
     (loads db \<longrightarrow> loads db') \<and> (columns_ok db \<longrightarrow> columns_ok db')"

lemma growsI:
  "db_users db' = db_users db \<Longrightarrow> db_admin_audit db' = db_admin_audit db \<Longrightarrow> db_meta db' = db_meta db \<Longrightarrow>
     (columns_ok db \<Longrightarrow> columns_ok db') \<Longrightarrow> grows db db'"
  using loads_cong [of db' db] by (simp add: grows_def user_exists_def)

lemma grows_trans: "grows a b \<Longrightarrow> grows b c \<Longrightarrow> grows a c"
  by (simp add: grows_def)

lemma grows_database: "database_ok db \<Longrightarrow> schema_ok db' \<Longrightarrow> grows db db' \<Longrightarrow> database_ok db'"
  by (simp add: database_ok_def audit_refs_def grows_def)

lemma grows_tables [simp]:
  "grows db (db\<lparr>db_grants := gs\<rparr>)" "grows db (delete_provider_rows pid db)"
  "grows db (delete_consumer_rows v db)" "grows db (snd (insert_grant now pid uid db))"
  by (intro growsI columns_deletes columns_inserts(2); simp add: delete_provider_rows_def
      delete_consumer_rows_def insert_grant_def Let_def)+

lemma grows_providers:
  assumes "\<And>p. provider_typed p \<Longrightarrow> provider_typed (f p)"
  shows "grows db (update_provider_row w f db)" and "grows db (update_provider_status w f db)"
  by (intro growsI columns_update_row columns_update_status assms; simp add: update_provider_row_def
      update_provider_status_def)+

lemma grows_consumers [simp]:
  assumes "\<And>k. flag (k_request_archive k) \<Longrightarrow> flag (k_request_archive (f k))"
  shows "grows db (db\<lparr>db_consumers := update_where w f (db_consumers db)\<rparr>)"
  by (intro growsI columns_update_consumers assms) simp_all

lemma growsI_users:
  "(\<And>u. user_exists db u \<Longrightarrow> user_exists db' u) \<Longrightarrow> db_admin_audit db' = db_admin_audit db \<Longrightarrow>
     db_meta db' = db_meta db \<Longrightarrow> (columns_ok db \<Longrightarrow> columns_ok db') \<Longrightarrow> grows db db'"
  using loads_cong [of db' db] by (simp add: grows_def)

lemma grows_users [simp]:
  "grows db (insert_user now uid db)"
  "(\<And>u. u_id (f u) = u_id u) \<Longrightarrow> (\<And>u. flag (u_provider_access u) \<Longrightarrow> flag (u_provider_access (f u))) \<Longrightarrow>
     grows db (db\<lparr>db_users := update_where w f (db_users db)\<rparr>)"
proof -
  show "grows db (insert_user now uid db)"
    by (intro growsI_users columns_inserts(1)) (simp_all add: insert_user_def user_exists_def)
  show "grows db (db\<lparr>db_users := update_where w f (db_users db)\<rparr>)"
    if "\<And>u. u_id (f u) = u_id u" and "\<And>u. flag (u_provider_access u) \<Longrightarrow> flag (u_provider_access (f u))"
    using that by (intro growsI_users columns_update_users) (simp_all add: user_exists_def image_update_where)
qed

lemma grows_settings:
  assumes "validated_settings ev i cfg = Inr cfg'" shows "grows db (write_settings (settings_values cfg') db)"
proof -
  have "db_users (write_settings kvs db) = db_users db \<and> db_admin_audit (write_settings kvs db) = db_admin_audit db"
    for kvs
    unfolding write_settings_def by (induction kvs arbitrary: db) (simp_all add: meta_set_tables case_prod_unfold)
  then show ?thesis using loads_settings [OF _ assms] by (simp add: grows_def user_exists_def)
qed

lemma grows_setup:
  assumes "setup_transaction now uid issuer audience db = Inr db'" shows "grows db db'"
proof -
  obtain db1 where m: "make_root now uid db = Some db1"
    and db': "db' = meta_set ''setup_complete'' ''true'' (meta_set ''auth_audience'' audience
        (meta_set ''auth_issuer'' issuer (adopt_providers uid db1)))"
    using assms by (cases "make_root now uid db") (auto simp: setup_transaction_def rbind_Inr_iff split: if_splits)
  have "grows db db1"
    using m columns_inserts(5) [OF _ m]
    by (intro growsI_users) (auto simp: make_root_def user_exists_def image_update_where split: if_splits)
  moreover have "grows db1 (adopt_providers uid db1)" unfolding adopt_providers_def
    by (rule grows_providers) (simp add: provider_typed_def)
  moreover have "grows (adopt_providers uid db1) db'"
    unfolding db' grows_def by (simp add: loads_setup_keys meta_set_tables user_exists_def)
  ultimately show ?thesis by (blast intro: grows_trans)
qed

lemma grows_inserted:
  "insert_consumer k db = Some db' \<Longrightarrow> flag (k_request_archive k) \<Longrightarrow> grows db db'"
  "insert_provider_row p db = Some db' \<Longrightarrow> provider_typed p \<Longrightarrow> grows db db'"
  by (intro growsI, (auto simp: insert_consumer_def insert_provider_row_def split: if_splits)[3],
      erule (2) columns_inserts)+

section \<open>Steps\<close>

text \<open>\<open>W\<close> are users known to exist: those who are signed in.\<close>

named_theorems app_rules

locale reloadable =
  fixes J :: "database \<Rightarrow> balancer \<Rightarrow> bool"
  assumes reloaded: "J db b \<Longrightarrow> J db (reload_providers db b)"
    and forgotten: "J db b \<Longrightarrow> J db (forget_provider pid b)"
    and grown: "J db b \<Longrightarrow> grows db db' \<Longrightarrow> J db' b"
    and logged: "J db b \<Longrightarrow> J (db\<lparr>db_admin_audit := a\<rparr>) b"
begin

definition app_ok :: "string set \<Rightarrow> app \<Rightarrow> bool" where
  "app_ok W s \<longleftrightarrow> database_ok (ap_db s) \<and> loads (ap_db s) \<and> (\<forall>w \<in> W. user_exists (ap_db s) w) \<and>
     J (ap_db s) (ap_balancer s)"

lemma app_ok_db: "app_ok W s \<Longrightarrow> schema_ok db \<Longrightarrow> grows (ap_db s) db \<Longrightarrow> app_ok W (s\<lparr>ap_db := db\<rparr>)"
  using grows_database grown by (auto simp: app_ok_def grows_def)

lemma app_ok_schema: "app_ok W s \<Longrightarrow> schema_ok (ap_db s)" by (simp add: app_ok_def database_ok_def)

lemma app_ok_fewer: "app_ok V s \<Longrightarrow> W \<subseteq> V \<Longrightarrow> app_ok W s" by (auto simp: app_ok_def)

lemma app_ok_other [simp]:
  "app_ok W (s\<lparr>ap_config := c\<rparr>) = app_ok W s" "app_ok W (s\<lparr>ap_verifier := v\<rparr>) = app_ok W s"
  "app_ok W (s\<lparr>ap_oauth_flows := fl\<rparr>) = app_ok W s"
  by (simp_all add: app_ok_def)

lemma app_ok_balancer: "app_ok W s \<Longrightarrow> J (ap_db s) b \<Longrightarrow> app_ok W (s\<lparr>ap_balancer := b\<rparr>)" by (simp add: app_ok_def)

lemma keeps_exec [app_rules]:
  "(\<And>db. schema_ok db \<Longrightarrow> schema_ok (f db)) \<Longrightarrow> (\<And>db. grows db (f db)) \<Longrightarrow> keeps (app_ok W) (exec f)"
  by (simp add: keeps_def app_ok_db app_ok_schema)

lemma keeps_db_get [app_rules]: "keeps P (db_get g)" by (simp add: keeps_def)

lemma keeps_reload [app_rules]: "keeps (app_ok W) reload"
  by (simp add: keeps_def app_ok_def reloaded)

lemma keeps_session [app_rules]: "keeps (app_ok W) (session ev hs)"
proof -
  have "app_ok W (snd (session ev hs s))" if "app_ok W s" for s
    using session_state [of ev hs s] that by (auto intro!: app_ok_db schema_insert_user dest: app_ok_schema)
  then show ?thesis by (simp add: keeps_def)
qed

lemma session_user_exists: "session ev hs s = (Inr u, s1) \<Longrightarrow> user_exists (ap_db s1) (ui_id u)"
  using insert_user_exists by (auto simp: session_Inr identity_of_def dest: user_row_of_SomeD)

lemma keeps_for_user:
  assumes f: "\<And>u. keeps (app_ok (insert (ui_id u) W)) (f u)"
  shows "keeps (app_ok W) (sbind (session ev hs) f)"
proof -
  have "app_ok W (snd (sbind (session ev hs) f s))" if ok: "app_ok W s" for s
  proof -
    obtain r s1 where 1: "session ev hs s = (r, s1)" by fastforce
    have s1: "app_ok W s1" using keeps_session ok 1 by (metis keeps_def snd_conv)
    show ?thesis
    proof (cases r)
      case (Inr u)
      with s1 session_user_exists [of ev hs s u s1] 1 have "app_ok (insert (ui_id u) W) s1" by (simp add: app_ok_def)
      then have "app_ok (insert (ui_id u) W) (snd (f u s1))" using f by (simp add: keeps_def)
      then show ?thesis using 1 Inr by (auto simp: sbind_def intro: app_ok_fewer)
    qed (use 1 s1 in \<open>simp add: sbind_def\<close>)
  qed
  then show ?thesis by (simp add: keeps_def)
qed

lemma keeps_admin_audit [app_rules]: "uid \<in> W \<Longrightarrow> keeps (app_ok W) (write_admin_audit ev uid action target ip)"
  by (auto simp: keeps_def write_admin_audit_def app_ok_def database_ok_def audit_refs_def user_exists_def logged)

lemma keeps_audited [app_rules]:
  assumes uid: "uid \<in> W" and m: "keeps (app_ok W) m"
  shows "keeps (app_ok W) (audited ev uid action target ip m)"
proof -
  have w: "keeps (app_ok W) (sbind (write_admin_audit ev uid a t ip) (\<lambda>_. slift r))" for a t and r :: "(app_error, json) result"
    by (intro keeps_rules keeps_admin_audit uid)
  have "app_ok W (snd (audited ev uid action target ip m s))" if "app_ok W s" for s
  proof -
    obtain r s1 where run: "m s = (r, s1)" by (cases "m s")
    with m that have "app_ok W s1" by (force simp: keeps_def)
    with w show ?thesis by (simp add: audited_def run keeps_def)
  qed
  then show ?thesis by (simp add: keeps_def)
qed

lemma keeps_required_manager [app_rules]: "keeps P (require_provider_manager u pid)"
  unfolding require_provider_manager_def by (intro keeps_rules app_rules)

lemma keeps_managed [app_rules]:
  "(\<And>u. keeps (app_ok (insert (ui_id u) W)) (f u)) \<Longrightarrow> keeps (app_ok W) (manager ev hs pid f)"
  unfolding manager_def by (intro keeps_for_user keeps_sbind keeps_required_manager)

text \<open>A row that is inserted when its constraints allow it.\<close>

lemma keeps_insert [app_rules]:
  assumes "\<And>db db'. schema_ok db \<Longrightarrow> g db = Some db' \<Longrightarrow> schema_ok db'" and "\<And>db db'. g db = Some db' \<Longrightarrow> grows db db'"
    and "\<And>x. keeps (app_ok W) (f x)"
  shows "keeps (app_ok W) (sbind (db_get g) (\<lambda>r. sbind (slift (ok_or r e)) (\<lambda>db'. sbind (exec (\<lambda>_. db')) f)))"
proof -
  have "app_ok W (snd (sbind (db_get g) (\<lambda>r. sbind (slift (ok_or r e)) (\<lambda>db'. sbind (exec (\<lambda>_. db')) f)) s))"
    if ok: "app_ok W s" for s
  proof (cases "g (ap_db s)")
    case (Some db')
    with assms(1,2) ok have "app_ok W (s\<lparr>ap_db := db'\<rparr>)" by (blast intro: app_ok_db app_ok_schema)
    with assms(3) Some show ?thesis by (simp add: keeps_def)
  qed (use ok in simp)
  then show ?thesis by (simp add: keeps_def)
qed

section \<open>Consumers\<close>

lemma app_create_consumer: "keeps (app_ok W) (create_consumer ev hs name archive)"
  unfolding create_consumer_def Let_def
  by (rule keeps_sbind [OF keeps_session], rule keeps_sbind [OF keeps_slift], rule keeps_insert)
    (auto intro: schema_insert_consumer grows_inserted keeps_sreturn)

lemma app_update_consumer: "keeps (app_ok W) (update_consumer ev hs cid oname oarchive)"
  unfolding update_consumer_def Let_def
  by (intro keeps_rules keeps_session keeps_db_get keeps_exec schema_consumers) simp_all

lemma app_revoke_consumer: "keeps (app_ok W) (revoke_consumer ev hs cid)"
  unfolding revoke_consumer_def Let_def
  by (intro keeps_rules keeps_session keeps_db_get keeps_exec schema_consumers) simp_all

lemma app_delete_consumer: "keeps (app_ok W) (delete_consumer ev hs cid)"
  unfolding delete_consumer_def
  by (intro keeps_rules keeps_session keeps_db_get keeps_exec schema_delete_consumers) simp_all

section \<open>Providers\<close>

lemma app_insert_provider: "keeps (app_ok W) (insert_provider ev uid name access refr expires)"
  unfolding insert_provider_def Let_def
  by (rule keeps_if [OF keeps_sfail], rule keeps_sbind [OF keeps_slift], rule keeps_insert)
    (auto intro: schema_insert_provider grows_inserted keeps_sreturn keeps_sbind keeps_reload
      simp: provider_typed_def)

lemma app_refresh_provider: "keeps (app_ok W) (refresh_provider ev pid)"
  unfolding refresh_provider_def Let_def store_provider_tokens_def
  by (intro keeps_rules keeps_db_get keeps_exec keeps_reload schema_update_status grows_providers)
    (simp_all add: provider_typed_def)

lemma app_update_operation: "keeps (app_ok W) (update_provider_operation ev pid name enabled refr)"
  unfolding update_provider_operation_def rename_provider_def enable_provider_def
  by (intro keeps_rules keeps_exec keeps_reload app_refresh_provider schema_update_status schema_update_row
      grows_providers)
    (simp_all add: provider_typed_def)

lemma app_replace_tokens: "keeps (app_ok W) (replace_provider_token_values ev pid name access refr)"
  unfolding replace_provider_token_values_def replace_token_row_def
  by (intro keeps_rules keeps_db_get keeps_exec keeps_reload schema_update_status grows_providers)
    (simp_all add: provider_typed_def)

lemma app_forget: "app_ok W s \<Longrightarrow> app_ok W (s\<lparr>ap_balancer := forget_provider pid (ap_balancer s)\<rparr>)"
  by (simp add: app_ok_def forgotten)

lemma app_delete_operation: "keeps (app_ok W) (delete_provider_operation pid)"
  unfolding delete_provider_operation_def
  by (intro keeps_rules keeps_db_get keeps_exec keeps_reload schema_delete_provider app_forget) simp_all

lemma keeps_row:
  assumes "\<And>s p. app_ok W s \<Longrightarrow> provider_exists (ap_db s) pid \<Longrightarrow> app_ok W (snd (f p s))"
  shows "keeps (app_ok W) (sbind (db_get (\<lambda>db. provider_row db pid)) (\<lambda>row. sbind (slift (ok_or row e)) f))"
proof -
  have "app_ok W (snd (sbind (db_get (\<lambda>db. provider_row db pid)) (\<lambda>row. sbind (slift (ok_or row e)) f) s))"
    if "app_ok W s" for s
    using assms [OF that] that provider_row_None_iff [of "ap_db s" pid]
    by (cases "provider_row (ap_db s) pid") simp_all
  then show ?thesis by (simp add: keeps_def)
qed

lemma app_insert_grant:
  assumes "app_ok W s" and "provider_exists (ap_db s) pid" and "\<And>x. keeps (app_ok W) (f x)"
  shows "app_ok W (snd (sbind (on_db (\<lambda>db. (Inr (fst (insert_grant now pid uid db)), snd (insert_grant now pid uid db)))) f s))"
proof -
  have "app_ok W (s\<lparr>ap_db := snd (insert_grant now pid uid (ap_db s))\<rparr>)"
    using assms(1,2) by (intro app_ok_db schema_insert_grant app_ok_schema) simp_all
  then show ?thesis using assms(3) by (simp add: sbind_def on_db_def keeps_def)
qed

lemma app_create_grant: "keeps (app_ok W) (create_provider_grant ev ip hs pid input_user)"
proof -
  have reply: "keeps (app_ok W) (if affected = 0
         then sbind (db_get (\<lambda>db. user_exists db target)) (\<lambda>known. sfail (if known then e1 else e2))
         else sbind reload (\<lambda>_. sbind (write_admin_audit ev uid action t ip) (\<lambda>_. sreturn v)))"
    if "uid \<in> W" for affected :: nat and target uid action t W and e1 e2 :: app_error and v :: json
    by (intro keeps_rules keeps_db_get keeps_reload keeps_admin_audit that)
  show ?thesis
    unfolding create_provider_grant_def Let_def
    by (intro keeps_managed keeps_if keeps_sfail keeps_row)
      (simp split: if_split, intro conjI impI app_insert_grant reply; (assumption | simp)?)
qed

lemma app_delete_grant: "keeps (app_ok W) (delete_provider_grant ev ip hs pid uid)"
  unfolding delete_provider_grant_def Let_def
  by (intro keeps_managed keeps_rules keeps_db_get keeps_exec keeps_reload keeps_admin_audit schema_filter_grants) simp_all

section \<open>OAuth\<close>

lemma keeps_sum: "(\<And>e. keeps P (f e)) \<Longrightarrow> (\<And>x. keeps P (g x)) \<Longrightarrow> keeps P (case r of Inl e \<Rightarrow> f e | Inr x \<Rightarrow> g x)"
  by (cases r) simp_all

lemma app_oauth_start: "keeps (app_ok W) (oauth_start ev uid)"
  by (simp add: keeps_def oauth_start_def Let_def)

lemma app_exchange: "keeps (app_ok W) (exchange ev st code uid)"
  by (simp add: keeps_def exchange_def Let_def split: prod.splits)

lemma app_refresh_if_needed: "keeps (app_ok W) (refresh_if_needed ev l)"
  unfolding refresh_if_needed_def Let_def store_refreshed_def mark_refresh_failed_def
  by (intro keeps_rules keeps_db_get keeps_sum keeps_exec keeps_reload schema_update_status grows_providers)
    (simp_all add: provider_typed_def)

section \<open>Settings, users and the setup\<close>

lemma keeps_valid:
  "(\<And>x. r = Inr x \<Longrightarrow> keeps P (f x)) \<Longrightarrow> keeps P (sbind (slift r) f)"
  by (cases r) (simp_all add: keeps_def)

lemma app_update_settings: "keeps (app_ok W) (update_settings ev ip hs input)"
  unfolding update_settings_def
proof (rule keeps_for_user, rule keeps_sbind [OF keeps_slift], rule keeps_sbind [OF keeps_sgets],
    rule keeps_valid, rule keeps_sbind)
  fix u :: user_identity and cfg cfg' assume v: "validated_settings ev input cfg = Inr cfg'"
  show "keeps (app_ok (insert (ui_id u) W)) (exec (write_settings (settings_values cfg')))"
    by (rule keeps_exec) (simp_all add: grows_settings [OF v])
qed (intro keeps_rules keeps_admin_audit; simp)

lemma app_user_step:
  assumes "admin \<in> W" and "\<And>u. u_id (f u) = u_id u"
    and "\<And>u. w u \<Longrightarrow> u_role (f u) = u_role u \<or> u_role (f u) \<in> {''admin'', ''user''}"
    and "\<And>u. flag (u_provider_access u) \<Longrightarrow> flag (u_provider_access (f u))"
  shows "keeps (app_ok W) (user_step ev ip admin uid action w f e)"
  unfolding user_step_def
  by (intro keeps_rules keeps_db_get keeps_exec keeps_admin_audit schema_update_users) (use assms in simp_all)

lemma app_update_user: "keeps (app_ok W) (update_user ev ip hs uid name role access)"
proof -
  have n: "keeps (app_ok W) (update_user_name ev ip a uid d)" if "a \<in> W" for a d W
    unfolding update_user_name_def by (intro keeps_rules app_user_step that) simp_all
  have r: "keeps (app_ok W) (update_user_role ev ip a uid d)" if "ui_id a \<in> W" for a d W
  proof (cases d)
    case (Some x)
    show ?thesis
    proof (cases "x \<in> {''admin'', ''user''}")
      case True
      then show ?thesis
        unfolding update_user_role_def Some option.case by (intro keeps_rules app_user_step that) simp_all
    next
      case False
      then have e: "ensure (x \<in> {''admin'', ''user''}) e = Inl e" for e :: app_error by (simp add: ensure_def)
      have stop: "keeps (app_ok W) (sbind (slift (Inl e)) h)" for e and h :: "unit \<Rightarrow> unit app_handler"
        by (simp add: keeps_def)
      show ?thesis
        unfolding update_user_role_def Some option.case e by (rule keeps_sbind [OF keeps_slift stop])
    qed
  qed (simp add: update_user_role_def keeps_sreturn)
  have a: "keeps (app_ok W) (update_user_access ev ip a uid d)" if "a \<in> W" for a d W
    unfolding update_user_access_def by (intro keeps_rules app_user_step that) simp_all
  show ?thesis
    unfolding update_user_def by (rule keeps_for_user, intro keeps_rules n r a) simp_all
qed

lemma app_transaction:
  assumes "\<And>db db'. schema_ok db \<Longrightarrow> g db = Inr db' \<Longrightarrow> schema_ok db'"
    and "\<And>db db'. g db = Inr db' \<Longrightarrow> grows db db'"
    and "\<And>s db'. app_ok W (s\<lparr>ap_db := db'\<rparr>) \<Longrightarrow> app_ok W (snd (f db' s))"
  shows "keeps (app_ok W) (sbind (db_get g) (\<lambda>r. sbind (slift r) f))"
proof -
  have "app_ok W (snd (sbind (db_get g) (\<lambda>r. sbind (slift r) f) s))" if ok: "app_ok W s" for s
  proof (cases "g (ap_db s)")
    case (Inr db')
    have "app_ok W (s\<lparr>ap_db := db'\<rparr>)"
      using assms(1) [OF app_ok_schema [OF ok] Inr] assms(2) [OF Inr] by (rule app_ok_db [OF ok])
    then show ?thesis using assms(3) Inr by simp
  qed (use ok in simp)
  then show ?thesis by (simp add: keeps_def)
qed

lemma app_setup: "keeps (app_ok W) (api_setup ev hs issuer audience)"
proof -
  have req: "keeps (app_ok W) setup_required" by (simp add: keeps_def setup_required_def)
  show ?thesis
    unfolding api_setup_def Let_def
    by (intro keeps_sbind [OF req] keeps_if keeps_sfail keeps_sbind keeps_slift keeps_prod app_transaction)
      (auto intro: schema_setup grows_setup simp: app_ok_def)
qed

section \<open>The console\<close>

lemma app_reads:
  "(\<And>u P. keeps P (f u)) \<Longrightarrow> keeps (app_ok W) (sbind (session ev hs) f)"
  by (intro keeps_sbind keeps_session)

lemma app_public:
  "keeps (app_ok W) public_config" "keeps (app_ok W) setup_status" "keeps (app_ok W) (sreturn health)"
proof -
  have req: "keeps (app_ok W) setup_required" by (simp add: keeps_def setup_required_def)
  show "keeps (app_ok W) public_config" "keeps (app_ok W) setup_status"
    unfolding public_config_def setup_status_def by (intro keeps_rules req)+
qed (rule keeps_sreturn)

lemma app_lists:
  "keeps (app_ok W) (me ev hs)" "keeps (app_ok W) (list_consumers ev hs)" "keeps (app_ok W) (list_providers ev hs)"
  "keeps (app_ok W) (list_provider_usage ev hs)" "keeps (app_ok W) (list_provider_circuit_summaries ev hs)"
  "keeps (app_ok W) (list_provider_rate_limit_resets ev hs)" "keeps (app_ok W) (list_provider_circuit_events ev hs pid)"
  "keeps (app_ok W) (list_provider_grants ev hs pid)"
  unfolding me_def list_consumers_def list_providers_def list_provider_usage_def
    list_provider_circuit_summaries_def list_provider_rate_limit_resets_def list_provider_circuit_events_def
    list_provider_grants_def manager_def
  by (intro keeps_rules keeps_session keeps_db_get keeps_required_manager)+

lemma app_reports:
  "keeps (app_ok W) (api_usage ev date hs period)" "keeps (app_ok W) (api_audit ev hs query)"
  "keeps (app_ok W) (audit_detail ev hs cid)" "keeps (app_ok W) (list_admin_audit ev hs lim off)"
  "keeps (app_ok W) (dashboard ev hs)" "keeps (app_ok W) (settings ev hs)" "keeps (app_ok W) (list_users ev hs)"
  unfolding api_usage_def api_audit_def audit_detail_def list_admin_audit_def dashboard_def settings_def
    list_users_def
  by (intro keeps_rules keeps_session keeps_db_get)+

lemma app_provider_acts:
  "keeps (app_ok W) (create_provider ev ip hs name access refr)"
  "keeps (app_ok W) (read_provider_tokens ev ip hs pid)"
  "keeps (app_ok W) (replace_provider_tokens ev ip hs pid name access refr)"
  "keeps (app_ok W) (update_provider ev ip hs pid oname enabled orefr)"
  "keeps (app_ok W) (delete_provider ev ip hs pid)" "keeps (app_ok W) (test_provider ev ip hs pid)"
  "keeps (app_ok W) (consume_provider_rate_limit_reset ev ip hs pid credit key)"
  unfolding create_provider_def read_provider_tokens_def replace_provider_tokens_def update_provider_def
    delete_provider_def test_provider_def consume_provider_rate_limit_reset_def read_tokens_operation_def
    provider_usage_def
  by ((intro keeps_managed keeps_for_user keeps_rules keeps_audited keeps_db_get app_insert_provider
      app_replace_tokens app_update_operation app_delete_operation; simp)+)

lemma app_oauth:
  "keeps (app_ok W) (api_oauth_start ev ip hs)" "keeps (app_ok W) (oauth_complete ev ip hs st code name)"
  unfolding api_oauth_start_def oauth_complete_def oauth_start_operation_def oauth_complete_operation_def
  by ((intro keeps_for_user keeps_rules keeps_audited keeps_db_get app_oauth_start app_exchange
      app_insert_provider; simp)+)

lemmas app_handlers = app_public app_setup app_lists app_reports app_create_consumer app_update_consumer
  app_delete_consumer app_revoke_consumer app_provider_acts app_create_grant app_delete_grant app_oauth
  app_update_settings app_update_user

lemma app_console: "keeps (app_ok W) (console ev date ip hs r)"
  by (cases r) (simp_all add: app_handlers keeps_sbind keeps_prod keeps_sreturn)

end

section \<open>What survives a reload\<close>

text \<open>The pending updates can be written; if the columns were typed, they still are.\<close>

definition pending_ok :: "balancer \<Rightarrow> bool" where
  "pending_ok b \<longleftrightarrow> updates_wf (b_provider_updates b) \<and> updates_typed (b_provider_updates b) \<and>
     dm_ok (b_provider_updates b)"

definition typed_ok :: "bool \<Rightarrow> database \<Rightarrow> balancer \<Rightarrow> bool" where
  "typed_ok typed db b \<longleftrightarrow> pending_ok b \<and> (typed \<longrightarrow> columns_ok db)"

definition unleased :: "balancer \<Rightarrow> bool" where
  "unleased b \<longleftrightarrow> (\<forall>q. inflight b q = 0)"

lemma forget_fields:
  "b_provider_updates (forget_provider pid b) = dm_remove pid (b_provider_updates b)"
  "b_inflight (forget_provider pid b) = dm_remove pid (b_inflight b)"
proof -
  have "b_provider_updates (fold (forget_affinity pid) hs c) = b_provider_updates c \<and>
      b_inflight (fold (forget_affinity pid) hs c) = b_inflight c" for hs c
    by (induction hs arbitrary: c) (simp_all add: forget_affinity_def Let_def split: prod.splits)
  then show "b_provider_updates (forget_provider pid b) = dm_remove pid (b_provider_updates b)"
    "b_inflight (forget_provider pid b) = dm_remove pid (b_inflight b)"
    by (simp_all add: forget_provider_def)
qed

lemma updates_wf_mono: "set xs \<subseteq> set ys \<Longrightarrow> updates_wf ys \<Longrightarrow> updates_wf xs"
  unfolding updates_wf_def by (rule ballI) (drule (1) subsetD, erule (1) bspec)

lemma forget_pending: assumes "pending_ok b" shows "pending_ok (forget_provider pid b)"
proof -
  have sub: "set (dm_remove pid (b_provider_updates b)) \<subseteq> set (b_provider_updates b)"
    by (auto simp: dm_remove_def AList.delete_eq)
  have "dm_ok (dm_remove pid (b_provider_updates b))"
    using assms by (simp add: pending_ok_def dm_ok_def dm_remove_def distinct_delete)
  with updates_wf_mono [OF sub] updates_typed_mono [OF sub] assms show ?thesis
    by (simp add: pending_ok_def forget_fields)
qed

interpretation pending: reloadable "typed_ok typed" for typed
  by unfold_locales (auto simp: typed_ok_def forget_pending grows_def, auto simp: pending_ok_def reload_providers_def)

interpretation leases: reloadable "\<lambda>_. unleased"
  by unfold_locales
    (auto simp: unleased_def inflight_def reload_providers_def forget_fields dm.get_remove)

end
