(* ===== verification/System_Facts.thy ===== *)
theory System_Facts
  imports System App_Schema Call_Facts
begin

text \<open>
  The invariant of the running program: whatever requests arrive, in whatever order the background
  tasks run between them and however often the program restarts, the database stays well-formed
  and no lease stays out. So the check of the foreign keys at the next start succeeds.
\<close>

section \<open>Calls\<close>

text \<open>What the proxied calls keep of the program's state: the database is well-formed and the pending
  updates of the balancer can be written.\<close>

definition stored :: "bool \<Rightarrow> call_state \<Rightarrow> bool" where
  "stored typed s \<longleftrightarrow> pending.app_ok typed {} (cs_app s)"

lemma stored_other [simp]:
  "stored typed (s\<lparr>cs_tracker := t\<rparr>) = stored typed s" "stored typed (s\<lparr>cs_audit := w\<rparr>) = stored typed s"
  "stored typed (s\<lparr>cs_requests := r\<rparr>) = stored typed s" "stored typed (s\<lparr>cs_files := fs\<rparr>) = stored typed s"
  by (simp_all add: stored_def)

lemma stored_balancer:
  "stored typed s \<Longrightarrow> (pending_ok (ap_balancer (cs_app s)) \<Longrightarrow> pending_ok (f (ap_balancer (cs_app s)))) \<Longrightarrow>
     stored typed (on_balancer f s)"
  by (simp add: stored_def on_balancer_def pending.app_ok_def typed_ok_def)

named_theorems stored_rules

lemma stored_on_app [stored_rules]: "keeps (pending.app_ok typed {}) m \<Longrightarrow> keeps (stored typed) (on_app m)"
  by (simp add: keeps_def on_app_def stored_def case_prod_unfold Let_def)

lemma stored_release: "stored typed s \<Longrightarrow> stored typed (release l s)"
  unfolding release_def
  by (rule stored_balancer) (simp_all add: pending_ok_def drop_lease_def split: option.splits)

lemma select_pending: "b_provider_updates (snd (select sha ttl now user allp aff ex b)) = b_provider_updates b"
proof (cases "select sha ttl now user allp aff ex b")
  case (Pair r b')
  show ?thesis
  proof (cases r)
    case (Inl e)
    then show ?thesis using Pair by (auto simp: select_def Let_def split: if_splits prod.splits)
  next
    case (Inr l)
    then show ?thesis using Pair select_sound_fields(7) by simp
  qed
qed

lemma stored_pick [stored_rules]: "keeps (stored typed) (pick n user allp aff ex)"
  using select_pending
  by (simp add: keeps_def pick_def stored_def pending.app_ok_def typed_ok_def pending_ok_def case_prod_unfold Let_def)

lemma stored_observe [stored_rules]: "keeps (stored typed) (observe_reply n pid status bd)"
  unfolding observe_reply_def
  by (rule keeps_smodify, rule stored_balancer)
    (use track_response_keeps_updates_wf in \<open>auto simp: pending_ok_def track_response_typed\<close>)

lemma stored_execute [stored_rules]: "keeps (stored typed) (execute n l rq)"
  by (rule keeps_execute) (simp add: sent_free_def)

lemma stored_tracker [stored_rules]: "keeps (stored typed) (on_tracker f)"
  by (rule keeps_on_tracker) simp

lemma stored_refresh [stored_rules]: "keeps (stored typed) (on_app (refresh_if_needed ev l))"
  by (rule stored_on_app [OF pending.app_refresh_if_needed])

lemma stored_finish [stored_rules]: "keeps (stored typed) (finish n status model u err)"
  by (simp add: keeps_def finish_def Let_def case_prod_unfold)

lemma stored_ready [stored_rules]: "keeps (stored typed) (select_ready_provider n user allp aff)"
  unfolding select_ready_provider_def by (intro stored_rules keeps_rules stored_release)

lemma stored_retry [stored_rules]: "keeps (stored typed) (retry_provider n user allp aff pid)"
  unfolding retry_provider_def by (intro stored_rules keeps_rules stored_release)

lemma stored_track [stored_rules]: "keeps (stored typed) (track_upstream n pid up)"
  unfolding track_upstream_def by (intro stored_rules keeps_rules)

lemma stored_attempt [stored_rules]:
  "(\<And>l. keeps (stored typed) (send1 l)) \<Longrightarrow> (\<And>l. keeps (stored typed) (send2 l)) \<Longrightarrow>
     keeps (stored typed) (attempt_twice n user allp aff send1 send2 first)"
  unfolding attempt_twice_def by (intro stored_rules keeps_rules stored_release)

lemma stored_send [stored_rules]:
  "keeps (stored typed) (send_upstream n l path inbound bd)"
  "keeps (stored typed) (send_transcription_upstream n l inbound bd)"
  "keeps (stored typed) (send_console_image_upstream n l inbound bd)"
  unfolding send_upstream_def send_transcription_upstream_def send_console_image_upstream_def
  by (intro stored_rules keeps_rules)+

lemma stored_relay_complete [stored_rules]: "keeps (stored typed) (relay_complete n context up)"
  unfolding relay_complete_def by (intro stored_rules keeps_rules)

lemma stored_relay_stream [stored_rules]: "keeps (stored typed) (relay_stream context l r)"
  unfolding relay_stream_def by (intro stored_rules keeps_rules)

lemma stored_relay [stored_rules]: "keeps (stored typed) (relay_response n context l up)"
proof -
  have "keeps (stored typed) (case up of
       Live r \<Rightarrow> if cc_stream context \<and> is_success (hr_status r) then relay_stream context l r
         else ensuring (release l) (relay_complete n context up)
     | Buffered _ \<Rightarrow> ensuring (release l) (relay_complete n context up))"
    by (cases up) (simp_all add: stored_rules keeps_ensuring stored_release)
  then show ?thesis
    unfolding relay_response_def by (intro stored_rules keeps_sbind)
qed

lemma stored_image [stored_rules]: "keeps (stored typed) (image_response n context l up)"
proof -
  have "keeps (stored typed) (image_reply n context up)"
    unfolding image_reply_def by (intro stored_rules keeps_rules)
  then show ?thesis
    unfolding image_response_def by (intro stored_rules keeps_rules stored_release)
qed

lemma stored_dispatch [stored_rules]: "keeps (stored typed) (dispatch n identity path headers bd)"
  unfolding dispatch_def Let_def by (intro stored_rules keeps_rules)

lemma stored_spool [stored_rules]: "keeps (stored typed) (spool_create n limit bd)"
  unfolding spool_create_def by (intro stored_rules keeps_rules) (simp_all add: remove_file_def)

lemma stored_dispatch_audio [stored_rules]: "keeps (stored typed) (dispatch_audio n identity path headers bd)"
  unfolding dispatch_audio_def Let_def
  by (intro stored_rules keeps_rules) (simp_all add: remove_file_def)

lemma stored_conclude [stored_rules]: "keeps (stored typed) m \<Longrightarrow> keeps (stored typed) (conclude n m)"
  unfolding conclude_def
  by (intro keeps_ensuring keeps_handling)
    (auto simp: drop_tracker_def split: stop.splits intro!: stored_rules keeps_rules)

lemma stored_begin [stored_rules]: "keeps (stored typed) (begin_call n identity rq)"
  by (simp add: keeps_def begin_call_def Let_def case_prod_unfold)

lemma stored_stream [stored_rules]: "keeps (stored typed) (run_stream n bs)"
  by (auto simp: keeps_def run_stream_def Let_def case_prod_unfold intro: stored_release)

lemma stored_serve [stored_rules]: "keeps (stored typed) m \<Longrightarrow> keeps (stored typed) (serve n m)"
  unfolding serve_def
  by (rule keeps_sbind) (auto split: reply_body.splits intro: stored_rules keeps_rules)

lemma stored_console_user [stored_rules]: "keeps (stored typed) (console_user n headers)"
  unfolding console_user_def by (intro stored_rules keeps_rules pending.keeps_session)

lemma stored_calls:
  "keeps (stored typed) (handle_json n rq bd)" "keeps (stored typed) (handle_audio n rq chunks)"
  "keeps (stored typed) (handle_models n headers)"
  "keeps (stored typed) (handle_console_transcription n headers chunks)"
  "keeps (stored typed) (handle_console_image_generation n headers bd)"
proof -
  show "keeps (stored typed) (handle_json n rq bd)" "keeps (stored typed) (handle_audio n rq chunks)"
    "keeps (stored typed) (handle_models n headers)"
    unfolding handle_json_def handle_audio_def handle_models_def
    by (intro stored_rules keeps_caller(1) keeps_rules)+
  show "keeps (stored typed) (handle_console_transcription n headers chunks)"
    unfolding handle_console_transcription_def Let_def
    by (intro stored_rules keeps_rules stored_release) (simp_all add: remove_file_def)
  show "keeps (stored typed) (handle_console_image_generation n headers bd)"
    unfolding handle_console_image_generation_def Let_def
    by (intro stored_rules keeps_rules stored_release)
qed

section \<open>The start\<close>

definition local_ok :: "database \<Rightarrow> bool" where
  "local_ok db \<longleftrightarrow> keys_ok db \<and> circuits_wf db \<and> users_ok db"

lemma database_ok_iff: "database_ok db \<longleftrightarrow> local_ok db \<and> foreign_key_violations db = 0"
  unfolding foreign_keys_iff database_ok_def schema_ok_def local_ok_def db_refs_def calls_ok_def
    audit_refs_def call_exists_def
  by blast

lemma connect_Inr:
  "connect pf path = Inr db \<longleftrightarrow>
     (\<exists>db0. pf_open pf path = Inr db0 \<and> pf_migrate pf db0 = Inr db \<and> foreign_key_violations db = 0 \<and>
        pf_set_mode pf path 384 = Inr ())"
  by (auto simp: connect_def connect_with_options_def rbind_Inr_iff Let_def ensure_def split: if_splits)

lemma program_start_Inr:
  assumes "program_start ev instant pf files = Inr y"
  obtains boot db cfg v where "bootstrap_load pf = Inr boot" and "connect pf (bc_database_path boot) = Inr db"
    and "config_load boot db = Inr cfg"
    and "pg_app y = \<lparr>ap_config = cfg, ap_db = db, ap_balancer = hydrate (ev_now ev) db balancer_default,
           ap_verifier = v, ap_oauth_flows = []\<rparr>"
    and "pg_batch y = []" and "pg_maintenance y = Idle" and "cs_files (pg_call y) = files"
    and "cs_audit (pg_call y) = audit_writer_new" and "pg_limits y = router_limits cfg"
  using assms by (auto simp: program_start_def app_new_def rbind_Inr_iff)

lemma bootstrap_path:
  "bootstrap_load pf = Inr boot \<Longrightarrow> pf_home pf = Some home \<Longrightarrow>
     bc_database_path boot = path_join (path_join home ''.openai-lb'') ''openai-lb.sqlite3''"
  by (auto simp: bootstrap_load_def in_data_dir_def rbind_Inr_iff)

lemma hydrated: "pending_ok (hydrate now db balancer_default)" "unleased (hydrate now db balancer_default)"
  by (simp_all add: hydrate_def reload_providers_def balancer_default_def pending_ok_def unleased_def
      inflight_def updates_wf_def updates_typed_def dm_ok_def Let_def)

section \<open>The administrator's monitor\<close>

lemma keeps_on_program:
  "keeps P m \<Longrightarrow> keeps (\<lambda>s. P (fst s)) (on_program m)"
  by (simp add: keeps_def on_program_def case_prod_unfold)

lemma keeps_on_monitor: "keeps (\<lambda>s. P (fst s)) (on_monitor h)"
  by (simp add: keeps_def on_monitor_def case_prod_unfold)

context reloadable
begin

lemma keeps_monitored:
  assumes f: "\<And>u. keeps (\<lambda>s. app_ok (insert (ui_id u) W) (fst s)) (f u)"
  shows "keeps (\<lambda>s. app_ok W (fst s)) (sbind (on_program (session ev hs)) f)"
proof -
  have "app_ok W (fst (snd (sbind (on_program (session ev hs)) f s)))" if ok: "app_ok W (fst s)" for s
  proof -
    obtain r a where 1: "session ev hs (fst s) = (r, a)" by fastforce
    have a: "app_ok W a" using keeps_session ok 1 by (metis keeps_def snd_conv)
    show ?thesis
    proof (cases r)
      case (Inr u)
      with a session_user_exists [of ev hs "fst s" u a] 1 have "app_ok (insert (ui_id u) W) (fst (a, snd s))"
        by (simp add: app_ok_def)
      then have "app_ok (insert (ui_id u) W) (fst (snd (f u (a, snd s))))"
        using f [of u] unfolding keeps_def by blast
      then show ?thesis using 1 Inr by (auto simp: sbind_def on_program_def intro: app_ok_fewer)
    qed (use 1 a in \<open>simp add: sbind_def on_program_def\<close>)
  qed
  then show ?thesis by (simp add: keeps_def)
qed

lemma app_system_resources: "keeps (\<lambda>s. app_ok W (fst s)) (system_resources ev rd hs)"
  unfolding system_resources_def
  by (intro keeps_monitored keeps_sbind keeps_on_program keeps_on_monitor keeps_slift)

lemma app_vacuum: "keeps (\<lambda>s. app_ok W (fst s)) (vacuum_system_database ev rd ip hs)"
proof -
  have run: "keeps (\<lambda>s. app_ok V (fst s)) (\<lambda>s. case on_monitor (vacuum rd) s of (Inl Panicked, s') \<Rightarrow> (Inl Panicked, s')
                  | (r, s') \<Rightarrow> (Inr r, s'))" for V and rd :: "'f readings"
    by (auto simp: keeps_def on_monitor_def split: prod.splits sum.splits stop.splits)
  show ?thesis
    unfolding vacuum_system_database_def
    by (rule keeps_monitored, intro keeps_sbind [OF run] keeps_sbind keeps_on_program keeps_admin_audit
        keeps_slift) simp_all
qed

end

section \<open>The tasks\<close>

lemma grows_persist: "persist now batch db = Some db' \<Longrightarrow> grows db db'"
proof -
  have one: "grows a c" if p: "persist_one q a = Some c" for q a c
  proof (rule growsI)
    show "db_users c = db_users a" "db_admin_audit c = db_admin_audit a" "db_meta c = db_meta a"
      using p by (cases q; auto simp: insert_event_def update_transport_def Let_def split: if_splits option.splits)+
    show "columns_ok a \<Longrightarrow> columns_ok c" using columns_persist_one [OF p] by simp
  qed
  have all: "persist_all qs a = Some c \<Longrightarrow> grows a c" for qs a c
  proof (induction qs arbitrary: a)
    case (Cons q qs)
    then obtain b where "persist_one q a = Some b" "persist_all qs b = Some c" by (auto split: bind_splits)
    then show ?case using one Cons.IH grows_trans by metis
  qed (simp add: grows_def)
  assume "persist now batch db = Some db'"
  then obtain db1 where 1: "persist_all batch db = Some db1"
    and db': "db' = db1\<lparr>db_consumers := update_where (\<lambda>k. k_id k \<in> set (touched_keys batch))
        (\<lambda>k. k\<lparr>k_last_used_at := Some now\<rparr>) (db_consumers db1)\<rparr>"
    by (auto simp: persist_def split: bind_splits)
  from all [OF 1] show ?thesis unfolding db' by (rule grows_trans) simp
qed

lemma grows_maintain:
  assumes "updates_typed ups" shows "grows db (snd (maintain_transaction now ups affs db))"
proof -
  have one: "grows a (persist_update (pid, u) a)" if "update_typed u" for pid u a
    by (intro growsI columns_persist_update that)
      (simp_all add: persist_update_def upsert_circuit_def update_provider_status_def split: option.split)
  have up: "updates_typed us \<Longrightarrow> grows a (fold persist_update us a)" for us a
  proof (induction us arbitrary: a)
    case (Cons x us)
    obtain pid u where x: "x = (pid, u)" by (cases x)
    have "grows a (persist_update x a)" using Cons.prems by (simp add: x one updates_typed_def)
    moreover have "updates_typed us" using Cons.prems by (simp add: updates_typed_def)
    ultimately show ?case using Cons.IH grows_trans by simp
  qed (simp add: grows_def)
  have aff: "grows a (snd (persist_affinities xs a))" for xs a
  proof (induction xs a rule: persist_affinities.induct)
    case (2 h e xs a)
    have "grows a (snd (persist_affinity h e a))" by (auto simp: persist_affinity_def intro!: growsI)
    from grows_trans [OF this "2.IH" [OF refl prod.collapse]] show ?case
      by (simp add: Let_def case_prod_unfold)
  qed (simp add: grows_def)
  have last: "grows a (expire_affinities now (recover_rows now a))" for a
    by (intro growsI)
      (simp_all add: expire_affinities_def columns_recover, simp_all add: recover_rows_def update_provider_status_def)
  show ?thesis
    using grows_trans [OF up [OF assms] grows_trans [OF aff last]]
    by (simp add: maintain_transaction_def Let_def case_prod_unfold)
qed

lemma settle_pending: "pending_ok b \<Longrightarrow> pending_ok (maintain_settle now ups heps b)"
proof -
  have step: "dm_ok m \<Longrightarrow> updates_wf m \<and> updates_typed m \<Longrightarrow>
      dm_ok (settle_updates us m) \<and> updates_wf (settle_updates us m) \<and> updates_typed (settle_updates us m)" for us m
  proof (induction us arbitrary: m)
    case (Cons x us)
    obtain pid u where x: "x = (pid, u)" by (cases x)
    have sub: "set (dm_remove pid m) \<subseteq> set m" by (auto simp: dm_remove_def AList.delete_eq)
    have "dm_ok (dm_remove pid m)" using Cons.prems by (simp add: dm_ok_def dm_remove_def distinct_delete)
    with Cons updates_wf_mono [OF sub] updates_typed_mono [OF sub] show ?case by (simp add: x settle_updates_def)
  qed (simp add: settle_updates_def)
  assume "pending_ok b"
  then show ?thesis using step by (simp add: pending_ok_def maintain_settle_fields)
qed

section \<open>The invariant\<close>

definition maintenance_ok :: "maintenance \<Rightarrow> bool" where
  "maintenance_ok m \<longleftrightarrow> (case m of Snapshot ups _ \<Rightarrow> updates_wf ups \<and> updates_typed ups | _ \<Rightarrow> True)"

definition program_ok :: "bool \<Rightarrow> program \<Rightarrow> bool" where
  "program_ok typed y \<longleftrightarrow>
     pending.app_ok typed {} (pg_app y) \<and> unleased (ap_balancer (pg_app y)) \<and> maintenance_ok (pg_maintenance y) \<and>
     length (pg_batch y) \<le> BATCH_CAPACITY"

lemma leases_ok: "leases.app_ok {} s \<longleftrightarrow> database_ok (ap_db s) \<and> loads (ap_db s) \<and> unleased (ap_balancer s)"
  by (simp add: leases.app_ok_def)

lemma pending_ok_iff: "pending.app_ok typed {} s \<longleftrightarrow> database_ok (ap_db s) \<and> loads (ap_db s) \<and>
     pending_ok (ap_balancer s) \<and> (typed \<longrightarrow> columns_ok (ap_db s))"
  by (simp add: pending.app_ok_def typed_ok_def)

lemma program_okI:
  assumes "program_ok typed y" and "pending.app_ok typed {} a" and "leases.app_ok {} a"
    and "pg_app y' = a" and "pg_maintenance y' = pg_maintenance y" and "pg_batch y' = pg_batch y"
  shows "program_ok typed y'"
  using assms by (simp add: program_ok_def leases_ok)

lemma program_ok_app: "program_ok typed y \<Longrightarrow> pending.app_ok typed {} (pg_app y) \<and> leases.app_ok {} (pg_app y)"
  by (simp add: program_ok_def leases_ok pending_ok_iff)

lemma with_app_simps [simp]:
  "pg_app (with_app a y) = a" "pg_maintenance (with_app a y) = pg_maintenance y"
  "pg_batch (with_app a y) = pg_batch y" "pg_app (on_database f y) = (pg_app y)\<lparr>ap_db := f (ap_db (pg_app y))\<rparr>"
  "pg_maintenance (on_database f y) = pg_maintenance y" "pg_batch (on_database f y) = pg_batch y"
  by (simp_all add: with_app_def on_database_def)

lemma program_ok_handler:
  assumes ok: "program_ok typed y" and "\<And>J. reloadable J \<Longrightarrow> keeps (reloadable.app_ok J {}) h"
  shows "program_ok typed (with_app (snd (h (pg_app y))) y)"
  using program_ok_app [OF ok] assms(2) [OF pending.reloadable_axioms] assms(2) [OF leases.reloadable_axioms]
  by (intro program_okI [OF ok, where a = "snd (h (pg_app y))"]) (simp_all add: keeps_def)

lemma program_ok_monitored:
  assumes ok: "program_ok typed y" and "\<And>J. reloadable J \<Longrightarrow> keeps (\<lambda>s. reloadable.app_ok J {} (fst s)) h"
    and run: "h (pg_app y, pg_monitor y) = (res, (a, m))"
  shows "program_ok typed ((with_app a y)\<lparr>pg_monitor := m\<rparr>)"
proof (rule program_okI [OF ok, where a = a])
  show "pending.app_ok typed {} a"
    using assms(2) [OF pending.reloadable_axioms] program_ok_app [OF ok] run
    unfolding keeps_def by (metis fst_conv snd_conv)
  show "leases.app_ok {} a"
    using assms(2) [OF leases.reloadable_axioms] program_ok_app [OF ok] run
    unfolding keeps_def by (metis fst_conv snd_conv)
qed simp_all

lemma program_ok_call:
  assumes ok: "program_ok typed y" and "keeps (stored typed) m" and "lease.neutral m"
  shows "program_ok typed (y\<lparr>pg_call := snd (m (pg_call y))\<rparr>)"
proof -
  have "stored typed (pg_call y)" using ok by (simp add: program_ok_def stored_def)
  then have s: "stored typed (snd (m (pg_call y)))" using assms(2) by (simp add: keeps_def)
  have "unleased (ap_balancer (cs_app (snd (m (pg_call y)))))"
    using ok neutral_inflight [OF assms(3)] by (simp add: program_ok_def unleased_def)
  with s ok show ?thesis by (simp add: program_ok_def stored_def)
qed

lemma program_ok_database:
  assumes ok: "program_ok typed y" and "schema_ok db" and "grows (ap_db (pg_app y)) db"
    and "pg_app y' = (pg_app y)\<lparr>ap_db := db\<rparr>" and "maintenance_ok (pg_maintenance y')"
    and "length (pg_batch y') \<le> BATCH_CAPACITY"
  shows "program_ok typed y'"
proof -
  have "database_ok (ap_db (pg_app y))" and l: "loads (ap_db (pg_app y))"
    using ok by (simp_all add: program_ok_def pending_ok_iff)
  then have "database_ok db" using assms(2,3) by (blast intro: grows_database)
  moreover have "loads db" using l assms(3) by (simp add: grows_def)
  moreover have "typed \<longrightarrow> columns_ok db" using ok assms(3) by (auto simp: grows_def program_ok_def pending_ok_iff)
  ultimately show ?thesis using assms(1,4-6) by (simp add: program_ok_def pending_ok_iff)
qed

lemma program_ok_schema: "program_ok typed y \<Longrightarrow> schema_ok (ap_db (pg_app y))"
  by (simp add: program_ok_def pending_ok_iff database_ok_def)

lemma models_neutral: "lease.neutral (handle_models n hs)"
  by (rule calm_lease) (simp add: handle_models_def calm_rules fallible_def)

lemma start_ok:
  assumes "program_start ev instant pf files = Inr y" and "local_ok (ap_db (pg_app y))"
    and "typed \<Longrightarrow> columns_ok (ap_db (pg_app y))"
  shows "program_ok typed y"
proof -
  obtain boot db cfg v where "bootstrap_load pf = Inr boot" and c: "connect pf (bc_database_path boot) = Inr db"
    and l: "config_load boot db = Inr cfg"
    and y: "pg_app y = \<lparr>ap_config = cfg, ap_db = db, ap_balancer = hydrate (ev_now ev) db balancer_default,
           ap_verifier = v, ap_oauth_flows = []\<rparr>" "pg_batch y = []" "pg_maintenance y = Idle"
    by (rule program_start_Inr [OF assms(1)]) blast
  have "database_ok db" using c assms(2) by (auto simp: connect_Inr database_ok_iff y)
  moreover have "loads db" using l by (auto simp: loads_iff [of db boot])
  ultimately show ?thesis
    using assms(3) by (simp add: program_ok_def pending_ok_iff y hydrated maintenance_ok_def)
qed

lemma step_ok: "program_step y y' \<Longrightarrow> program_ok typed y \<Longrightarrow> program_ok typed y'"
proof (induction rule: program_step.induct)
  case (console y ev date ip hs r)
  then show ?case by (intro program_ok_handler reloadable.app_console)
next
  case (resources ev rd hs y res a m)
  from resources.prems reloadable.app_system_resources resources.hyps show ?case by (rule program_ok_monitored)
next
  case (vacuum ev rd ip hs y res a m)
  from vacuum.prems reloadable.app_vacuum vacuum.hyps show ?case by (rule program_ok_monitored)
next
  case (json rq bl y bd n)
  then show ?case by (intro program_ok_call stored_serve stored_calls owns_serve owns_handle_json)
next
  case (audio rq bl y n cs)
  then show ?case by (intro program_ok_call stored_serve stored_calls owns_serve owns_handle_audio)
next
  case (models y n hs)
  then show ?case by (intro program_ok_call stored_calls models_neutral)
next
  case (transcription y n hs cs)
  then show ?case by (intro program_ok_call stored_calls owns_console_transcription)
next
  case (image y bd n hs)
  then show ?case by (intro program_ok_call stored_calls owns_console_image)
next
  case (transport y ev tid hs cs)
  then show ?case by (simp add: program_ok_def)
next
  case (snapshot y ups affs)
  then show ?case
    by (auto simp: program_ok_def maintain_snapshot_def maintenance_ok_def pending_ok_iff pending_ok_def)
next
  case (commit y ups affs now persisted db)
  have u: "updates_wf ups" "updates_typed ups"
    using commit.prems commit.hyps(1) by (simp_all add: program_ok_def maintenance_ok_def)
  then have "schema_ok db"
    using schema_maintain [OF program_ok_schema [OF commit.prems], of ups now affs] commit.hyps(2) by simp
  moreover have "grows (ap_db (pg_app y)) db"
    using grows_maintain [OF u(2), of "ap_db (pg_app y)" now affs] commit.hyps(2) by simp
  ultimately show ?case
    by (rule program_ok_database [OF commit.prems])
      (use commit.prems in \<open>simp_all add: program_ok_def maintenance_ok_def\<close>)
next
  case (rollback y ups affs)
  then show ?case by (simp add: program_ok_def maintenance_ok_def)
next
  case (settle y ups persisted now)
  then show ?case
    by (simp add: program_ok_def maintenance_ok_def pending_ok_iff settle_pending unleased_def inflight_def
        maintain_settle_fields)
next
  case (take y q qs)
  then show ?case by (simp add: program_ok_def)
next
  case (written now y db)
  from written.prems show ?case
    by (rule program_ok_database [OF _ schema_persist [OF program_ok_schema [OF written.prems] written.hyps]
          grows_persist [OF written.hyps]])
      (use written.prems in \<open>simp_all add: program_ok_def on_database_def with_app_def\<close>)
next
  case (expire y now)
  from expire.prems show ?case
    by (rule program_ok_database [OF _ schema_delete_expired [OF program_ok_schema [OF expire.prems]]
          growsI])
      (use expire.prems in \<open>simp_all add: program_ok_def delete_expired_def Let_def\<close>)
next
  case (sweep entries y now)
  then show ?case by (simp add: program_ok_def)
next
  case (restart pf y home ev instant y')
  obtain boot db cfg v where b: "bootstrap_load pf = Inr boot" and c: "connect pf (bc_database_path boot) = Inr db"
    and y': "pg_app y' = \<lparr>ap_config = cfg, ap_db = db, ap_balancer = hydrate (ev_now ev) db balancer_default,
           ap_verifier = v, ap_oauth_flows = []\<rparr>"
    by (rule program_start_Inr [OF restart.hyps(5)]) blast
  have "db = ap_db (pg_app y)"
    using c restart.hyps(1-4) bootstrap_path [OF b restart.hyps(3)] by (auto simp: connect_Inr)
  with restart.prems y' have "local_ok (ap_db (pg_app y'))" "typed \<Longrightarrow> columns_ok (ap_db (pg_app y'))"
    by (simp_all add: program_ok_def pending_ok_iff database_ok_iff)
  with restart.hyps(5) show ?case by (rule start_ok)
qed

lemma run_ok: "program_step\<^sup>*\<^sup>* y y' \<Longrightarrow> program_ok typed y \<Longrightarrow> program_ok typed y'"
  by (induction rule: rtranclp_induct) (auto intro: step_ok)

text \<open>C1. The program never damages its database and never leaks a lease. Once it has started on a
  database with unique keys, known roles, one root at most and circuit events as the code writes
  them (the references are checked at the start), then after any requests of any callers, any
  interleaving of the maintenance, audit and clean-up tasks and any number of restarts, the keys,
  the references of every table, the roles and the circuit events are still in order, no provider
  has a request in flight between requests, and the audit batch is within its bound.\<close>

theorem program_invariant:
  assumes "program_start ev instant pf files = Inr y0" and "local_ok (ap_db (pg_app y0))"
    and "program_step\<^sup>*\<^sup>* y0 y"
  shows "local_ok (ap_db (pg_app y)) \<and> foreign_key_violations (ap_db (pg_app y)) = 0 \<and>
     (\<forall>q. inflight (ap_balancer (pg_app y)) q = 0) \<and> length (pg_batch y) \<le> BATCH_CAPACITY"
  using run_ok [OF assms(3) start_ok [OF assms(1,2), of False]]
  by (simp add: program_ok_def pending_ok_iff database_ok_iff unleased_def)

text \<open>C6. The program can always be restarted: after any run, from the database it left, on a platform
  that opens this database and whose migrations are done, and with an issuer that answers, the
  start passes the check of the foreign keys, reads every setting and goes on with the same data; it
  is refused only when the settings name an issuer without an audience or an audience without an
  issuer.\<close>

theorem restart_succeeds:
  assumes "program_start ev instant pf files = Inr y0" and "local_ok (ap_db (pg_app y0))"
    and "program_step\<^sup>*\<^sup>* y0 y"
    and pf: "\<And>dir. pf_create_dir pf' dir = Inr ()" "\<And>path mode. pf_set_mode pf' path mode = Inr ()"
      "pf_home pf' = Some home" "\<And>path. pf_open pf' path = Inr (ap_db (pg_app y))"
      "pf_migrate pf' (ap_db (pg_app y)) = Inr (ap_db (pg_app y))" "\<And>addr. pf_bind pf' addr = Inr ()"
    and issuer: "\<And>iss aud. \<exists>v. ev_verifier ev' iss aud = Inr v"
  shows "\<exists>cfg. config_load \<lparr>bc_listen = DEFAULT_LISTEN, bc_data_dir = path_join home ''.openai-lb'',
       bc_database_path = path_join (path_join home ''.openai-lb'') ''openai-lb.sqlite3''\<rparr>
       (ap_db (pg_app y)) = Inr cfg \<and>
     (if (cf_auth_issuer cfg = None) = (cf_auth_audience cfg = None)
      then \<exists>y'. program_start ev' instant' pf' files' = Inr y' \<and> ap_db (pg_app y') = ap_db (pg_app y) \<and>
        ap_config (pg_app y') = cfg
      else program_start ev' instant' pf' files' =
        Inl ''Auth Mini issuer and audience must be configured together'')"
proof -
  let ?db = "ap_db (pg_app y)"
  let ?boot = "\<lparr>bc_listen = DEFAULT_LISTEN, bc_data_dir = path_join home ''.openai-lb'',
       bc_database_path = path_join (path_join home ''.openai-lb'') ''openai-lb.sqlite3''\<rparr>"
  have ok: "foreign_key_violations ?db = 0" "loads ?db"
    using run_ok [OF assms(3) start_ok [OF assms(1,2), of False]]
    by (simp_all add: program_ok_def pending_ok_iff database_ok_iff)
  have boot: "bootstrap_load pf' = Inr ?boot"
    by (simp add: bootstrap_load_def in_data_dir_def pf map_err_def)
  have con: "connect pf' path = Inr ?db" for path
    by (simp add: connect_Inr pf ok)
  obtain cfg where cfg: "config_load ?boot ?db = Inr cfg" using ok(2) by (auto simp: loads_iff [of _ ?boot])
  have start: "program_start ev' instant' pf' files' =
      rbind (app_new ev' cfg ?db) (\<lambda>a. Inr \<lparr>pg_call = \<lparr>cs_app = a, cs_audit = audit_writer_new,
        cs_tracker = no_tracker, cs_requests = [], cs_files = files'\<rparr>,
        pg_monitor = monitor_new (cf_database_path cfg) instant', pg_limits = router_limits cfg,
        pg_batch = [], pg_maintenance = Idle\<rparr>)"
    by (simp add: program_start_def boot con cfg pf)
  show ?thesis
  proof (cases "(cf_auth_issuer cfg = None) = (cf_auth_audience cfg = None)")
    case True
    then have "\<exists>v. auth_manager_new (ev_verifier ev') (cf_auth_issuer cfg) (cf_auth_audience cfg) = Inr v"
      using issuer by (cases "cf_auth_issuer cfg"; cases "cf_auth_audience cfg")
        (auto simp: auth_manager_new_def rbind_Inr_iff map_err_Inr)
    then show ?thesis using cfg True by (auto simp: start app_new_def)
  next
    case False
    then have "auth_manager_new (ev_verifier ev') (cf_auth_issuer cfg) (cf_auth_audience cfg) =
        Inl ''Auth Mini issuer and audience must be configured together''"
      by (cases "cf_auth_issuer cfg"; cases "cf_auth_audience cfg") (simp_all add: auth_manager_new_def)
    then show ?thesis using cfg False by (auto simp: start app_new_def)
  qed
qed

text \<open>C7. The columns keep their types: from a database whose flags are 0 or 1, whose providers have
  one of the four statuses, an end with every cooldown, and whose circuit events are closed with a
  resolution, every run of the program, restarts included, reaches only such databases, and what the
  balancer still has to write is typed as well. So no provider is stuck in a status the selection
  does not know or in a cooldown without an end: unless it is disabled or its credential has
  failed, it is available from some moment on.\<close>

theorem program_types:
  assumes "program_start ev instant pf files = Inr y0" and "local_ok (ap_db (pg_app y0))"
    and "columns_ok (ap_db (pg_app y0))" and "program_step\<^sup>*\<^sup>* y0 y"
  shows "columns_ok (ap_db (pg_app y)) \<and> updates_typed (b_provider_updates (ap_balancer (pg_app y))) \<and>
     (\<forall>p \<in> set (db_providers (ap_db (pg_app y))).
        p_manual_disabled p = 0 \<and> p_status p \<noteq> ''disabled'' \<and> p_status p \<noteq> ''auth_error'' \<longrightarrow>
        (\<exists>t. \<forall>now \<ge> t. provider_is_available p now))"
proof -
  have "program_ok True y" using run_ok [OF assms(4) start_ok [OF assms(1,2)]] assms(3) by blast
  then have c: "columns_ok (ap_db (pg_app y))" "updates_typed (b_provider_updates (ap_balancer (pg_app y)))"
    by (simp_all add: program_ok_def pending_ok_iff pending_ok_def)
  have "\<exists>t. \<forall>now \<ge> t. provider_is_available p now"
    if "provider_typed p" "p_manual_disabled p = 0" "p_status p \<noteq> ''disabled''" "p_status p \<noteq> ''auth_error''" for p
    using that by (auto simp: provider_typed_def known_status_def provider_is_available_def)
  with c show ?thesis by (simp add: columns_ok_def)
qed

end
