(* ===== verification/System_Audit.thy ===== *)
theory System_Audit
  imports System Tracker_Facts Audit_Facts
begin

text \<open>
  The running program refines the audit pipeline: seen through its writer, its batch and its
  database, every step of the program is a run of the abstract machine of \<open>Audit_Writer\<close>, and a
  restart starts that machine again. What holds of every reachable state of the machine therefore
  holds of the program.
\<close>

section \<open>The view\<close>

text \<open>Between requests nobody holds a permit outside the queue and the batch.\<close>

definition audit_view :: "queued_audit list \<Rightarrow> queued_audit list \<Rightarrow> program \<Rightarrow> audit_machine" where
  "audit_view accepted written y =
     \<lparr>am_writer = cs_audit (pg_call y), am_held = 0, am_batch = pg_batch y, am_db = ap_db (pg_app y),
      am_accepted = accepted, am_written = written\<rparr>"

lemma view_elsewhere:
  assumes "cs_audit (pg_call y') = cs_audit (pg_call y)" and "pg_batch y' = pg_batch y"
  shows "audit_step (audit_view acc wr y) (audit_view acc wr y')"
  using audit_step.elsewhere [of "audit_view acc wr y" "ap_db (pg_app y')"] assms by (simp add: audit_view_def)

section \<open>One call\<close>

text \<open>A place is taken, then a permit if the consumer archives.\<close>

lemma admitted_steps:
  assumes "has_room (am_writer m)" and "am_held m = 0"
  shows "audit_step\<^sup>*\<^sup>* m (m\<lparr>am_writer := (am_writer m)\<lparr>aw_reserved := Suc (aw_reserved (am_writer m)),
      aw_budget := aw_budget (am_writer m) - ARCHIVE_RESERVATION_BYTES * of_bool (archives identity (am_writer m)),
      aw_dropped_archives := aw_dropped_archives (am_writer m) +
        of_bool (ai_request_archive identity \<and> \<not> archives identity (am_writer m))\<rparr>,
      am_held := of_bool (archives identity (am_writer m))\<rparr>)" (is "audit_step\<^sup>*\<^sup>* m ?m")
proof -
  let ?w = "(am_writer m)\<lparr>aw_reserved := Suc (aw_reserved (am_writer m))\<rparr>"
  have one: "audit_step m (m\<lparr>am_writer := ?w\<rparr>)"
    using audit_step.reserve [of m] assms(1) by (simp add: try_reserve_def)
  show ?thesis
  proof (cases "ai_request_archive identity")
    case True
    obtain ok w where a: "try_reserve_archive ?w = (ok, w)" by fastforce
    have "audit_step (m\<lparr>am_writer := ?w\<rparr>) ?m"
      using audit_step.archive [of "m\<lparr>am_writer := ?w\<rparr>" ok w] a True assms(2)
      by (auto simp: try_reserve_archive_def archives_def dropped_archive_def split: if_splits)
    with one show ?thesis by (blast intro: converse_rtranclp_into_rtranclp)
  next
    case False
    then have "?m = m\<lparr>am_writer := ?w\<rparr>" using assms(2) by (simp add: archives_def)
    with one show ?thesis by (metis r_into_rtranclp)
  qed
qed

lemma step_to: "audit_step m x \<Longrightarrow> x = m' \<Longrightarrow> audit_step\<^sup>*\<^sup>* m m'"
  by blast

lemma audited_steps:
  assumes once: "audited_once n identity rq (am_writer m) r w'" and held: "am_held m = 0"
  shows "\<exists>acc. audit_step\<^sup>*\<^sup>* m (m\<lparr>am_writer := w', am_accepted := acc\<rparr>)"
proof (cases "has_room (am_writer m)")
  case False
  with once have "audit_step\<^sup>*\<^sup>* m (m\<lparr>am_writer := w', am_accepted := am_accepted m\<rparr>)"
    by (intro step_to [OF audit_step.reserve]) (simp add: audited_once_def try_reserve_def)
  then show ?thesis by blast
next
  case room: True
  define b w1 where "b = archives identity (am_writer m)"
    and "w1 = (am_writer m)\<lparr>aw_reserved := Suc (aw_reserved (am_writer m)),
      aw_budget := aw_budget (am_writer m) - ARCHIVE_RESERVATION_BYTES * of_bool b,
      aw_dropped_archives := aw_dropped_archives (am_writer m) + of_bool (ai_request_archive identity \<and> \<not> b)\<rparr>"
  let ?m = "m\<lparr>am_writer := w1, am_held := of_bool b\<rparr>"
  have start: "audit_step\<^sup>*\<^sup>* m ?m"
    unfolding w1_def b_def by (rule admitted_steps [OF room held])
  have budget: "ARCHIVE_RESERVATION_BYTES * of_bool b \<le> aw_budget (am_writer m)"
    by (simp add: b_def archives_def)
  note same = once [unfolded audited_once_def, folded b_def, simplified room, simplified]
  show ?thesis
  proof (cases "r = Inl Panicked")
    case True
    define w2 where "w2 = w1\<lparr>aw_budget := aw_budget (am_writer m)\<rparr>"
    have "audit_step\<^sup>*\<^sup>* ?m (m\<lparr>am_writer := w2, am_held := 0\<rparr>)"
    proof (cases b)
      case True
      with budget show ?thesis by (intro step_to [OF audit_step.release]) (simp_all add: w2_def w1_def)
    qed (simp add: w2_def w1_def)
    moreover have "w2\<lparr>aw_reserved := aw_reserved w2 - 1\<rparr> = w'"
      using same True by (simp add: w2_def w1_def)
    then have "audit_step\<^sup>*\<^sup>* (m\<lparr>am_writer := w2, am_held := 0\<rparr>) (m\<lparr>am_writer := w', am_accepted := am_accepted m\<rparr>)"
      using held by (intro step_to [OF audit_step.abandon]) (simp_all add: w2_def w1_def)
    ultimately show ?thesis using start by (blast intro: rtranclp_trans)
  next
    case False
    then obtain e where "aw_queue w' = aw_queue (am_writer m) @ [Event e b]"
      "aw_budget w' + ARCHIVE_RESERVATION_BYTES * of_bool b = aw_budget (am_writer m)"
      using same by auto
    then have "send e b w1 = w'" using same by (simp add: send_def w1_def)
    then have "audit_step\<^sup>*\<^sup>* ?m (m\<lparr>am_writer := w', am_accepted := am_accepted m @ [Event e b]\<rparr>)"
      using held by (intro step_to [OF audit_step.sent [where e = e and b = b]]) (simp_all add: w1_def)
    with start show ?thesis by (blast intro: rtranclp_trans)
  qed
qed

section \<open>Calls of the console\<close>

definition audit_is :: "audit_writer \<Rightarrow> call_state \<Rightarrow> bool" where
  "audit_is w s \<longleftrightarrow> cs_audit s = w"

lemma audit_free: "app_free (audit_is w)" "sent_free (audit_is w)"
  by (simp_all add: audit_is_def app_free_def sent_free_def)

lemma audit_release: "audit_is w s \<Longrightarrow> audit_is w (release l s)"
  by (rule release_keeps [OF audit_free(1)])

lemma audit_tracker: "keeps (audit_is w) (on_tracker f)"
  by (rule keeps_on_tracker) (simp add: audit_is_def)

lemma audit_spool: "keeps (audit_is w) (spool_create n limit bd)"
  unfolding spool_create_def by (intro keeps_rules) (simp_all add: remove_file_def audit_is_def)

lemma audit_sends:
  "keeps (audit_is w) (send_transcription_upstream n l inbound bd)"
  "keeps (audit_is w) (send_console_image_upstream n l inbound bd)"
  unfolding send_transcription_upstream_def send_console_image_upstream_def
  by (intro keeps_rules audit_free audit_tracker)+

lemma audit_calls:
  "keeps (audit_is w) (handle_models n headers)"
  "keeps (audit_is w) (handle_console_transcription n headers chunks)"
  "keeps (audit_is w) (handle_console_image_generation n headers bd)"
proof -
  show "keeps (audit_is w) (handle_models n headers)"
    unfolding handle_models_def by (intro keeps_rules)
  show "keeps (audit_is w) (handle_console_transcription n headers chunks)"
    unfolding handle_console_transcription_def Let_def
    by (intro keeps_rules keeps_ready keeps_attempt audit_free audit_release audit_spool audit_sends)
      (simp_all add: remove_file_def audit_is_def)
  show "keeps (audit_is w) (handle_console_image_generation n headers bd)"
    unfolding handle_console_image_generation_def Let_def
    by (intro keeps_rules keeps_ready keeps_attempt audit_free audit_release audit_sends)
qed

lemma audit_kept: "(\<And>w. keeps (audit_is w) m) \<Longrightarrow> cs_audit (snd (m s)) = cs_audit s"
  by (auto simp: keeps_def audit_is_def)

section \<open>The simulation\<close>

text \<open>A call whose handler leaves one event or none.\<close>

lemma call_refines:
  assumes "serve n h (pg_call y) = (r, s')"
    and out: "case api_identity sha db hs of Inl err \<Rightarrow> r = Inl (Failed err) \<and> s' = pg_call y
      | Inr identity \<Rightarrow> audited_once n identity rq (cs_audit (pg_call y)) r (cs_audit s')"
  shows "\<exists>acc'. audit_step\<^sup>*\<^sup>* (audit_view acc wr y) (audit_view acc' wr (y\<lparr>pg_call := s'\<rparr>))"
proof (cases "api_identity sha db hs")
  case (Inl err)
  then show ?thesis using out by (intro exI [of _ acc]) simp
next
  case (Inr identity)
  let ?m = "audit_view acc wr y"
  from Inr out obtain acc' where "audit_step\<^sup>*\<^sup>* ?m (?m\<lparr>am_writer := cs_audit s', am_accepted := acc'\<rparr>)"
    using audited_steps [of n identity rq ?m r "cs_audit s'"] by (auto simp: audit_view_def)
  moreover have "audit_step\<^sup>*\<^sup>* (?m\<lparr>am_writer := cs_audit s', am_accepted := acc'\<rparr>) (audit_view acc' wr (y\<lparr>pg_call := s'\<rparr>))"
    by (intro step_to [OF audit_step.elsewhere [where db = "ap_db (cs_app s')"]]) (simp add: audit_view_def)
  ultimately show ?thesis by (blast intro: rtranclp_trans)
qed

lemma quiet_refines:
  assumes "cs_audit (pg_call y') = cs_audit (pg_call y)" and "pg_batch y' = pg_batch y"
  shows "\<exists>acc' wr'. audit_step\<^sup>*\<^sup>* (audit_view acc wr y) (audit_view acc' wr' y')"
  using view_elsewhere [OF assms] by blast

lemma with_app_audit [simp]:
  "cs_audit (pg_call (with_app a y)) = cs_audit (pg_call y)" "pg_batch (with_app a y) = pg_batch y"
  "cs_audit (pg_call (on_database f y)) = cs_audit (pg_call y)" "pg_batch (on_database f y) = pg_batch y"
  by (simp_all add: with_app_def on_database_def)

lemma start_audit:
  assumes "program_start ev instant pf files = Inr y"
  shows "audit_view [] [] y = machine_start (ap_db (pg_app y))"
  using assms by (auto simp: program_start_def rbind_Inr_iff audit_view_def machine_start_def)

lemma response_transport_cases:
  "response_transport ev tid hs cs w = w \<or>
     (\<exists>id k enc h. response_transport ev tid hs cs w = record_response_transport id k enc h w)"
  by (cases tid; cases "transport_bytes cs 0") (auto simp: response_transport_def)

lemma step_refines:
  "program_step y y' \<Longrightarrow>
     (\<exists>acc' wr'. audit_step\<^sup>*\<^sup>* (audit_view acc wr y) (audit_view acc' wr' y')) \<or>
     audit_view [] [] y' = machine_start (ap_db (pg_app y'))"
proof (induction rule: program_step.induct)
  case (json rq bl y bd n)
  obtain r s' where run: "serve n (handle_json n rq bd) (pg_call y) = (r, s')" by fastforce
  show ?case unfolding run snd_conv using call_refines [OF run json_audited [OF run], of acc wr] by blast
next
  case (audio rq bl y n cs)
  let ?cs = "limited (pg_limits y) bl cs"
  obtain r s' where run: "serve n (handle_audio n rq ?cs) (pg_call y) = (r, s')" by fastforce
  show ?case unfolding run snd_conv using call_refines [OF run audio_audited [OF run], of acc wr] by blast
next
  case (transport y ev tid hs cs)
  let ?m = "audit_view acc wr y" and ?w = "response_transport ev tid hs cs (cs_audit (pg_call y))"
  consider "?w = cs_audit (pg_call y)"
    | id k enc h where "?w = record_response_transport id k enc h (cs_audit (pg_call y))"
    using response_transport_cases by blast
  then show ?case
  proof cases
    case 1
    then show ?thesis by (intro disjI1 quiet_refines) simp_all
  next
    case 2
    let ?acc = "if has_room (am_writer ?m) then acc @ [ResponseTransport id k enc h] else acc"
    have "audit_step\<^sup>*\<^sup>* ?m (audit_view ?acc wr (y\<lparr>pg_call := (pg_call y)\<lparr>cs_audit := ?w\<rparr>\<rparr>))"
      by (intro step_to [OF audit_step.transport [where cid = id and n = k and enc = enc and h = h]])
        (simp add: audit_view_def 2)
    then show ?thesis by blast
  qed
next
  case (take y q qs)
  have "audit_step\<^sup>*\<^sup>* (audit_view acc wr y) (audit_view acc wr (y\<lparr>pg_call := (pg_call y)
      \<lparr>cs_audit := (cs_audit (pg_call y))\<lparr>aw_queue := qs\<rparr>\<rparr>, pg_batch := pg_batch y @ [q]\<rparr>))"
    by (rule step_to [OF audit_step.take [where q = q and qs = qs]]) (simp_all add: audit_view_def take)
  then show ?case by blast
next
  case (written now y db)
  let ?y = "(on_database (\<lambda>_. db) (y\<lparr>pg_call := (pg_call y)\<lparr>cs_audit := (cs_audit (pg_call y))\<lparr>aw_budget :=
      aw_budget (cs_audit (pg_call y)) + ARCHIVE_RESERVATION_BYTES * permits (pg_batch y)\<rparr>\<rparr>\<rparr>))\<lparr>pg_batch := []\<rparr>"
  show ?case
  proof (cases "pg_batch y = []")
    case True
    then show ?thesis by (intro disjI1 quiet_refines) simp_all
  next
    case False
    have "audit_step\<^sup>*\<^sup>* (audit_view acc wr y) (audit_view acc (wr @ pg_batch y) ?y)"
      by (rule step_to [OF audit_step.written [where now = now and db = db]])
        (simp_all add: audit_view_def on_database_def with_app_def written False)
    then show ?thesis by blast
  qed
next
  case (restart pf y home ev instant y')
  then show ?case using start_audit by blast
qed (intro disjI1 quiet_refines; simp add: audit_kept audit_calls)+

text \<open>Between requests no place is reserved.\<close>

lemma audited_reserved: "audited_once n identity rq w r w' \<Longrightarrow> aw_reserved w' = aw_reserved w"
  by (simp add: audited_once_def dropped_def split: if_splits)

lemma step_reserved:
  "program_step y y' \<Longrightarrow> aw_reserved (cs_audit (pg_call y)) = 0 \<Longrightarrow> aw_reserved (cs_audit (pg_call y')) = 0"
proof (induction rule: program_step.induct)
  case (json rq bl y bd n)
  obtain r s' where run: "serve n (handle_json n rq bd) (pg_call y) = (r, s')" by fastforce
  from json_audited [OF run] json.prems show ?case by (auto simp: run audited_reserved split: sum.splits)
next
  case (audio rq bl y n cs)
  obtain r s' where run: "serve n (handle_audio n rq (limited (pg_limits y) bl cs)) (pg_call y) = (r, s')" by fastforce
  from audio_audited [OF run] audio.prems show ?case by (auto simp: run audited_reserved split: sum.splits)
next
  case (transport y ev tid hs cs)
  then show ?case
    by (simp add: response_transport_def record_response_transport_def dropped_def split: option.split)
next
  case (restart pf y home ev instant y')
  then show ?case
    by (auto simp: program_start_def rbind_Inr_iff audit_writer_new_def)
qed (simp_all add: audit_kept audit_calls on_database_def with_app_def)


end
