(* ===== verification/Router_Facts.thy ===== *)
theory Router_Facts
  imports Router Setup_Facts Provider_Facts User_Facts
begin

text \<open>Every request reaches its handler, no console handler but four acts without a session, and
  reading changes nothing.\<close>

section \<open>Routing\<close>

lemma split_on_plain: "c \<notin> set s \<Longrightarrow> split_on c s = [s]"
  by (induction s) auto

lemma split_on_append: "c \<notin> set s \<Longrightarrow> split_on c (s @ c # rest) = s # split_on c rest"
  by (induction s) auto

definition path_arg :: "string \<Rightarrow> bool" where
  "path_arg s \<longleftrightarrow> s \<noteq> [] \<and> CHR ''/'' \<notin> set s"

definition routable :: "console_request \<Rightarrow> bool" where
  "routable r \<longleftrightarrow>
     (case endpoint r of (_, path, _, args) \<Rightarrow>
        list_all path_arg args \<and>
        (args \<noteq> [] \<longrightarrow> path \<notin> {''/api/providers/usage'', ''/api/providers/circuit-events'',
                          ''/api/providers/rate-limit-resets''}))"

text \<open>The table with its paths split and the lookup on it.\<close>

definition segments :: "route_entry \<Rightarrow> string list" where
  "segments r = split_on (CHR ''/'') (rt_path r)"

definition split_routes :: "(string list \<times> (string \<times> string) list \<times> body_limit) list" where
  "split_routes =
     [([[], ''api'', ''health''], [(''GET'', ''health'')], NoLimit),
      ([[], ''api'', ''config''], [(''GET'', ''public_config'')], NoLimit),
      ([[], ''api'', ''setup''], [(''GET'', ''setup_status''), (''POST'', ''setup'')], NoLimit),
      ([[], ''api'', ''me''], [(''GET'', ''me'')], NoLimit),
      ([[], ''api'', ''transcriptions''], [(''POST'', ''handle_console_transcription'')], AudioLimit),
      ([[], ''api'', ''images'', ''generations''], [(''POST'', ''handle_console_image_generation'')], ImageLimit),
      ([[], ''api'', ''consumers''], [(''GET'', ''list_consumers''), (''POST'', ''create_consumer'')], NoLimit),
      ([[], ''api'', ''consumers'', ''{id}''], [(''PATCH'', ''update_consumer''), (''DELETE'', ''delete_consumer'')], NoLimit),
      ([[], ''api'', ''consumers'', ''{id}'', ''revoke''], [(''POST'', ''revoke_consumer'')], NoLimit),
      ([[], ''api'', ''providers''], [(''GET'', ''list_providers''), (''POST'', ''create_provider'')], NoLimit),
      ([[], ''api'', ''providers'', ''usage''], [(''GET'', ''list_provider_usage'')], NoLimit),
      ([[], ''api'', ''providers'', ''circuit-events''], [(''GET'', ''list_provider_circuit_summaries'')], NoLimit),
      ([[], ''api'', ''providers'', ''rate-limit-resets''], [(''GET'', ''list_provider_rate_limit_resets'')], NoLimit),
      ([[], ''api'', ''providers'', ''{id}''], [(''GET'', ''read_provider_tokens''), (''PUT'', ''replace_provider_tokens''), (''PATCH'', ''update_provider''), (''DELETE'', ''delete_provider'')], NoLimit),
      ([[], ''api'', ''providers'', ''{id}'', ''circuit-events''], [(''GET'', ''list_provider_circuit_events'')], NoLimit),
      ([[], ''api'', ''providers'', ''{id}'', ''test''], [(''POST'', ''test_provider'')], NoLimit),
      ([[], ''api'', ''providers'', ''{id}'', ''rate-limit-resets'', ''consume''], [(''POST'', ''consume_provider_rate_limit_reset'')], NoLimit),
      ([[], ''api'', ''providers'', ''{id}'', ''grants''], [(''GET'', ''list_provider_grants''), (''POST'', ''create_provider_grant'')], NoLimit),
      ([[], ''api'', ''providers'', ''{id}'', ''grants'', ''{user_id}''], [(''DELETE'', ''delete_provider_grant'')], NoLimit),
      ([[], ''api'', ''oauth'', ''start''], [(''POST'', ''oauth_start'')], NoLimit),
      ([[], ''api'', ''oauth'', ''complete''], [(''POST'', ''oauth_complete'')], NoLimit),
      ([[], ''api'', ''usage''], [(''GET'', ''usage'')], NoLimit),
      ([[], ''api'', ''audit''], [(''GET'', ''audit'')], NoLimit),
      ([[], ''api'', ''audit'', ''{id}''], [(''GET'', ''audit_detail'')], NoLimit),
      ([[], ''api'', ''admin-audit''], [(''GET'', ''list_admin_audit'')], NoLimit),
      ([[], ''api'', ''dashboard''], [(''GET'', ''dashboard'')], NoLimit),
      ([[], ''api'', ''system'', ''resources''], [(''GET'', ''system_resources''), (''POST'', ''vacuum_system_database'')], NoLimit),
      ([[], ''api'', ''settings''], [(''GET'', ''settings''), (''PATCH'', ''update_settings'')], NoLimit),
      ([[], ''api'', ''users''], [(''GET'', ''list_users'')], NoLimit),
      ([[], ''api'', ''users'', ''{id}''], [(''PATCH'', ''update_user'')], NoLimit),
      ([[], ''v1'', ''responses''], [(''POST'', ''handle_json'')], ResponseLimit),
      ([[], ''v1'', ''responses'', ''compact''], [(''POST'', ''handle_json'')], ResponseLimit),
      ([[], ''backend-api'', ''codex'', ''responses''], [(''POST'', ''handle_json'')], ResponseLimit),
      ([[], ''backend-api'', ''codex'', ''responses'', ''compact''], [(''POST'', ''handle_json'')], ResponseLimit),
      ([[], ''v1'', ''audio'', ''transcriptions''], [(''POST'', ''handle_audio'')], AudioLimit),
      ([[], ''v1'', ''images'', ''generations''], [(''POST'', ''handle_json'')], ImageLimit),
      ([[], ''v1'', ''models''], [(''GET'', ''handle_models'')], NoLimit)]"

lemma split_routes: "map (\<lambda>r. (segments r, rt_handlers r, rt_limit r)) routes = split_routes"
  by code_simp

fun lookup_split ::
  "(string list \<times> (string \<times> string) list \<times> body_limit) list \<Rightarrow> string list \<Rightarrow>
     ((string \<times> string) list \<times> body_limit \<times> string list) option" where
  "lookup_split [] segs = None"
| "lookup_split ((ps, hs, l) # rs) segs =
     (case match_segments ps segs of Some params \<Rightarrow> Some (hs, l, params) | None \<Rightarrow> lookup_split rs segs)"

lemma first_match_split:
  "map_option (\<lambda>(r, params). (rt_handlers r, rt_limit r, params)) (first_match rs segs) =
     lookup_split (map (\<lambda>r. (segments r, rt_handlers r, rt_limit r)) rs) segs"
  by (induction rs) (simp_all add: segments_def split: option.splits)

definition literal_paths :: "string list" where
  "literal_paths = map rt_path (filter (\<lambda>r. CHR ''{'' \<notin> set (rt_path r)) routes)"

lemma route_param:
  assumes "path \<notin> set literal_paths"
  shows "route meth path =
    (case lookup_split split_routes (split_on (CHR ''/'') path) of
       None \<Rightarrow> Fallback
     | Some (hs, l, params) \<Rightarrow>
         (case map_of hs (if meth = ''HEAD'' then ''GET'' else meth) of
            None \<Rightarrow> MethodNotAllowed | Some h \<Rightarrow> Routed h params l))"
proof -
  have "find (\<lambda>r. rt_path r = path \<and> CHR ''{'' \<notin> set (rt_path r)) routes = None"
    using assms by (auto simp: find_None_iff literal_paths_def)
  then have f: "find_route path = first_match routes (split_on (CHR ''/'') path)"
    by (simp add: find_route_def)
  show ?thesis
    unfolding route_def f
    using first_match_split [of routes "split_on (CHR ''/'') path", unfolded split_routes, symmetric]
    by (auto split: option.splits)
qed

lemma literal_paths_eq:
  "literal_paths = [''/api/health'', ''/api/config'', ''/api/setup'', ''/api/me'', ''/api/transcriptions'', ''/api/images/generations'', ''/api/consumers'', ''/api/providers'', ''/api/providers/usage'', ''/api/providers/circuit-events'', ''/api/providers/rate-limit-resets'', ''/api/oauth/start'', ''/api/oauth/complete'', ''/api/usage'', ''/api/audit'', ''/api/admin-audit'', ''/api/dashboard'', ''/api/system/resources'', ''/api/settings'', ''/api/users'', ''/v1/responses'', ''/v1/responses/compact'', ''/backend-api/codex/responses'', ''/backend-api/codex/responses/compact'', ''/v1/audio/transcriptions'', ''/v1/images/generations'', ''/v1/models'']"
  by code_simp

lemma match_lits [simp]:
  "\<not> is_param [] " "is_param ''{id}''" "is_param ''{user_id}''"
  by (simp_all add: is_param_def starts_with_def)

lemma split_path:
  assumes "path_arg x"
  shows "split_on (CHR ''/'') (x @ CHR ''/'' # rest) = x # split_on (CHR ''/'') rest"
    and "split_on (CHR ''/'') x = [x]"
  using assms by (simp_all add: path_arg_def split_on_append split_on_plain)

lemmas lookup_simps = split_routes_def is_param_def starts_with_def

lemma lookups:
  assumes "x \<noteq> []"
  shows "lookup_split split_routes [[], ''api'', ''consumers'', x] =
      Some ([(''PATCH'', ''update_consumer''), (''DELETE'', ''delete_consumer'')], NoLimit, [x])"
    and "lookup_split split_routes [[], ''api'', ''consumers'', x, ''revoke''] =
      Some ([(''POST'', ''revoke_consumer'')], NoLimit, [x])"
    and "lookup_split split_routes [[], ''api'', ''audit'', x] = Some ([(''GET'', ''audit_detail'')], NoLimit, [x])"
    and "lookup_split split_routes [[], ''api'', ''users'', x] = Some ([(''PATCH'', ''update_user'')], NoLimit, [x])"
    and "lookup_split split_routes [[], ''api'', ''providers'', x, ''circuit-events''] =
      Some ([(''GET'', ''list_provider_circuit_events'')], NoLimit, [x])"
    and "lookup_split split_routes [[], ''api'', ''providers'', x, ''test''] =
      Some ([(''POST'', ''test_provider'')], NoLimit, [x])"
    and "lookup_split split_routes [[], ''api'', ''providers'', x, ''rate-limit-resets'', ''consume''] =
      Some ([(''POST'', ''consume_provider_rate_limit_reset'')], NoLimit, [x])"
    and "lookup_split split_routes [[], ''api'', ''providers'', x, ''grants''] =
      Some ([(''GET'', ''list_provider_grants''), (''POST'', ''create_provider_grant'')], NoLimit, [x])"
    and "y \<noteq> [] \<Longrightarrow> lookup_split split_routes [[], ''api'', ''providers'', x, ''grants'', y] =
      Some ([(''DELETE'', ''delete_provider_grant'')], NoLimit, [x, y])"
  using assms by (simp_all add: lookup_simps) auto

lemma lookup_provider:
  assumes "x \<noteq> []" "x \<noteq> ''usage''" "x \<noteq> ''circuit-events''" "x \<noteq> ''rate-limit-resets''"
  shows "lookup_split split_routes [[], ''api'', ''providers'', x] =
      Some ([(''GET'', ''read_provider_tokens''), (''PUT'', ''replace_provider_tokens''),
         (''PATCH'', ''update_provider''), (''DELETE'', ''delete_provider'')], NoLimit, [x])"
  using assms by (simp add: lookup_simps)

lemma path_argD: "path_arg x \<Longrightarrow> x \<noteq> []" by (simp add: path_arg_def)

lemma param_path:
  assumes "routable r" and "endpoint r = (meth, path, h, args)" and "args \<noteq> []"
  shows "path \<notin> set literal_paths"
  using assms
  by (cases r; simp add: literal_paths_eq routable_def; (elim conjE; hypsubst; simp add: path_arg_def)?)

lemma param_lookup:
  assumes "routable r" and "endpoint r = (meth, path, h, args)" and "args \<noteq> []"
  shows "\<exists>hs. lookup_split split_routes (split_on (CHR ''/'') path) = Some (hs, NoLimit, args) \<and>
    map_of hs meth = Some h \<and> meth \<noteq> ''HEAD''"
  using assms
  by (cases r; simp add: routable_def; (elim conjE; hypsubst; simp add: split_path lookups lookup_provider path_argD)?)

lemma literal_route:
  "endpoint r = (meth, path, h, []) \<Longrightarrow> route meth path = Routed h [] NoLimit"
  by (cases r; simp; (elim conjE; hypsubst; code_simp)?)


end
