(* ===== verification/Console_Facts.thy ===== *)
theory Console_Facts
  imports Router Setup_Facts Provider_Facts User_Facts
begin

text \<open>Who may use the console, and what reading it changes.\<close>

section \<open>Sessions\<close>

lemma session_fails: "session ev hs s = (Inl e, s1) \<Longrightarrow> s1 = s"
proof -
  assume run: "session ev hs s = (Inl e, s1)"
  then obtain db where db: "browser_identity (ev_now ev) (ap_verifier s) hs (ap_db s) = (Inl e, db)"
    and s1: "s1 = s\<lparr>ap_db := db\<rparr>"
    by (auto simp: session_def on_db_def Let_def split: prod.splits)
  have found: "user_row_of (insert_user now uid d) uid \<noteq> None" for now uid d
    by (auto simp: user_row_of_def find_None_iff insert_user_def user_exists_def)
  have "db = ap_db s"
    using db found
    by (auto simp: browser_identity_def sbind_Inl_iff upsert_user_def slift_def rbind_def ok_or_def split: option.splits)
  then show ?thesis by (simp add: s1)
qed

lemmas session_handlers = api_usage_def api_audit_def audit_detail_def list_admin_audit_def dashboard_def me_def
  list_consumers_def create_consumer_def update_consumer_def revoke_consumer_def delete_consumer_def
  list_providers_def list_provider_circuit_events_def list_provider_circuit_summaries_def create_provider_def
  update_provider_def read_provider_tokens_def replace_provider_tokens_def list_provider_usage_def
  list_provider_rate_limit_resets_def test_provider_def consume_provider_rate_limit_reset_def
  delete_provider_def list_provider_grants_def create_provider_grant_def delete_provider_grant_def
  api_oauth_start_def oauth_complete_def settings_def update_settings_def list_users_def update_user_def
  manager_def

lemma console_session_fails:
  assumes "\<not> needs_no_session r" and "session ev hs s = (Inl e, s1)"
  shows "console ev date ip hs r s = (Inl e, s)"
proof -
  have run: "session ev hs s = (Inl e, s)" using assms(2) session_fails by fastforce
  have stop: "sbind (session ev hs) f s = (Inl e, s)" for f :: "_ \<Rightarrow> 'b app_handler"
    by (simp add: sbind_def run)
  show ?thesis
    using assms(1)
    by (cases r) (simp_all only: console.simps session_handlers needs_no_session_def sbind_assoc stop
        console_request.case simp_thms)
qed

section \<open>Roles\<close>

definition for_admins :: "console_request \<Rightarrow> bool" where
  "for_admins r \<longleftrightarrow> (case r of ListAdminAudit _ _ \<Rightarrow> True | ListUsers \<Rightarrow> True | UpdateUser _ _ _ _ \<Rightarrow> True | _ \<Rightarrow> False)"

definition for_root :: "console_request \<Rightarrow> bool" where
  "for_root r \<longleftrightarrow> (case r of UpdateSettings _ \<Rightarrow> True | _ \<Rightarrow> False)"

lemma console_forbidden:
  assumes run: "session ev hs s = (Inr u, s1)"
    and no: "for_admins r \<and> \<not> is_admin u \<or> for_root r \<and> ui_role u \<noteq> ''root''"
  shows "\<exists>m. console ev date ip hs r s = (Inl (forbidden m), s1)"
proof -
  have go: "sbind (session ev hs) f s = f u s1" for f :: "_ \<Rightarrow> 'b app_handler"
    by (simp add: sbind_def run)
  show ?thesis
    using no
    by (cases r;
        simp add: for_admins_def for_root_def session_handlers go require_admin_def require_root_def ensure_def;
        blast?)
qed

section \<open>Reading\<close>

definition reads :: "console_request \<Rightarrow> bool" where
  "reads r \<longleftrightarrow> fst (endpoint r) = ''GET'' \<and> (\<forall>pid. r \<noteq> ReadProviderTokens pid)"

lemma keeps_here [keeps_rules]: "keeps P (db_get g)"
  by (simp add: keeps_def)

lemma keeps_manager [keeps_rules]: "keeps P (require_provider_manager u pid)"
  unfolding require_provider_manager_def by (intro keeps_rules)

lemma reads_session:
  assumes rest: "\<And>u P. keeps P (f u)"
  shows "\<exists>db. snd (sbind (session ev hs) f s) = s\<lparr>ap_db := db\<rparr> \<and>
    (db = ap_db s \<or> (\<exists>uid. db = insert_user (ev_now ev) uid (ap_db s)))"
proof -
  obtain r s1 where run: "session ev hs s = (r, s1)" by (cases "session ev hs s")
  have "snd (sbind (session ev hs) f s) = s1"
  proof (cases r)
    case (Inr u)
    have "keeps (\<lambda>x. x = s1) (f u)" by (rule rest)
    then show ?thesis using run Inr by (simp add: sbind_def keeps_def)
  qed (use run in \<open>simp add: sbind_def\<close>)
  with session_state [of ev hs s] show ?thesis by (simp add: run)
qed

lemma console_reads:
  assumes "reads r"
  shows "\<exists>db. snd (console ev date ip hs r s) = s\<lparr>ap_db := db\<rparr> \<and>
    (db = ap_db s \<or> (\<exists>uid. db = insert_user (ev_now ev) uid (ap_db s)))"
proof -
  have here: "\<exists>db. s = s\<lparr>ap_db := db\<rparr> \<and> (db = ap_db s \<or> (\<exists>uid. db = insert_user (ev_now ev) uid (ap_db s)))"
    by (intro exI [of _ "ap_db s"]) simp
  have open_ones: "snd (public_config s) = s" "snd (setup_status s) = s" "snd (sreturn health s) = s"
    by (simp_all add: public_config_def setup_status_def setup_required_def sbind_def split: sum.split)
  show ?thesis
    by (insert assms here, cases r; simp add: reads_def open_ones session_handlers;
        (rule reads_session; intro keeps_rules)?)
qed


end
