(* ===== verification/Resource_Facts.thy ===== *)
theory Resource_Facts
  imports Resources
begin

text \<open>The numbers of a snapshot: bounds of the percentages and rates, and the disk that is chosen.\<close>

section \<open>Percentages\<close>

lemma as_f64_bounds: "0 \<le> as_f64 a \<and> (a \<noteq> 0 \<longrightarrow> 1 \<le> as_f64 a)"
proof -
  have "(1::rat) \<le> f64 (of_nat (unat a))" if "a \<noteq> 0"
  proof -
    have "1 \<le> unat a" using that by (simp add: Suc_le_eq unat_gt_0)
    then have "(1::rat) \<le> of_nat (unat a)" by (simp del: of_nat_unat)
    then have "f64 1 \<le> f64 (of_nat (unat a))" by (intro f64_mono) simp_all
    then show ?thesis using f64_int [of 1] by simp
  qed
  moreover have "0 \<le> f64 (of_nat (unat a))" by (rule f64_nonneg) (simp del: of_nat_unat)
  ultimately show ?thesis by (simp add: as_f64_def del: of_nat_unat)
qed

lemma as_f64_mono: "a \<le> b \<Longrightarrow> as_f64 a \<le> as_f64 b"
  unfolding as_f64_def by (rule f64_mono) (simp_all add: word_le_nat_alt del: of_nat_unat)

lemma percentage_mono:
  assumes "used \<le> used'" shows "percentage used whole \<le> percentage used' whole"
proof (cases "whole = 0")
  case False
  then have w: "0 < as_f64 whole" using as_f64_bounds [of whole] by linarith
  have "f64 (as_f64 used / as_f64 whole) \<le> f64 (as_f64 used' / as_f64 whole)"
    using w as_f64_bounds [of used] as_f64_mono [OF assms] by (intro f64_mono divide_right_mono) simp_all
  moreover have "0 \<le> f64 (as_f64 used / as_f64 whole)"
    using w as_f64_bounds [of used] by (intro f64_nonneg) simp
  ultimately show ?thesis using False by (simp add: percentage_def f64_mono)
qed (simp add: percentage_def)

lemma percentage_full: "whole \<noteq> 0 \<Longrightarrow> percentage whole whole = 100"
proof -
  assume w: "whole \<noteq> 0"
  then have "as_f64 whole / as_f64 whole = 1" using as_f64_bounds [of whole] by simp
  then show ?thesis using w f64_int [of 1] f64_int [of 100] by (simp add: percentage_def)
qed

lemma percentage_nonneg: "0 \<le> percentage used whole"
proof -
  have "percentage 0 whole = 0" by (simp add: percentage_def as_f64_def)
  then show ?thesis using percentage_mono [of 0 used whole] by simp
qed

lemma percentage_le: "used \<le> whole \<Longrightarrow> percentage used whole \<le> 100"
  using percentage_mono [of used whole whole] percentage_full [of whole]
  by (cases "whole = 0") (simp_all add: percentage_def)

section \<open>Saturation\<close>

lemma unat_sat_sub: "unat (u64_sat_sub a b) = unat a - unat b"
  by (simp add: u64_sat_sub_def unat_sub_if' word_le_nat_alt)

lemma unat_max: "unat (- 1 :: u64) = 2 ^ 64 - 1"
  by (simp add: unsigned_minus_1_eq_mask mask_eq_exp_minus_1)

lemma unat_sat_add: "unat (u64_sat_add a b) = min (unat a + unat b) (2 ^ 64 - 1)"
  by (auto simp: u64_sat_add_def unat_max unat_add_lem [symmetric])

lemma unat_sat_mul: "unat (u64_sat_mul a b) = min (unat a * unat b) (2 ^ 64 - 1)"
  by (auto simp: u64_sat_mul_def unat_max unat_mult_lem [symmetric])

section \<open>The disk\<close>

lemma max_by_key_None [simp]: "max_by_key k xs = None \<longleftrightarrow> xs = []"
  by (cases xs) (auto split: option.splits)

lemma max_by_key_SomeD: "max_by_key k xs = Some x \<Longrightarrow> x \<in> set xs \<and> (\<forall>y \<in> set xs. k y \<le> k x)"
  by (induction xs arbitrary: x) (fastforce split: option.splits if_splits)+

lemma disk_usage_None: "disk_usage disks path = None \<longleftrightarrow> (\<forall>d \<in> set disks. \<not> holds_database path d)"
proof -
  let ?k = "\<lambda>d. length (path_components (dk_mount_point d))"
  have "disk_usage disks path = None \<longleftrightarrow> max_by_key ?k (filter (holds_database path) disks) = None"
    unfolding disk_usage_def by (cases "max_by_key ?k (filter (holds_database path) disks)") (simp_all add: Let_def)
  then show ?thesis by (simp add: filter_empty_conv)
qed

lemma disk_usage_Some:
  assumes "disk_usage disks path = Some s"
  shows "\<exists>d \<in> set disks. holds_database path d \<and> dsk_mount_point s = dk_mount_point d \<and>
    dsk_total_bytes s = dk_total_space d \<and> dsk_available_bytes s = dk_available_space d \<and>
    (\<forall>d' \<in> set disks. holds_database path d' \<longrightarrow>
       length (path_components (dk_mount_point d')) \<le> length (path_components (dk_mount_point d)))"
  using assms by (auto simp: disk_usage_def Let_def dest!: max_by_key_SomeD split: option.splits)

lemma disk_usage_bounds:
  assumes "disk_usage disks path = Some s"
  shows "unat (dsk_used_bytes s) = unat (dsk_total_bytes s) - unat (dsk_available_bytes s) \<and>
    0 \<le> dsk_usage_percent s \<and> dsk_usage_percent s \<le> 100"
proof -
  have "u64_sat_sub a b \<le> a" for a b
    by (simp add: word_le_nat_alt unat_sat_sub)
  then show ?thesis
    using assms
    by (auto simp: disk_usage_def Let_def unat_sat_sub percentage_nonneg intro!: percentage_le split: option.splits)
qed

section \<open>The database files\<close>

lemma u64_of_column_Inr: "u64_of_column n = Inr w \<longleftrightarrow> 0 \<le> n \<and> w = word_of_int n"
  by (auto simp: u64_of_column_def)

lemma sqlite_usage_Inr:
  "sqlite_usage rd path = Inr s \<Longrightarrow>
     unat (sq_total_bytes s) =
       min (unat (sq_main_bytes s) + unat (sq_wal_bytes s) + unat (sq_shm_bytes s)) (2 ^ 64 - 1) \<and>
     (\<exists>c0 c1 c2. rd_pragmas rd = Some (c0, c1, c2) \<and> 0 \<le> c0 \<and> 0 \<le> c1 \<and> 0 \<le> c2 \<and>
        sq_freelist_bytes s = u64_sat_mul (word_of_int c0) (word_of_int c2) \<and>
        sq_freelist_percent s = percentage (word_of_int c2) (word_of_int c1))"
  by (auto simp: sqlite_usage_def sqlite_file_usage_def rbind_Inr_iff u64_of_column_Inr unat_sat_add min_def
      split: option.splits)

lemma percentage_columns:
  assumes "0 \<le> f" "f \<le> n" "n < 2 ^ 63"
  shows "percentage (word_of_int f) (word_of_int n) \<le> 100"
proof (rule percentage_le)
  show "(word_of_int f :: u64) \<le> word_of_int n"
    using assms by (simp add: word_le_def uint_word_of_int)
qed

text \<open>What a snapshot shows is in range: the disk it names is one that holds the database, the
  deepest mount of those, with a used share between 0 and 100 percent, and there is none only when
  no mount holds the database; the sizes of the three database files add up, up to the greatest
  \<open>u64\<close>, the unused pages are at most all of them, what is not this process's memory is the rest of
  the used memory, and the monitor remembers when it sampled.\<close>

theorem resource_snapshot_sound:
  assumes "sample rd m = (Inr sn, m')"
  shows "rm_last_sample m' = rd_instant rd \<and> rm_database_path m' = rm_database_path m \<and>
    (case sn_disk sn of
       None \<Rightarrow> \<forall>d \<in> set (rd_disks rd). \<not> holds_database (rm_database_path m) d
     | Some s \<Rightarrow>
         (\<exists>d \<in> set (rd_disks rd). holds_database (rm_database_path m) d \<and> dsk_mount_point s = dk_mount_point d \<and>
            dsk_total_bytes s = dk_total_space d \<and> dsk_available_bytes s = dk_available_space d \<and>
            (\<forall>d' \<in> set (rd_disks rd). holds_database (rm_database_path m) d' \<longrightarrow>
               length (path_components (dk_mount_point d')) \<le> length (path_components (dk_mount_point d)))) \<and>
         unat (dsk_used_bytes s) = unat (dsk_total_bytes s) - unat (dsk_available_bytes s) \<and>
         0 \<le> dsk_usage_percent s \<and> dsk_usage_percent s \<le> 100) \<and>
    unat (sq_total_bytes (sn_sqlite sn)) =
      min (unat (sq_main_bytes (sn_sqlite sn)) + unat (sq_wal_bytes (sn_sqlite sn)) + unat (sq_shm_bytes (sn_sqlite sn)))
        (2 ^ 64 - 1) \<and>
    (\<exists>c0 c1 c2. rd_pragmas rd = Some (c0, c1, c2) \<and> 0 \<le> sq_freelist_percent (sn_sqlite sn) \<and>
       (c2 \<le> c1 \<and> c1 < 2 ^ 63 \<longrightarrow> sq_freelist_percent (sn_sqlite sn) \<le> 100)) \<and>
    unat (mem_other_used_bytes (sn_memory sn)) =
      unat (rd_used_memory rd) - unat (unwrap_or (rd_process_memory rd) 0) \<and>
    0 \<le> mem_usage_percent (sn_memory sn) \<and>
    (rd_used_memory rd \<le> rd_total_memory rd \<longrightarrow> mem_usage_percent (sn_memory sn) \<le> 100)"
proof -
  let ?path = "rm_database_path m"
  from assms obtain sq where sq: "sqlite_usage rd ?path = Inr sq" and f: "sn_sqlite sn = sq"
      "sn_disk sn = disk_usage (rd_disks rd) ?path"
      "mem_other_used_bytes (sn_memory sn) = u64_sat_sub (rd_used_memory rd) (unwrap_or (rd_process_memory rd) 0)"
      "mem_usage_percent (sn_memory sn) = percentage (rd_used_memory rd) (rd_total_memory rd)"
    and m: "m' = m\<lparr>rm_last_sample := rd_instant rd\<rparr>"
    by (auto simp: sample_def Let_def rbind_Inr_iff)
  have d: "case disk_usage (rd_disks rd) ?path of None \<Rightarrow> \<forall>d \<in> set (rd_disks rd). \<not> holds_database ?path d
     | Some s \<Rightarrow>
         (\<exists>d \<in> set (rd_disks rd). holds_database ?path d \<and> dsk_mount_point s = dk_mount_point d \<and>
            dsk_total_bytes s = dk_total_space d \<and> dsk_available_bytes s = dk_available_space d \<and>
            (\<forall>d' \<in> set (rd_disks rd). holds_database ?path d' \<longrightarrow>
               length (path_components (dk_mount_point d')) \<le> length (path_components (dk_mount_point d)))) \<and>
         unat (dsk_used_bytes s) = unat (dsk_total_bytes s) - unat (dsk_available_bytes s) \<and>
         0 \<le> dsk_usage_percent s \<and> dsk_usage_percent s \<le> 100"
    using disk_usage_None disk_usage_Some disk_usage_bounds by (simp split: option.split)
  from sqlite_usage_Inr [OF sq] obtain c0 c1 c2 where c: "rd_pragmas rd = Some (c0, c1, c2)" "0 \<le> c2"
    and p: "sq_freelist_percent sq = percentage (word_of_int c2) (word_of_int c1)" by blast
  have "\<exists>c0 c1 c2. rd_pragmas rd = Some (c0, c1, c2) \<and> 0 \<le> sq_freelist_percent sq \<and>
       (c2 \<le> c1 \<and> c1 < 2 ^ 63 \<longrightarrow> sq_freelist_percent sq \<le> 100)"
    using c percentage_columns [OF c(2)] by (intro exI [of _ c0] exI [of _ c1] exI [of _ c2])
      (simp add: p percentage_nonneg)
  with sqlite_usage_Inr [OF sq] d show ?thesis
    unfolding f m by (simp add: unat_sat_sub percentage_nonneg percentage_le)
qed

text \<open>A machine with two mounts, the deeper of which holds the database.\<close>

definition sample_readings :: "unit readings" where
  "sample_readings = \<lparr>rd_instant = 5 * 10 ^ 9, rd_timestamp = 1000, rd_min_interval = 200 * 10 ^ 6,
     rd_cpu_usage = (), rd_load_1m = (), rd_cpus = 4, rd_used_memory = 300, rd_total_memory = 1000,
     rd_available_memory = 700, rd_used_swap = 0, rd_total_swap = 0, rd_process_memory = Some 100,
     rd_received = [10, 20], rd_transmitted = [5, 5],
     rd_disks = [\<lparr>dk_mount_point = ''/'', dk_total_space = 500, dk_available_space = 100\<rparr>,
                 \<lparr>dk_mount_point = ''/data'', dk_total_space = 800, dk_available_space = 900\<rparr>],
     rd_file = (\<lambda>p. if p = ''/data/lb.db'' then Len 4096 else NotFound),
     rd_pragmas = Some (4096, 10, 2), rd_vacuum_ok = True\<rparr>"

lemma resource_snapshot_sound_example:
  "\<exists>sn m' s. sample sample_readings (monitor_new ''/data/lb.db'' 0) = (Inr sn, m') \<and>
     rm_last_sample m' = 5 * 10 ^ 9 \<and> sn_disk sn = Some s \<and> dsk_mount_point s = ''/data'' \<and>
     dsk_usage_percent s \<le> 100"
proof -
  let ?m = "monitor_new ''/data/lb.db'' 0"
  obtain sn m' where run: "sample sample_readings ?m = (Inr sn, m')"
    by (simp add: sample_def sqlite_usage_def sqlite_file_usage_def sample_readings_def monitor_new_def
        Let_def u64_of_column_def)
  have d: "\<exists>s. disk_usage (rd_disks sample_readings) (rm_database_path ?m) = Some s \<and> dsk_mount_point s = ''/data''"
    by (simp add: disk_usage_def sample_readings_def monitor_new_def holds_database_def path_starts_with_def path_components_def
        Let_def starts_with_def)
  have "sn_disk sn = disk_usage (rd_disks sample_readings) (rm_database_path ?m)"
    using run by (auto simp: sample_def Let_def rbind_Inr_iff)
  with d obtain s where s: "sn_disk sn = Some s" "dsk_mount_point s = ''/data''" by auto
  have "rm_last_sample m' = rd_instant sample_readings" "dsk_usage_percent s \<le> 100"
    using resource_snapshot_sound [OF run] unfolding s(1) by simp_all
  then show ?thesis using run s by (simp add: sample_readings_def)
qed

end
