(* ===== verification/System_Witness.thy ===== *)
theory System_Witness
  imports System_Facts System_Audit Router_Facts Console_Facts Proxy_Witness Resource_Facts
begin

text \<open>
  Concrete runs of the whole program: a start on a fresh database, the setup, and
  a restart on the database it left; requests of the console with and without the right role.
\<close>

section \<open>The console\<close>


lemma no_header: "session ev [] run_app = (Inl (unauthorized ''missing bearer token''), run_app)"
  by (simp add: session_def on_db_def browser_identity_def bearer_def hdr_str_def hdr_get_def)


section \<open>The program\<close>

definition sample_platform :: "database \<Rightarrow> platform" where
  "sample_platform db = \<lparr>pf_home = Some ''/root'', pf_create_dir = (\<lambda>_. Inr ()), pf_set_mode = (\<lambda>_ _. Inr ()),
     pf_open = (\<lambda>_. Inr db), pf_migrate = Inr, pf_bind = (\<lambda>_. Inr ())\<rparr>"

definition main_boot :: bootstrap_config where
  "main_boot = \<lparr>bc_listen = DEFAULT_LISTEN, bc_data_dir = path_join ''/root'' ''.openai-lb'',
     bc_database_path = path_join (path_join ''/root'' ''.openai-lb'') ''openai-lb.sqlite3''\<rparr>"

lemma fresh_ok: "local_ok fresh_db" "foreign_key_violations fresh_db = 0"
  by (simp_all add: local_ok_def keys_ok_def db_keys_def circuits_wf_def open_circuits_def users_ok_def
      single_root_def foreign_keys_iff fresh_db_def empty_db_def pa_def)

lemma fresh_loads:
  obtains cfg where "config_load main_boot fresh_db = Inr cfg" and "cf_auth_issuer cfg = None"
    and "cf_auth_audience cfg = None"
proof -
  obtain cfg where l: "config_load main_boot fresh_db = Inr cfg"
    using fresh_synced loads_iff [of fresh_db sample_boot] loads_iff [of fresh_db main_boot]
    by (auto simp: config_synced_def fresh_app_def)
  have m: "meta_optional (db_meta fresh_db) ''auth_issuer'' = Inr None"
    "meta_optional (db_meta fresh_db) ''auth_audience'' = Inr None"
    by (simp_all add: fresh_db_def sample_meta_def meta_optional_def meta_value_def trim_def trim_start_def
        trim_end_def)
  have "cf_auth_issuer cfg = None" "cf_auth_audience cfg = None"
    using l [unfolded config_load_Inr] m by simp_all
  with l show thesis by (rule that)
qed

lemma fresh_start:
  "\<exists>y. program_start sample_env 0 (sample_platform fresh_db) [] = Inr y \<and> ap_db (pg_app y) = fresh_db \<and>
     pg_maintenance y = Idle"
proof -
  obtain cfg where c: "config_load main_boot fresh_db = Inr cfg" "cf_auth_issuer cfg = None"
    "cf_auth_audience cfg = None" by (rule fresh_loads)
  have b: "bootstrap_load (sample_platform fresh_db) = Inr main_boot"
    by (simp add: bootstrap_load_def in_data_dir_def sample_platform_def main_boot_def map_err_def)
  have "connect (sample_platform fresh_db) path = Inr fresh_db" for path
    by (simp add: connect_Inr sample_platform_def fresh_ok)
  then show ?thesis
    by (simp add: program_start_def b c app_new_def auth_manager_new_def)
      (simp add: sample_platform_def)
qed

lemma setup_on_fresh:
  assumes "ap_db a = fresh_db"
  shows "\<exists>v s. api_setup sample_env (as_user ''root'') ''https://i/'' ''lb'' a = (Inr v, s) \<and>
    user_exists (ap_db s) ''root''"
proof -
  have r: "setup_required a = (Inr True, a)"
    by (simp add: setup_required_def assms fresh_db_def sample_meta_def meta_get_def)
  have v: "verify_candidate (ev_verifier sample_env) i t ''root'' = Inr (''root'', Inr)" for i t
    by (simp add: verify_candidate_def sample_env_def map_err_def)
  obtain db' where tx: "setup_transaction (ev_now sample_env) ''root''
      (trim_end_matches ''/'' (trim ''https://i/'')) ''lb'' fresh_db = Inr db'"
    and u: "user_exists db' ''root''"
    by (simp add: setup_transaction_def fresh_db_def sample_meta_def meta_get_def make_root_def empty_db_def
        user_exists_def meta_set_def adopt_providers_def update_provider_row_def)
  show ?thesis
    unfolding api_setup_def sbind_run [of setup_required a, OF r]
    using u by (simp add: audiences bearer_as_user v tx assms Let_def)
qed

lemma sample_run:
  "\<exists>y0 y. program_start sample_env 0 (sample_platform fresh_db) [] = Inr y0 \<and> local_ok (ap_db (pg_app y0)) \<and>
     program_step\<^sup>*\<^sup>* y0 y \<and> user_exists (ap_db (pg_app y)) ''root'' \<and> ap_db (pg_app y0) = fresh_db"
proof -
  obtain y0 where y0: "program_start sample_env 0 (sample_platform fresh_db) [] = Inr y0"
    "ap_db (pg_app y0) = fresh_db" using fresh_start by blast
  define y where "y = with_app (snd (console sample_env (\<lambda>_. '''') ''ip'' (as_user ''root'')
    (Setup ''https://i/'' ''lb'') (pg_app y0))) y0"
  have "program_step y0 y" unfolding y_def by (rule program_step.console)
  moreover have "user_exists (ap_db (pg_app y)) ''root''"
    using setup_on_fresh [of "pg_app y0"] y0(2) by (auto simp: y_def)
  ultimately show ?thesis using y0 fresh_ok(1) by auto
qed

theorem program_invariant_witness:
  "\<exists>y0 y. program_start sample_env 0 (sample_platform fresh_db) [] = Inr y0 \<and> program_step\<^sup>*\<^sup>* y0 y \<and>
     user_exists (ap_db (pg_app y)) ''root'' \<and> foreign_key_violations (ap_db (pg_app y)) = 0 \<and>
     inflight (ap_balancer (pg_app y)) ''pa'' = 0"
proof -
  obtain y0 y where run: "program_start sample_env 0 (sample_platform fresh_db) [] = Inr y0"
    "local_ok (ap_db (pg_app y0))" "program_step\<^sup>*\<^sup>* y0 y" "user_exists (ap_db (pg_app y)) ''root''"
    using sample_run by blast
  from program_invariant [OF run(1-3)] run show ?thesis by blast
qed

theorem restart_succeeds_witness:
  "\<exists>y0 y'. program_start sample_env 0 (sample_platform fresh_db) [] = Inr y0 \<and>
     program_start sample_env 1 (sample_platform (ap_db (pg_app y0))) [] = Inr y' \<and>
     ap_db (pg_app y') = fresh_db"
proof -
  obtain y0 where y0: "program_start sample_env 0 (sample_platform fresh_db) [] = Inr y0"
    "ap_db (pg_app y0) = fresh_db" using fresh_start by blast
  have ok: "local_ok (ap_db (pg_app y0))" using y0(2) fresh_ok(1) by simp
  obtain c where c: "config_load main_boot fresh_db = Inr c" "cf_auth_issuer c = None" "cf_auth_audience c = None"
    by (rule fresh_loads)
  have v: "\<exists>v. ev_verifier sample_env iss aud = Inr v" for iss aud by (simp add: sample_env_def)
  have pf: "pf_create_dir (sample_platform db) d = Inr ()" "pf_set_mode (sample_platform db) d m = Inr ()"
    "pf_home (sample_platform db) = Some ''/root''" "pf_open (sample_platform db) d = Inr db"
    "pf_migrate (sample_platform db) db = Inr db" "pf_bind (sample_platform db) d = Inr ()" for db d m
    by (simp_all add: sample_platform_def)
  note restart_succeeds [OF y0(1) ok rtranclp.rtrancl_refl pf v, of 1 "[]", folded main_boot_def,
      unfolded y0(2) c(1)]
  then show ?thesis using y0 c(2,3) by auto
qed

lemma fresh_columns: "columns_ok fresh_db"
  by (simp add: columns_ok_def provider_typed_def fresh_db_def empty_db_def pa_def)

theorem program_types_witness:
  "\<exists>y0 y. program_start sample_env 0 (sample_platform fresh_db) [] = Inr y0 \<and> program_step\<^sup>*\<^sup>* y0 y \<and>
     user_exists (ap_db (pg_app y)) ''root'' \<and> columns_ok (ap_db (pg_app y))"
proof -
  obtain y0 y where run: "program_start sample_env 0 (sample_platform fresh_db) [] = Inr y0"
    "local_ok (ap_db (pg_app y0))" "program_step\<^sup>*\<^sup>* y0 y" "user_exists (ap_db (pg_app y)) ''root''"
    "columns_ok (ap_db (pg_app y0))"
    using sample_run fresh_columns by auto
  from program_types [OF run(1,2,5,3)] run show ?thesis by blast
qed

section \<open>The audit\<close>


end
